(* ===== verification/Prelude.thy ===== *)
theory Prelude
  imports Main "HOL-Library.Word" "HOL-Library.Char_ord" "HOL-Library.List_Lexorder"
begin

text \<open>
  What every theory of the development shares: the collections of facts the proofs draw
  on, instants and durations (Go's \<open>time.Time\<close> and \<open>time.Duration\<close>), and the lemmas
  on lists that the table operations need.
\<close>

section \<open>Collections of facts\<close>

text \<open>
  \<open>steps_intros\<close> holds the rules that show that an operation relates the database
  before and after it; \<open>op_inr\<close> holds the equivalences that open a successful run of an
  operation; \<open>stmt_defs\<close> holds the definitions of the SQL statements.
\<close>

named_theorems steps_intros
named_theorems op_inr
named_theorems stmt_defs

section \<open>Instants and durations\<close>

text \<open>An instant is a number of nanoseconds since the Unix epoch.\<close>

datatype instant = Instant (nanos: int)

instantiation instant :: linorder
begin

definition less_eq_instant :: "instant \<Rightarrow> instant \<Rightarrow> bool" where
  "less_eq_instant a b \<longleftrightarrow> nanos a \<le> nanos b"

definition less_instant :: "instant \<Rightarrow> instant \<Rightarrow> bool" where
  "less_instant a b \<longleftrightarrow> nanos a < nanos b"

instance
  by standard (auto simp: less_eq_instant_def less_instant_def instant.expand)

end

lemma instant_le_iff [simp]: "Instant a \<le> Instant b \<longleftrightarrow> a \<le> b"
  by (simp add: less_eq_instant_def)

lemma instant_less_iff [simp]: "Instant a < Instant b \<longleftrightarrow> a < b"
  by (simp add: less_instant_def)

type_synonym duration = int

text \<open>\<open>Time.Add\<close>, \<open>Time.After\<close> and \<open>Time.Before\<close>.\<close>

definition instant_add :: "instant \<Rightarrow> duration \<Rightarrow> instant" where
  "instant_add t d = Instant (nanos t + d)"

definition instant_after :: "instant \<Rightarrow> instant \<Rightarrow> bool" where
  "instant_after t u \<longleftrightarrow> u < t"

definition instant_before :: "instant \<Rightarrow> instant \<Rightarrow> bool" where
  "instant_before t u \<longleftrightarrow> t < u"

lemma instant_add_Instant [simp]: "instant_add (Instant a) d = Instant (a + d)"
  by (simp add: instant_add_def)

lemma instant_after_iff [simp]: "instant_after t u \<longleftrightarrow> u < t"
  by (simp add: instant_after_def)

lemma instant_before_iff [simp]: "instant_before t u \<longleftrightarrow> t < u"
  by (simp add: instant_before_def)

lemma less_instant_add [simp]: "t < instant_add t d \<longleftrightarrow> 0 < d"
  by (simp add: instant_add_def less_instant_def)

lemma instant_add_mono: "t \<le> u \<Longrightarrow> instant_add t d \<le> instant_add u d"
  by (simp add: instant_add_def less_eq_instant_def)

text \<open>The zero \<open>time.Time\<close>, year 1, which \<open>IsZero\<close> tests for.\<close>

definition zero_instant :: instant where
  "zero_instant = Instant (- 62135596800000000000)"

text \<open>
  \<open>time.Duration(n) * time.Second\<close>: a duration is a signed 64-bit number of nanoseconds,
  so the product wraps.
\<close>

definition seconds :: "int \<Rightarrow> duration" where
  "seconds n = sint ((word_of_int n :: 64 word) * 1000000000)"

lemma seconds_exact:
  assumes "\<bar>n\<bar> \<le> 9223372036"
  shows "seconds n = n * 1000000000"
proof -
  have "seconds n = sint (word_of_int (n * 1000000000) :: 64 word)"
    by (simp add: seconds_def)
  also have "\<dots> = n * 1000000000"
    using assms by (simp only: sint_sbintrunc', intro signed_take_bit_int_eq_self) auto
  finally show ?thesis .
qed

section \<open>Sums\<close>

lemma map_sum_eq_Inr [simp]: "map_sum f g s = Inr y \<longleftrightarrow> (\<exists>x. s = Inr x \<and> y = g x)"
  by (cases s) auto

lemma map_sum_eq_Inl [simp]: "map_sum f g s = Inl y \<longleftrightarrow> (\<exists>x. s = Inl x \<and> y = f x)"
  by (cases s) auto

section \<open>Lists\<close>

lemma find_None_iff_filter: "find P xs = None \<longleftrightarrow> filter P xs = []"
  by (auto simp: find_None_iff filter_empty_conv)

lemma find_SomeD: "find P xs = Some x \<Longrightarrow> x \<in> set xs \<and> P x"
  by (auto simp: find_Some_iff)

lemma find_append: "find P (xs @ ys) = (case find P xs of None \<Rightarrow> find P ys | Some x \<Rightarrow> Some x)"
  by (induction xs) auto

lemma find_cong_on: "(\<And>x. x \<in> set xs \<Longrightarrow> P x = Q x) \<Longrightarrow> find P xs = find Q xs"
  by (induction xs) auto

lemma find_unique_key:
  "distinct (map key xs) \<Longrightarrow> x \<in> set xs \<Longrightarrow> find (\<lambda>y. key y = key x) xs = Some x"
  by (induction xs) (auto simp: rev_image_eqI)

lemma distinct_map_filter_key: "distinct (map f xs) \<Longrightarrow> distinct (map f (filter P xs))"
  by (induction xs) auto

lemma length_filter_unique_key:
  "distinct (map key xs) \<Longrightarrow> length (filter (\<lambda>y. key y = k) xs) \<le> Suc 0"
  by (induction xs) (auto simp: filter_empty_conv rev_image_eqI)

end
