(* ===== verification/Errors.thy ===== *)
theory Errors
  imports Prelude
begin

text \<open>
  The typed errors of the packages under \<open>src/internal\<close>, one datatype per package with a
  constructor per Go error struct, the \<open>error\<close> interface as their sum, and the
  \<open>Error()\<close> methods. \<open>errors.As(err, &x)\<close> is matching on the constructor.
\<close>

section \<open>The error structs\<close>

datatype tenant_error = TenantNotFoundError string

datatype token_error =
    NoSigningKeyError
  | TokenInvalidError string

datatype account_error =
    AccountNotFoundError string
  | AccountDuplicateError string
  | AccountNotVerifiedError string
  | AccountDisabledError string
  | InvalidAccountError string
  | VerificationError string
  | ResetTokenInvalidError
  | ResetTokenExpiredError

datatype authn_error =
    AuthenticationError
  | AccountLockedError string instant
  | TokenNotAcknowledgedError
  | TokenTenantMismatchError
  | LogonCodeInvalidError
  | LogonCodeExpiredError
  | SessionNotFoundError string

datatype apikey_error =
    ApiKeyDuplicateError string
  | ApiKeyNotFoundError string
  | InvalidApiKeyError
  | InvalidApiKeyRequestError string

datatype social_error =
    ProviderNotConfiguredError string
  | SocialTokenInvalidError string
  | EmailNotVerifiedError string
  | SocialAlreadyLinkedError string

datatype oidc_error =
    DuplicateError string
  | ReferenceError string
  | AuthRequestNotFoundError string
  | TokenNotFoundError string
  | BrowserSessionNotFoundError
  | ClientNotFoundError string
  | RedirectURINotAllowedError string
  | ClientNotFirstPartyError string
  | ClientAuthenticationError
  | TenantMismatchError
  | MissingTenantError

text \<open>
  What a statement can be refused with by the database: a unique constraint (23505), a
  foreign key (23503), a text that does not cast to the column's type, an integer out of
  the column's range, or a failure of the connection.
\<close>

datatype pg_error =
    UniqueViolation
  | ForeignKeyViolation
  | InvalidText
  | NumericOutOfRange
  | ConnectionFailure

datatype go_error =
    TenantErr tenant_error
  | TokenErr token_error
  | AccountErr account_error
  | AuthnErr authn_error
  | ApiKeyErr apikey_error
  | SocialErr social_error
  | OidcErr oidc_error
  | PgErr pg_error
  | PlainErr string

section \<open>The texts of the errors\<close>

text \<open>
  \<open>fmt\<close> is \<open>Time.Format(time.RFC3339)\<close> and \<open>drv\<close> the text of a driver error.
\<close>

fun tenant_error_text :: "tenant_error \<Rightarrow> string" where
  "tenant_error_text (TenantNotFoundError v) = ''tenant not found: '' @ v"

fun token_error_text :: "token_error \<Rightarrow> string" where
  "token_error_text NoSigningKeyError = ''no signing key exists''"
| "token_error_text (TokenInvalidError r) = ''invalid token: '' @ r"

fun account_error_text :: "account_error \<Rightarrow> string" where
  "account_error_text (AccountNotFoundError v) = ''account not found: '' @ v"
| "account_error_text (AccountDuplicateError v) = ''account already exists: '' @ v"
| "account_error_text (AccountNotVerifiedError v) = ''account not verified: '' @ v"
| "account_error_text (AccountDisabledError v) = ''account disabled: '' @ v"
| "account_error_text (InvalidAccountError v) = ''invalid account: '' @ v"
| "account_error_text (VerificationError v) = ''verification failed: '' @ v"
| "account_error_text ResetTokenInvalidError = ''invalid reset token''"
| "account_error_text ResetTokenExpiredError = ''reset token expired''"

fun authn_error_text :: "(instant \<Rightarrow> string) \<Rightarrow> authn_error \<Rightarrow> string" where
  "authn_error_text fmt AuthenticationError = ''authentication failed''"
| "authn_error_text fmt (AccountLockedError v t) = ''account locked until '' @ fmt t"
| "authn_error_text fmt TokenNotAcknowledgedError = ''token not acknowledged''"
| "authn_error_text fmt TokenTenantMismatchError = ''token was issued for a different tenant''"
| "authn_error_text fmt LogonCodeInvalidError = ''invalid logon code''"
| "authn_error_text fmt LogonCodeExpiredError = ''logon code expired''"
| "authn_error_text fmt (SessionNotFoundError v) = ''session not found: '' @ v"

fun apikey_error_text :: "apikey_error \<Rightarrow> string" where
  "apikey_error_text (ApiKeyDuplicateError v) =
     ''duplicate api key: '' @ [CHR 0x27] @ v @ [CHR 0x27] @ '' already exists''"
| "apikey_error_text (ApiKeyNotFoundError v) = ''api key not found: '' @ v"
| "apikey_error_text InvalidApiKeyError = ''invalid api key''"
| "apikey_error_text (InvalidApiKeyRequestError v) = ''invalid api key request: '' @ v"

fun social_error_text :: "social_error \<Rightarrow> string" where
  "social_error_text (ProviderNotConfiguredError v) = ''social provider not configured: '' @ v"
| "social_error_text (SocialTokenInvalidError v) = ''invalid social token: '' @ v"
| "social_error_text (EmailNotVerifiedError v) = ''social email not verified by provider: '' @ v"
| "social_error_text (SocialAlreadyLinkedError v) =
     ''social identity already linked to another account: '' @ v"

fun oidc_error_text :: "oidc_error \<Rightarrow> string" where
  "oidc_error_text (DuplicateError v) = ''already exists: '' @ v"
| "oidc_error_text (ReferenceError v) = ''referenced row does not exist: '' @ v"
| "oidc_error_text (AuthRequestNotFoundError v) = ''auth request not found: '' @ v"
| "oidc_error_text (TokenNotFoundError v) = ''token not found: '' @ v"
| "oidc_error_text BrowserSessionNotFoundError = ''browser session not found''"
| "oidc_error_text (ClientNotFoundError v) = ''oidc client not found: '' @ v"
| "oidc_error_text (RedirectURINotAllowedError v) = ''redirect uri not allowed: '' @ v"
| "oidc_error_text (ClientNotFirstPartyError v) = ''oidc client is not first party: '' @ v"
| "oidc_error_text ClientAuthenticationError = ''client authentication failed''"
| "oidc_error_text TenantMismatchError = ''resource belongs to another tenant''"
| "oidc_error_text MissingTenantError = ''no tenant in context''"

fun error_text :: "(instant \<Rightarrow> string) \<Rightarrow> (pg_error \<Rightarrow> string) \<Rightarrow> go_error \<Rightarrow> string" where
  "error_text fmt drv (TenantErr e) = tenant_error_text e"
| "error_text fmt drv (TokenErr e) = token_error_text e"
| "error_text fmt drv (AccountErr e) = account_error_text e"
| "error_text fmt drv (AuthnErr e) = authn_error_text fmt e"
| "error_text fmt drv (ApiKeyErr e) = apikey_error_text e"
| "error_text fmt drv (SocialErr e) = social_error_text e"
| "error_text fmt drv (OidcErr e) = oidc_error_text e"
| "error_text fmt drv (PgErr e) = drv e"
| "error_text fmt drv (PlainErr m) = m"

text \<open>\<open>constraintError\<close>: constraint violations become typed errors, the rest passes through.\<close>

fun constraintError :: "go_error \<Rightarrow> string \<Rightarrow> go_error" where
  "constraintError (PgErr UniqueViolation) what = OidcErr (DuplicateError what)"
| "constraintError (PgErr ForeignKeyViolation) what = OidcErr (ReferenceError what)"
| "constraintError e what = e"

end
