(* ===== verification/Tables.thy ===== *)
theory Tables
  imports Errors
begin

text \<open>
  SQL statements on tables. A table is the list of its rows; a statement is a function of
  the rows. Unique constraints are a relation between rows (\<open>confl\<close>): an insert whose row
  conflicts with a stored one is refused. The locale \<open>unique_key\<close> states what a
  constraint gives: distinct keys, kept by every statement.
\<close>

section \<open>Statements\<close>

text \<open>\<open>SELECT ... WHERE P\<close> read with \<open>QueryRow\<close>: the first row, or \<open>pgx.ErrNoRows\<close>.\<close>

definition select_row :: "('r \<Rightarrow> bool) \<Rightarrow> 'r list \<Rightarrow> 'r option" where
  "select_row P t = find P t"

text \<open>\<open>UPDATE ... SET f WHERE P\<close> and \<open>DELETE ... WHERE P\<close>, with the number of rows affected.\<close>

definition update_where :: "('r \<Rightarrow> bool) \<Rightarrow> ('r \<Rightarrow> 'r) \<Rightarrow> 'r list \<Rightarrow> nat \<times> 'r list" where
  "update_where P f t = (length (filter P t), map (\<lambda>r. if P r then f r else r) t)"

definition delete_where :: "('r \<Rightarrow> bool) \<Rightarrow> 'r list \<Rightarrow> nat \<times> 'r list" where
  "delete_where P t = (length (filter P t), filter (\<lambda>r. \<not> P r) t)"

text \<open>\<open>INSERT\<close>, refused when the row conflicts with a stored row.\<close>

definition insert_row :: "('r \<Rightarrow> 'r \<Rightarrow> bool) \<Rightarrow> 'r \<Rightarrow> 'r list \<Rightarrow> pg_error + 'r list" where
  "insert_row confl r t = (if \<exists>x\<in>set t. confl x r then Inl UniqueViolation else Inr (t @ [r]))"

text \<open>
  \<open>INSERT ... ON CONFLICT (target) DO UPDATE SET upd\<close>: the row with the same target is
  updated in place, else the row is inserted under the other constraints. An update that
  writes a constrained column is \<open>upsert_checked\<close>: the new value must not conflict.
\<close>

definition upsert_row ::
  "('r \<Rightarrow> 'r \<Rightarrow> bool) \<Rightarrow> ('r \<Rightarrow> 'r \<Rightarrow> bool) \<Rightarrow> ('r \<Rightarrow> 'r) \<Rightarrow> 'r \<Rightarrow> 'r list \<Rightarrow> pg_error + 'r list" where
  "upsert_row target confl upd r t =
     (if \<exists>x\<in>set t. target x r then Inr (map (\<lambda>x. if target x r then upd x else x) t)
      else insert_row confl r t)"

definition update_checked ::
  "('r \<Rightarrow> 'r \<Rightarrow> bool) \<Rightarrow> ('r \<Rightarrow> bool) \<Rightarrow> ('r \<Rightarrow> 'r) \<Rightarrow> 'r list \<Rightarrow> pg_error + (nat \<times> 'r list)" where
  "update_checked confl P f t =
     (if \<exists>x\<in>set t. P x \<and> (\<exists>y\<in>set t. \<not> P y \<and> confl y (f x)) then Inl UniqueViolation
      else Inr (update_where P f t))"

definition upsert_checked ::
  "('r \<Rightarrow> 'r \<Rightarrow> bool) \<Rightarrow> ('r \<Rightarrow> 'r \<Rightarrow> bool) \<Rightarrow> ('r \<Rightarrow> 'r) \<Rightarrow> 'r \<Rightarrow> 'r list \<Rightarrow> pg_error + 'r list" where
  "upsert_checked target confl upd r t =
     (if \<exists>x\<in>set t. target x r
      then map_sum id snd (update_checked confl (\<lambda>x. target x r) upd t)
      else insert_row confl r t)"

section \<open>What the statements do to a lookup\<close>

lemma update_where_snd [simp]:
  "snd (update_where P f t) = map (\<lambda>r. if P r then f r else r) t"
  by (simp add: update_where_def)

lemma delete_where_snd [simp]: "snd (delete_where P t) = filter (\<lambda>r. \<not> P r) t"
  by (simp add: delete_where_def)

lemma update_where_none: "fst (update_where P f t) = 0 \<longleftrightarrow> select_row P t = None"
  by (simp add: update_where_def select_row_def find_None_iff_filter)

lemma delete_where_none: "fst (delete_where P t) = 0 \<longleftrightarrow> select_row P t = None"
  by (simp add: delete_where_def select_row_def find_None_iff_filter)

lemma update_where_noop:
  "select_row P t = None \<Longrightarrow> snd (update_where P f t) = t"
  by (auto simp: select_row_def find_None_iff intro: map_idI)

lemma select_row_update:
  assumes "\<And>r. r \<in> set t \<Longrightarrow> P r \<Longrightarrow> P (f r)"
  shows "select_row P (map (\<lambda>r. if P r then f r else r) t) = map_option f (select_row P t)"
  using assms by (induction t) (auto simp: select_row_def)

lemma select_row_update_other:
  assumes "\<And>r. r \<in> set t \<Longrightarrow> Q r \<Longrightarrow> P (f r) \<longleftrightarrow> P r" and "\<And>r. r \<in> set t \<Longrightarrow> P r \<Longrightarrow> \<not> Q r"
  shows "select_row P (map (\<lambda>r. if Q r then f r else r) t) = select_row P t"
  using assms by (induction t) (auto simp: select_row_def)

lemma select_row_delete [simp]: "select_row P (filter (\<lambda>r. \<not> P r) t) = None"
  by (auto simp: select_row_def find_None_iff)

lemma select_row_delete_other:
  "(\<And>r. r \<in> set t \<Longrightarrow> P r \<Longrightarrow> \<not> Q r) \<Longrightarrow> select_row P (filter (\<lambda>r. \<not> Q r) t) = select_row P t"
  by (induction t) (auto simp: select_row_def)

lemma select_row_insert:
  "insert_row confl r t = Inr t' \<Longrightarrow>
   select_row P t' = (case select_row P t of None \<Rightarrow> (if P r then Some r else None) | Some x \<Rightarrow> Some x)"
  by (auto simp: insert_row_def select_row_def find_append split: if_splits option.splits)

lemma insert_row_Inr:
  "insert_row confl r t = Inr t' \<longleftrightarrow> (\<forall>x\<in>set t. \<not> confl x r) \<and> t' = t @ [r]"
  by (auto simp: insert_row_def)

lemma insert_row_Inl:
  "insert_row confl r t = Inl e \<longleftrightarrow> (\<exists>x\<in>set t. confl x r) \<and> e = UniqueViolation"
  by (auto simp: insert_row_def)

lemma update_checked_Inr:
  "update_checked confl P f t = Inr nt \<longleftrightarrow>
   (\<forall>x\<in>set t. P x \<longrightarrow> (\<forall>y\<in>set t. \<not> P y \<longrightarrow> \<not> confl y (f x))) \<and> nt = update_where P f t"
  by (auto simp: update_checked_def)

lemma select_row_SomeD: "select_row P t = Some r \<Longrightarrow> r \<in> set t \<and> P r"
  by (auto simp: select_row_def dest: find_SomeD)

lemma select_row_NoneD: "select_row P t = None \<Longrightarrow> r \<in> set t \<Longrightarrow> \<not> P r"
  by (auto simp: select_row_def find_None_iff)

lemma select_row_unique:
  "distinct (map key t) \<Longrightarrow> x \<in> set t \<Longrightarrow> select_row (\<lambda>y. key y = key x) t = Some x"
  by (simp add: select_row_def find_unique_key)

lemma select_row_last:
  "(\<forall>y\<in>set ts. \<not> P y) \<Longrightarrow> P x \<Longrightarrow> select_row P (ts @ [x]) = Some x"
  by (induction ts) (auto simp: select_row_def)

lemma select_row_filter_none:
  "(\<And>r. r \<in> set t \<Longrightarrow> P r \<Longrightarrow> \<not> Q r) \<Longrightarrow> select_row P (filter Q t) = None"
  by (auto simp: select_row_def find_None_iff)

lemma select_row_filter_same:
  "(\<And>r. r \<in> set t \<Longrightarrow> P r \<Longrightarrow> Q r) \<Longrightarrow> select_row P (filter Q t) = select_row P t"
  by (induction t) (auto simp: select_row_def)

lemma select_row_upsert:
  assumes up: "upsert_row target confl upd r t = Inr t'" and P: "\<And>x. target x r \<longleftrightarrow> P x"
    and "\<And>x. P x \<Longrightarrow> P (upd x)" and "P r"
  shows "select_row P t' = Some (case select_row P t of None \<Rightarrow> r | Some x \<Rightarrow> upd x)"
proof (cases "select_row P t")
  case None
  then have "insert_row confl r t = Inr t'"
    using up by (auto simp: upsert_row_def P dest: select_row_NoneD split: if_splits)
  with None \<open>P r\<close> show ?thesis by (simp add: select_row_insert)
next
  case (Some y)
  then have "t' = map (\<lambda>x. if P x then upd x else x) t"
    using up by (auto simp: upsert_row_def P dest: select_row_SomeD split: if_splits)
  with Some assms(3) show ?thesis by (simp add: select_row_update)
qed

lemma select_row_upsert_other:
  assumes up: "upsert_row target confl upd r t = Inr t'"
    and "\<And>x. target x r \<Longrightarrow> \<not> P x \<and> \<not> P (upd x)" and "\<not> P r"
  shows "select_row P t' = select_row P t"
proof (cases "\<exists>x\<in>set t. target x r")
  case True
  then have "t' = map (\<lambda>x. if target x r then upd x else x) t"
    using up by (simp add: upsert_row_def)
  with assms(2) show ?thesis by (auto intro!: select_row_update_other)
next
  case False
  then have "insert_row confl r t = Inr t'" using up by (simp add: upsert_row_def)
  with \<open>\<not> P r\<close> show ?thesis by (simp add: select_row_insert split: option.splits)
qed

lemma upsert_row_total:
  "(\<And>x. confl x r \<Longrightarrow> target x r) \<Longrightarrow> \<exists>t'. upsert_row target confl upd r t = Inr t'"
  by (auto simp: upsert_row_def insert_row_def)

section \<open>Unique constraints\<close>

text \<open>
  \<open>key\<close> is unique in a table whose inserts are checked with \<open>confl\<close>. Every statement keeps
  the keys distinct, provided its update leaves the key alone.
\<close>

locale unique_key =
  fixes key :: "'r \<Rightarrow> 'k" and confl :: "'r \<Rightarrow> 'r \<Rightarrow> bool"
  assumes same_key_conflicts: "key x = key y \<Longrightarrow> confl x y"
begin

lemma insert_distinct:
  "distinct (map key t) \<Longrightarrow> insert_row confl r t = Inr t' \<Longrightarrow> distinct (map key t')"
  by (auto simp: insert_row_Inr) (metis same_key_conflicts)

lemma update_distinct:
  assumes "distinct (map key t)" and "\<And>r. key (f r) = key r"
  shows "distinct (map key (map (\<lambda>r. if P r then f r else r) t))"
proof -
  have "map key (map (\<lambda>r. if P r then f r else r) t) = map key t"
    using assms(2) by (induction t) auto
  with assms(1) show ?thesis by (simp del: map_map)
qed

lemma delete_distinct: "distinct (map key t) \<Longrightarrow> distinct (map key (filter P t))"
  by (rule distinct_map_filter_key)

lemma upsert_distinct:
  assumes "distinct (map key t)" and "\<And>r. key (upd r) = key r"
    and "upsert_row target confl upd r t = Inr t'"
  shows "distinct (map key t')"
  using assms insert_distinct update_distinct [of t upd]
  by (auto simp: upsert_row_def split: if_splits)

lemma inserted_found:
  assumes "insert_row confl r t = Inr t'"
  shows "select_row (\<lambda>x. key x = key r) t' = Some r"
proof -
  have "select_row (\<lambda>x. key x = key r) t = None"
    using assms by (auto simp: insert_row_Inr select_row_def find_None_iff dest: same_key_conflicts)
  with select_row_insert [OF assms] show ?thesis by simp
qed

lemma select_member:
  "distinct (map key t) \<Longrightarrow> x \<in> set t \<Longrightarrow> select_row (\<lambda>y. key y = key x) t = Some x"
  by (rule select_row_unique)

lemma update_at_most_one: "distinct (map key t) \<Longrightarrow> fst (update_where (\<lambda>r. key r = k) f t) \<le> 1"
  by (simp add: update_where_def length_filter_unique_key)

end

end
