(* ===== verification/Schema.thy ===== *)
theory Schema
  imports Tables
begin

text \<open>
  The database: one record per table of \<open>src/internal/db/migrations\<close>, its unique
  constraints as a conflict relation between rows, and the invariant the constraints keep.
  A nullable column is an option; \<open>uuid\<close> columns hold the canonical text of the id.
\<close>

section \<open>Tenants, api keys, signing keys (0001, 0002, 0003)\<close>

record tenant_row =
  tn_id :: string
  tn_name :: string
  tn_created :: instant
  tn_modified :: instant

definition tenant_conflict :: "tenant_row \<Rightarrow> tenant_row \<Rightarrow> bool" where
  "tenant_conflict x y \<longleftrightarrow> tn_id x = tn_id y"

record api_key_row =
  ak_id :: string
  ak_tenant :: string
  ak_name :: string
  ak_prefix :: string
  ak_hash :: string
  ak_created :: instant

definition api_key_conflict :: "api_key_row \<Rightarrow> api_key_row \<Rightarrow> bool" where
  "api_key_conflict x y \<longleftrightarrow> ak_id x = ak_id y \<or> ak_prefix x = ak_prefix y \<or>
     (ak_tenant x = ak_tenant y \<and> ak_name x = ak_name y)"

record signing_key_row =
  sk_id :: string
  sk_algorithm :: string
  sk_private_pem :: string
  sk_public_pem :: string
  sk_created :: instant

definition signing_key_conflict :: "signing_key_row \<Rightarrow> signing_key_row \<Rightarrow> bool" where
  "signing_key_conflict x y \<longleftrightarrow> sk_id x = sk_id y"

section \<open>Accounts and their social identities (0004, 0009)\<close>

record account_row =
  ac_id :: string
  ac_tenant :: string
  ac_email :: string
  ac_password_hash :: string
  ac_verified :: bool
  ac_verification_hash :: "string option"
  ac_enabled :: bool
  ac_deleted :: bool
  ac_created :: instant
  ac_modified :: instant
  ac_name :: "string option"

definition account_conflict :: "account_row \<Rightarrow> account_row \<Rightarrow> bool" where
  "account_conflict x y \<longleftrightarrow> ac_id x = ac_id y \<or>
     (ac_tenant x = ac_tenant y \<and> ac_email x = ac_email y)"

record social_login_row =
  sl_account :: string
  sl_provider :: string
  sl_subject :: string
  sl_created :: instant

text \<open>\<open>PRIMARY KEY (account_id, provider)\<close> and \<open>UNIQUE (provider, subject)\<close>.\<close>

definition social_login_same :: "social_login_row \<Rightarrow> social_login_row \<Rightarrow> bool" where
  "social_login_same x y \<longleftrightarrow> sl_account x = sl_account y \<and> sl_provider x = sl_provider y"

definition social_login_conflict :: "social_login_row \<Rightarrow> social_login_row \<Rightarrow> bool" where
  "social_login_conflict x y \<longleftrightarrow> social_login_same x y \<or>
     (sl_provider x = sl_provider y \<and> sl_subject x = sl_subject y)"

section \<open>Password resets, sessions, failed attempts, logon codes (0005 to 0008)\<close>

record password_reset_row =
  pr_tenant :: string
  pr_email :: string
  pr_token_hash :: string
  pr_expires :: instant
  pr_created :: instant

definition password_reset_conflict :: "password_reset_row \<Rightarrow> password_reset_row \<Rightarrow> bool" where
  "password_reset_conflict x y \<longleftrightarrow> pr_tenant x = pr_tenant y \<and> pr_email x = pr_email y"

record session_row =
  se_id :: string
  se_tenant :: string
  se_email :: string
  se_client :: string
  se_refresh_jti :: string
  se_expires :: instant
  se_created :: instant
  se_modified :: instant

definition session_same :: "session_row \<Rightarrow> session_row \<Rightarrow> bool" where
  "session_same x y \<longleftrightarrow> se_tenant x = se_tenant y \<and> se_email x = se_email y \<and> se_client x = se_client y"

definition session_conflict :: "session_row \<Rightarrow> session_row \<Rightarrow> bool" where
  "session_conflict x y \<longleftrightarrow> se_id x = se_id y \<or> session_same x y"

record failed_attempt_row =
  fa_tenant :: string
  fa_email :: string
  fa_count :: int
  fa_locked_until :: "instant option"
  fa_modified :: instant

definition failed_attempt_conflict :: "failed_attempt_row \<Rightarrow> failed_attempt_row \<Rightarrow> bool" where
  "failed_attempt_conflict x y \<longleftrightarrow> fa_tenant x = fa_tenant y \<and> fa_email x = fa_email y"

record logon_code_row =
  lc_tenant :: string
  lc_email :: string
  lc_code_hash :: string
  lc_expires :: instant
  lc_created :: instant

definition logon_code_conflict :: "logon_code_row \<Rightarrow> logon_code_row \<Rightarrow> bool" where
  "logon_code_conflict x y \<longleftrightarrow> lc_tenant x = lc_tenant y \<and> lc_email x = lc_email y"

section \<open>The OIDC provider (0010, 0011)\<close>

record auth_request_row =
  rq_id :: string
  rq_tenant :: string
  rq_client :: string
  rq_subject :: string
  rq_redirect_uri :: string
  rq_response_type :: string
  rq_response_mode :: string
  rq_scopes :: "string list"
  rq_state :: string
  rq_nonce :: string
  rq_code_challenge :: string
  rq_code_challenge_method :: string
  rq_code_hash :: "string option"
  rq_amr :: "string list"
  rq_auth_time :: "instant option"
  rq_done :: bool
  rq_expires :: instant
  rq_created :: instant
  rq_modified :: instant

text \<open>\<open>code_hash text UNIQUE\<close>: two NULLs do not conflict.\<close>

definition auth_request_conflict :: "auth_request_row \<Rightarrow> auth_request_row \<Rightarrow> bool" where
  "auth_request_conflict x y \<longleftrightarrow> rq_id x = rq_id y \<or>
     (rq_code_hash x \<noteq> None \<and> rq_code_hash x = rq_code_hash y)"

record refresh_token_row =
  rt_id :: string
  rt_token_hash :: string
  rt_tenant :: string
  rt_client :: string
  rt_subject :: string
  rt_audience :: "string list"
  rt_scopes :: "string list"
  rt_amr :: "string list"
  rt_auth_time :: instant
  rt_expires :: instant
  rt_created :: instant

definition refresh_token_conflict :: "refresh_token_row \<Rightarrow> refresh_token_row \<Rightarrow> bool" where
  "refresh_token_conflict x y \<longleftrightarrow> rt_id x = rt_id y \<or> rt_token_hash x = rt_token_hash y"

record access_token_row =
  at_id :: string
  at_tenant :: string
  at_client :: string
  at_subject :: string
  at_audience :: "string list"
  at_scopes :: "string list"
  at_refresh_token :: "string option"
  at_expires :: instant
  at_created :: instant

definition access_token_conflict :: "access_token_row \<Rightarrow> access_token_row \<Rightarrow> bool" where
  "access_token_conflict x y \<longleftrightarrow> at_id x = at_id y"

record browser_session_row =
  bs_id :: string
  bs_token_hash :: string
  bs_tenant :: string
  bs_account :: string
  bs_auth_time :: instant
  bs_expires :: instant
  bs_created :: instant

definition browser_session_conflict :: "browser_session_row \<Rightarrow> browser_session_row \<Rightarrow> bool" where
  "browser_session_conflict x y \<longleftrightarrow> bs_id x = bs_id y \<or> bs_token_hash x = bs_token_hash y"

record client_row =
  cl_tenant :: string
  cl_id :: string
  cl_secret_hash :: string
  cl_redirect_uris :: "string list"
  cl_post_logout_redirect_uris :: "string list"
  cl_first_party :: bool
  cl_name :: string
  cl_created_at :: instant

definition client_conflict :: "client_row \<Rightarrow> client_row \<Rightarrow> bool" where
  "client_conflict x y \<longleftrightarrow> cl_tenant x = cl_tenant y \<and> cl_id x = cl_id y"

section \<open>The database\<close>

record database =
  t_tenants :: "tenant_row list"
  t_api_keys :: "api_key_row list"
  t_signing_keys :: "signing_key_row list"
  t_accounts :: "account_row list"
  t_social_logins :: "social_login_row list"
  t_password_resets :: "password_reset_row list"
  t_sessions :: "session_row list"
  t_failed_attempts :: "failed_attempt_row list"
  t_logon_codes :: "logon_code_row list"
  t_auth_requests :: "auth_request_row list"
  t_refresh_tokens :: "refresh_token_row list"
  t_access_tokens :: "access_token_row list"
  t_browser_sessions :: "browser_session_row list"
  t_clients :: "client_row list"

definition empty_db :: database where
  "empty_db = \<lparr> t_tenants = [], t_api_keys = [], t_signing_keys = [], t_accounts = [],
     t_social_logins = [], t_password_resets = [], t_sessions = [], t_failed_attempts = [],
     t_logon_codes = [], t_auth_requests = [], t_refresh_tokens = [], t_access_tokens = [],
     t_browser_sessions = [], t_clients = [] \<rparr>"

section \<open>The keys of the tables\<close>

interpretation tenant_pk: unique_key tn_id tenant_conflict
  by unfold_locales (simp add: tenant_conflict_def)

interpretation api_key_pk: unique_key ak_id api_key_conflict
  by unfold_locales (simp add: api_key_conflict_def)

interpretation api_key_prefix: unique_key ak_prefix api_key_conflict
  by unfold_locales (simp add: api_key_conflict_def)

interpretation api_key_name: unique_key "\<lambda>r. (ak_tenant r, ak_name r)" api_key_conflict
  by unfold_locales (simp add: api_key_conflict_def)

interpretation signing_key_pk: unique_key sk_id signing_key_conflict
  by unfold_locales (simp add: signing_key_conflict_def)

interpretation account_pk: unique_key ac_id account_conflict
  by unfold_locales (simp add: account_conflict_def)

interpretation account_email: unique_key "\<lambda>r. (ac_tenant r, ac_email r)" account_conflict
  by unfold_locales (simp add: account_conflict_def)

interpretation social_login_pk: unique_key "\<lambda>r. (sl_account r, sl_provider r)" social_login_conflict
  by unfold_locales (simp add: social_login_conflict_def social_login_same_def)

interpretation social_identity: unique_key "\<lambda>r. (sl_provider r, sl_subject r)" social_login_conflict
  by unfold_locales (simp add: social_login_conflict_def)

interpretation password_reset_pk: unique_key "\<lambda>r. (pr_tenant r, pr_email r)" password_reset_conflict
  by unfold_locales (simp add: password_reset_conflict_def)

interpretation session_pk: unique_key se_id session_conflict
  by unfold_locales (simp add: session_conflict_def)

interpretation session_client: unique_key "\<lambda>r. (se_tenant r, se_email r, se_client r)" session_conflict
  by unfold_locales (simp add: session_conflict_def session_same_def)

interpretation failed_attempt_pk: unique_key "\<lambda>r. (fa_tenant r, fa_email r)" failed_attempt_conflict
  by unfold_locales (simp add: failed_attempt_conflict_def)

interpretation logon_code_pk: unique_key "\<lambda>r. (lc_tenant r, lc_email r)" logon_code_conflict
  by unfold_locales (simp add: logon_code_conflict_def)

interpretation auth_request_pk: unique_key rq_id auth_request_conflict
  by unfold_locales (simp add: auth_request_conflict_def)

interpretation refresh_token_pk: unique_key rt_id refresh_token_conflict
  by unfold_locales (simp add: refresh_token_conflict_def)

interpretation refresh_token_hash: unique_key rt_token_hash refresh_token_conflict
  by unfold_locales (simp add: refresh_token_conflict_def)

interpretation access_token_pk: unique_key at_id access_token_conflict
  by unfold_locales (simp add: access_token_conflict_def)

interpretation browser_session_pk: unique_key bs_id browser_session_conflict
  by unfold_locales (simp add: browser_session_conflict_def)

interpretation browser_session_hash: unique_key bs_token_hash browser_session_conflict
  by unfold_locales (simp add: browser_session_conflict_def)

interpretation client_pk: unique_key "\<lambda>r. (cl_tenant r, cl_id r)" client_conflict
  by unfold_locales (simp add: client_conflict_def)

end
