(* ===== verification/World.thy ===== *)
theory World
  imports Schema
begin

text \<open>
  Operations with effects. The world holds the database and what a call draws on: the
  server's clock \<open>now()\<close> and the process's clock \<open>time.Now()\<close> (a call reads each at one
  instant), the random bytes of \<open>crypto/rand\<close>, the ids \<open>uuid.NewV7\<close> will return, and for
  each coming round trip to the database whether it fails. An operation returns an error
  or a value and the world after it; errors are values, so what was written before an
  error stays written unless a transaction takes it back.
\<close>

section \<open>Worlds and operations\<close>

type_synonym byte = "8 word"

record world =
  db :: database
  pg_now :: instant
  wall :: instant
  rng :: "byte list"
  uuids :: "string list"
  faults :: "bool list"

type_synonym 'a op = "world \<Rightarrow> (go_error + 'a) \<times> world"

definition ret :: "'a \<Rightarrow> 'a op" where
  "ret x w = (Inr x, w)"

definition throw :: "go_error \<Rightarrow> 'a op" where
  "throw e w = (Inl e, w)"

text \<open>\<open>attempt m k\<close> hands \<open>k\<close> the error or the value; \<open>bindE\<close> returns the error at once.\<close>

definition attempt :: "'a op \<Rightarrow> (go_error + 'a \<Rightarrow> 'b op) \<Rightarrow> 'b op" where
  "attempt m k w = (case m w of (r, w') \<Rightarrow> k r w')"

definition bindE :: "'a op \<Rightarrow> ('a \<Rightarrow> 'b op) \<Rightarrow> 'b op" where
  "bindE m k = attempt m (\<lambda>r. case r of Inl e \<Rightarrow> throw e | Inr x \<Rightarrow> k x)"

text \<open>A validation that returns an error, turned into a step.\<close>

definition lift_result :: "go_error + 'a \<Rightarrow> 'a op" where
  "lift_result r = (case r of Inl e \<Rightarrow> throw e | Inr x \<Rightarrow> ret x)"

text \<open>An error handed on as another error.\<close>

definition map_err :: "(go_error \<Rightarrow> go_error) \<Rightarrow> 'a op \<Rightarrow> 'a op" where
  "map_err f m = attempt m (\<lambda>r. case r of Inl e \<Rightarrow> throw (f e) | Inr x \<Rightarrow> ret x)"

definition time_now :: "instant op" where
  "time_now w = (Inr (wall w), w)"

definition new_uuid :: "string op" where
  "new_uuid w = (case uuids w of [] \<Rightarrow> (Inl (PlainErr ''uuid: entropy source failed''), w)
     | u # us \<Rightarrow> (Inr u, w\<lparr>uuids := us\<rparr>))"

definition rand_read :: "nat \<Rightarrow> byte list op" where
  "rand_read n w = (if length (rng w) < n then (Inl (PlainErr ''rand: entropy source failed''), w)
     else (Inr (take n (rng w)), w\<lparr>rng := drop n (rng w)\<rparr>))"

text \<open>The laws of \<open>bindE\<close>.\<close>

lemma bindE_assoc: "bindE (bindE m f) g = bindE m (\<lambda>x. bindE (f x) g)"
  by (auto simp: fun_eq_iff bindE_def attempt_def throw_def split: prod.splits sum.splits)

lemma bindE_throw: "bindE (throw e) f = throw e"
  by (simp add: fun_eq_iff bindE_def attempt_def throw_def)

lemma bindE_ret: "bindE (ret x) f = f x"
  by (simp add: fun_eq_iff bindE_def attempt_def ret_def)

lemma bindE_if: "bindE (if b then m else m') f = (if b then bindE m f else bindE m' f)"
  by simp

lemma bindE_prod: "bindE (case p of (x, y) \<Rightarrow> m x y) f = (case p of (x, y) \<Rightarrow> bindE (m x y) f)"
  by (cases p) simp

lemmas bindE_laws = bindE_assoc bindE_throw bindE_ret bindE_if bindE_prod

section \<open>Statements and transactions\<close>

definition failing :: "world \<Rightarrow> bool" where
  "failing w \<longleftrightarrow> (case faults w of [] \<Rightarrow> False | f # _ \<Rightarrow> f)"

definition tick :: "world \<Rightarrow> world" where
  "tick w = w\<lparr>faults := tl (faults w)\<rparr>"

text \<open>
  One round trip. The statement sees the server's clock and the database; a refused
  statement changes nothing.
\<close>

definition exec :: "(instant \<Rightarrow> database \<Rightarrow> pg_error + ('a \<times> database)) \<Rightarrow> 'a op" where
  "exec s w =
     (if failing w then (Inl (PgErr ConnectionFailure), tick w)
      else case s (pg_now w) (db w) of
        Inl e \<Rightarrow> (Inl (PgErr e), tick w)
      | Inr (x, d) \<Rightarrow> (Inr x, (tick w)\<lparr>db := d\<rparr>))"

definition query :: "(database \<Rightarrow> 'a) \<Rightarrow> 'a op" where
  "query q = exec (\<lambda>now d. Inr (q d, d))"

text \<open>
  \<open>PostgresTxManager.WithTransaction\<close>: begin, run, commit. An error of the function, or of
  the commit, takes the database back to its state at \<open>begin\<close>.
\<close>

definition with_transaction :: "'a op \<Rightarrow> 'a op" where
  "with_transaction fn w =
     (if failing w then (Inl (PgErr ConnectionFailure), tick w)
      else case fn (tick w) of
        (Inl e, w') \<Rightarrow> (Inl e, w'\<lparr>db := db w\<rparr>)
      | (Inr x, w') \<Rightarrow>
          if failing w' then (Inl (PgErr ConnectionFailure), (tick w')\<lparr>db := db w\<rparr>)
          else (Inr x, tick w'))"

section \<open>Opening a run\<close>

lemma ret_eq [op_inr]: "ret x w = (r, w') \<longleftrightarrow> r = Inr x \<and> w' = w"
  by (auto simp: ret_def)

lemma throw_eq [op_inr]: "throw e w = (r, w') \<longleftrightarrow> r = Inl e \<and> w' = w"
  by (auto simp: throw_def)

lemma attempt_eq: "attempt m k w = (r, w') \<longleftrightarrow> (\<exists>r1 w1. m w = (r1, w1) \<and> k r1 w1 = (r, w'))"
  by (auto simp: attempt_def split: prod.splits)

lemma bindE_Inr [op_inr]:
  "bindE m k w = (Inr y, w') \<longleftrightarrow> (\<exists>x w1. m w = (Inr x, w1) \<and> k x w1 = (Inr y, w'))"
  by (auto simp: bindE_def attempt_def throw_def split: prod.splits sum.splits)

lemma bindE_Inl:
  "bindE m k w = (Inl e, w') \<longleftrightarrow>
   m w = (Inl e, w') \<or> (\<exists>x w1. m w = (Inr x, w1) \<and> k x w1 = (Inl e, w'))"
  by (auto simp: bindE_def attempt_def throw_def split: prod.splits sum.splits)

lemma lift_result_Inr [op_inr]: "lift_result r w = (Inr x, w') \<longleftrightarrow> r = Inr x \<and> w' = w"
  by (auto simp: lift_result_def ret_def throw_def split: sum.splits)

lemma map_err_Inr [op_inr]: "map_err f m w = (Inr x, w') \<longleftrightarrow> m w = (Inr x, w')"
  by (auto simp: map_err_def attempt_def throw_def ret_def split: prod.splits sum.splits)

lemma map_err_Inl: "map_err f m w = (Inl e, w') \<longleftrightarrow> (\<exists>e'. m w = (Inl e', w') \<and> e = f e')"
  by (auto simp: map_err_def attempt_def throw_def ret_def split: prod.splits sum.splits)

lemma if_throw_Inr [op_inr]:
  "(if b then throw e else m) w = (Inr x, w') \<longleftrightarrow> \<not> b \<and> m w = (Inr x, w')"
  by (simp add: throw_def)

lemma case_sum_throw_Inr [op_inr]:
  "(case z of Inl e \<Rightarrow> throw (f e) | Inr x \<Rightarrow> k x) w = (Inr y, w') \<longleftrightarrow>
   (\<exists>x. z = Inr x \<and> k x w = (Inr y, w'))"
  by (cases z) (simp_all add: throw_def)

lemma case_option_throw_Inr [op_inr]:
  "(case z of None \<Rightarrow> throw e | Some x \<Rightarrow> k x) w = (Inr y, w') \<longleftrightarrow>
   (\<exists>x. z = Some x \<and> k x w = (Inr y, w'))"
  by (cases z) (simp_all add: throw_def)

lemma time_now_eq [op_inr]: "time_now w = (r, w') \<longleftrightarrow> r = Inr (wall w) \<and> w' = w"
  by (auto simp: time_now_def)

lemma new_uuid_Inr [op_inr]:
  "new_uuid w = (Inr u, w') \<longleftrightarrow> (\<exists>us. uuids w = u # us \<and> w' = w\<lparr>uuids := us\<rparr>)"
  by (auto simp: new_uuid_def split: list.splits)

lemma rand_read_Inr [op_inr]:
  "rand_read n w = (Inr bs, w') \<longleftrightarrow>
   n \<le> length (rng w) \<and> bs = take n (rng w) \<and> w' = w\<lparr>rng := drop n (rng w)\<rparr>"
  by (auto simp: rand_read_def)

lemma exec_Inr [op_inr]:
  "exec s w = (Inr x, w') \<longleftrightarrow>
   \<not> failing w \<and> (\<exists>d. s (pg_now w) (db w) = Inr (x, d) \<and> w' = (tick w)\<lparr>db := d\<rparr>)"
  by (auto simp: exec_def split: sum.splits prod.splits)

lemma query_Inr [op_inr]:
  "query q w = (Inr x, w') \<longleftrightarrow> \<not> failing w \<and> x = q (db w) \<and> w' = tick w"
  by (auto simp: query_def op_inr tick_def)

lemma query_Inl: "query q w = (Inl e, w') \<longleftrightarrow> failing w \<and> e = PgErr ConnectionFailure \<and> w' = tick w"
  by (auto simp: query_def exec_def)

lemma with_transaction_Inr [op_inr]:
  "with_transaction fn w = (Inr x, w') \<longleftrightarrow>
   \<not> failing w \<and> (\<exists>w1. fn (tick w) = (Inr x, w1) \<and> \<not> failing w1 \<and> w' = tick w1)"
  by (auto simp: with_transaction_def split: prod.splits sum.splits)

lemma tick_simps [simp]:
  "db (tick w) = db w" "pg_now (tick w) = pg_now w" "wall (tick w) = wall w"
  "rng (tick w) = rng w" "uuids (tick w) = uuids w" "faults (tick w) = tl (faults w)"
  by (simp_all add: tick_def)

lemma failing_db [simp]:
  "failing (w\<lparr>db := d\<rparr>) = failing w" "failing (w\<lparr>rng := g\<rparr>) = failing w"
  "failing (w\<lparr>uuids := u\<rparr>) = failing w"
  by (simp_all add: failing_def)

text \<open>A quiet world: no round trip to come fails.\<close>

definition quiet :: "world \<Rightarrow> bool" where
  "quiet w \<longleftrightarrow> True \<notin> set (faults w)"

lemma quiet_not_failing [simp]: "quiet w \<Longrightarrow> \<not> failing w"
  by (auto simp: quiet_def failing_def split: list.splits)

lemma quiet_tick [simp]: "quiet w \<Longrightarrow> quiet (tick w)"
  by (cases "faults w") (auto simp: quiet_def)

lemma quiet_update [simp]:
  "quiet (w\<lparr>db := d\<rparr>) = quiet w" "quiet (w\<lparr>rng := g\<rparr>) = quiet w" "quiet (w\<lparr>uuids := u\<rparr>) = quiet w"
  by (simp_all add: quiet_def)

text \<open>What a call that runs undisturbed leaves of the world: the clocks, and no failing round trip.\<close>

definition goes_on :: "world \<Rightarrow> world \<Rightarrow> bool" where
  "goes_on w w' \<longleftrightarrow> quiet w' \<and> wall w' = wall w \<and> pg_now w' = pg_now w"

section \<open>What an operation does to the database\<close>

text \<open>
  \<open>steps R m\<close>: whatever the outcome, the database before and after \<open>m\<close> is related by \<open>R\<close>.
  For a reflexive and transitive \<open>R\<close> it follows for a whole service call from its
  statements; the locale proves that once, for every property that is such a relation.
\<close>

definition steps :: "(database \<Rightarrow> database \<Rightarrow> bool) \<Rightarrow> 'a op \<Rightarrow> bool" where
  "steps R m \<longleftrightarrow> (\<forall>w. R (db w) (db (snd (m w))))"

lemma stepsD: "steps R m \<Longrightarrow> m w = (r, w') \<Longrightarrow> R (db w) (db w')"
  unfolding steps_def by (metis snd_conv)

locale db_relation =
  fixes R :: "database \<Rightarrow> database \<Rightarrow> bool"
  assumes R_refl: "R d d" and R_trans: "R d1 d2 \<Longrightarrow> R d2 d3 \<Longrightarrow> R d1 d3"
begin

lemma steps_ret [steps_intros]: "steps R (ret x)"
  by (simp add: steps_def ret_def R_refl)

lemma steps_throw [steps_intros]: "steps R (throw e)"
  by (simp add: steps_def throw_def R_refl)

lemma steps_attempt [steps_intros]:
  assumes "steps R m" and "\<And>r. steps R (k r)"
  shows "steps R (attempt m k)"
proof -
  have "R (db w) (db (snd (attempt m k w)))" for w
  proof (cases "m w")
    case (Pair r w1)
    with assms(1) have "R (db w) (db w1)" by (rule stepsD)
    moreover have "R (db w1) (db (snd (k r w1)))"
      using assms(2) by (simp add: steps_def)
    ultimately show ?thesis using Pair by (auto simp: attempt_def intro: R_trans)
  qed
  then show ?thesis by (simp add: steps_def)
qed

lemma steps_bindE [steps_intros]:
  "steps R m \<Longrightarrow> (\<And>x. steps R (k x)) \<Longrightarrow> steps R (bindE m k)"
  unfolding bindE_def by (rule steps_attempt) (auto split: sum.split intro: steps_throw)

lemma steps_map_err [steps_intros]: "steps R m \<Longrightarrow> steps R (map_err f m)"
  unfolding map_err_def by (rule steps_attempt) (auto split: sum.split intro: steps_throw steps_ret)

lemma steps_lift_result [steps_intros]: "steps R (lift_result r)"
  by (cases r) (auto simp: lift_result_def intro: steps_ret steps_throw)

lemma steps_time_now [steps_intros]: "steps R time_now"
  by (simp add: steps_def time_now_def R_refl)

lemma steps_new_uuid [steps_intros]: "steps R new_uuid"
  by (auto simp: steps_def new_uuid_def R_refl split: list.splits)

lemma steps_rand_read [steps_intros]: "steps R (rand_read n)"
  by (auto simp: steps_def rand_read_def R_refl)

lemma steps_exec:
  assumes "\<And>now d x d'. s now d = Inr (x, d') \<Longrightarrow> R d d'"
  shows "steps R (exec s)"
  using assms by (auto simp: steps_def exec_def R_refl split: sum.splits prod.splits)

lemma steps_query [steps_intros]: "steps R (query q)"
  unfolding query_def by (rule steps_exec) (auto intro: R_refl)

lemma steps_with_transaction [steps_intros]:
  assumes "steps R m"
  shows "steps R (with_transaction m)"
proof -
  have "R (db w) (db (snd (with_transaction m w)))" for w
    using stepsD [OF assms, of "tick w"]
    by (auto simp: with_transaction_def R_refl split: prod.splits sum.splits)
  then show ?thesis by (simp add: steps_def)
qed

lemma steps_If [steps_intros]:
  "(b \<Longrightarrow> steps R m) \<Longrightarrow> (\<not> b \<Longrightarrow> steps R m') \<Longrightarrow> steps R (if b then m else m')"
  by simp

lemma steps_option [steps_intros]:
  "steps R m \<Longrightarrow> (\<And>x. steps R (k x)) \<Longrightarrow> steps R (case z of None \<Rightarrow> m | Some x \<Rightarrow> k x)"
  by (cases z) auto

lemma steps_sum [steps_intros]:
  "(\<And>e. steps R (h e)) \<Longrightarrow> (\<And>x. steps R (k x)) \<Longrightarrow> steps R (case z of Inl e \<Rightarrow> h e | Inr x \<Rightarrow> k x)"
  by (cases z) auto

lemma steps_prod [steps_intros]:
  "(\<And>x y. steps R (k x y)) \<Longrightarrow> steps R (case z of (x, y) \<Rightarrow> k x y)"
  by (cases z) auto

end

text \<open>Two instances every theory uses: an operation that only reads, and an invariant.\<close>

abbreviation reads :: "'a op \<Rightarrow> bool" where
  "reads m \<equiv> steps (=) m"

abbreviation preserves :: "(database \<Rightarrow> bool) \<Rightarrow> 'a op \<Rightarrow> bool" where
  "preserves I m \<equiv> steps (\<lambda>d d'. I d \<longrightarrow> I d') m"

interpretation reading: db_relation "(=) :: database \<Rightarrow> database \<Rightarrow> bool"
  by unfold_locales auto

lemma reads_keeps: "reads m \<Longrightarrow> m w = (r, w') \<Longrightarrow> db w' = db w"
  using stepsD by force

text \<open>An atomic operation: an error leaves the database as it was.\<close>

definition atomic :: "'a op \<Rightarrow> bool" where
  "atomic m \<longleftrightarrow> (\<forall>w e w'. m w = (Inl e, w') \<longrightarrow> db w' = db w)"

lemma atomicD: "atomic m \<Longrightarrow> m w = (Inl e, w') \<Longrightarrow> db w' = db w"
  by (auto simp: atomic_def)

lemma atomic_reads: "reads m \<Longrightarrow> atomic m"
  by (auto simp: atomic_def dest: reads_keeps)

lemma atomic_exec: "atomic (exec s)"
  by (auto simp: atomic_def exec_def split: sum.splits prod.splits if_splits)

lemma atomic_with_transaction: "atomic (with_transaction m)"
  by (auto simp: atomic_def with_transaction_def split: sum.splits prod.splits if_splits)

lemma atomic_bindE: "reads m \<Longrightarrow> (\<And>x. atomic (k x)) \<Longrightarrow> atomic (bindE m k)"
  by (auto simp: atomic_def bindE_Inl dest: reads_keeps)

lemma atomic_attempt: "reads m \<Longrightarrow> (\<And>r. atomic (k r)) \<Longrightarrow> atomic (attempt m k)"
  by (auto simp: atomic_def attempt_eq dest: reads_keeps)

lemma atomic_map_err: "atomic m \<Longrightarrow> atomic (map_err f m)"
  by (auto simp: atomic_def map_err_Inl)

lemma atomic_If: "(b \<Longrightarrow> atomic m) \<Longrightarrow> (\<not> b \<Longrightarrow> atomic m') \<Longrightarrow> atomic (if b then m else m')"
  by simp

lemma atomic_throw: "atomic (throw e)"
  by (simp add: atomic_def throw_def)

lemma atomic_ret: "atomic (ret x)"
  by (simp add: atomic_def ret_def)

lemma atomic_then_ret: "atomic m \<Longrightarrow> atomic (bindE m (\<lambda>x. ret (f x)))"
  by (auto simp: atomic_def bindE_Inl ret_def)

lemmas atomic_intros = atomic_exec atomic_map_err atomic_ret atomic_throw atomic_with_transaction atomic_If

section \<open>A world to evaluate in\<close>

text \<open>Both clocks at the same instant, no faults, enough random bytes and ids.\<close>

definition sample_world :: "database \<Rightarrow> int \<Rightarrow> string list \<Rightarrow> world" where
  "sample_world d now us =
     \<lparr>db = d, pg_now = Instant now, wall = Instant now, rng = replicate 200 1, uuids = us, faults = []\<rparr>"

lemma sample_world_sel [simp]:
  "db (sample_world d now us) = d" "pg_now (sample_world d now us) = Instant now"
  "wall (sample_world d now us) = Instant now" "rng (sample_world d now us) = replicate 200 1"
  "uuids (sample_world d now us) = us" "faults (sample_world d now us) = []"
  by (simp_all add: sample_world_def)

lemma quiet_sample [simp]: "quiet (sample_world d now us)"
  by (simp add: quiet_def)

end
