(* ===== verification/Regex.thy ===== *)
theory Regex
  imports Prelude
begin

text \<open>
  The part of Go's \<open>regexp\<close> that \<open>src/internal/utils/validation.go\<close> uses: character
  classes, concatenation, \<open>+\<close>, \<open>{m,n}\<close>, matched against the whole text (\<open>^...$\<close>). Matching
  is by derivatives, so it evaluates; \<open>matches_lang\<close> shows that it decides the language of
  the expression.
\<close>

section \<open>Expressions and matching\<close>

datatype regex =
    Fail
  | Done
  | Class "char \<Rightarrow> bool"
  | Then regex regex
  | Alt regex regex
  | Star regex

fun nullable :: "regex \<Rightarrow> bool" where
  "nullable Fail = False"
| "nullable Done = True"
| "nullable (Class P) = False"
| "nullable (Then r s) = (nullable r \<and> nullable s)"
| "nullable (Alt r s) = (nullable r \<or> nullable s)"
| "nullable (Star r) = True"

fun deriv :: "char \<Rightarrow> regex \<Rightarrow> regex" where
  "deriv c Fail = Fail"
| "deriv c Done = Fail"
| "deriv c (Class P) = (if P c then Done else Fail)"
| "deriv c (Then r s) =
     (if nullable r then Alt (Then (deriv c r) s) (deriv c s) else Then (deriv c r) s)"
| "deriv c (Alt r s) = Alt (deriv c r) (deriv c s)"
| "deriv c (Star r) = Then (deriv c r) (Star r)"

fun matches :: "regex \<Rightarrow> string \<Rightarrow> bool" where
  "matches r [] = nullable r"
| "matches r (c # cs) = matches (deriv c r) cs"

text \<open>\<open>r+\<close> and \<open>r{0,n}\<close>.\<close>

definition plus_re :: "regex \<Rightarrow> regex" where
  "plus_re r = Then r (Star r)"

fun upto_re :: "nat \<Rightarrow> regex \<Rightarrow> regex" where
  "upto_re 0 r = Done"
| "upto_re (Suc n) r = Alt Done (Then r (upto_re n r))"

section \<open>The language of an expression\<close>

inductive_set star :: "string set \<Rightarrow> string set" for L where
  star_Nil: "[] \<in> star L"
| star_append: "u \<in> L \<Longrightarrow> v \<in> star L \<Longrightarrow> u @ v \<in> star L"

fun lang :: "regex \<Rightarrow> string set" where
  "lang Fail = {}"
| "lang Done = {[]}"
| "lang (Class P) = {[c] | c. P c}"
| "lang (Then r s) = {u @ v | u v. u \<in> lang r \<and> v \<in> lang s}"
| "lang (Alt r s) = lang r \<union> lang s"
| "lang (Star r) = star (lang r)"

lemma nullable_lang: "nullable r \<longleftrightarrow> [] \<in> lang r"
  by (induction r) (auto intro: star_Nil)

lemma star_Cons: "c # s \<in> star L \<Longrightarrow> \<exists>u v. s = u @ v \<and> c # u \<in> L \<and> v \<in> star L"
proof (induction "c # s" arbitrary: s rule: star.induct)
  case (star_append u v)
  show ?case
  proof (cases u)
    case Nil
    with star_append show ?thesis by simp
  next
    case (Cons d u')
    with star_append show ?thesis by auto
  qed
qed

lemma deriv_lang: "s \<in> lang (deriv c r) \<longleftrightarrow> c # s \<in> lang r"
proof (induction r arbitrary: s)
  case (Then r1 r2)
  have "c # s \<in> lang (Then r1 r2) \<longleftrightarrow>
    (\<exists>u v. s = u @ v \<and> c # u \<in> lang r1 \<and> v \<in> lang r2) \<or> ([] \<in> lang r1 \<and> c # s \<in> lang r2)"
    by (auto simp: Cons_eq_append_conv)
  with Then show ?case by (auto simp: nullable_lang)
next
  case (Star r)
  have "c # s \<in> star (lang r) \<longleftrightarrow> (\<exists>u v. s = u @ v \<and> c # u \<in> lang r \<and> v \<in> star (lang r))"
    using star_append [of "c # _" "lang r"] by (auto dest: star_Cons)
  with Star show ?case by auto
qed auto

theorem matches_lang: "matches r s \<longleftrightarrow> s \<in> lang r"
  by (induction s arbitrary: r) (auto simp: nullable_lang deriv_lang)

section \<open>Repeated classes\<close>

lemma star_class: "s \<in> star {[c] | c. P c} \<longleftrightarrow> (\<forall>c\<in>set s. P c)"
proof
  assume "s \<in> star {[c] | c. P c}"
  then show "\<forall>c\<in>set s. P c" by (induction rule: star.induct) auto
next
  assume "\<forall>c\<in>set s. P c"
  then show "s \<in> star {[c] | c. P c}"
  proof (induction s)
    case (Cons c s)
    then have "[c] @ s \<in> star {[c] | c. P c}" by (intro star_append) auto
    then show ?case by simp
  qed (simp add: star_Nil)
qed

lemma lang_Then: "s \<in> lang (Then r q) \<longleftrightarrow> (\<exists>u v. s = u @ v \<and> u \<in> lang r \<and> v \<in> lang q)"
  by auto

lemma lang_Class_Then_Cons [simp]:
  "c # s \<in> lang (Then (Class P) q) \<longleftrightarrow> P c \<and> s \<in> lang q"
proof
  assume "c # s \<in> lang (Then (Class P) q)"
  then show "P c \<and> s \<in> lang q" by auto
next
  assume "P c \<and> s \<in> lang q"
  then have "c # s = [c] @ s" "[c] \<in> lang (Class P)" "s \<in> lang q" by auto
  then show "c # s \<in> lang (Then (Class P) q)" unfolding lang_Then by blast
qed

lemma lang_Class_Then_Nil [simp]: "[] \<notin> lang (Then (Class P) q)"
  by auto

lemma lang_plus_class: "s \<in> lang (plus_re (Class P)) \<longleftrightarrow> s \<noteq> [] \<and> (\<forall>c\<in>set s. P c)"
  unfolding plus_re_def by (cases s) (simp_all add: star_class del: lang.simps(4))

lemma lang_upto_class: "s \<in> lang (upto_re n (Class P)) \<longleftrightarrow> length s \<le> n \<and> (\<forall>c\<in>set s. P c)"
proof (induction n arbitrary: s)
  case (Suc n)
  then show ?case by (cases s) (auto simp del: lang.simps(4))
qed auto

end
