(* ===== verification/Utils.thy ===== *)
theory Utils
  imports World Regex
begin

unbundle bit_operations_syntax

text \<open>
  \<open>src/internal/utils\<close>: hashing, random tokens and codes, validation, the default tenant.
  SHA-256 and the third-party bcrypt and uuid packages are fields of the parameter \<open>crypto\<close>;
  hex encoding, the rejection sampling of random digits and the constant-time comparison
  are written out. Strings are byte sequences, as Go's are.
\<close>

section \<open>The cryptographic primitives\<close>

datatype bcrypt_result = BcryptMatch | BcryptMismatch | BcryptError string

text \<open>
  \<open>bcrypt_generate value cost salt\<close> is \<open>bcrypt.GenerateFromPassword\<close> with the 16 random
  bytes it draws; \<open>bcrypt_compare hash value\<close> is \<open>CompareHashAndPassword\<close>; \<open>uuid_parse\<close> says
  whether \<open>uuid.Parse\<close> accepts a text; \<open>pg_uuid\<close> is the cast of a text to a \<open>uuid\<close> column.
\<close>

record crypto =
  sha256 :: "byte list \<Rightarrow> byte list"
  bcrypt_generate :: "string \<Rightarrow> int \<Rightarrow> byte list \<Rightarrow> string + string"
  bcrypt_compare :: "string \<Rightarrow> string \<Rightarrow> bcrypt_result"
  uuid_parse :: "string \<Rightarrow> bool"
  pg_uuid :: "string \<Rightarrow> string option"

section \<open>Hex\<close>

definition hex_digit :: "nat \<Rightarrow> char" where
  "hex_digit n = ''0123456789abcdef'' ! n"

fun hex_encode :: "byte list \<Rightarrow> string" where
  "hex_encode [] = []"
| "hex_encode (b # bs) = hex_digit (unat b div 16) # hex_digit (unat b mod 16) # hex_encode bs"

definition bytes_of :: "string \<Rightarrow> byte list" where
  "bytes_of s = map of_char s"

lemma length_hex_encode [simp]: "length (hex_encode bs) = 2 * length bs"
  by (induction bs) auto

lemma hex_digit_eq_iff: "m < 16 \<Longrightarrow> n < 16 \<Longrightarrow> hex_digit m = hex_digit n \<longleftrightarrow> m = n"
  unfolding hex_digit_def by (subst nth_eq_iff_index_eq) auto

lemma hex_digit_set: "n < 16 \<Longrightarrow> hex_digit n \<in> set ''0123456789abcdef''"
  unfolding hex_digit_def by (rule nth_mem) simp

lemma byte_parts: "unat (b :: byte) div 16 < 16" "unat b mod 16 < 16"
proof -
  have "unat b < 2 ^ 8" using unsigned_less [of b] by simp
  then show "unat b div 16 < 16" by simp
qed simp

lemma byte_eqI: "unat (a :: byte) div 16 = unat b div 16 \<Longrightarrow> unat a mod 16 = unat b mod 16 \<Longrightarrow> a = b"
  by (metis mult_div_mod_eq word_unat_eq_iff)

lemma hex_encode_inject: "hex_encode as = hex_encode bs \<longleftrightarrow> as = bs"
proof (induction as arbitrary: bs)
  case Nil
  then show ?case by (cases bs) auto
next
  case (Cons a as)
  then show ?case
    by (cases bs) (auto simp: hex_digit_eq_iff byte_parts intro: byte_eqI)
qed

lemma hex_encode_alphabet: "set (hex_encode bs) \<subseteq> set ''0123456789abcdef''"
proof (induction bs)
  case (Cons b bs)
  then show ?case
    using hex_digit_set [OF byte_parts(1) [of b]] hex_digit_set [OF byte_parts(2) [of b]] by simp
qed simp

section \<open>crypto.go\<close>

definition BcryptHash :: "crypto \<Rightarrow> string \<Rightarrow> int \<Rightarrow> string op" where
  "BcryptHash C v cost =
     bindE (rand_read 16) (\<lambda>salt.
     case bcrypt_generate C v cost salt of Inl e \<Rightarrow> throw (PlainErr e) | Inr h \<Rightarrow> ret h)"

definition BcryptVerify :: "crypto \<Rightarrow> string \<Rightarrow> string \<Rightarrow> go_error + bool" where
  "BcryptVerify C h v =
     (case bcrypt_compare C h v of
        BcryptMatch \<Rightarrow> Inr True
      | BcryptMismatch \<Rightarrow> Inr False
      | BcryptError e \<Rightarrow> Inl (PlainErr e))"

definition Sha256Hex :: "crypto \<Rightarrow> string \<Rightarrow> string" where
  "Sha256Hex C v = hex_encode (sha256 C (bytes_of v))"

definition RandomToken :: "string op" where
  "RandomToken = bindE (rand_read 32) (\<lambda>buf. ret (hex_encode buf))"

text \<open>
  \<open>rand.Int(rand.Reader, 10)\<close> reads one byte, keeps its low four bits (9 has four), and
  tries again while the value is 10 or more.
\<close>

fun rand_int10 :: "byte list \<Rightarrow> (nat \<times> byte list) option" where
  "rand_int10 [] = None"
| "rand_int10 (b # bs) = (let v = unat (b AND 15) in if v < 10 then Some (v, bs) else rand_int10 bs)"

definition rand_digit :: "nat op" where
  "rand_digit w = (case rand_int10 (rng w) of
     None \<Rightarrow> (Inl (PlainErr ''rand: entropy source failed''), w\<lparr>rng := []\<rparr>)
   | Some (v, bs) \<Rightarrow> (Inr v, w\<lparr>rng := bs\<rparr>))"

fun RandomDigits :: "nat \<Rightarrow> string op" where
  "RandomDigits 0 = ret []"
| "RandomDigits (Suc n) =
     bindE rand_digit (\<lambda>d. bindE (RandomDigits n) (\<lambda>ds. ret (char_of (48 + d) # ds)))"

definition ValidatePassword :: "string \<Rightarrow> string + unit" where
  "ValidatePassword password =
     (if length password < 8 then Inl ''password must be at least 8 characters''
      else if 72 < length password then Inl ''password must be at most 72 bytes''
      else Inr ())"

text \<open>
  The loop of \<open>ValidateCode\<close> runs over runes; a byte outside ASCII is part of a rune beyond
  \<open>'9'\<close>, so the verdict is that of the bytes.
\<close>

definition ValidateCode :: "string \<Rightarrow> nat \<Rightarrow> string + unit" where
  "ValidateCode code sz =
     (if length code \<noteq> sz then Inl ''invalid code''
      else if \<exists>c\<in>set code. c < CHR ''0'' \<or> CHR ''9'' < c then Inl ''invalid code''
      else Inr ())"

section \<open>validation.go\<close>

definition is_lower :: "char \<Rightarrow> bool" where
  "is_lower c \<longleftrightarrow> CHR ''a'' \<le> c \<and> c \<le> CHR ''z''"

definition is_upper :: "char \<Rightarrow> bool" where
  "is_upper c \<longleftrightarrow> CHR ''A'' \<le> c \<and> c \<le> CHR ''Z''"

definition is_digit :: "char \<Rightarrow> bool" where
  "is_digit c \<longleftrightarrow> CHR ''0'' \<le> c \<and> c \<le> CHR ''9''"

definition is_letter :: "char \<Rightarrow> bool" where
  "is_letter c \<longleftrightarrow> is_lower c \<or> is_upper c"

definition email_local :: "char \<Rightarrow> bool" where
  "email_local c \<longleftrightarrow> is_letter c \<or> is_digit c \<or> c \<in> set ''._%+-''"

definition email_domain :: "char \<Rightarrow> bool" where
  "email_domain c \<longleftrightarrow> is_letter c \<or> is_digit c \<or> c \<in> set ''.-''"

definition key_start :: "char \<Rightarrow> bool" where
  "key_start c \<longleftrightarrow> is_lower c \<or> is_digit c"

definition key_rest :: "char \<Rightarrow> bool" where
  "key_rest c \<longleftrightarrow> is_lower c \<or> is_digit c \<or> c \<in> set ''_-''"

definition keyRegex :: regex where
  "keyRegex = Then (Class key_start) (upto_re 63 (Class key_rest))"

definition emailRegex :: regex where
  "emailRegex =
     Then (plus_re (Class email_local))
    (Then (Class (\<lambda>c. c = CHR ''@''))
    (Then (plus_re (Class email_domain))
    (Then (Class (\<lambda>c. c = CHR ''.''))
    (Then (Class is_letter) (plus_re (Class is_letter))))))"

definition ValidateKey :: "string \<Rightarrow> string + unit" where
  "ValidateKey key =
     (if \<not> matches keyRegex key then Inl ''invalid key: must match ^[a-z0-9][a-z0-9_-]{0,63}$''
      else Inr ())"

definition ValidateEmail :: "string \<Rightarrow> string + unit" where
  "ValidateEmail email =
     (if 254 < length email then Inl ''email too long''
      else if \<not> matches emailRegex email then Inl ''invalid email format''
      else Inr ())"

definition ValidateName :: "string \<Rightarrow> string + unit" where
  "ValidateName nm =
     (if 128 < length nm then Inl ''name must be at most 128 characters'' else Inr ())"

definition ValidateUUID :: "crypto \<Rightarrow> string \<Rightarrow> string + unit" where
  "ValidateUUID C i = (if \<not> uuid_parse C i then Inl ''invalid uuid'' else Inr ())"

text \<open>
  \<open>subtle.ConstantTimeCompare\<close>: the lengths, then the OR of the XORs of all bytes, tested for
  zero without a branch as \<open>subtle.ConstantTimeByteEq\<close> does.
\<close>

definition byte_eq_zero :: "byte \<Rightarrow> int" where
  "byte_eq_zero v = uint (drop_bit 31 ((ucast v :: 32 word) - 1))"

definition constant_time_compare :: "byte list \<Rightarrow> byte list \<Rightarrow> int" where
  "constant_time_compare x y =
     (if length x \<noteq> length y then 0
      else byte_eq_zero (fold (\<lambda>(a, b) v. v OR (a XOR b)) (zip x y) 0))"

definition SafeCompare :: "string \<Rightarrow> string \<Rightarrow> bool" where
  "SafeCompare s1 s2 \<longleftrightarrow> constant_time_compare (bytes_of s1) (bytes_of s2) = 1"

section \<open>tenant.go\<close>

definition DefaultTenantID :: string where
  "DefaultTenantID = ''default''"

definition TenantOrDefault :: "string \<Rightarrow> string" where
  "TenantOrDefault tenantID = (if tenantID = [] then DefaultTenantID else tenantID)"
section \<open>Facts on tokens, codes and comparisons\<close>

lemma RandomToken_Inr [op_inr]:
  "RandomToken w = (Inr t, w') \<longleftrightarrow>
   32 \<le> length (rng w) \<and> t = hex_encode (take 32 (rng w)) \<and> w' = w\<lparr>rng := drop 32 (rng w)\<rparr>"
  by (auto simp: RandomToken_def op_inr)

lemma BcryptHash_Inr [op_inr]:
  "BcryptHash C v cost w = (Inr h, w') \<longleftrightarrow>
   16 \<le> length (rng w) \<and> bcrypt_generate C v cost (take 16 (rng w)) = Inr h \<and>
   w' = w\<lparr>rng := drop 16 (rng w)\<rparr>"
  by (auto simp: BcryptHash_def op_inr split: sum.splits)

lemma BcryptVerify_True: "BcryptVerify C h v = Inr True \<longleftrightarrow> bcrypt_compare C h v = BcryptMatch"
  by (auto simp: BcryptVerify_def split: bcrypt_result.splits)

lemma BcryptVerify_False: "BcryptVerify C h v = Inr False \<longleftrightarrow> bcrypt_compare C h v = BcryptMismatch"
  by (auto simp: BcryptVerify_def split: bcrypt_result.splits)

lemma rand_int10_bound: "rand_int10 bs = Some (v, bs') \<Longrightarrow> v < 10"
  by (induction bs) (auto simp: Let_def split: if_splits)

lemma rand_digit_db: "rand_digit w = (r, w') \<Longrightarrow> db w' = db w \<and> faults w' = faults w"
  by (auto simp: rand_digit_def split: option.splits)

lemma RandomDigits_Inr:
  "RandomDigits n w = (Inr ds, w') \<Longrightarrow> \<exists>bs. w' = w\<lparr>rng := bs\<rparr>"
proof (induction n arbitrary: w w' ds)
  case (Suc n)
  then show ?case
    by (fastforce simp: op_inr rand_digit_def split: option.splits)
next
  case 0
  then have "w' = w\<lparr>rng := rng w\<rparr>" by (simp add: op_inr)
  then show ?case by (rule exI)
qed

lemma digit_char:
  assumes "(d :: nat) < 10"
  shows "CHR ''0'' \<le> char_of (48 + d) \<and> char_of (48 + d) \<le> CHR ''9''"
proof -
  have "of_char (char_of (48 + d)) = 48 + d" using assms by simp
  then show ?thesis using assms by (simp add: less_eq_char_def)
qed

lemma RandomDigits_digits:
  "RandomDigits n w = (Inr ds, w') \<Longrightarrow>
   length ds = n \<and> (\<forall>c\<in>set ds. CHR ''0'' \<le> c \<and> c \<le> CHR ''9'')"
proof (induction n arbitrary: w w' ds)
  case (Suc n)
  then obtain d w1 ds' where d: "rand_digit w = (Inr d, w1)"
    and rest: "RandomDigits n w1 = (Inr ds', w')" and ds: "ds = char_of (48 + d) # ds'"
    by (auto simp: op_inr)
  from d have "d < 10"
    by (auto simp: rand_digit_def dest: rand_int10_bound split: option.splits)
  then show ?case using Suc.IH [OF rest] ds digit_char [of d] by simp
qed (simp add: op_inr)

lemma byte_eq_zero_iff: "byte_eq_zero v = 1 \<longleftrightarrow> v = 0"
proof (cases "v = 0")
  case True
  then show ?thesis by (simp add: byte_eq_zero_def)
next
  case False
  have "uint v < 2 ^ 8" using unsigned_less [of v] by simp
  moreover from False have "0 < uint v" by (metis less_le uint_0_iff unsigned_greater_eq)
  ultimately have "uint ((ucast v :: 32 word) - 1) = uint v - 1"
    by (simp add: uint_word_ariths unsigned_ucast_eq take_bit_int_eq_self take_bit_eq_mod)
  moreover have "byte_eq_zero v = uint ((ucast v :: 32 word) - 1) div 2 ^ 31"
    unfolding byte_eq_zero_def by (simp only: uint_div drop_bit_eq_div) (simp add: take_bit_int_eq_self)
  ultimately have "byte_eq_zero v = 0"
    using \<open>uint v < 2 ^ 8\<close> \<open>0 < uint v\<close> by simp
  with False show ?thesis by simp
qed

lemma fold_or_zero:
  "fold (\<lambda>(a, b) v. v OR (a XOR b)) ps (v :: byte) = 0 \<longleftrightarrow> v = 0 \<and> (\<forall>(a, b)\<in>set ps. a = b)"
proof (induction ps arbitrary: v)
  case (Cons p ps)
  have "x OR y = 0 \<longleftrightarrow> x = 0 \<and> y = 0" for x y :: byte by (simp add: or_eq_0_iff)
  moreover have "x XOR y = 0 \<longleftrightarrow> x = y" for x y :: byte
  proof
    assume "x XOR y = 0"
    then have "(x XOR y) XOR y = 0 XOR y" by simp
    then show "x = y" by (simp add: xor.assoc)
  qed simp
  ultimately show ?case using Cons by (cases p) auto
qed simp

lemma zip_equal: "length x = length y \<Longrightarrow> (\<forall>(a, b)\<in>set (zip x y). a = b) \<longleftrightarrow> x = y"
  by (induction x y rule: list_induct2) auto

lemma constant_time_compare_iff: "constant_time_compare x y = 1 \<longleftrightarrow> x = y"
  by (auto simp: constant_time_compare_def byte_eq_zero_iff fold_or_zero zip_equal)

lemma unat_of_char_byte: "unat (of_char c :: byte) = of_char c"
proof -
  have "(of_char c :: byte) = of_nat (of_char c)" by (rule of_nat_of_char [symmetric])
  moreover have "(of_char c :: nat) < 2 ^ LENGTH(8)" by simp
  ultimately show ?thesis by (simp add: unsigned_of_nat take_bit_nat_eq_self)
qed

lemma of_char_byte_inject: "(of_char c :: byte) = of_char d \<longleftrightarrow> c = d"
  by (metis unat_of_char_byte of_char_eq_iff)

lemma bytes_of_inject [simp]: "bytes_of s = bytes_of t \<longleftrightarrow> s = t"
  unfolding bytes_of_def by (rule inj_map_eq_map) (simp add: inj_def of_char_byte_inject)

lemma SafeCompare_eq [simp]: "SafeCompare s t \<longleftrightarrow> s = t"
  by (simp add: SafeCompare_def constant_time_compare_iff)

lemma emailRegex_iff:
  "matches emailRegex s \<longleftrightarrow>
   (\<exists>l d t. s = l @ ''@'' @ d @ ''.'' @ t \<and> l \<noteq> [] \<and> d \<noteq> [] \<and> 2 \<le> length t \<and>
     (\<forall>c\<in>set l. email_local c) \<and> (\<forall>c\<in>set d. email_domain c) \<and> (\<forall>c\<in>set t. is_letter c))"
proof -
  have tld: "t \<in> lang (Then (Class is_letter) (plus_re (Class is_letter))) \<longleftrightarrow>
      2 \<le> length t \<and> (\<forall>c\<in>set t. is_letter c)" for t
  proof (cases t)
    case (Cons a u)
    then show ?thesis by (cases u) (auto simp: lang_plus_class simp del: lang.simps(4))
  qed auto
  have single: "u \<in> lang (Then (Class (\<lambda>c. c = x)) q) \<longleftrightarrow> (\<exists>v. u = x # v \<and> v \<in> lang q)" for u x q
    by (cases u) (simp_all del: lang.simps(4))
  show ?thesis
    unfolding matches_lang emailRegex_def lang_Then [of s] lang_plus_class single
    unfolding lang_Then [of _ "plus_re (Class email_domain)"] lang_plus_class single tld
    by simp blast
qed

lemma keyRegex_iff:
  "matches keyRegex s \<longleftrightarrow>
   (\<exists>c t. s = c # t \<and> key_start c \<and> length t \<le> 63 \<and> (\<forall>x\<in>set t. key_rest x))"
  unfolding matches_lang keyRegex_def
  by (cases s) (simp_all add: lang_upto_class del: lang.simps(4) upto_re.simps)

section \<open>A concrete instance\<close>

text \<open>Primitives to evaluate with: the hash of a text is the text.\<close>

definition sample_crypto :: crypto where
  "sample_crypto = \<lparr>sha256 = (\<lambda>bs. bs),
     bcrypt_generate = (\<lambda>v cost salt. if 72 < length v then Inl ''bcrypt: password length exceeds 72 bytes'' else Inr v),
     bcrypt_compare = (\<lambda>h v. if h = v then BcryptMatch else BcryptMismatch),
     uuid_parse = (\<lambda>s. s \<noteq> []), pg_uuid = (\<lambda>s. if s = [] then None else Some s)\<rparr>"

lemma sample_crypto_sel [simp]:
  "sha256 sample_crypto bs = bs"
  "bcrypt_compare sample_crypto h v = (if h = v then BcryptMatch else BcryptMismatch)"
  "uuid_parse sample_crypto s \<longleftrightarrow> s \<noteq> []" "pg_uuid sample_crypto s = (if s = [] then None else Some s)"
  by (simp_all add: sample_crypto_def)

end
