(* ===== verification/Contracts.thy ===== *)
theory Contracts
  imports Utils
begin

text \<open>
  The contracts between the services and the stores they are wired to: a store of one-time
  secrets (password resets and logon codes) and a surface whose sessions can be revoked
  (authn sessions and the OIDC provider). The stores are interpretations of the locales.
\<close>

section \<open>One-time secrets\<close>

text \<open>\<open>stored d tenant email\<close> is the hash an address has a secret for, and its expiry.\<close>

locale one_time_store =
  fixes Upsert :: "string \<Rightarrow> string \<Rightarrow> string \<Rightarrow> instant \<Rightarrow> unit op"
    and Read :: "string \<Rightarrow> string \<Rightarrow> string op"
    and Delete :: "string \<Rightarrow> string \<Rightarrow> unit op"
    and stored :: "database \<Rightarrow> string \<Rightarrow> string \<Rightarrow> (string \<times> instant) option"
  assumes Upsert_stored: "Upsert t e h x w = (Inr u, w') \<Longrightarrow>
      stored (db w') t' e' = (if t' = t \<and> e' = e then Some (h, x) else stored (db w) t' e')"
    and Read_stored: "Read t e w = (Inr h, w') \<longleftrightarrow>
      \<not> failing w \<and> (\<exists>x. stored (db w) t e = Some (h, x) \<and> \<not> x < wall w) \<and> w' = tick w"
    and Delete_stored: "Delete t e w = (Inr u, w') \<Longrightarrow>
      stored (db w') t' e' = (if t' = t \<and> e' = e then None else stored (db w) t' e')"
begin

text \<open>A secret is read back until it expires, and only the latest one of its address.\<close>

lemma read_back:
  "Upsert t e h x w = (Inr u, w1) \<Longrightarrow> db w2 = db w1 \<Longrightarrow> \<not> failing w2 \<Longrightarrow> wall w2 \<le> x \<Longrightarrow>
   Read t e w2 = (Inr h, tick w2)"
  by (simp add: Read_stored Upsert_stored not_less)

lemma read_latest:
  "Upsert t e h x w = (Inr u, w1) \<Longrightarrow> db w2 = db w1 \<Longrightarrow> Read t e w2 = (Inr h', w3) \<Longrightarrow> h' = h"
  by (auto simp: Read_stored Upsert_stored)

lemma expired_unread: "stored (db w) t e = Some (h, x) \<Longrightarrow> x < wall w \<Longrightarrow> Read t e w \<noteq> (Inr h', w')"
  by (auto simp: Read_stored)

text \<open>A deleted secret is spent, whatever else happens to other addresses.\<close>

lemma spent:
  "Delete t e w = (Inr u, w1) \<Longrightarrow> stored (db w2) t e = stored (db w1) t e \<Longrightarrow> Read t e w2 \<noteq> (Inr h, w3)"
  by (auto simp: Read_stored dest: Delete_stored [where t' = t and e' = e])

lemma other_address:
  "t' \<noteq> t \<or> e' \<noteq> e \<Longrightarrow> Upsert t e h x w = (Inr u, w1) \<or> Delete t e w = (Inr u, w1) \<Longrightarrow>
   stored (db w1) t' e' = stored (db w) t' e'"
  using Upsert_stored [where t' = t' and e' = e'] Delete_stored [where t' = t' and e' = e'] by auto

end

section \<open>Surfaces with sessions\<close>

text \<open>
  \<open>closes d d'\<close>: from \<open>d\<close> to \<open>d'\<close> rows of the session tables were deleted, and nothing else
  changed.
\<close>

definition closes :: "database \<Rightarrow> database \<Rightarrow> bool" where
  "closes d d' \<longleftrightarrow>
     set (t_sessions d') \<subseteq> set (t_sessions d) \<and>
     set (t_auth_requests d') \<subseteq> set (t_auth_requests d) \<and>
     set (t_refresh_tokens d') \<subseteq> set (t_refresh_tokens d) \<and>
     set (t_access_tokens d') \<subseteq> set (t_access_tokens d) \<and>
     set (t_browser_sessions d') \<subseteq> set (t_browser_sessions d) \<and>
     d' = d\<lparr>t_sessions := t_sessions d', t_auth_requests := t_auth_requests d',
            t_refresh_tokens := t_refresh_tokens d', t_access_tokens := t_access_tokens d',
            t_browser_sessions := t_browser_sessions d'\<rparr>"

lemma closes_refl: "closes d d"
  by (simp add: closes_def)

lemma closes_trans: "closes d1 d2 \<Longrightarrow> closes d2 d3 \<Longrightarrow> closes d1 d3"
  unfolding closes_def by (cases d1; cases d2; cases d3) auto

interpretation closing: db_relation closes
  by unfold_locales (fact closes_refl, fact closes_trans)

lemma closes_frame:
  assumes "closes d d'"
  shows "t_tenants d' = t_tenants d" "t_api_keys d' = t_api_keys d" "t_signing_keys d' = t_signing_keys d"
    "t_accounts d' = t_accounts d" "t_social_logins d' = t_social_logins d"
    "t_password_resets d' = t_password_resets d" "t_failed_attempts d' = t_failed_attempts d"
    "t_logon_codes d' = t_logon_codes d" "t_clients d' = t_clients d"
  using assms unfolding closes_def by (cases d; cases d'; simp)+

text \<open>The \<open>SessionRevoker\<close> of an account service, as the service holds it.\<close>

type_synonym revoker = "string \<Rightarrow> string \<Rightarrow> unit op"

text \<open>\<open>revokeSessions\<close>: every surface in turn; the first error ends it.\<close>

fun revokeSessions :: "revoker list \<Rightarrow> string \<Rightarrow> string \<Rightarrow> unit op" where
  "revokeSessions [] tenantID email = ret ()"
| "revokeSessions (r # rs) tenantID email =
     bindE (r tenantID email) (\<lambda>_. revokeSessions rs tenantID email)"

lemma steps_revokeSessions:
  "\<forall>r\<in>set rs. steps closes (r t e) \<Longrightarrow> steps closes (revokeSessions rs t e)"
  by (induction rs) (auto intro: closing.steps_ret closing.steps_bindE)

text \<open>
  \<open>open_on d tenant email\<close>: the account is signed in on the surface. A revoker ends that and
  only deletes session rows; deleting more session rows does not sign the account in.
\<close>

locale session_revoker =
  fixes DeleteAll :: revoker
    and open_on :: "database \<Rightarrow> string \<Rightarrow> string \<Rightarrow> bool"
  assumes DeleteAll_ends: "DeleteAll t e w = (Inr u, w') \<Longrightarrow> \<not> open_on (db w') t e"
    and DeleteAll_closes: "steps closes (DeleteAll t e)"
    and closes_open: "closes d d' \<Longrightarrow> open_on d' t e \<Longrightarrow> open_on d t e"
begin

lemma stays_closed:
  "steps closes m \<Longrightarrow> m w = (r, w') \<Longrightarrow> \<not> open_on (db w) t e \<Longrightarrow> \<not> open_on (db w') t e"
  by (blast dest: stepsD closes_open)

lemma revokes:
  assumes "DeleteAll \<in> set rs" and "\<forall>r\<in>set rs. steps closes (r t e)"
    and "revokeSessions rs t e w = (Inr u, w')"
  shows "\<not> open_on (db w') t e"
  using assms
proof (induction rs arbitrary: w)
  case (Cons r rs)
  from Cons.prems(3) obtain w1 where r: "r t e w = (Inr (), w1)"
    and rs: "revokeSessions rs t e w1 = (Inr u, w')" by (auto simp: op_inr)
  show ?case
  proof (cases "DeleteAll \<in> set rs")
    case True
    then show ?thesis using Cons.IH [OF _ _ rs] Cons.prems(2) by simp
  next
    case False
    with Cons.prems(1) r have "\<not> open_on (db w1) t e" using DeleteAll_ends by auto
    moreover have "steps closes (revokeSessions rs t e)"
      using Cons.prems(2) by (intro steps_revokeSessions) simp
    ultimately show ?thesis using rs by (metis stays_closed)
  qed
qed simp

end

end
