(* ===== verification/AuthnStores.thy ===== *)
theory AuthnStores
  imports Contracts
begin

text \<open>
  The three stores of \<open>src/internal/authn\<close>: the sessions (\<open>session_repository.go\<close>), the
  failed attempts (\<open>failed_attempt_repository.go\<close>) and the logon codes
  (\<open>logon_code_repository.go\<close>). The Go structs have the fields of the rows. The sessions
  are a \<open>session_revoker\<close>, the logon codes a \<open>one_time_store\<close>.
\<close>

section \<open>Sessions\<close>

text \<open>
  The jti of a session is the id of a token this server signed, the canonical text of a
  UUID; its cast to the column is the identity.
\<close>

definition session_Upsert_stmt :: "session_row \<Rightarrow> instant \<Rightarrow> database \<Rightarrow> pg_error + unit \<times> database" where
  [stmt_defs]: "session_Upsert_stmt session now d =
     map_sum id (\<lambda>t. ((), d\<lparr>t_sessions := t\<rparr>))
       (upsert_row session_same session_conflict
          (\<lambda>r. r\<lparr>se_refresh_jti := se_refresh_jti session, se_expires := se_expires session, se_modified := now\<rparr>)
          (session\<lparr>se_created := now, se_modified := now\<rparr>)
          (t_sessions d))"

definition session_Upsert :: "session_row \<Rightarrow> unit op" where
  "session_Upsert session =
     bindE new_uuid (\<lambda>i. exec (session_Upsert_stmt (session\<lparr>se_id := i\<rparr>)))"

definition session_key :: "string \<Rightarrow> string \<Rightarrow> string \<Rightarrow> session_row \<Rightarrow> bool" where
  "session_key tenantID email clientID r \<longleftrightarrow>
     se_tenant r = tenantID \<and> se_email r = email \<and> se_client r = clientID"

definition session_Read :: "string \<Rightarrow> string \<Rightarrow> string \<Rightarrow> session_row op" where
  "session_Read tenantID email clientID =
     bindE (query (\<lambda>d. select_row (session_key tenantID email clientID) (t_sessions d))) (\<lambda>row.
     case row of
       None \<Rightarrow> throw (AuthnErr (SessionNotFoundError (email @ ''/'' @ clientID)))
     | Some session \<Rightarrow> ret session)"

definition session_Rotate_stmt :: "string \<Rightarrow> string \<Rightarrow> string \<Rightarrow> string \<Rightarrow> string \<Rightarrow> instant \<Rightarrow>
    instant \<Rightarrow> database \<Rightarrow> pg_error + nat \<times> database" where
  [stmt_defs]: "session_Rotate_stmt tenantID email clientID currentJTI nextJTI expires now d =
     (let (n, t) = update_where (\<lambda>r. session_key tenantID email clientID r \<and> se_refresh_jti r = currentJTI)
            (\<lambda>r. r\<lparr>se_refresh_jti := nextJTI, se_expires := expires, se_modified := now\<rparr>) (t_sessions d) in
      Inr (n, d\<lparr>t_sessions := t\<rparr>))"

definition session_Rotate :: "string \<Rightarrow> string \<Rightarrow> string \<Rightarrow> string \<Rightarrow> string \<Rightarrow> instant \<Rightarrow> bool op" where
  "session_Rotate tenantID email clientID currentJTI nextJTI expires =
     bindE (exec (session_Rotate_stmt tenantID email clientID currentJTI nextJTI expires)) (\<lambda>n.
     ret (n = 1))"

definition session_Delete_stmt :: "string \<Rightarrow> string \<Rightarrow> string \<Rightarrow> instant \<Rightarrow> database \<Rightarrow> pg_error + nat \<times> database" where
  [stmt_defs]: "session_Delete_stmt tenantID email clientID now d =
     (let (n, t) = delete_where (session_key tenantID email clientID) (t_sessions d) in
      Inr (n, d\<lparr>t_sessions := t\<rparr>))"

definition session_Delete :: "string \<Rightarrow> string \<Rightarrow> string \<Rightarrow> unit op" where
  "session_Delete tenantID email clientID =
     bindE (exec (session_Delete_stmt tenantID email clientID)) (\<lambda>n.
     if n = 0 then throw (AuthnErr (SessionNotFoundError (email @ ''/'' @ clientID))) else ret ())"

definition session_DeleteAll_stmt :: "string \<Rightarrow> string \<Rightarrow> instant \<Rightarrow> database \<Rightarrow> pg_error + unit \<times> database" where
  [stmt_defs]: "session_DeleteAll_stmt tenantID email now d =
     Inr ((), d\<lparr>t_sessions :=
       snd (delete_where (\<lambda>r. se_tenant r = tenantID \<and> se_email r = email) (t_sessions d))\<rparr>)"

definition session_DeleteAll :: revoker where
  "session_DeleteAll tenantID email = exec (session_DeleteAll_stmt tenantID email)"

definition session_DeleteExpired_stmt :: "instant \<Rightarrow> database \<Rightarrow> pg_error + nat \<times> database" where
  [stmt_defs]: "session_DeleteExpired_stmt now d =
     (let (n, t) = delete_where (\<lambda>r. se_expires r < now) (t_sessions d) in
      Inr (n, d\<lparr>t_sessions := t\<rparr>))"

definition session_DeleteExpired :: "nat op" where
  "session_DeleteExpired = exec session_DeleteExpired_stmt"

subsection \<open>Facts\<close>

definition session_at :: "database \<Rightarrow> string \<Rightarrow> string \<Rightarrow> string \<Rightarrow> session_row option" where
  "session_at d t e c = select_row (session_key t e c) (t_sessions d)"

definition session_open :: "database \<Rightarrow> string \<Rightarrow> string \<Rightarrow> bool" where
  "session_open d t e \<longleftrightarrow> (\<exists>r\<in>set (t_sessions d). se_tenant r = t \<and> se_email r = e)"

lemma session_open_at: "session_open d t e \<longleftrightarrow> (\<exists>c. session_at d t e c \<noteq> None)"
proof
  assume "session_open d t e"
  then obtain r where "r \<in> set (t_sessions d)" "session_key t e (se_client r) r"
    by (auto simp: session_open_def session_key_def)
  then show "\<exists>c. session_at d t e c \<noteq> None"
    unfolding session_at_def by (metis select_row_NoneD)
next
  assume "\<exists>c. session_at d t e c \<noteq> None"
  then show "session_open d t e"
    by (auto simp: session_open_def session_at_def session_key_def dest!: select_row_SomeD)
qed

lemma session_Read_Inr [op_inr]:
  "session_Read t e c w = (Inr r, w') \<longleftrightarrow> \<not> failing w \<and> session_at (db w) t e c = Some r \<and> w' = tick w"
  by (auto simp: session_Read_def session_at_def op_inr split: option.splits)

lemma session_Upsert_at:
  assumes "session_Upsert s w = (Inr u, w')"
  shows "\<exists>r. session_at (db w') (se_tenant s) (se_email s) (se_client s) = Some r \<and>
           se_refresh_jti r = se_refresh_jti s \<and> se_expires r = se_expires s"
    and "(t, e, c) \<noteq> (se_tenant s, se_email s, se_client s) \<Longrightarrow> session_at (db w') t e c = session_at (db w) t e c"
proof -
  from assms obtain i where up: "upsert_row session_same session_conflict
      (\<lambda>r. r\<lparr>se_refresh_jti := se_refresh_jti s, se_expires := se_expires s, se_modified := pg_now w\<rparr>)
      (s\<lparr>se_id := i, se_created := pg_now w, se_modified := pg_now w\<rparr>) (t_sessions (db w)) = Inr (t_sessions (db w'))"
    by (auto simp: session_Upsert_def op_inr stmt_defs)
  show "\<exists>r. session_at (db w') (se_tenant s) (se_email s) (se_client s) = Some r \<and>
           se_refresh_jti r = se_refresh_jti s \<and> se_expires r = se_expires s"
    using select_row_upsert [OF up, of "session_key (se_tenant s) (se_email s) (se_client s)"]
    by (auto simp: session_at_def session_key_def session_same_def split: option.splits)
  show "session_at (db w') t e c = session_at (db w) t e c"
    if "(t, e, c) \<noteq> (se_tenant s, se_email s, se_client s)"
    using select_row_upsert_other [OF up, of "session_key t e c"] that
    by (auto simp: session_at_def session_key_def session_same_def)
qed

lemma session_Rotate_Inr [op_inr]:
  "session_Rotate t e c cur nxt x w = (Inr b, w') \<longleftrightarrow> \<not> failing w \<and>
   b = (length (filter (\<lambda>r. session_key t e c r \<and> se_refresh_jti r = cur) (t_sessions (db w))) = 1) \<and>
   w' = (tick w)\<lparr>db := (db w)\<lparr>t_sessions :=
     map (\<lambda>r. if session_key t e c r \<and> se_refresh_jti r = cur
              then r\<lparr>se_refresh_jti := nxt, se_expires := x, se_modified := pg_now w\<rparr> else r) (t_sessions (db w))\<rparr>\<rparr>"
  by (auto simp: session_Rotate_def op_inr stmt_defs update_where_def)

lemma session_Delete_Inr [op_inr]:
  "session_Delete t e c w = (Inr u, w') \<longleftrightarrow> \<not> failing w \<and> session_at (db w) t e c \<noteq> None \<and>
   w' = (tick w)\<lparr>db := (db w)\<lparr>t_sessions := filter (\<lambda>r. \<not> session_key t e c r) (t_sessions (db w))\<rparr>\<rparr>"
  by (simp add: session_Delete_def session_at_def select_row_def op_inr stmt_defs delete_where_def throw_def
      find_None_iff_filter)

lemma session_DeleteAll_Inr [op_inr]:
  "session_DeleteAll t e w = (Inr u, w') \<longleftrightarrow> \<not> failing w \<and>
   w' = (tick w)\<lparr>db := (db w)\<lparr>t_sessions :=
     filter (\<lambda>r. \<not> (se_tenant r = t \<and> se_email r = e)) (t_sessions (db w))\<rparr>\<rparr>"
  by (auto simp: session_DeleteAll_def op_inr stmt_defs)

lemma session_DeleteAll_closes: "steps closes (session_DeleteAll t e)"
  unfolding session_DeleteAll_def by (rule closing.steps_exec) (auto simp: stmt_defs closes_def)

interpretation authn_sessions: session_revoker session_DeleteAll session_open
proof unfold_locales
  show "\<not> session_open (db w') t e" if "session_DeleteAll t e w = (Inr u, w')" for t e w u w'
    using that by (auto simp: op_inr session_open_def)
  show "steps closes (session_DeleteAll t e)" for t e by (rule session_DeleteAll_closes)
  show "session_open d t e" if "closes d d'" "session_open d' t e" for d d' t e
    using that by (auto simp: session_open_def closes_def)
qed

text \<open>At most one session per tenant, address and client, so a rotation hits at most one row.\<close>

lemma session_rows_unique:
  assumes "distinct (map (\<lambda>r. (se_tenant r, se_email r, se_client r)) (t_sessions d))"
  shows "filter (session_key t e c) (t_sessions d) =
    (case session_at d t e c of None \<Rightarrow> [] | Some r \<Rightarrow> [r])"
proof -
  have "filter (session_key t e c) ts = (case select_row (session_key t e c) ts of None \<Rightarrow> [] | Some r \<Rightarrow> [r])"
    if "distinct (map (\<lambda>r. (se_tenant r, se_email r, se_client r)) ts)" for ts
    using that
    by (induction ts) (auto simp: select_row_def session_key_def rev_image_eqI filter_empty_conv split: option.splits
        dest!: find_SomeD)
  with assms show ?thesis by (simp add: session_at_def)
qed

section \<open>Failed attempts\<close>

definition attempt_Get :: "string \<Rightarrow> string \<Rightarrow> failed_attempt_row option op" where
  "attempt_Get tenantID email =
     query (\<lambda>d. select_row (\<lambda>r. fa_tenant r = tenantID \<and> fa_email r = email) (t_failed_attempts d))"

text \<open>The columns and parameters of type \<open>int\<close> have 32 bits.\<close>

definition int4 :: "int \<Rightarrow> bool" where
  "int4 n \<longleftrightarrow> - (2 ^ 31) \<le> n \<and> n < 2 ^ 31"

definition lock_if :: "bool \<Rightarrow> instant \<Rightarrow> duration \<Rightarrow> instant option \<Rightarrow> instant option" where
  "lock_if b now lockFor otherwise = (if b then Some (instant_add now lockFor) else otherwise)"

definition attempt_Increment_stmt :: "string \<Rightarrow> string \<Rightarrow> int \<Rightarrow> duration \<Rightarrow> instant \<Rightarrow> database \<Rightarrow>
    pg_error + instant option \<times> database" where
  [stmt_defs]: "attempt_Increment_stmt tenantID email maxAttempts lockFor now d =
     (let row = \<lparr>fa_tenant = tenantID, fa_email = email, fa_count = 1,
            fa_locked_until = lock_if (maxAttempts \<le> 1) now lockFor None, fa_modified = now\<rparr>;
          upd = (\<lambda>r. r\<lparr>fa_count := fa_count r + 1,
            fa_locked_until := lock_if (maxAttempts \<le> fa_count r + 1) now lockFor (fa_locked_until r),
            fa_modified := now\<rparr>);
          old = select_row (\<lambda>r. failed_attempt_conflict r row) (t_failed_attempts d) in
      if \<not> int4 maxAttempts \<or> (case old of None \<Rightarrow> False | Some r \<Rightarrow> \<not> int4 (fa_count r + 1)) then Inl NumericOutOfRange
      else map_sum id
             (\<lambda>t. (fa_locked_until (case old of None \<Rightarrow> row | Some r \<Rightarrow> upd r), d\<lparr>t_failed_attempts := t\<rparr>))
             (upsert_row failed_attempt_conflict failed_attempt_conflict upd row (t_failed_attempts d)))"

definition IncrementAndLock :: "string \<Rightarrow> string \<Rightarrow> int \<Rightarrow> duration \<Rightarrow> instant option op" where
  "IncrementAndLock tenantID email maxAttempts lockFor =
     exec (attempt_Increment_stmt tenantID email maxAttempts lockFor)"

definition attempt_Clear_stmt :: "string \<Rightarrow> string \<Rightarrow> instant \<Rightarrow> database \<Rightarrow> pg_error + unit \<times> database" where
  [stmt_defs]: "attempt_Clear_stmt tenantID email now d =
     Inr ((), d\<lparr>t_failed_attempts :=
       snd (delete_where (\<lambda>r. fa_tenant r = tenantID \<and> fa_email r = email) (t_failed_attempts d))\<rparr>)"

definition attempt_Clear :: "string \<Rightarrow> string \<Rightarrow> unit op" where
  "attempt_Clear tenantID email = exec (attempt_Clear_stmt tenantID email)"

definition attempt_DeleteStale_stmt :: "duration \<Rightarrow> instant \<Rightarrow> database \<Rightarrow> pg_error + nat \<times> database" where
  [stmt_defs]: "attempt_DeleteStale_stmt olderThan now d =
     (let (n, t) = delete_where (\<lambda>r. fa_modified r < instant_add now (- olderThan)) (t_failed_attempts d) in
      Inr (n, d\<lparr>t_failed_attempts := t\<rparr>))"

definition DeleteStale :: "duration \<Rightarrow> nat op" where
  "DeleteStale olderThan = exec (attempt_DeleteStale_stmt olderThan)"

subsection \<open>Facts\<close>

definition attempt_at :: "database \<Rightarrow> string \<Rightarrow> string \<Rightarrow> failed_attempt_row option" where
  "attempt_at d t e = select_row (\<lambda>r. fa_tenant r = t \<and> fa_email r = e) (t_failed_attempts d)"

text \<open>The counter and the lock of an address, 0 and none where it has no row.\<close>

definition attempts :: "database \<Rightarrow> string \<Rightarrow> string \<Rightarrow> int \<times> instant option" where
  "attempts d t e = (case attempt_at d t e of None \<Rightarrow> (0, None) | Some r \<Rightarrow> (fa_count r, fa_locked_until r))"

lemma attempt_Get_Inr [op_inr]:
  "attempt_Get t e w = (Inr r, w') \<longleftrightarrow> \<not> failing w \<and> r = attempt_at (db w) t e \<and> w' = tick w"
  by (auto simp: attempt_Get_def attempt_at_def op_inr)

lemma attempt_Clear_Inr [op_inr]:
  "attempt_Clear t e w = (Inr u, w') \<longleftrightarrow> \<not> failing w \<and>
   w' = (tick w)\<lparr>db := (db w)\<lparr>t_failed_attempts :=
     filter (\<lambda>r. \<not> (fa_tenant r = t \<and> fa_email r = e)) (t_failed_attempts (db w))\<rparr>\<rparr>"
  by (auto simp: attempt_Clear_def op_inr stmt_defs)

lemma attempt_at_cleared [simp]:
  "attempt_at (d\<lparr>t_failed_attempts := filter (\<lambda>r. fa_tenant r = t \<longrightarrow> fa_email r \<noteq> e) (t_failed_attempts d)\<rparr>) t' e' =
   (if t' = t \<and> e' = e then None else attempt_at d t' e')"
  by (auto simp: attempt_at_def select_row_filter_none intro!: select_row_filter_same)

lemma IncrementAndLock_at:
  assumes "IncrementAndLock t e m lockFor w = (Inr l, w')"
  shows "attempts (db w') t e = (fst (attempts (db w) t e) + 1, l)"
    and "l = lock_if (m \<le> fst (attempts (db w) t e) + 1) (pg_now w) lockFor (snd (attempts (db w) t e))"
    and "(t', e') \<noteq> (t, e) \<Longrightarrow> attempt_at (db w') t' e' = attempt_at (db w) t' e'"
    and "db w' = (db w)\<lparr>t_failed_attempts := t_failed_attempts (db w')\<rparr>"
proof -
  let ?row = "\<lparr>fa_tenant = t, fa_email = e, fa_count = 1,
    fa_locked_until = lock_if (m \<le> 1) (pg_now w) lockFor None, fa_modified = pg_now w\<rparr>"
  let ?upd = "\<lambda>r. r\<lparr>fa_count := fa_count r + 1,
    fa_locked_until := lock_if (m \<le> fa_count r + 1) (pg_now w) lockFor (fa_locked_until r), fa_modified := pg_now w\<rparr>"
  have old: "select_row (\<lambda>r. failed_attempt_conflict r ?row) (t_failed_attempts (db w)) = attempt_at (db w) t e"
    by (simp add: attempt_at_def failed_attempt_conflict_def)
  from assms have up: "upsert_row failed_attempt_conflict failed_attempt_conflict ?upd ?row
      (t_failed_attempts (db w)) = Inr (t_failed_attempts (db w'))"
    and l: "l = fa_locked_until (case attempt_at (db w) t e of None \<Rightarrow> ?row | Some r \<Rightarrow> ?upd r)"
    and frame: "db w' = (db w)\<lparr>t_failed_attempts := t_failed_attempts (db w')\<rparr>"
    by (auto simp: IncrementAndLock_def op_inr stmt_defs Let_def old split: if_splits)
  have at: "attempt_at (db w') t e = Some (case attempt_at (db w) t e of None \<Rightarrow> ?row | Some r \<Rightarrow> ?upd r)"
    using select_row_upsert [OF up, of "\<lambda>r. fa_tenant r = t \<and> fa_email r = e"]
    by (simp add: attempt_at_def failed_attempt_conflict_def)
  then show "attempts (db w') t e = (fst (attempts (db w) t e) + 1, l)"
    and "l = lock_if (m \<le> fst (attempts (db w) t e) + 1) (pg_now w) lockFor (snd (attempts (db w) t e))"
    using l by (simp_all add: attempts_def split: option.splits)
  show "attempt_at (db w') t' e' = attempt_at (db w) t' e'" if "(t', e') \<noteq> (t, e)"
    using select_row_upsert_other [OF up, of "\<lambda>r. fa_tenant r = t' \<and> fa_email r = e'"] that
    by (auto simp: attempt_at_def failed_attempt_conflict_def)
  show "db w' = (db w)\<lparr>t_failed_attempts := t_failed_attempts (db w')\<rparr>" by (rule frame)
qed

text \<open>An increment goes through unless the connection fails or the counter would overflow.\<close>

lemma IncrementAndLock_succeeds:
  assumes "\<not> failing w" and "int4 m" and "int4 (fst (attempts (db w) t e) + 1)"
  obtains l w' where "IncrementAndLock t e m lockFor w = (Inr l, w')"
proof -
  let ?row = "\<lparr>fa_tenant = t, fa_email = e, fa_count = 1,
    fa_locked_until = lock_if (m \<le> 1) (pg_now w) lockFor None, fa_modified = pg_now w\<rparr>"
  let ?upd = "\<lambda>r. r\<lparr>fa_count := fa_count r + 1,
    fa_locked_until := lock_if (m \<le> fa_count r + 1) (pg_now w) lockFor (fa_locked_until r), fa_modified := pg_now w\<rparr>"
  have old: "select_row (\<lambda>r. failed_attempt_conflict r ?row) (t_failed_attempts (db w)) = attempt_at (db w) t e"
    by (simp add: attempt_at_def failed_attempt_conflict_def)
  obtain t' where "upsert_row failed_attempt_conflict failed_attempt_conflict ?upd ?row (t_failed_attempts (db w)) = Inr t'"
    using upsert_row_total [of failed_attempt_conflict ?row failed_attempt_conflict] by blast
  with assms that show ?thesis
    by (auto simp: IncrementAndLock_def exec_def stmt_defs Let_def old attempts_def split: option.splits)
qed

section \<open>Logon codes\<close>

definition code_Upsert_stmt :: "string \<Rightarrow> string \<Rightarrow> string \<Rightarrow> instant \<Rightarrow> instant \<Rightarrow> database \<Rightarrow>
    pg_error + unit \<times> database" where
  [stmt_defs]: "code_Upsert_stmt tenantID email codeHash expires now d =
     map_sum id (\<lambda>t. ((), d\<lparr>t_logon_codes := t\<rparr>))
       (upsert_row logon_code_conflict logon_code_conflict
          (\<lambda>r. r\<lparr>lc_code_hash := codeHash, lc_expires := expires, lc_created := now\<rparr>)
          \<lparr>lc_tenant = tenantID, lc_email = email, lc_code_hash = codeHash, lc_expires = expires,
           lc_created = now\<rparr>
          (t_logon_codes d))"

definition code_Upsert :: "string \<Rightarrow> string \<Rightarrow> string \<Rightarrow> instant \<Rightarrow> unit op" where
  "code_Upsert tenantID email codeHash expires = exec (code_Upsert_stmt tenantID email codeHash expires)"

definition code_Read :: "string \<Rightarrow> string \<Rightarrow> string op" where
  "code_Read tenantID email =
     bindE (query (\<lambda>d. select_row (\<lambda>r. lc_tenant r = tenantID \<and> lc_email r = email) (t_logon_codes d))) (\<lambda>row.
     case row of
       None \<Rightarrow> throw (AuthnErr LogonCodeInvalidError)
     | Some r \<Rightarrow>
         bindE time_now (\<lambda>now.
         if instant_after now (lc_expires r) then throw (AuthnErr LogonCodeExpiredError)
         else ret (lc_code_hash r)))"

definition code_Delete_stmt :: "string \<Rightarrow> string \<Rightarrow> instant \<Rightarrow> database \<Rightarrow> pg_error + unit \<times> database" where
  [stmt_defs]: "code_Delete_stmt tenantID email now d =
     Inr ((), d\<lparr>t_logon_codes :=
       snd (delete_where (\<lambda>r. lc_tenant r = tenantID \<and> lc_email r = email) (t_logon_codes d))\<rparr>)"

definition code_Delete :: "string \<Rightarrow> string \<Rightarrow> unit op" where
  "code_Delete tenantID email = exec (code_Delete_stmt tenantID email)"

definition code_DeleteExpired_stmt :: "instant \<Rightarrow> database \<Rightarrow> pg_error + nat \<times> database" where
  [stmt_defs]: "code_DeleteExpired_stmt now d =
     (let (n, t) = delete_where (\<lambda>r. lc_expires r < now) (t_logon_codes d) in
      Inr (n, d\<lparr>t_logon_codes := t\<rparr>))"

definition code_DeleteExpired :: "nat op" where
  "code_DeleteExpired = exec code_DeleteExpired_stmt"

subsection \<open>Facts\<close>

definition code_at :: "database \<Rightarrow> string \<Rightarrow> string \<Rightarrow> logon_code_row option" where
  "code_at d t e = select_row (\<lambda>r. lc_tenant r = t \<and> lc_email r = e) (t_logon_codes d)"

definition code_stored :: "database \<Rightarrow> string \<Rightarrow> string \<Rightarrow> (string \<times> instant) option" where
  "code_stored d t e = map_option (\<lambda>r. (lc_code_hash r, lc_expires r)) (code_at d t e)"

lemma code_Read_Inr [op_inr]:
  "code_Read t e w = (Inr h, w') \<longleftrightarrow>
   \<not> failing w \<and> (\<exists>x. code_stored (db w) t e = Some (h, x) \<and> \<not> x < wall w) \<and> w' = tick w"
  by (auto simp: code_Read_def code_stored_def code_at_def op_inr split: option.splits)

lemma code_Delete_Inr [op_inr]:
  "code_Delete t e w = (Inr u, w') \<longleftrightarrow> \<not> failing w \<and>
   w' = (tick w)\<lparr>db := (db w)\<lparr>t_logon_codes :=
     filter (\<lambda>r. \<not> (lc_tenant r = t \<and> lc_email r = e)) (t_logon_codes (db w))\<rparr>\<rparr>"
  by (auto simp: code_Delete_def op_inr stmt_defs)

lemma code_Upsert_at:
  assumes "code_Upsert t e h x w = (Inr u, w')"
  shows "code_stored (db w') t' e' = (if t' = t \<and> e' = e then Some (h, x) else code_stored (db w) t' e')"
proof -
  let ?r = "\<lparr>lc_tenant = t, lc_email = e, lc_code_hash = h, lc_expires = x, lc_created = pg_now w\<rparr>"
  let ?f = "\<lambda>r. r\<lparr>lc_code_hash := h, lc_expires := x, lc_created := pg_now w\<rparr>"
  from assms have up: "upsert_row logon_code_conflict logon_code_conflict ?f ?r
      (t_logon_codes (db w)) = Inr (t_logon_codes (db w'))"
    by (auto simp: code_Upsert_def op_inr stmt_defs)
  show ?thesis
  proof (cases "t' = t \<and> e' = e")
    case True
    then show ?thesis
      using select_row_upsert [OF up, of "\<lambda>r. lc_tenant r = t \<and> lc_email r = e"]
      by (simp add: code_stored_def code_at_def logon_code_conflict_def split: option.splits)
  next
    case False
    then show ?thesis
      using select_row_upsert_other [OF up, of "\<lambda>r. lc_tenant r = t' \<and> lc_email r = e'"]
      by (auto simp: code_stored_def code_at_def logon_code_conflict_def)
  qed
qed

lemma code_Delete_at:
  "code_Delete t e w = (Inr u, w') \<Longrightarrow>
   code_stored (db w') t' e' = (if t' = t \<and> e' = e then None else code_stored (db w) t' e')"
  by (auto simp: op_inr code_stored_def code_at_def select_row_filter_none
      intro!: arg_cong [where f = "map_option _"] select_row_filter_same)

interpretation codes: one_time_store code_Upsert code_Read code_Delete code_stored
  by unfold_locales (fact code_Upsert_at, fact code_Read_Inr, fact code_Delete_at)

end
