(* ===== verification/AccountRepository.thy ===== *)
theory AccountRepository
  imports Utils
begin

text \<open>
  \<open>src/internal/accounts/account_repository.go\<close>. The Go struct \<open>Account\<close> differs from the
  row: its name and its verification hash are plain strings, where the columns are
  nullable.
\<close>

record Account =
  Account_ID :: string
  Account_TenantID :: string
  Account_Email :: string
  Account_Name :: string
  Account_Verified :: bool
  Account_Enabled :: bool
  Account_Deleted :: bool
  Account_Created :: instant
  Account_Modified :: instant
  Account_PasswordHash :: string
  Account_VerificationHash :: string

definition nullableName :: "string \<Rightarrow> string option" where
  "nullableName nm = (if nm = [] then None else Some nm)"

section \<open>Insert\<close>

definition new_account_row :: "Account \<Rightarrow> bool \<Rightarrow> instant \<Rightarrow> account_row" where
  "new_account_row a verified now =
     \<lparr>ac_id = Account_ID a, ac_tenant = Account_TenantID a, ac_email = Account_Email a,
      ac_password_hash = Account_PasswordHash a, ac_verified = verified,
      ac_verification_hash = (if verified then None else Some (Account_VerificationHash a)),
      ac_enabled = True, ac_deleted = False, ac_created = now, ac_modified = now,
      ac_name = nullableName (Account_Name a)\<rparr>"

definition account_insert_stmt ::
    "Account \<Rightarrow> bool \<Rightarrow> instant \<Rightarrow> database \<Rightarrow> pg_error + (bool \<times> bool \<times> instant \<times> instant) \<times> database" where
  [stmt_defs]: "account_insert_stmt a verified now d =
     (let row = new_account_row a verified now in
      map_sum id (\<lambda>t. ((ac_enabled row, ac_deleted row, ac_created row, ac_modified row), d\<lparr>t_accounts := t\<rparr>))
        (insert_row account_conflict row (t_accounts d)))"

definition duplicate_account :: "string \<Rightarrow> go_error \<Rightarrow> go_error" where
  "duplicate_account email err =
     (if err = PgErr UniqueViolation then AccountErr (AccountDuplicateError email) else err)"

definition account_create :: "Account \<Rightarrow> bool \<Rightarrow> Account op" where
  "account_create account verified =
     bindE new_uuid (\<lambda>i.
     (let account = account\<lparr>Account_ID := i, Account_Verified := verified\<rparr> in
      bindE (map_err (duplicate_account (Account_Email account)) (exec (account_insert_stmt account verified)))
        (\<lambda>(enabled, deleted, created, modified).
      ret (account\<lparr>Account_Enabled := enabled, Account_Deleted := deleted,
                   Account_Created := created, Account_Modified := modified\<rparr>))))"

definition account_Create :: "Account \<Rightarrow> Account op" where
  "account_Create account = account_create account False"

definition account_CreateVerified :: "Account \<Rightarrow> Account op" where
  "account_CreateVerified account = account_create account True"

section \<open>Read\<close>

definition account_of_row :: "account_row \<Rightarrow> Account" where
  "account_of_row r =
     \<lparr>Account_ID = ac_id r, Account_TenantID = ac_tenant r, Account_Email = ac_email r,
      Account_Name = (case ac_name r of None \<Rightarrow> [] | Some n \<Rightarrow> n),
      Account_Verified = ac_verified r, Account_Enabled = ac_enabled r, Account_Deleted = ac_deleted r,
      Account_Created = ac_created r, Account_Modified = ac_modified r,
      Account_PasswordHash = ac_password_hash r,
      Account_VerificationHash = (case ac_verification_hash r of None \<Rightarrow> [] | Some h \<Rightarrow> h)\<rparr>"

definition account_read :: "(account_row \<Rightarrow> bool) \<Rightarrow> string \<Rightarrow> string \<Rightarrow> Account op" where
  "account_read predicate tenantID notFound =
     bindE (query (\<lambda>d. select_row (\<lambda>r. ac_tenant r = tenantID \<and> predicate r) (t_accounts d))) (\<lambda>row.
     case row of
       None \<Rightarrow> throw (AccountErr (AccountNotFoundError notFound))
     | Some r \<Rightarrow> ret (account_of_row r))"

definition account_Read :: "string \<Rightarrow> string \<Rightarrow> Account op" where
  "account_Read tenantID email = account_read (\<lambda>r. ac_email r = email) tenantID email"

text \<open>
  \<open>uuid.Parse\<close> also accepts forms PostgreSQL's cast refuses; the cast is in the query, and an
  error there is an error of the statement.
\<close>

definition account_ReadByID :: "crypto \<Rightarrow> string \<Rightarrow> string \<Rightarrow> Account op" where
  "account_ReadByID C tenantID i =
     (if \<not> uuid_parse C i then throw (AccountErr (AccountNotFoundError i))
      else bindE (exec (\<lambda>now d. case pg_uuid C i of
             None \<Rightarrow> Inl InvalidText
           | Some u \<Rightarrow> Inr (select_row (\<lambda>r. ac_tenant r = tenantID \<and> ac_id r = u) (t_accounts d), d))) (\<lambda>row.
           case row of
             None \<Rightarrow> throw (AccountErr (AccountNotFoundError i))
           | Some r \<Rightarrow> ret (account_of_row r)))"

section \<open>Updates\<close>

text \<open>Each update sets columns of the row of one address; no such row is an error.\<close>

definition account_update_stmt ::
    "(instant \<Rightarrow> account_row \<Rightarrow> account_row) \<Rightarrow> string \<Rightarrow> string \<Rightarrow> instant \<Rightarrow> database \<Rightarrow>
     pg_error + nat \<times> database" where
  "account_update_stmt f tenantID email now d =
     (let (n, t) = update_where (\<lambda>r. ac_tenant r = tenantID \<and> ac_email r = email) (f now) (t_accounts d) in
      Inr (n, d\<lparr>t_accounts := t\<rparr>))"

definition account_update :: "(instant \<Rightarrow> account_row \<Rightarrow> account_row) \<Rightarrow> string \<Rightarrow> string \<Rightarrow> unit op" where
  "account_update f tenantID email =
     bindE (exec (account_update_stmt f tenantID email)) (\<lambda>n.
     if n = 0 then throw (AccountErr (AccountNotFoundError email)) else ret ())"

definition set_verified :: "instant \<Rightarrow> account_row \<Rightarrow> account_row" where
  "set_verified now r = r\<lparr>ac_verified := True, ac_verification_hash := None, ac_modified := now\<rparr>"

definition set_verification_hash :: "string \<Rightarrow> instant \<Rightarrow> account_row \<Rightarrow> account_row" where
  "set_verification_hash h now r = r\<lparr>ac_verification_hash := Some h, ac_modified := now\<rparr>"

definition set_password_hash :: "string \<Rightarrow> instant \<Rightarrow> account_row \<Rightarrow> account_row" where
  "set_password_hash h now r = r\<lparr>ac_password_hash := h, ac_modified := now\<rparr>"

definition set_name :: "string \<Rightarrow> instant \<Rightarrow> account_row \<Rightarrow> account_row" where
  "set_name nm now r = r\<lparr>ac_name := nullableName nm, ac_modified := now\<rparr>"

definition set_deleted :: "instant \<Rightarrow> account_row \<Rightarrow> account_row" where
  "set_deleted now r = r\<lparr>ac_deleted := True, ac_modified := now\<rparr>"

lemmas account_setters =
  set_verified_def set_verification_hash_def set_password_hash_def set_name_def set_deleted_def

definition SetVerified :: "string \<Rightarrow> string \<Rightarrow> unit op" where
  "SetVerified tenantID email = account_update set_verified tenantID email"

definition UpdateVerificationHash :: "string \<Rightarrow> string \<Rightarrow> string \<Rightarrow> unit op" where
  "UpdateVerificationHash tenantID email h = account_update (set_verification_hash h) tenantID email"

definition UpdatePasswordHash :: "string \<Rightarrow> string \<Rightarrow> string \<Rightarrow> unit op" where
  "UpdatePasswordHash tenantID email h = account_update (set_password_hash h) tenantID email"

definition account_UpdateName :: "string \<Rightarrow> string \<Rightarrow> string \<Rightarrow> unit op" where
  "account_UpdateName tenantID email nm = account_update (set_name nm) tenantID email"

definition SoftDelete :: "string \<Rightarrow> string \<Rightarrow> unit op" where
  "SoftDelete tenantID email = account_update set_deleted tenantID email"

section \<open>Facts\<close>

text \<open>The row of an address.\<close>

definition account_at :: "database \<Rightarrow> string \<Rightarrow> string \<Rightarrow> account_row option" where
  "account_at d tenant email = select_row (\<lambda>r. ac_tenant r = tenant \<and> ac_email r = email) (t_accounts d)"

lemma account_at_SomeD:
  "account_at d t e = Some r \<Longrightarrow> r \<in> set (t_accounts d) \<and> ac_tenant r = t \<and> ac_email r = e"
  by (auto simp: account_at_def dest: select_row_SomeD)

lemma account_of_row_sel [simp]:
  "Account_ID (account_of_row r) = ac_id r" "Account_TenantID (account_of_row r) = ac_tenant r"
  "Account_Email (account_of_row r) = ac_email r" "Account_Verified (account_of_row r) = ac_verified r"
  "Account_Enabled (account_of_row r) = ac_enabled r" "Account_Deleted (account_of_row r) = ac_deleted r"
  "Account_PasswordHash (account_of_row r) = ac_password_hash r"
  by (simp_all add: account_of_row_def)

lemma account_Read_Inr [op_inr]:
  "account_Read t e w = (Inr a, w') \<longleftrightarrow>
   \<not> failing w \<and> (\<exists>r. account_at (db w) t e = Some r \<and> a = account_of_row r) \<and> w' = tick w"
  by (auto simp: account_Read_def account_read_def account_at_def op_inr split: option.splits)

lemma account_Read_None:
  "\<not> failing w \<Longrightarrow> account_at (db w) t e = None \<Longrightarrow>
   account_Read t e w = (Inl (AccountErr (AccountNotFoundError e)), tick w)"
  by (simp add: account_Read_def account_read_def account_at_def bindE_def attempt_def query_def
      exec_def tick_def throw_def)

lemma account_Read_Some:
  "\<not> failing w \<Longrightarrow> account_at (db w) t e = Some r \<Longrightarrow> account_Read t e w = (Inr (account_of_row r), tick w)"
  by (simp add: op_inr)

lemma new_account_row_sel [simp]:
  "ac_id (new_account_row a v now) = Account_ID a" "ac_tenant (new_account_row a v now) = Account_TenantID a"
  "ac_email (new_account_row a v now) = Account_Email a" "ac_verified (new_account_row a v now) = v"
  "ac_password_hash (new_account_row a v now) = Account_PasswordHash a"
  "ac_enabled (new_account_row a v now) = True" "ac_deleted (new_account_row a v now) = False"
  "ac_created (new_account_row a v now) = now" "ac_modified (new_account_row a v now) = now"
  by (simp_all add: new_account_row_def)

lemma account_create_Inr [op_inr]:
  "account_create a v w = (Inr a', w') \<longleftrightarrow>
   (\<exists>u us. uuids w = u # us \<and> \<not> failing w \<and>
     (\<forall>r\<in>set (t_accounts (db w)). ac_id r \<noteq> u \<and>
        \<not> (ac_tenant r = Account_TenantID a \<and> ac_email r = Account_Email a)) \<and>
     a' = a\<lparr>Account_ID := u, Account_Verified := v, Account_Enabled := True, Account_Deleted := False,
            Account_Created := pg_now w, Account_Modified := pg_now w\<rparr> \<and>
     w' = (tick w)\<lparr>uuids := us, db := (db w)\<lparr>t_accounts :=
            t_accounts (db w) @ [new_account_row (a\<lparr>Account_ID := u, Account_Verified := v\<rparr>) v (pg_now w)]\<rparr>\<rparr>)"
  by (auto simp: account_create_def op_inr stmt_defs Let_def insert_row_Inr account_conflict_def
      tick_def split: if_splits)

lemma account_update_Inr [op_inr]:
  "account_update f t e w = (Inr u, w') \<longleftrightarrow>
   \<not> failing w \<and> account_at (db w) t e \<noteq> None \<and>
   w' = (tick w)\<lparr>db := (db w)\<lparr>t_accounts :=
     map (\<lambda>r. if ac_tenant r = t \<and> ac_email r = e then f (pg_now w) r else r) (t_accounts (db w))\<rparr>\<rparr>"
  by (simp add: account_update_def account_update_stmt_def op_inr account_at_def select_row_def
      update_where_def throw_def find_None_iff_filter)

text \<open>What an update does to the rows of all addresses.\<close>

lemma account_at_update:
  assumes "\<And>r. ac_tenant (f r) = ac_tenant r" and "\<And>r. ac_email (f r) = ac_email r"
  shows "account_at (d\<lparr>t_accounts := map (\<lambda>r. if ac_tenant r = t \<and> ac_email r = e then f r else r) (t_accounts d)\<rparr>) t' e' =
    (if t' = t \<and> e' = e then map_option f (account_at d t e) else account_at d t' e')"
  using assms unfolding account_at_def by (auto intro!: select_row_update select_row_update_other)

end
