(* ===== verification/SigningKeys.thy ===== *)
theory SigningKeys
  imports Utils "HOL-Library.Multiset"
begin

text \<open>
  \<open>src/internal/tokens/tokens.go\<close> and \<open>signing_key_repository.go\<close>: the signing keys, their
  service and the published key set. PEM and the ASN.1 forms of the keys are fields of the
  parameter \<open>pki\<close>; the encodings of a JWK (big-endian bytes, base64url) are written out.
\<close>

section \<open>RSA keys and their encodings\<close>

record rsa_public =
  rsa_N :: nat
  rsa_E :: nat

record rsa_private =
  rsa_PublicKey :: rsa_public
  rsa_D :: nat

datatype any_public_key = RsaKey rsa_public | OtherKey

text \<open>
  \<open>rsa_GenerateKey bits bytes\<close> is \<open>rsa.GenerateKey\<close> with the random bytes it may draw and those it
  leaves; the other fields are the functions of \<open>encoding/pem\<close> and \<open>crypto/x509\<close>.
\<close>

record pki =
  rsa_GenerateKey :: "nat \<Rightarrow> byte list \<Rightarrow> string + rsa_private \<times> byte list"
  pem_EncodeToMemory :: "string \<Rightarrow> byte list \<Rightarrow> string"
  pem_Decode :: "string \<Rightarrow> byte list option"
  MarshalPKCS1PrivateKey :: "rsa_private \<Rightarrow> byte list"
  ParsePKCS1PrivateKey :: "byte list \<Rightarrow> string + rsa_private"
  MarshalPKIXPublicKey :: "rsa_public \<Rightarrow> string + byte list"
  ParsePKIXPublicKey :: "byte list \<Rightarrow> string + any_public_key"

text \<open>What their documentation says of them: each parse undoes its marshal.\<close>

definition pki_ok :: "pki \<Rightarrow> bool" where
  "pki_ok K \<longleftrightarrow>
     (\<forall>ty bs. pem_Decode K (pem_EncodeToMemory K ty bs) = Some bs) \<and>
     (\<forall>k. ParsePKCS1PrivateKey K (MarshalPKCS1PrivateKey K k) = Inr k) \<and>
     (\<forall>k bs. MarshalPKIXPublicKey K k = Inr bs \<longrightarrow> ParsePKIXPublicKey K bs = Inr (RsaKey k))"

definition ParsePrivateKey :: "pki \<Rightarrow> string \<Rightarrow> go_error + rsa_private" where
  "ParsePrivateKey K keyPEM =
     (case pem_Decode K keyPEM of
        None \<Rightarrow> Inl (PlainErr ''failed to decode private key PEM block'')
      | Some block \<Rightarrow> map_sum PlainErr id (ParsePKCS1PrivateKey K block))"

definition ParsePublicKey :: "pki \<Rightarrow> string \<Rightarrow> go_error + rsa_public" where
  "ParsePublicKey K keyPEM =
     (case pem_Decode K keyPEM of
        None \<Rightarrow> Inl (PlainErr ''failed to decode public key PEM block'')
      | Some block \<Rightarrow>
          (case ParsePKIXPublicKey K block of
             Inl e \<Rightarrow> Inl (PlainErr e)
           | Inr (RsaKey k) \<Rightarrow> Inr k
           | Inr OtherKey \<Rightarrow> Inl (PlainErr ''public key is not RSA'')))"

text \<open>\<open>big.Int.Bytes\<close>: the big-endian bytes, none for zero.\<close>

fun nat_Bytes :: "nat \<Rightarrow> byte list" where
  "nat_Bytes n = (if n = 0 then [] else nat_Bytes (n div 256) @ [of_nat (n mod 256)])"

declare nat_Bytes.simps [simp del]

definition nat_of_Bytes :: "byte list \<Rightarrow> nat" where
  "nat_of_Bytes bs = foldl (\<lambda>n b. 256 * n + unat b) 0 bs"

text \<open>\<open>base64.RawURLEncoding\<close>: three bytes to four characters, a shorter rest without padding.\<close>

definition base64url_alphabet :: string where
  "base64url_alphabet = ''ABCDEFGHIJKLMNOPQRSTUVWXYZabcdefghijklmnopqrstuvwxyz0123456789-_''"

definition b64 :: "nat \<Rightarrow> char" where
  "b64 n = base64url_alphabet ! n"

fun base64url :: "byte list \<Rightarrow> string" where
  "base64url [] = []"
| "base64url [a] = (let n = unat a in [b64 (n div 4), b64 (n mod 4 * 16)])"
| "base64url [a, b] =
     (let n = unat a * 256 + unat b in [b64 (n div 1024), b64 (n div 16 mod 64), b64 (n mod 16 * 4)])"
| "base64url (a # b # c # bs) =
     (let n = (unat a * 256 + unat b) * 256 + unat c in
      b64 (n div 262144) # b64 (n div 4096 mod 64) # b64 (n div 64 mod 64) # b64 (n mod 64) #
      base64url bs)"

text \<open>The decoder a relying party runs.\<close>

fun index_of :: "char \<Rightarrow> string \<Rightarrow> nat option" where
  "index_of c [] = None"
| "index_of c (x # xs) = (if c = x then Some 0 else map_option Suc (index_of c xs))"

definition unb64 :: "char \<Rightarrow> nat" where
  "unb64 c = (case index_of c base64url_alphabet of None \<Rightarrow> 0 | Some n \<Rightarrow> n)"

fun base64url_decode :: "string \<Rightarrow> byte list" where
  "base64url_decode (p # q # r # s # rest) =
     (let n = ((unb64 p * 64 + unb64 q) * 64 + unb64 r) * 64 + unb64 s in
      of_nat (n div 65536) # of_nat (n div 256 mod 256) # of_nat (n mod 256) # base64url_decode rest)"
| "base64url_decode [p, q, r] =
     (let n = (unb64 p * 64 + unb64 q) * 64 + unb64 r in
      [of_nat (n div 1024), of_nat (n div 4 mod 256)])"
| "base64url_decode [p, q] = [of_nat ((unb64 p * 64 + unb64 q) div 16)]"
| "base64url_decode _ = []"

section \<open>signing_key_repository.go\<close>

text \<open>
  \<open>ORDER BY created\<close> leaves the order of rows created at the same instant open; the model
  takes the order of the table. The Go struct \<open>SigningKey\<close> has the fields of
  \<open>signing_key_row\<close>; \<open>created\<close> defaults to \<open>now()\<close>.
\<close>

definition signing_key_Create_stmt ::
    "signing_key_row \<Rightarrow> instant \<Rightarrow> database \<Rightarrow> pg_error + unit \<times> database" where
  [stmt_defs]: "signing_key_Create_stmt key now d =
     map_sum id (\<lambda>t. ((), d\<lparr>t_signing_keys := t\<rparr>))
       (insert_row signing_key_conflict (key\<lparr>sk_created := now\<rparr>) (t_signing_keys d))"

definition signing_key_Create :: "signing_key_row \<Rightarrow> unit op" where
  "signing_key_Create key = exec (signing_key_Create_stmt key)"

definition by_created :: "signing_key_row list \<Rightarrow> signing_key_row list" where
  "by_created ks = sort_key sk_created ks"

definition signing_key_ReadAll :: "signing_key_row list op" where
  "signing_key_ReadAll = query (\<lambda>d. by_created (t_signing_keys d))"

definition latest_key :: "signing_key_row list \<Rightarrow> signing_key_row option" where
  "latest_key ks = (case by_created ks of [] \<Rightarrow> None | k # ks' \<Rightarrow> Some (last (k # ks')))"

definition signing_key_ReadLatest :: "signing_key_row op" where
  "signing_key_ReadLatest =
     bindE (query (\<lambda>d. latest_key (t_signing_keys d))) (\<lambda>row.
     case row of
       None \<Rightarrow> throw (TokenErr NoSigningKeyError)
     | Some key \<Rightarrow> ret key)"

section \<open>tokens.go: the service\<close>

definition rsa_GenerateKey_op :: "pki \<Rightarrow> nat \<Rightarrow> rsa_private op" where
  "rsa_GenerateKey_op K bits w = (case rsa_GenerateKey K bits (rng w) of
       Inl e \<Rightarrow> (Inl (PlainErr e), w)
     | Inr (k, bs) \<Rightarrow> (Inr k, w\<lparr>rng := bs\<rparr>))"

definition generateSigningKey :: "pki \<Rightarrow> signing_key_row op" where
  "generateSigningKey K =
     bindE new_uuid (\<lambda>kid.
     bindE (rsa_GenerateKey_op K 2048) (\<lambda>privateKey.
     (let privatePEM = pem_EncodeToMemory K ''RSA PRIVATE KEY'' (MarshalPKCS1PrivateKey K privateKey) in
      case MarshalPKIXPublicKey K (rsa_PublicKey privateKey) of
        Inl e \<Rightarrow> throw (PlainErr e)
      | Inr publicBytes \<Rightarrow>
          ret \<lparr>sk_id = kid, sk_algorithm = ''RS256'', sk_private_pem = privatePEM,
               sk_public_pem = pem_EncodeToMemory K ''PUBLIC KEY'' publicBytes,
               sk_created = zero_instant\<rparr>)))"

definition Initialize :: "pki \<Rightarrow> unit op" where
  "Initialize K =
     attempt signing_key_ReadLatest (\<lambda>r.
     case r of
       Inr _ \<Rightarrow> ret ()
     | Inl err \<Rightarrow>
         (if err \<noteq> TokenErr NoSigningKeyError then throw err
          else bindE (generateSigningKey K) (\<lambda>key. signing_key_Create key)))"

definition Keys :: "signing_key_row list op" where
  "Keys = signing_key_ReadAll"

definition Latest :: "signing_key_row op" where
  "Latest = signing_key_ReadLatest"

record JWK =
  jwk_kty :: string
  jwk_use :: string
  jwk_alg :: string
  jwk_kid :: string
  jwk_n :: string
  jwk_e :: string

definition jwk_of :: "signing_key_row \<Rightarrow> rsa_public \<Rightarrow> JWK" where
  "jwk_of key publicKey =
     \<lparr>jwk_kty = ''RSA'', jwk_use = ''sig'', jwk_alg = sk_algorithm key, jwk_kid = sk_id key,
      jwk_n = base64url (nat_Bytes (rsa_N publicKey)),
      jwk_e = base64url (nat_Bytes (rsa_E publicKey))\<rparr>"

fun jwks_of :: "pki \<Rightarrow> signing_key_row list \<Rightarrow> go_error + JWK list" where
  "jwks_of K [] = Inr []"
| "jwks_of K (key # keys) =
     (case ParsePublicKey K (sk_public_pem key) of
        Inl err \<Rightarrow> Inl err
      | Inr publicKey \<Rightarrow> map_sum id (\<lambda>js. jwk_of key publicKey # js) (jwks_of K keys))"

definition JWKS :: "pki \<Rightarrow> JWK list op" where
  "JWKS K = bindE signing_key_ReadAll (\<lambda>keys. lift_result (jwks_of K keys))"

section \<open>The encodings undo\<close>

lemma nat_of_Bytes_append: "nat_of_Bytes (bs @ [b]) = 256 * nat_of_Bytes bs + unat b"
  by (simp add: nat_of_Bytes_def)

lemma nat_of_Bytes_Bytes [simp]: "nat_of_Bytes (nat_Bytes n) = n"
proof (induction n rule: nat_Bytes.induct)
  case (1 n)
  show ?case
  proof (cases "n = 0")
    case True
    then show ?thesis by (simp add: nat_Bytes.simps nat_of_Bytes_def)
  next
    case False
    then show ?thesis
      using 1 by (subst nat_Bytes.simps)
        (simp add: nat_of_Bytes_append unsigned_of_nat take_bit_nat_eq_self)
  qed
qed

lemma distinct_alphabet: "distinct base64url_alphabet" and length_alphabet: "length base64url_alphabet = 64"
  by (simp_all add: base64url_alphabet_def)

lemma index_of_nth: "distinct xs \<Longrightarrow> n < length xs \<Longrightarrow> index_of (xs ! n) xs = Some n"
proof (induction xs arbitrary: n)
  case (Cons x xs)
  then show ?case by (cases n) auto
qed simp

lemma unb64_b64 [simp]: "n < 64 \<Longrightarrow> unb64 (b64 n) = n"
  by (simp add: unb64_def b64_def index_of_nth distinct_alphabet length_alphabet)

lemma unat_byte_bound: "unat (b :: byte) < 256"
  using unsigned_less [of b] by simp

lemma sextets3: "((n div 262144 * 64 + n div 4096 mod 64) * 64 + n div 64 mod 64) * 64 + n mod 64 = (n :: nat)"
proof -
  have "n div 262144 = n div 4096 div 64" "n div 4096 = n div 64 div 64"
    by (simp_all flip: div_mult2_eq)
  then show ?thesis by (metis div_mult_mod_eq)
qed

lemma sextets2: "(n div 1024 * 64 + n div 16 mod 64) * 64 + n mod 16 * 4 = (n :: nat) * 4"
proof -
  have "n div 1024 * 64 + n div 16 mod 64 = n div 16"
    using div_mult_mod_eq [of "n div 16" 64] by (simp flip: div_mult2_eq)
  moreover have "q * 16 + r = n \<Longrightarrow> q * 64 + r * 4 = n * 4" for q r :: nat by simp
  ultimately show ?thesis using div_mult_mod_eq [of n 16] by presburger
qed

lemma base64url_three:
  "base64url_decode (base64url (a # b # c # bs)) = a # b # c # base64url_decode (base64url bs)"
proof -
  define n where "n = (unat a * 256 + unat b) * 256 + unat c"
  have c: "unat c < 256" and b: "unat b < 256" and "unat a < 256" by (rule unat_byte_bound)+
  then have "n < 16777216" by (simp add: n_def)
  then have "n div 262144 < 64" by (simp add: less_mult_imp_div_less)
  then have "base64url_decode (base64url (a # b # c # bs)) =
      of_nat (n div 65536) # of_nat (n div 256 mod 256) # of_nat (n mod 256) # base64url_decode (base64url bs)"
    by (simp only: base64url.simps base64url_decode.simps Let_def unb64_b64 sextets3 mod_less_divisor flip: n_def)
  moreover have "n div 256 = unat a * 256 + unat b" "n mod 256 = unat c"
    using c unfolding n_def by (simp_all only: div_mult_self3 mod_mult_self3 div_less mod_less)
  moreover have "n div 65536 = n div 256 div 256" by (simp flip: div_mult2_eq)
  ultimately show ?thesis using b by simp
qed

lemma base64url_two: "base64url_decode (base64url [a, b]) = [a, b]"
proof -
  define n where "n = unat a * 256 + unat b"
  have b: "unat b < 256" and "unat a < 256" by (rule unat_byte_bound)+
  then have "n < 65536" by (simp add: n_def)
  then have "n div 1024 < 64" "n mod 16 * 4 < 64" by (simp_all add: less_mult_imp_div_less)
  then have "base64url_decode (base64url [a, b]) = [of_nat (n * 4 div 1024), of_nat (n * 4 div 4 mod 256)]"
    by (simp only: base64url.simps base64url_decode.simps Let_def unb64_b64 sextets2 mod_less_divisor flip: n_def)
  moreover have "n * 4 div 1024 = n div 256" using div_mult_mult2 [of 4 n 256] by simp
  moreover have "n div 256 = unat a" "n mod 256 = unat b"
    using b by (simp_all add: n_def)
  ultimately show ?thesis by simp
qed

lemma base64url_one: "base64url_decode (base64url [a]) = [a]"
proof -
  have "unat a < 256" by (rule unat_byte_bound)
  then have "unat a div 4 < 64" "unat a mod 4 * 16 < 64" by (simp_all add: less_mult_imp_div_less)
  moreover have "(unat a div 4 * 64 + unat a mod 4 * 16) div 16 = unat a"
    using div_mult_mod_eq [of "unat a" 4] by simp
  ultimately show ?thesis by (simp add: Let_def)
qed

lemma base64url_roundtrip [simp]: "base64url_decode (base64url bs) = bs"
proof (induction bs rule: base64url.induct)
  case (4 a b c bs)
  then show ?case by (simp only: base64url_three)
qed (simp_all only: base64url_one base64url_two, simp)

section \<open>Facts on the service\<close>

lemma set_by_created [simp]: "set (by_created ks) = set ks"
  by (simp add: by_created_def)

lemma distinct_by_created: "distinct (map sk_id ks) \<Longrightarrow> distinct (map sk_id (by_created ks))"
  unfolding by_created_def by (metis mset_map mset_sort mset_eq_imp_distinct_iff)

lemma latest_key_None: "latest_key ks = None \<longleftrightarrow> ks = []"
proof -
  have "by_created ks = [] \<longleftrightarrow> ks = []" by (metis set_by_created set_empty)
  then show ?thesis by (auto simp: latest_key_def split: list.splits)
qed

lemma signing_key_ReadLatest_eq:
  "signing_key_ReadLatest w =
     (if failing w then (Inl (PgErr ConnectionFailure), tick w)
      else case latest_key (t_signing_keys (db w)) of
        None \<Rightarrow> (Inl (TokenErr NoSigningKeyError), tick w)
      | Some k \<Rightarrow> (Inr k, tick w))"
  by (simp add: signing_key_ReadLatest_def bindE_def attempt_def query_def exec_def tick_def ret_def throw_def
      split: option.split)

lemma jwks_of_Inr:
  "jwks_of K keys = Inr js \<Longrightarrow>
   list_all2 (\<lambda>key j. \<exists>k. ParsePublicKey K (sk_public_pem key) = Inr k \<and> j = jwk_of key k) keys js"
  by (induction keys arbitrary: js) (auto split: sum.splits)

text \<open>A key whose two PEM texts hold one key pair.\<close>

definition key_pair_of :: "pki \<Rightarrow> signing_key_row \<Rightarrow> rsa_private option" where
  "key_pair_of K r =
     (case (ParsePrivateKey K (sk_private_pem r), ParsePublicKey K (sk_public_pem r)) of
        (Inr k, Inr p) \<Rightarrow> if p = rsa_PublicKey k then Some k else None
      | _ \<Rightarrow> None)"

lemma key_pair_of_Some:
  "key_pair_of K r = Some k \<longleftrightarrow>
   ParsePrivateKey K (sk_private_pem r) = Inr k \<and> ParsePublicKey K (sk_public_pem r) = Inr (rsa_PublicKey k)"
  by (auto simp: key_pair_of_def split: sum.splits if_splits)

lemma rsa_GenerateKey_op_Inr [op_inr]:
  "rsa_GenerateKey_op K n w = (Inr k, w') \<longleftrightarrow>
   (\<exists>bs. rsa_GenerateKey K n (rng w) = Inr (k, bs) \<and> w' = w\<lparr>rng := bs\<rparr>)"
  by (auto simp: rsa_GenerateKey_op_def split: sum.splits)

lemma generateSigningKey_pair:
  assumes "pki_ok K" and "generateSigningKey K w = (Inr r, w')"
  shows "key_pair_of K r \<noteq> None" and "sk_algorithm r = ''RS256''" and "db w' = db w"
proof -
  from assms(2) obtain u us k bs pub where "uuids w = u # us"
    and k: "rsa_GenerateKey K 2048 (rng w) = Inr (k, bs)"
    and pub: "MarshalPKIXPublicKey K (rsa_PublicKey k) = Inr pub"
    and r: "r = \<lparr>sk_id = u, sk_algorithm = ''RS256'',
        sk_private_pem = pem_EncodeToMemory K ''RSA PRIVATE KEY'' (MarshalPKCS1PrivateKey K k),
        sk_public_pem = pem_EncodeToMemory K ''PUBLIC KEY'' pub, sk_created = zero_instant\<rparr>"
    and w': "w' = w\<lparr>uuids := us, rng := bs\<rparr>"
    by (auto simp: generateSigningKey_def op_inr Let_def split: sum.splits)
  from assms(1) pub have "key_pair_of K r = Some k"
    by (auto simp: key_pair_of_Some r ParsePrivateKey_def ParsePublicKey_def pki_ok_def)
  then show "key_pair_of K r \<noteq> None" by simp
  show "sk_algorithm r = ''RS256''" "db w' = db w" by (simp_all add: r w')
qed

section \<open>A concrete instance\<close>

text \<open>Numbers in unary, PEM as the bytes themselves.\<close>

definition unary :: "nat \<Rightarrow> byte list" where
  "unary n = replicate n 1 @ [0]"

definition read_unary :: "byte list \<Rightarrow> nat \<times> byte list" where
  "read_unary bs = (length (takeWhile (\<lambda>b. b = 1) bs), tl (dropWhile (\<lambda>b. b = 1) bs))"

lemma read_unary [simp]: "read_unary (unary n @ bs) = (n, bs)"
  by (induction n) (auto simp: read_unary_def unary_def)

definition sample_key :: rsa_private where
  "sample_key = \<lparr>rsa_PublicKey = \<lparr>rsa_N = 33, rsa_E = 3\<rparr>, rsa_D = 7\<rparr>"

definition sample_pki :: pki where
  "sample_pki = \<lparr>rsa_GenerateKey = (\<lambda>bits bs. Inr (sample_key, bs)),
     pem_EncodeToMemory = (\<lambda>ty bs. map (\<lambda>b. char_of (unat b)) bs),
     pem_Decode = (\<lambda>s. Some (bytes_of s)),
     MarshalPKCS1PrivateKey = (\<lambda>k. unary (rsa_N (rsa_PublicKey k)) @ unary (rsa_E (rsa_PublicKey k)) @ unary (rsa_D k)),
     ParsePKCS1PrivateKey = (\<lambda>bs. case read_unary bs of (n, bs) \<Rightarrow> case read_unary bs of (e, bs) \<Rightarrow>
       case read_unary bs of (d, _) \<Rightarrow> Inr \<lparr>rsa_PublicKey = \<lparr>rsa_N = n, rsa_E = e\<rparr>, rsa_D = d\<rparr>),
     MarshalPKIXPublicKey = (\<lambda>p. Inr (unary (rsa_N p) @ unary (rsa_E p))),
     ParsePKIXPublicKey = (\<lambda>bs. case read_unary bs of (n, bs) \<Rightarrow> case read_unary bs of (e, _) \<Rightarrow>
       Inr (RsaKey \<lparr>rsa_N = n, rsa_E = e\<rparr>))\<rparr>"

lemma read_unary_end [simp]: "read_unary (unary n) = (n, [])"
  using read_unary [of n "[]"] by simp

lemma pki_ok_sample: "pki_ok sample_pki"
proof -
  have "of_char (char_of (unat b)) = b" for b :: byte
  proof -
    have "(of_char (char_of (unat b)) :: byte) = of_nat (of_char (char_of (unat b)))"
      by (simp only: of_nat_of_char)
    also have "\<dots> = of_nat (unat b)"
      using unat_byte_bound [of b] by (simp only: of_char_of mod_less)
    finally show ?thesis by simp
  qed
  then have "bytes_of (map (\<lambda>b. char_of (unat b)) bs) = bs" for bs
    by (induction bs) (simp_all add: bytes_of_def)
  then show ?thesis by (auto simp: pki_ok_def sample_pki_def)
qed

section \<open>Properties\<close>

text \<open>
  The published key set. When \<open>JWKS\<close> succeeds it has one entry per stored signing key, in
  the order of creation, under the key's id and algorithm, and a relying party that decodes the
  base64url big-endian numbers of the entry gets back the modulus and the exponent of the public
  key in the stored PEM. The database is only read.
\<close>

theorem jwks_publishes_every_key:
  assumes "JWKS K w = (Inr js, w')"
  shows "list_all2 (\<lambda>key j. \<exists>p. ParsePublicKey K (sk_public_pem key) = Inr p \<and>
           jwk_kid j = sk_id key \<and> jwk_alg j = sk_algorithm key \<and> jwk_kty j = ''RSA'' \<and>
           nat_of_Bytes (base64url_decode (jwk_n j)) = rsa_N p \<and>
           nat_of_Bytes (base64url_decode (jwk_e j)) = rsa_E p)
         (by_created (t_signing_keys (db w))) js \<and> db w' = db w"
proof -
  from assms have "jwks_of K (by_created (t_signing_keys (db w))) = Inr js" and "db w' = db w"
    by (auto simp: JWKS_def signing_key_ReadAll_def op_inr)
  then show ?thesis
    by (auto simp: jwk_of_def elim!: list_all2_mono dest!: jwks_of_Inr)
qed

definition sample_key_row :: "string \<Rightarrow> int \<Rightarrow> signing_key_row" where
  "sample_key_row kid n = \<lparr>sk_id = kid, sk_algorithm = ''RS256'',
     sk_private_pem = pem_EncodeToMemory sample_pki ''RSA PRIVATE KEY'' (MarshalPKCS1PrivateKey sample_pki sample_key),
     sk_public_pem = pem_EncodeToMemory sample_pki ''PUBLIC KEY'' (unary 33 @ unary 3),
     sk_created = Instant n\<rparr>"

lemma sample_key_pair: "key_pair_of sample_pki (sample_key_row kid n) = Some sample_key"
  using pki_ok_sample
  by (auto simp: key_pair_of_Some sample_key_row_def ParsePrivateKey_def ParsePublicKey_def pki_ok_def)
    (simp add: sample_pki_def sample_key_def)

lemma JWKS_sample:
  "JWKS sample_pki (sample_world (empty_db\<lparr>t_signing_keys := [sample_key_row ''k1'' 5]\<rparr>) 9 []) =
   (Inr [jwk_of (sample_key_row ''k1'' 5) (rsa_PublicKey sample_key)],
    tick (sample_world (empty_db\<lparr>t_signing_keys := [sample_key_row ''k1'' 5]\<rparr>) 9 []))"
  using sample_key_pair [of "''k1''" 5]
  by (simp add: JWKS_def signing_key_ReadAll_def by_created_def key_pair_of_Some op_inr)

theorem jwks_publishes_every_key_witness:
  "list_all2 (\<lambda>key j. \<exists>p. ParsePublicKey sample_pki (sk_public_pem key) = Inr p \<and>
           jwk_kid j = sk_id key \<and> jwk_alg j = sk_algorithm key \<and> jwk_kty j = ''RSA'' \<and>
           nat_of_Bytes (base64url_decode (jwk_n j)) = rsa_N p \<and>
           nat_of_Bytes (base64url_decode (jwk_e j)) = rsa_E p)
         (by_created [sample_key_row ''k1'' 5])
         [jwk_of (sample_key_row ''k1'' 5) (rsa_PublicKey sample_key)]"
  using jwks_publishes_every_key [OF JWKS_sample] by simp

text \<open>The effect of a successful \<open>Initialize\<close>.\<close>

lemma Initialize_effect:
  assumes "pki_ok K" and "Initialize K w = (Inr u, w')"
  shows "t_signing_keys (db w') \<noteq> [] \<and>
         (t_signing_keys (db w) \<noteq> [] \<longrightarrow> db w' = db w) \<and>
         (t_signing_keys (db w) = [] \<longrightarrow>
            (\<exists>r. t_signing_keys (db w') = [r] \<and> key_pair_of K r \<noteq> None \<and> sk_algorithm r = ''RS256''))"
proof (cases "latest_key (t_signing_keys (db w))")
  case (Some r)
  have "t_signing_keys (db w) \<noteq> []" using Some by (auto simp: latest_key_def by_created_def)
  moreover have "db w' = db w"
    using assms(2) Some
    by (cases "failing w") (auto simp: Initialize_def attempt_def signing_key_ReadLatest_eq ret_def throw_def)
  ultimately show ?thesis by simp
next
  case None
  then have empty: "t_signing_keys (db w) = []" by (simp add: latest_key_None)
  have run: "bindE (generateSigningKey K) signing_key_Create (tick w) = (Inr u, w')"
    using assms(2) None
    by (cases "failing w") (auto simp: Initialize_def attempt_def signing_key_ReadLatest_eq throw_def)
  from run obtain key w1 where key: "generateSigningKey K (tick w) = (Inr key, w1)"
    and ins: "signing_key_Create key w1 = (Inr u, w')" unfolding bindE_Inr by blast
  note pair = generateSigningKey_pair [OF assms(1) key]
  have "t_signing_keys (db w1) = []" using pair(3) empty by simp
  with ins have stored: "t_signing_keys (db w') = [key\<lparr>sk_created := pg_now w1\<rparr>]"
    unfolding signing_key_Create_def exec_Inr by (auto simp: signing_key_Create_stmt_def insert_row_def)
  have "key_pair_of K (key\<lparr>sk_created := pg_now w1\<rparr>) \<noteq> None"
    using pair(1) by (simp add: key_pair_of_def)
  then show ?thesis using pair(2) empty stored by simp
qed

text \<open>
  \<open>Initialize\<close> is idempotent and never touches a stored key: after a successful run there
  is a signing key, every key stored before is still there, and where there was one the database
  is unchanged. The key it makes from an empty table holds a matching pair.
\<close>

theorem Initialize_makes_one_key:
  assumes "pki_ok K" and "Initialize K w = (Inr u, w')"
  shows "t_signing_keys (db w') \<noteq> [] \<and>
         (t_signing_keys (db w) \<noteq> [] \<longrightarrow> db w' = db w) \<and>
         (t_signing_keys (db w) = [] \<longrightarrow>
            (\<exists>r. t_signing_keys (db w') = [r] \<and> key_pair_of K r \<noteq> None \<and> sk_algorithm r = ''RS256''))"
  by (rule Initialize_effect [OF assms])

theorem Initialize_makes_one_key_witness:
  "\<exists>w' :: world. \<exists>r. t_signing_keys (db w') = [r] \<and> key_pair_of sample_pki r \<noteq> None"
proof -
  define w where "w = sample_world empty_db 9 [''k1'']"
  obtain r w' where run: "Initialize sample_pki w = (r, w')" by fastforce
  have "r = Inr ()"
    using run
    by (simp add: w_def Initialize_def attempt_def signing_key_ReadLatest_eq empty_db_def latest_key_def by_created_def)
      (simp add: bindE_def attempt_def generateSigningKey_def new_uuid_def rsa_GenerateKey_op_def sample_pki_def ret_def
        signing_key_Create_def exec_def stmt_defs insert_row_def sample_world_def failing_def tick_def Let_def)
  with run have "Initialize sample_pki w = (Inr (), w')" by simp
  from Initialize_makes_one_key [OF pki_ok_sample this]
  have "\<exists>r. t_signing_keys (db w') = [r] \<and> key_pair_of sample_pki r \<noteq> None"
    by (auto simp: w_def empty_db_def)
  then show ?thesis by blast
qed

end
