(* ===== verification/Tokenizer.thy ===== *)
theory Tokenizer
  imports SigningKeys
begin

text \<open>
  \<open>src/internal/tokens/tokenizer.go\<close>: signing and validating the access and refresh tokens.
  The JWT package is the parameter \<open>jwt_lib\<close>; a token is a value of the type \<open>'tok\<close>, which
  nothing but the package reads.
\<close>

definition UseAccess :: string where "UseAccess = ''access''"
definition UseRefresh :: string where "UseRefresh = ''refresh''"

text \<open>
  \<open>AccessClaims\<close> and \<open>RefreshClaims\<close> have the same fields. A header entry that is missing or
  not a string is \<open>None\<close>.
\<close>

record token_claims =
  claim_TenantID :: string
  claim_ClientID :: string
  claim_ID :: string
  claim_Subject :: string
  claim_Issuer :: string
  claim_Audience :: "string list"
  claim_ExpiresAt :: "instant option"
  claim_IssuedAt :: "instant option"
  claim_NotBefore :: "instant option"

record token_header =
  hd_alg :: string
  hd_kid :: "string option"
  hd_use :: "string option"

record parser_options =
  WithIssuer :: string
  WithAudience :: string
  WithExpirationRequired :: bool

text \<open>
  \<open>jwt_SignedString\<close> signs header and claims; \<open>jwt_ParseWithClaims\<close> takes the key function, the options
  and the time, and returns the claims and \<open>Valid\<close>. \<open>jwt_parts\<close> and \<open>jwt_verifies\<close>, what a
  token carries and which keys verify its signature, state what the package promises.
\<close>

record 'tok jwt_lib =
  jwt_NumericDate :: "instant \<Rightarrow> instant"
  jwt_SignedString :: "token_header \<Rightarrow> token_claims \<Rightarrow> rsa_private \<Rightarrow> string + 'tok"
  jwt_ParseWithClaims :: "'tok \<Rightarrow> (token_header \<Rightarrow> go_error + rsa_public) \<Rightarrow> parser_options \<Rightarrow> instant \<Rightarrow>
    string + token_claims \<times> bool"
  jwt_parts :: "'tok \<Rightarrow> (token_header \<times> token_claims) option"
  jwt_verifies :: "rsa_public \<Rightarrow> 'tok \<Rightarrow> bool"

text \<open>The validation of the registered claims, as the package documents it.\<close>

definition claims_valid :: "parser_options \<Rightarrow> instant \<Rightarrow> token_claims \<Rightarrow> bool" where
  "claims_valid opts now c \<longleftrightarrow>
     (case claim_ExpiresAt c of None \<Rightarrow> \<not> WithExpirationRequired opts | Some t \<Rightarrow> now < t) \<and>
     (case claim_NotBefore c of None \<Rightarrow> True | Some t \<Rightarrow> t \<le> now) \<and>
     claim_Issuer c = WithIssuer opts \<and> WithAudience opts \<in> set (claim_Audience c)"

definition jwt_ok :: "'tok jwt_lib \<Rightarrow> bool" where
  "jwt_ok J \<longleftrightarrow>
     (\<forall>t kf opts now c v. jwt_ParseWithClaims J t kf opts now = Inr (c, v) \<longrightarrow>
        v \<and> (\<exists>h k. jwt_parts J t = Some (h, c) \<and> kf h = Inr k \<and> jwt_verifies J k t \<and>
              claims_valid opts now c)) \<and>
     (\<forall>t kf opts now h c k. jwt_parts J t = Some (h, c) \<and> kf h = Inr k \<and> jwt_verifies J k t \<and>
        claims_valid opts now c \<longrightarrow> jwt_ParseWithClaims J t kf opts now = Inr (c, True)) \<and>
     (\<forall>h c k t. jwt_SignedString J h c k = Inr t \<longrightarrow>
        jwt_parts J t = Some (h, c) \<and> jwt_verifies J (rsa_PublicKey k) t) \<and>
     (\<forall>t. jwt_NumericDate J t \<le> t \<and> t < instant_add (jwt_NumericDate J t) 1000000000)"

section \<open>The tokenizer\<close>

record tokenizer =
  tz_issuer :: string
  tz_audience :: string
  accessExpiry :: duration
  refreshExpiry :: duration
  signingKid :: string
  signingKey :: rsa_private
  publicKeys :: "string \<Rightarrow> rsa_public option"

fun loadPublicKeys :: "pki \<Rightarrow> (string \<Rightarrow> rsa_public option) \<Rightarrow> signing_key_row list \<Rightarrow>
    go_error + (string \<Rightarrow> rsa_public option)" where
  "loadPublicKeys K m [] = Inr m"
| "loadPublicKeys K m (key # keys) =
     (case ParsePublicKey K (sk_public_pem key) of
        Inl err \<Rightarrow> Inl err
      | Inr publicKey \<Rightarrow> loadPublicKeys K (m(sk_id key \<mapsto> publicKey)) keys)"

text \<open>\<open>ReloadKeys\<close> returns the tokenizer with the new keys; on an error the old one stays.\<close>

definition ReloadKeys :: "pki \<Rightarrow> tokenizer \<Rightarrow> tokenizer op" where
  "ReloadKeys K t =
     bindE Keys (\<lambda>keys.
     if keys = [] then throw (TokenErr NoSigningKeyError)
     else bindE (lift_result (loadPublicKeys K Map.empty keys)) (\<lambda>pks.
          (let latest = last keys in
           bindE (lift_result (ParsePrivateKey K (sk_private_pem latest))) (\<lambda>privateKey.
           ret (t\<lparr>signingKid := sk_id latest, signingKey := privateKey, publicKeys := pks\<rparr>)))))"

definition no_rsa_private :: rsa_private where
  "no_rsa_private = \<lparr>rsa_PublicKey = \<lparr>rsa_N = 0, rsa_E = 0\<rparr>, rsa_D = 0\<rparr>"

definition NewDefaultTokenizer :: "pki \<Rightarrow> string \<Rightarrow> string \<Rightarrow> int \<Rightarrow> int \<Rightarrow> tokenizer op" where
  "NewDefaultTokenizer K iss aud accessExpiryInSeconds refreshExpiryInSeconds =
     ReloadKeys K \<lparr>tz_issuer = iss, tz_audience = aud,
       accessExpiry = seconds accessExpiryInSeconds, refreshExpiry = seconds refreshExpiryInSeconds,
       signingKid = [], signingKey = no_rsa_private, publicKeys = Map.empty\<rparr>"

definition signingKeyPair :: "tokenizer \<Rightarrow> string \<times> rsa_private" where
  "signingKeyPair t = (signingKid t, signingKey t)"

definition publicKey :: "tokenizer \<Rightarrow> string \<Rightarrow> rsa_public option" where
  "publicKey t kid = publicKeys t kid"

text \<open>\<open>uuid.Must\<close> panics where \<open>uuid.NewV7\<close> fails; the panic ends the call as an error does.\<close>

definition registeredClaims :: "'tok jwt_lib \<Rightarrow> tokenizer \<Rightarrow> string \<Rightarrow> string \<Rightarrow> string \<Rightarrow> duration \<Rightarrow>
    token_claims op" where
  "registeredClaims J t tenantID clientID email expiry =
     bindE time_now (\<lambda>now.
     bindE new_uuid (\<lambda>jti.
     ret \<lparr>claim_TenantID = tenantID, claim_ClientID = clientID, claim_ID = jti, claim_Subject = email,
          claim_Issuer = tz_issuer t, claim_Audience = [tz_audience t],
          claim_ExpiresAt = Some (jwt_NumericDate J (instant_add now expiry)),
          claim_IssuedAt = Some (jwt_NumericDate J now), claim_NotBefore = Some (jwt_NumericDate J now)\<rparr>))"

definition sign :: "'tok jwt_lib \<Rightarrow> tokenizer \<Rightarrow> token_claims \<Rightarrow> string \<Rightarrow> go_error + 'tok" where
  "sign J t claims use =
     (case signingKeyPair t of (kid, key) \<Rightarrow>
        map_sum PlainErr id
          (jwt_SignedString J \<lparr>hd_alg = ''RS256'', hd_kid = Some kid, hd_use = Some use\<rparr> claims key))"

definition CreateAccessToken :: "'tok jwt_lib \<Rightarrow> tokenizer \<Rightarrow> string \<Rightarrow> string \<Rightarrow> string \<Rightarrow>
    ('tok \<times> token_claims) op" where
  "CreateAccessToken J t tenantID email clientID =
     bindE (registeredClaims J t tenantID clientID email (accessExpiry t)) (\<lambda>claims.
     bindE (lift_result (sign J t claims UseAccess)) (\<lambda>token. ret (token, claims)))"

definition CreateRefreshToken :: "'tok jwt_lib \<Rightarrow> tokenizer \<Rightarrow> string \<Rightarrow> string \<Rightarrow> string \<Rightarrow>
    ('tok \<times> token_claims) op" where
  "CreateRefreshToken J t tenantID email clientID =
     bindE (registeredClaims J t tenantID clientID email (refreshExpiry t)) (\<lambda>claims.
     bindE (lift_result (sign J t claims UseRefresh)) (\<lambda>token. ret (token, claims)))"

text \<open>The methods of type \<open>*jwt.SigningMethodRSA\<close>.\<close>

definition rsa_methods :: "string list" where
  "rsa_methods = [''RS256'', ''RS384'', ''RS512'']"

definition or_empty :: "string option \<Rightarrow> string" where
  "or_empty v = (case v of None \<Rightarrow> [] | Some s \<Rightarrow> s)"

definition keyfunc :: "tokenizer \<Rightarrow> string \<Rightarrow> token_header \<Rightarrow> go_error + rsa_public" where
  "keyfunc t use h =
     (if hd_alg h \<notin> set rsa_methods then Inl (TokenErr (TokenInvalidError ''signing method not supported''))
      else if or_empty (hd_use h) \<noteq> use then Inl (TokenErr (TokenInvalidError ''wrong token use''))
      else case publicKey t (or_empty (hd_kid h)) of
             None \<Rightarrow> Inl (TokenErr (TokenInvalidError ''unknown signing key''))
           | Some k \<Rightarrow> Inr k)"

definition validate :: "'tok jwt_lib \<Rightarrow> tokenizer \<Rightarrow> 'tok \<Rightarrow> string \<Rightarrow> instant \<Rightarrow> go_error + token_claims" where
  "validate J t token use now =
     (case jwt_ParseWithClaims J token (keyfunc t use)
             \<lparr>WithIssuer = tz_issuer t, WithAudience = tz_audience t, WithExpirationRequired = True\<rparr> now of
        Inl err \<Rightarrow> Inl (TokenErr (TokenInvalidError err))
      | Inr (claims, valid) \<Rightarrow>
          if \<not> valid then Inl (TokenErr (TokenInvalidError ''token is not valid'')) else Inr claims)"

definition ValidateAccessToken :: "'tok jwt_lib \<Rightarrow> tokenizer \<Rightarrow> 'tok \<Rightarrow> token_claims op" where
  "ValidateAccessToken J t token =
     bindE time_now (\<lambda>now. lift_result (validate J t token UseAccess now))"

definition ValidateRefreshToken :: "'tok jwt_lib \<Rightarrow> tokenizer \<Rightarrow> 'tok \<Rightarrow> token_claims op" where
  "ValidateRefreshToken J t token =
     bindE time_now (\<lambda>now. lift_result (validate J t token UseRefresh now))"

section \<open>Facts\<close>

text \<open>What a token is worth: the header it was signed with, and a key the tokenizer knows.\<close>

lemma validate_Inr:
  assumes "jwt_ok J"
  shows "validate J t token use now = Inr c \<longleftrightarrow>
    (\<exists>h k. jwt_parts J token = Some (h, c) \<and> hd_alg h \<in> set rsa_methods \<and> or_empty (hd_use h) = use \<and>
       publicKey t (or_empty (hd_kid h)) = Some k \<and> jwt_verifies J k token \<and>
       claims_valid \<lparr>WithIssuer = tz_issuer t, WithAudience = tz_audience t, WithExpirationRequired = True\<rparr> now c)"
    (is "_ \<longleftrightarrow> ?R")
proof
  assume "validate J t token use now = Inr c"
  then have "jwt_ParseWithClaims J token (keyfunc t use)
      \<lparr>WithIssuer = tz_issuer t, WithAudience = tz_audience t, WithExpirationRequired = True\<rparr> now = Inr (c, True)"
    by (auto simp: validate_def split: sum.splits prod.splits if_splits)
  with assms obtain h k where "jwt_parts J token = Some (h, c)" "keyfunc t use h = Inr k"
      "jwt_verifies J k token"
      "claims_valid \<lparr>WithIssuer = tz_issuer t, WithAudience = tz_audience t, WithExpirationRequired = True\<rparr> now c"
    unfolding jwt_ok_def by metis
  then show ?R
    by (auto simp: keyfunc_def split: if_splits option.splits)
next
  assume ?R
  then obtain h k where "jwt_parts J token = Some (h, c)" "keyfunc t use h = Inr k"
      "jwt_verifies J k token"
      "claims_valid \<lparr>WithIssuer = tz_issuer t, WithAudience = tz_audience t, WithExpirationRequired = True\<rparr> now c"
    by (auto simp: keyfunc_def)
  with assms have "jwt_ParseWithClaims J token (keyfunc t use)
      \<lparr>WithIssuer = tz_issuer t, WithAudience = tz_audience t, WithExpirationRequired = True\<rparr> now = Inr (c, True)"
    unfolding jwt_ok_def by blast
  then show "validate J t token use now = Inr c"
    by (simp add: validate_def)
qed

lemma loadPublicKeys_Inr:
  "loadPublicKeys K m keys = Inr m' \<Longrightarrow> distinct (map sk_id keys) \<Longrightarrow>
   (\<forall>key\<in>set keys. \<exists>k. ParsePublicKey K (sk_public_pem key) = Inr k \<and> m' (sk_id key) = Some k) \<and>
   (\<forall>i. i \<notin> sk_id ` set keys \<longrightarrow> m' i = m i)"
proof (induction keys arbitrary: m)
  case (Cons key keys)
  then obtain k where k: "ParsePublicKey K (sk_public_pem key) = Inr k"
    and rest: "loadPublicKeys K (m(sk_id key \<mapsto> k)) keys = Inr m'"
    by (auto split: sum.splits)
  from Cons.IH [OF rest] Cons.prems(2) have
    "\<forall>key\<in>set keys. \<exists>k. ParsePublicKey K (sk_public_pem key) = Inr k \<and> m' (sk_id key) = Some k"
    "\<forall>i. i \<notin> sk_id ` set keys \<longrightarrow> m' i = (m(sk_id key \<mapsto> k)) i" by auto
  with k Cons.prems(2) show ?case by auto
qed simp

lemma CreateAccessToken_Inr:
  "CreateAccessToken J t tenant email client w = (Inr (token, c), w') \<longleftrightarrow>
   (\<exists>jti us. uuids w = jti # us \<and> w' = w\<lparr>uuids := us\<rparr> \<and>
      c = \<lparr>claim_TenantID = tenant, claim_ClientID = client, claim_ID = jti, claim_Subject = email,
          claim_Issuer = tz_issuer t, claim_Audience = [tz_audience t],
          claim_ExpiresAt = Some (jwt_NumericDate J (instant_add (wall w) (accessExpiry t))),
          claim_IssuedAt = Some (jwt_NumericDate J (wall w)), claim_NotBefore = Some (jwt_NumericDate J (wall w))\<rparr> \<and>
      sign J t c UseAccess = Inr token)"
  by (auto simp: CreateAccessToken_def registeredClaims_def op_inr)

lemma CreateRefreshToken_Inr:
  "CreateRefreshToken J t tenant email client w = (Inr (token, c), w') \<longleftrightarrow>
   (\<exists>jti us. uuids w = jti # us \<and> w' = w\<lparr>uuids := us\<rparr> \<and>
      c = \<lparr>claim_TenantID = tenant, claim_ClientID = client, claim_ID = jti, claim_Subject = email,
          claim_Issuer = tz_issuer t, claim_Audience = [tz_audience t],
          claim_ExpiresAt = Some (jwt_NumericDate J (instant_add (wall w) (refreshExpiry t))),
          claim_IssuedAt = Some (jwt_NumericDate J (wall w)), claim_NotBefore = Some (jwt_NumericDate J (wall w))\<rparr> \<and>
      sign J t c UseRefresh = Inr token)"
  by (auto simp: CreateRefreshToken_def registeredClaims_def op_inr)

lemma sign_parts:
  "jwt_ok J \<Longrightarrow> sign J t c use = Inr token \<Longrightarrow>
   jwt_parts J token = Some (\<lparr>hd_alg = ''RS256'', hd_kid = Some (signingKid t), hd_use = Some use\<rparr>, c) \<and>
   jwt_verifies J (rsa_PublicKey (signingKey t)) token"
  by (auto simp: sign_def signingKeyPair_def jwt_ok_def map_sum_def split: sum.splits)

lemma ValidateAccessToken_Inr [op_inr]:
  "ValidateAccessToken J t token w = (Inr c, w') \<longleftrightarrow> validate J t token UseAccess (wall w) = Inr c \<and> w' = w"
  by (auto simp: ValidateAccessToken_def op_inr)

lemma ValidateRefreshToken_Inr [op_inr]:
  "ValidateRefreshToken J t token w = (Inr c, w') \<longleftrightarrow> validate J t token UseRefresh (wall w) = Inr c \<and> w' = w"
  by (auto simp: ValidateRefreshToken_def op_inr)

section \<open>Tokens across a reload of the keys\<close>

text \<open>
  \<open>reads_tokens_of t t'\<close>: \<open>t'\<close> knows the key \<open>t\<close> signs with, under its kid, and has the same
  issuer and audience.
\<close>

definition reads_tokens_of :: "tokenizer \<Rightarrow> tokenizer \<Rightarrow> bool" where
  "reads_tokens_of t t' \<longleftrightarrow>
     publicKeys t' (signingKid t) = Some (rsa_PublicKey (signingKey t)) \<and>
     tz_issuer t' = tz_issuer t \<and> tz_audience t' = tz_audience t"

lemma numeric_date_le: "jwt_ok J \<Longrightarrow> jwt_NumericDate J a \<le> a"
  by (simp add: jwt_ok_def)

lemma numeric_date_gt: "jwt_ok J \<Longrightarrow> a < instant_add (jwt_NumericDate J a) 1000000000"
  by (simp add: jwt_ok_def)

text \<open>
  A token signed at \<open>iat\<close> for \<open>expiry\<close> is valid from then on until its expiry, which is
  truncated to a second.
\<close>

lemma signed_validates:
  assumes J: "jwt_ok J" and known: "reads_tokens_of t t'" and signed: "sign J t c use = Inr token"
    and c: "claim_Issuer c = tz_issuer t" "claim_Audience c = [tz_audience t]"
      "claim_NotBefore c = Some nbf" "claim_ExpiresAt c = Some ex"
    and now: "nbf \<le> now" "now < ex"
  shows "validate J t' token use now = Inr c"
  unfolding validate_Inr [OF J]
  using sign_parts [OF J signed] known c now
  by (auto simp: reads_tokens_of_def publicKey_def or_empty_def rsa_methods_def claims_valid_def)

lemma signed_wrong_use:
  assumes J: "jwt_ok J" and signed: "sign J t c use = Inr token" and "use \<noteq> use'"
  shows "validate J t' token use' now \<noteq> Inr c'"
  using sign_parts [OF J signed] \<open>use \<noteq> use'\<close> by (auto simp: validate_Inr [OF J] or_empty_def)

lemma ReloadKeys_Inr:
  assumes "ReloadKeys K t w = (Inr t', w')" and "distinct (map sk_id (t_signing_keys (db w)))"
  shows "tz_issuer t' = tz_issuer t" and "tz_audience t' = tz_audience t" and "db w' = db w"
    and "r \<in> set (t_signing_keys (db w)) \<Longrightarrow>
         \<exists>k. ParsePublicKey K (sk_public_pem r) = Inr k \<and> publicKeys t' (sk_id r) = Some k"
    and "\<exists>r. latest_key (t_signing_keys (db w)) = Some r \<and> signingKid t' = sk_id r \<and>
           ParsePrivateKey K (sk_private_pem r) = Inr (signingKey t')"
proof -
  let ?keys = "by_created (t_signing_keys (db w))"
  from assms(1) obtain m k where keys: "?keys \<noteq> []" "loadPublicKeys K Map.empty ?keys = Inr m"
      "ParsePrivateKey K (sk_private_pem (last ?keys)) = Inr k"
    and t': "t' = t\<lparr>signingKid := sk_id (last ?keys), signingKey := k, publicKeys := m\<rparr>" and "db w' = db w"
    by (auto simp: ReloadKeys_def Keys_def signing_key_ReadAll_def op_inr Let_def)
  then show "tz_issuer t' = tz_issuer t" "tz_audience t' = tz_audience t" "db w' = db w"
    by simp_all
  show "\<exists>k. ParsePublicKey K (sk_public_pem r) = Inr k \<and> publicKeys t' (sk_id r) = Some k"
    if "r \<in> set (t_signing_keys (db w))"
    using loadPublicKeys_Inr [OF keys(2) distinct_by_created [OF assms(2)]] that by (simp add: t')
  show "\<exists>r. latest_key (t_signing_keys (db w)) = Some r \<and> signingKid t' = sk_id r \<and>
           ParsePrivateKey K (sk_private_pem r) = Inr (signingKey t')"
    using keys(1,3) by (cases ?keys) (auto simp: t' latest_key_def)
qed

section \<open>A concrete instance\<close>

text \<open>A token is its header, its claims and the public part of the key that signed it.\<close>

type_synonym sample_token = "token_header \<times> token_claims \<times> rsa_public"

definition sample_jwt :: "sample_token jwt_lib" where
  "sample_jwt = \<lparr>jwt_NumericDate = (\<lambda>t. Instant (nanos t - nanos t mod 1000000000)),
     jwt_SignedString = (\<lambda>h c k. Inr (h, c, rsa_PublicKey k)),
     jwt_ParseWithClaims = (\<lambda>(h, c, p) kf opts now.
       case kf h of Inl _ \<Rightarrow> Inl ''token is unverifiable''
       | Inr k \<Rightarrow> if k = p \<and> claims_valid opts now c then Inr (c, True) else Inl ''token is invalid''),
     jwt_parts = (\<lambda>(h, c, p). Some (h, c)),
     jwt_verifies = (\<lambda>k (h, c, p). k = p)\<rparr>"

lemma jwt_ok_sample: "jwt_ok sample_jwt"
proof -
  have "nanos t - nanos t mod 1000000000 \<le> nanos t \<and> nanos t < nanos t - nanos t mod 1000000000 + 1000000000"
    for t :: instant by simp
  then show ?thesis
    by (auto simp: jwt_ok_def sample_jwt_def less_eq_instant_def less_instant_def instant_add_def
        split: sum.splits if_splits)
qed

definition sample_tokenizer :: tokenizer where
  "sample_tokenizer = \<lparr>tz_issuer = ''an'', tz_audience = ''an'', accessExpiry = seconds 3600,
     refreshExpiry = seconds 86400, signingKid = ''kid'', signingKey = sample_key,
     publicKeys = [''kid'' \<mapsto> rsa_PublicKey sample_key]\<rparr>"

lemma sample_tokenizer_reads: "reads_tokens_of sample_tokenizer sample_tokenizer"
  by (simp add: reads_tokens_of_def sample_tokenizer_def)

text \<open>The pair of tokens it mints at second 7.\<close>

definition sample_access_claims :: token_claims where
  "sample_access_claims = \<lparr>claim_TenantID = ''default'', claim_ClientID = ''web'', claim_ID = ''j1'',
     claim_Subject = ''a@b.co'', claim_Issuer = ''an'', claim_Audience = [''an''],
     claim_ExpiresAt = Some (Instant 3607000000000), claim_IssuedAt = Some (Instant 7000000000),
     claim_NotBefore = Some (Instant 7000000000)\<rparr>"

definition sample_refresh_claims :: token_claims where
  "sample_refresh_claims = sample_access_claims
     \<lparr>claim_ID := ''j2'', claim_ExpiresAt := Some (Instant 86407000000000)\<rparr>"

definition sample_access_token :: sample_token where
  "sample_access_token = (\<lparr>hd_alg = ''RS256'', hd_kid = Some ''kid'', hd_use = Some ''access''\<rparr>,
     sample_access_claims, rsa_PublicKey sample_key)"

definition sample_refresh_token :: sample_token where
  "sample_refresh_token = (\<lparr>hd_alg = ''RS256'', hd_kid = Some ''kid'', hd_use = Some ''refresh''\<rparr>,
     sample_refresh_claims, rsa_PublicKey sample_key)"

lemma sample_expiries [simp]:
  "jwt_NumericDate sample_jwt (Instant n) = Instant (n - n mod 1000000000)"
  "accessExpiry sample_tokenizer = 3600000000000" "refreshExpiry sample_tokenizer = 86400000000000"
  "tz_issuer sample_tokenizer = ''an''" "tz_audience sample_tokenizer = ''an''"
  by (simp_all add: sample_jwt_def sample_tokenizer_def seconds_exact)

lemma sample_access:
  "CreateAccessToken sample_jwt sample_tokenizer ''default'' ''a@b.co'' ''web''
     (sample_world empty_db 7000000000 [''j1'', ''j2'']) =
   (Inr (sample_access_token, sample_access_claims), sample_world empty_db 7000000000 [''j2''])"
  by (simp add: CreateAccessToken_Inr sample_access_claims_def)
    (simp add: sign_def signingKeyPair_def UseAccess_def sample_world_def sample_access_token_def
      sample_access_claims_def sample_jwt_def sample_tokenizer_def)

lemma sample_refresh:
  "CreateRefreshToken sample_jwt sample_tokenizer ''default'' ''a@b.co'' ''web''
     (sample_world empty_db 7000000000 [''j2'']) =
   (Inr (sample_refresh_token, sample_refresh_claims), sample_world empty_db 7000000000 [])"
  by (simp add: CreateRefreshToken_Inr sample_refresh_claims_def sample_access_claims_def)
    (simp add: sign_def signingKeyPair_def UseRefresh_def sample_world_def sample_refresh_token_def
      sample_refresh_claims_def sample_access_claims_def sample_jwt_def sample_tokenizer_def)

section \<open>Properties\<close>

text \<open>
  Access and refresh tokens are not interchangeable. A token created as one of the two is
  refused as the other by every tokenizer, whatever its keys and the time, and the token
  validates as what it is, with the claims it was created with, from its creation to its expiry.
\<close>

theorem token_uses_are_separate:
  assumes "jwt_ok J"
    and "CreateAccessToken J t tenant email client w = (Inr (access, ca), w1)"
    and "CreateRefreshToken J t tenant email client w1 = (Inr (refresh, cr), w2)"
  shows "fst (ValidateRefreshToken J t' access w3) \<noteq> Inr c \<and> fst (ValidateAccessToken J t' refresh w3) \<noteq> Inr c \<and>
    (reads_tokens_of t t' \<and> wall w \<le> wall w3 \<and> wall w3 < jwt_NumericDate J (instant_add (wall w) (accessExpiry t))
       \<longrightarrow> ValidateAccessToken J t' access w3 = (Inr ca, w3)) \<and>
    (reads_tokens_of t t' \<and> wall w \<le> wall w3 \<and> wall w3 < jwt_NumericDate J (instant_add (wall w) (refreshExpiry t))
       \<longrightarrow> ValidateRefreshToken J t' refresh w3 = (Inr cr, w3)) \<and>
    claim_TenantID ca = tenant \<and> claim_Subject ca = email \<and> claim_ClientID ca = client \<and>
    claim_TenantID cr = tenant \<and> claim_Subject cr = email \<and> claim_ClientID cr = client"
proof -
  from assms(2) have a: "sign J t ca UseAccess = Inr access" "claim_Issuer ca = tz_issuer t"
      "claim_Audience ca = [tz_audience t]" "claim_NotBefore ca = Some (jwt_NumericDate J (wall w))"
      "claim_ExpiresAt ca = Some (jwt_NumericDate J (instant_add (wall w) (accessExpiry t)))" "wall w1 = wall w"
      "claim_TenantID ca = tenant" "claim_Subject ca = email" "claim_ClientID ca = client"
    by (auto simp: CreateAccessToken_Inr)
  from assms(3) have r: "sign J t cr UseRefresh = Inr refresh" "claim_Issuer cr = tz_issuer t"
      "claim_Audience cr = [tz_audience t]" "claim_NotBefore cr = Some (jwt_NumericDate J (wall w1))"
      "claim_ExpiresAt cr = Some (jwt_NumericDate J (instant_add (wall w1) (refreshExpiry t)))"
      "claim_TenantID cr = tenant" "claim_Subject cr = email" "claim_ClientID cr = client"
    by (auto simp: CreateRefreshToken_Inr)
  have nbf: "wall w \<le> now \<Longrightarrow> jwt_NumericDate J (wall w) \<le> now" for now
    using numeric_date_le [OF assms(1)] order_trans by blast
  have use: "UseAccess \<noteq> UseRefresh" by (simp add: UseAccess_def UseRefresh_def)
  have "(Inr c, w3) \<noteq> ValidateRefreshToken J t' access w3" "(Inr c, w3) \<noteq> ValidateAccessToken J t' refresh w3"
    using signed_wrong_use [OF assms(1) a(1) use] signed_wrong_use [OF assms(1) r(1) use [symmetric]]
    by (metis ValidateRefreshToken_Inr) (metis signed_wrong_use [OF assms(1) r(1) use [symmetric]] ValidateAccessToken_Inr)
  then have "fst (ValidateRefreshToken J t' access w3) \<noteq> Inr c" "fst (ValidateAccessToken J t' refresh w3) \<noteq> Inr c"
    by (metis ValidateRefreshToken_Inr prod.collapse) (metis ValidateAccessToken_Inr prod.collapse \<open>(Inr c, w3) \<noteq> ValidateAccessToken J t' refresh w3\<close>)
  then show ?thesis
    using signed_validates [OF assms(1) _ a(1-5) nbf] signed_validates [OF assms(1) _ r(1-5)] nbf a(6-) r(6-)
    by (auto simp: ValidateAccessToken_Inr ValidateRefreshToken_Inr)
qed

theorem token_uses_are_separate_witness:
  "ValidateAccessToken sample_jwt sample_tokenizer sample_access_token (sample_world empty_db 9000000000 []) =
     (Inr sample_access_claims, sample_world empty_db 9000000000 []) \<and>
   ValidateRefreshToken sample_jwt sample_tokenizer sample_refresh_token (sample_world empty_db 9000000000 []) =
     (Inr sample_refresh_claims, sample_world empty_db 9000000000 []) \<and>
   fst (ValidateAccessToken sample_jwt sample_tokenizer sample_refresh_token (sample_world empty_db 9000000000 [])) \<noteq>
     Inr sample_refresh_claims"
  using token_uses_are_separate [OF jwt_ok_sample sample_access sample_refresh] sample_tokenizer_reads by simp

text \<open>
  A rotation of the signing key does not invalidate the tokens issued before it. When the
  keys are reloaded from a table that still holds the key a tokenizer signs with, the new
  tokenizer accepts the old one's tokens until they expire, and it signs with the newest key of
  the table.
\<close>

theorem rotation_keeps_tokens_valid:
  assumes "jwt_ok J" and "distinct (map sk_id (t_signing_keys (db w)))"
    and "r \<in> set (t_signing_keys (db w))" and "key_pair_of K r = Some (signingKey t)" and "signingKid t = sk_id r"
    and "ReloadKeys K t w = (Inr t', w')"
    and "CreateAccessToken J t tenant email client w1 = (Inr (token, c), w2)"
    and "wall w1 \<le> wall w3" and "wall w3 < jwt_NumericDate J (instant_add (wall w1) (accessExpiry t))"
  shows "ValidateAccessToken J t' token w3 = (Inr c, w3) \<and>
    (\<exists>newest. latest_key (t_signing_keys (db w)) = Some newest \<and> signingKid t' = sk_id newest) \<and> db w' = db w"
proof -
  note reload = ReloadKeys_Inr [OF assms(6,2)]
  from reload(4) [OF assms(3)] assms(4,5) have "publicKeys t' (signingKid t) = Some (rsa_PublicKey (signingKey t))"
    by (auto simp: key_pair_of_Some)
  with reload(1,2) have known: "reads_tokens_of t t'" by (simp add: reads_tokens_of_def)
  from assms(7) have c: "sign J t c UseAccess = Inr token" "claim_Issuer c = tz_issuer t"
      "claim_Audience c = [tz_audience t]" "claim_NotBefore c = Some (jwt_NumericDate J (wall w1))"
      "claim_ExpiresAt c = Some (jwt_NumericDate J (instant_add (wall w1) (accessExpiry t)))"
    by (auto simp: CreateAccessToken_Inr)
  have "jwt_NumericDate J (wall w1) \<le> wall w3"
    using numeric_date_le [OF assms(1)] assms(8) order_trans by blast
  from signed_validates [OF assms(1) known c this assms(9)] reload(3,5) show ?thesis
    by (auto simp: ValidateAccessToken_Inr)
qed

lemma ReloadKeys_sample:
  "ReloadKeys sample_pki sample_tokenizer (sample_world (empty_db\<lparr>t_signing_keys :=
      [sample_key_row ''kid'' 5, sample_key_row ''new'' 6]\<rparr>) 7000000000 []) =
   (Inr (sample_tokenizer\<lparr>signingKid := ''new'', publicKeys :=
      [''kid'' \<mapsto> rsa_PublicKey sample_key, ''new'' \<mapsto> rsa_PublicKey sample_key]\<rparr>),
    tick (sample_world (empty_db\<lparr>t_signing_keys :=
      [sample_key_row ''kid'' 5, sample_key_row ''new'' 6]\<rparr>) 7000000000 []))"
proof -
  have pem: "ParsePublicKey sample_pki (sk_public_pem (sample_key_row kid n)) = Inr (rsa_PublicKey sample_key)"
    "ParsePrivateKey sample_pki (sk_private_pem (sample_key_row kid n)) = Inr sample_key"
    "sk_id (sample_key_row kid n) = kid" "sk_created (sample_key_row kid n) = Instant n" for kid n
    using sample_key_pair [of kid n] by (auto simp: key_pair_of_Some) (simp_all add: sample_key_row_def)
  show ?thesis
    by (simp add: ReloadKeys_def Keys_def signing_key_ReadAll_def by_created_def pem op_inr Let_def
        sample_tokenizer_def)
qed

theorem rotation_keeps_tokens_valid_witness:
  "ValidateAccessToken sample_jwt (sample_tokenizer\<lparr>signingKid := ''new'', publicKeys :=
      [''kid'' \<mapsto> rsa_PublicKey sample_key, ''new'' \<mapsto> rsa_PublicKey sample_key]\<rparr>)
     sample_access_token (sample_world empty_db 9000000000 []) =
   (Inr sample_access_claims, sample_world empty_db 9000000000 [])"
proof -
  let ?w = "sample_world (empty_db\<lparr>t_signing_keys := [sample_key_row ''kid'' 5, sample_key_row ''new'' 6]\<rparr>)
    7000000000 []"
  have "distinct (map sk_id (t_signing_keys (db ?w)))" "sk_id (sample_key_row ''kid'' 5) = ''kid''"
    by (simp_all add: sample_key_row_def)
  moreover have "key_pair_of sample_pki (sample_key_row ''kid'' 5) = Some (signingKey sample_tokenizer)"
    "signingKid sample_tokenizer = ''kid''"
    by (simp_all add: sample_key_pair sample_tokenizer_def)
  ultimately show ?thesis
    using rotation_keeps_tokens_valid [OF jwt_ok_sample, OF _ _ _ _ ReloadKeys_sample sample_access,
      where r = "sample_key_row ''kid'' 5" and ?w3.0 = "sample_world empty_db 9000000000 []"] by simp
qed

end
