(* ===== verification/Authn.thy ===== *)
theory Authn
  imports AuthnStores AccountRepository Tokenizer
begin

text \<open>
  \<open>src/internal/authn/authn.go\<close>: logon with a password behind the lockout gate, and the life
  of a token pair: issued, acknowledged, validated, renewed, revoked.
\<close>

record authn_service =
  an_tokenizer :: tokenizer
  maxAttempts :: int
  lockoutDuration :: duration

definition NewDefaultAuthenticationService :: "tokenizer \<Rightarrow> int \<Rightarrow> duration \<Rightarrow> authn_service" where
  [simp]: "NewDefaultAuthenticationService tok n lockout =
     \<lparr>an_tokenizer = tok, maxAttempts = n, lockoutDuration = lockout\<rparr>"

record 'tok Authenticated =
  AccessToken :: 'tok
  RefreshToken :: 'tok

section \<open>The logon gate\<close>

definition checkLockout :: "string \<Rightarrow> string \<Rightarrow> unit op" where
  "checkLockout tenantID email =
     bindE (attempt_Get tenantID email) (\<lambda>row.
     case row of
       None \<Rightarrow> ret ()
     | Some r \<Rightarrow>
         (case fa_locked_until r of
            None \<Rightarrow> ret ()
          | Some lockedUntil \<Rightarrow>
              bindE time_now (\<lambda>now.
              if instant_after lockedUntil now then throw (AuthnErr (AccountLockedError email lockedUntil))
              else attempt_Clear tenantID email)))"

definition not_found_fails :: "go_error \<Rightarrow> go_error" where
  "not_found_fails err =
     (case err of AccountErr (AccountNotFoundError _) \<Rightarrow> AuthnErr AuthenticationError | _ \<Rightarrow> err)"

definition gateLogon :: "string \<Rightarrow> string \<Rightarrow> Account op" where
  "gateLogon tenantID email =
     bindE (checkLockout tenantID email) (\<lambda>_.
     bindE (map_err not_found_fails (account_Read tenantID email)) (\<lambda>account.
     if Account_Deleted account then throw (AuthnErr AuthenticationError)
     else if \<not> Account_Enabled account then throw (AccountErr (AccountDisabledError email))
     else if \<not> Account_Verified account then throw (AccountErr (AccountNotVerifiedError email))
     else ret account))"

text \<open>\<open>countFailure\<close> always returns an error.\<close>

definition countFailure :: "authn_service \<Rightarrow> string \<Rightarrow> string \<Rightarrow> 'a op" where
  "countFailure s tenantID email =
     bindE (IncrementAndLock tenantID email (maxAttempts s) (lockoutDuration s)) (\<lambda>lockedUntil.
     bindE time_now (\<lambda>now.
     case lockedUntil of
       None \<Rightarrow> throw (AuthnErr AuthenticationError)
     | Some u \<Rightarrow>
         if instant_after u now then throw (AuthnErr (AccountLockedError email u))
         else throw (AuthnErr AuthenticationError)))"

definition VerifyPassword :: "crypto \<Rightarrow> authn_service \<Rightarrow> string \<Rightarrow> string \<Rightarrow> string \<Rightarrow> Account op" where
  "VerifyPassword C s tenantID email password =
     bindE (gateLogon tenantID email) (\<lambda>account.
     bindE (lift_result (BcryptVerify C (Account_PasswordHash account) password)) (\<lambda>match.
     if \<not> match then countFailure s tenantID email
     else bindE (attempt_Clear tenantID email) (\<lambda>_. ret account)))"

section \<open>Token pairs\<close>

definition issue :: "'tok jwt_lib \<Rightarrow> authn_service \<Rightarrow> string \<Rightarrow> string \<Rightarrow> string \<Rightarrow>
    ('tok Authenticated \<times> token_claims) op" where
  "issue J s tenantID email clientID =
     bindE (CreateAccessToken J (an_tokenizer s) tenantID email clientID) (\<lambda>(accessToken, _).
     bindE (CreateRefreshToken J (an_tokenizer s) tenantID email clientID) (\<lambda>(refreshToken, refreshClaims).
     ret (\<lparr>AccessToken = accessToken, RefreshToken = refreshToken\<rparr>, refreshClaims)))"

definition Authenticate :: "crypto \<Rightarrow> 'tok jwt_lib \<Rightarrow> authn_service \<Rightarrow> string \<Rightarrow> string \<Rightarrow> string \<Rightarrow> string \<Rightarrow>
    'tok Authenticated op" where
  "Authenticate C J s tenantID email clientID password =
     bindE (VerifyPassword C s tenantID email password) (\<lambda>_.
     bindE (issue J s tenantID email clientID) (\<lambda>(authenticated, _). ret authenticated))"

text \<open>
  \<open>refreshClaims.ExpiresAt.Time\<close>: a validated token has an expiry; without one the access
  would be to a nil pointer, which ends the call.
\<close>

definition expires_at :: "token_claims \<Rightarrow> instant op" where
  "expires_at c = (case claim_ExpiresAt c of
       None \<Rightarrow> throw (PlainErr ''runtime error: invalid memory address or nil pointer dereference'')
     | Some t \<Rightarrow> ret t)"

definition Acknowledge :: "'tok jwt_lib \<Rightarrow> authn_service \<Rightarrow> string \<Rightarrow> 'tok Authenticated \<Rightarrow> unit op" where
  "Acknowledge J s tenantID authenticated =
     bindE (ValidateAccessToken J (an_tokenizer s) (AccessToken authenticated)) (\<lambda>accessClaims.
     bindE (ValidateRefreshToken J (an_tokenizer s) (RefreshToken authenticated)) (\<lambda>refreshClaims.
     if claim_TenantID accessClaims \<noteq> tenantID \<or> claim_TenantID refreshClaims \<noteq> tenantID
     then throw (AuthnErr TokenTenantMismatchError)
     else if claim_ClientID accessClaims \<noteq> claim_ClientID refreshClaims \<or>
             claim_Subject accessClaims \<noteq> claim_Subject refreshClaims
     then throw (TokenErr (TokenInvalidError ''access and refresh tokens do not belong together''))
     else bindE (expires_at refreshClaims) (\<lambda>expires.
          session_Upsert \<lparr>se_id = [], se_tenant = tenantID, se_email = claim_Subject refreshClaims,
            se_client = claim_ClientID refreshClaims, se_refresh_jti = claim_ID refreshClaims,
            se_expires = expires, se_created = zero_instant, se_modified = zero_instant\<rparr>)))"

definition session_missing :: "go_error \<Rightarrow> go_error" where
  "session_missing err =
     (case err of AuthnErr (SessionNotFoundError _) \<Rightarrow> AuthnErr TokenNotAcknowledgedError | _ \<Rightarrow> err)"

definition readSession :: "string \<Rightarrow> string \<Rightarrow> string \<Rightarrow> session_row op" where
  "readSession tenantID email clientID = map_err session_missing (session_Read tenantID email clientID)"

definition liveAccount :: "string \<Rightarrow> string \<Rightarrow> Account op" where
  "liveAccount tenantID email =
     bindE (account_Read tenantID email) (\<lambda>account.
     if Account_Deleted account \<or> \<not> Account_Enabled account then throw (AuthnErr AuthenticationError)
     else ret account)"

definition Validate :: "'tok jwt_lib \<Rightarrow> authn_service \<Rightarrow> string \<Rightarrow> 'tok \<Rightarrow> token_claims op" where
  "Validate J s tenantID accessToken =
     bindE (ValidateAccessToken J (an_tokenizer s) accessToken) (\<lambda>claims.
     if claim_TenantID claims \<noteq> tenantID then throw (AuthnErr TokenTenantMismatchError)
     else bindE (readSession tenantID (claim_Subject claims) (claim_ClientID claims)) (\<lambda>_.
          bindE (liveAccount tenantID (claim_Subject claims)) (\<lambda>_.
          ret claims)))"

definition Renew :: "'tok jwt_lib \<Rightarrow> authn_service \<Rightarrow> string \<Rightarrow> 'tok \<Rightarrow> 'tok Authenticated op" where
  "Renew J s tenantID refreshToken =
     bindE (ValidateRefreshToken J (an_tokenizer s) refreshToken) (\<lambda>claims.
     if claim_TenantID claims \<noteq> tenantID then throw (AuthnErr TokenTenantMismatchError)
     else bindE (liveAccount tenantID (claim_Subject claims)) (\<lambda>_.
          bindE (issue J s tenantID (claim_Subject claims) (claim_ClientID claims)) (\<lambda>(authenticated, refreshClaims).
          bindE (expires_at refreshClaims) (\<lambda>expires.
          bindE (session_Rotate tenantID (claim_Subject claims) (claim_ClientID claims)
                   (claim_ID claims) (claim_ID refreshClaims) expires) (\<lambda>rotated.
          if \<not> rotated then throw (AuthnErr TokenNotAcknowledgedError)
          else ret authenticated)))))"

definition Revoke :: "string \<Rightarrow> string \<Rightarrow> string \<Rightarrow> unit op" where
  "Revoke tenantID email clientID =
     (if clientID = [] then session_DeleteAll tenantID email
      else session_Delete tenantID email clientID)"

section \<open>Facts: the gate\<close>

text \<open>An address is locked while its lock lies in the future of the process's clock.\<close>

definition locked :: "database \<Rightarrow> instant \<Rightarrow> string \<Rightarrow> string \<Rightarrow> bool" where
  "locked d now t e \<longleftrightarrow> (\<exists>u. snd (attempts d t e) = Some u \<and> now < u)"

lemma checkLockout_locked:
  assumes "locked (db w) (wall w) t e" and "\<not> failing w"
  shows "\<exists>u. checkLockout t e w = (Inl (AuthnErr (AccountLockedError e u)), tick w)"
proof -
  obtain r u where r: "attempt_at (db w) t e = Some r" "fa_locked_until r = Some u" "wall w < u"
    using assms(1) by (auto simp: locked_def attempts_def split: option.splits)
  have "attempt_Get t e w = (Inr (Some r), tick w)" using assms(2) r(1) by (simp add: attempt_Get_Inr)
  with r(2,3) have "checkLockout t e w = (Inl (AuthnErr (AccountLockedError e u)), tick w)"
    by (simp add: checkLockout_def bindE_def attempt_def time_now_def throw_def)
  then show ?thesis ..
qed

text \<open>The gate of an address that is not locked forgets an expired lock and nothing else.\<close>

definition unlock :: "database \<Rightarrow> string \<Rightarrow> string \<Rightarrow> database" where
  "unlock d t e =
     (if snd (attempts d t e) = None then d
      else d\<lparr>t_failed_attempts := filter (\<lambda>r. \<not> (fa_tenant r = t \<and> fa_email r = e)) (t_failed_attempts d)\<rparr>)"

lemma checkLockout_Inr:
  "checkLockout t e w = (Inr u, w') \<Longrightarrow>
   \<not> locked (db w) (wall w) t e \<and> db w' = unlock (db w) t e \<and> wall w' = wall w \<and> pg_now w' = pg_now w \<and>
   rng w' = rng w \<and> uuids w' = uuids w"
  by (auto simp: checkLockout_def op_inr locked_def attempts_def unlock_def split: option.splits)

lemma checkLockout_open:
  assumes "\<not> locked (db w) (wall w) t e" and "quiet w"
  shows "\<exists>w'. checkLockout t e w = (Inr (), w') \<and> quiet w'"
proof (cases "snd (attempts (db w) t e)")
  case None
  with assms(2) show ?thesis
    by (intro exI [of _ "tick w"]) (auto simp: checkLockout_def op_inr attempts_def split: option.splits)
next
  case (Some u)
  then obtain r where "attempt_at (db w) t e = Some r" "fa_locked_until r = Some u"
    by (auto simp: attempts_def split: option.splits)
  with assms Some show ?thesis
    by (auto simp: checkLockout_def op_inr locked_def)
qed

lemma unlock_sel [simp]:
  "t_accounts (unlock d t e) = t_accounts d" "t_sessions (unlock d t e) = t_sessions d"
  "t_logon_codes (unlock d t e) = t_logon_codes d"
  by (simp_all add: unlock_def)

lemma account_at_unlock [simp]: "account_at (unlock d t e) t' e' = account_at d t' e'"
  by (simp add: account_at_def)

lemma attempts_unlock:
  "attempts (unlock d t e) t e = (if snd (attempts d t e) = None then attempts d t e else (0, None))"
  by (simp add: unlock_def attempts_def)

text \<open>Who passes the gate.\<close>

definition may_log_on :: "database \<Rightarrow> string \<Rightarrow> string \<Rightarrow> account_row \<Rightarrow> bool" where
  "may_log_on d t e r \<longleftrightarrow> account_at d t e = Some r \<and> \<not> ac_deleted r \<and> ac_enabled r \<and> ac_verified r"

lemma gateLogon_Inr:
  assumes "gateLogon t e w = (Inr a, w')"
  obtains r where "may_log_on (db w) t e r" and "a = account_of_row r" and "\<not> locked (db w) (wall w) t e"
    and "db w' = unlock (db w) t e" and "wall w' = wall w" and "pg_now w' = pg_now w"
    and "rng w' = rng w" and "uuids w' = uuids w"
proof -
  from assms obtain w1 where c: "checkLockout t e w = (Inr (), w1)"
    and a: "account_Read t e w1 = (Inr a, w')" "\<not> Account_Deleted a" "Account_Enabled a" "Account_Verified a"
    by (auto simp: gateLogon_def op_inr)
  from a(1) obtain r where r: "account_at (db w1) t e = Some r" "a = account_of_row r" "w' = tick w1"
    by (auto simp: op_inr)
  from checkLockout_Inr [OF c] r a(2-) show ?thesis
    by (intro that [of r]) (simp_all add: may_log_on_def)
qed

lemma gateLogon_open:
  assumes "may_log_on (db w) t e r" and "\<not> locked (db w) (wall w) t e" and "quiet w"
  obtains w' where "gateLogon t e w = (Inr (account_of_row r), w')" and "quiet w'"
proof -
  from checkLockout_open [OF assms(2,3)] obtain w1 where c: "checkLockout t e w = (Inr (), w1)" "quiet w1" by auto
  with assms(1) checkLockout_Inr [OF c(1)] have "account_Read t e w1 = (Inr (account_of_row r), tick w1)"
    by (simp add: op_inr may_log_on_def)
  with c assms(1) have "gateLogon t e w = (Inr (account_of_row r), tick w1)"
    by (auto simp: gateLogon_def op_inr may_log_on_def)
  with c(2) show ?thesis by (intro that [of "tick w1"]) simp_all
qed

text \<open>A logon with the right password, with a wrong one, and of a locked address.\<close>

lemma countFailure_fails: "countFailure s t e w \<noteq> (Inr x, w')"
  by (auto simp: countFailure_def op_inr split: option.splits if_splits)

lemma VerifyPassword_runs:
  assumes "quiet w" and "may_log_on (db w) t e r" and "\<not> locked (db w) (wall w) t e"
    and "bcrypt_compare C (ac_password_hash r) pw = BcryptMatch"
  shows "\<exists>w' fs. VerifyPassword C s t e pw w = (Inr (account_of_row r), w') \<and> goes_on w w' \<and> uuids w' = uuids w \<and>
    rng w' = rng w \<and> db w' = (db w)\<lparr>t_failed_attempts := fs\<rparr>"
proof -
  obtain w1 where g: "gateLogon t e w = (Inr (account_of_row r), w1)" and q: "quiet w1"
    using gateLogon_open [OF assms(2,3,1)] .
  from g have w1: "db w1 = unlock (db w) t e" "wall w1 = wall w" "pg_now w1 = pg_now w" "rng w1 = rng w" "uuids w1 = uuids w"
    by (auto elim: gateLogon_Inr)
  let ?w' = "(tick w1)\<lparr>db := (db w1)\<lparr>t_failed_attempts :=
     filter (\<lambda>r. \<not> (fa_tenant r = t \<and> fa_email r = e)) (t_failed_attempts (db w1))\<rparr>\<rparr>"
  have "attempt_Clear t e w1 = (Inr (), ?w')" using q by (simp add: attempt_Clear_Inr)
  with g assms(4) have "VerifyPassword C s t e pw w = (Inr (account_of_row r), ?w')"
    by (simp add: VerifyPassword_def bindE_def attempt_def BcryptVerify_def lift_result_def ret_def)
  with q w1 show ?thesis by (auto simp: goes_on_def unlock_def)
qed

lemma VerifyPassword_Inr:
  assumes "VerifyPassword C s t e pw w = (Inr a, w')"
  obtains r where "may_log_on (db w) t e r" and "a = account_of_row r" and "\<not> locked (db w) (wall w) t e"
    and "bcrypt_compare C (ac_password_hash r) pw = BcryptMatch"
    and "db w' = (db w)\<lparr>t_failed_attempts :=
           filter (\<lambda>r. \<not> (fa_tenant r = t \<and> fa_email r = e)) (t_failed_attempts (db w))\<rparr>"
    and "wall w' = wall w" and "uuids w' = uuids w"
proof -
  note no_value = countFailure_fails [of s t e _ a w']
  from assms obtain w1 b where g: "gateLogon t e w = (Inr a, w1)"
    and b: "BcryptVerify C (Account_PasswordHash a) pw = Inr b"
    and rest: "(if \<not> b then countFailure s t e else bindE (attempt_Clear t e) (\<lambda>_. ret a)) w1 = (Inr a, w')"
    by (auto simp: VerifyPassword_def op_inr no_value split: if_splits)
  from rest no_value b have match: "bcrypt_compare C (Account_PasswordHash a) pw = BcryptMatch"
    and clr: "attempt_Clear t e w1 = (Inr (), w')"
    by (auto simp: op_inr BcryptVerify_True split: if_splits)
  from g show ?thesis
  proof (rule gateLogon_Inr)
    fix r
    assume "may_log_on (db w) t e r" "a = account_of_row r" "\<not> locked (db w) (wall w) t e"
      "db w1 = unlock (db w) t e" "wall w1 = wall w" "uuids w1 = uuids w"
    with match clr show ?thesis
      by (intro that [of r]) (auto simp: op_inr unlock_def)
  qed
qed


text \<open>The failure path: the counter goes up by one, and the lock follows it.\<close>

lemma countFailure_Inl:
  assumes "countFailure s t e w = (Inl err, w')" and "\<not> failing w" and "int4 (maxAttempts s)"
    and "int4 (fst (attempts (db w) t e) + 1)"
  shows "attempts (db w') t e = (fst (attempts (db w) t e) + 1,
      lock_if (maxAttempts s \<le> fst (attempts (db w) t e) + 1) (pg_now w) (lockoutDuration s) (snd (attempts (db w) t e)))"
    and "db w' = (db w)\<lparr>t_failed_attempts := t_failed_attempts (db w')\<rparr>"
    and "wall w' = wall w" and "pg_now w' = pg_now w" and "faults w' = tl (faults w)"
proof -
  obtain l w1 where inc: "IncrementAndLock t e (maxAttempts s) (lockoutDuration s) w = (Inr l, w1)"
    using assms(2-4) by (rule IncrementAndLock_succeeds)
  then have w1: "w' = w1"
    using assms(1) by (auto simp: countFailure_def bindE_Inl op_inr throw_def split: option.splits if_splits)
  then show "attempts (db w') t e = (fst (attempts (db w) t e) + 1,
      lock_if (maxAttempts s \<le> fst (attempts (db w) t e) + 1) (pg_now w) (lockoutDuration s) (snd (attempts (db w) t e)))"
    and "db w' = (db w)\<lparr>t_failed_attempts := t_failed_attempts (db w')\<rparr>"
    using IncrementAndLock_at [OF inc] by simp_all
  show "wall w' = wall w" and "pg_now w' = pg_now w" and "faults w' = tl (faults w)"
    using inc by (simp_all add: w1 IncrementAndLock_def exec_Inr) auto
qed

lemma countFailure_Inl_ex: "\<exists>err w'. countFailure s t e w = (Inl err, w')"
  by (metis countFailure_fails sum.exhaust surj_pair)

lemma VerifyPassword_wrong:
  assumes "may_log_on (db w) t e r" and "\<not> locked (db w) (wall w) t e" and "quiet w"
    and "bcrypt_compare C (ac_password_hash r) pw = BcryptMismatch"
  obtains w1 where "gateLogon t e w = (Inr (account_of_row r), w1)" and "quiet w1"
    and "VerifyPassword C s t e pw w = countFailure s t e w1"
proof -
  obtain w1 where "gateLogon t e w = (Inr (account_of_row r), w1)" "quiet w1"
    using gateLogon_open [OF assms(1-3)] .
  moreover from this(1) have "VerifyPassword C s t e pw w = countFailure s t e w1"
    using assms(4) by (simp add: VerifyPassword_def bindE_def attempt_def BcryptVerify_def lift_result_def ret_def)
  ultimately show ?thesis by (rule that)
qed

lemma VerifyPassword_locked:
  assumes "locked (db w) (wall w) t e" and "\<not> failing w"
  shows "\<exists>u. VerifyPassword C s t e pw w = (Inl (AuthnErr (AccountLockedError e u)), tick w)"
  using checkLockout_locked [OF assms]
  by (auto simp: VerifyPassword_def gateLogon_def bindE_def attempt_def throw_def)

section \<open>Facts: token pairs\<close>

lemma issue_Inr:
  assumes "issue J s t e c w = (Inr (a, rc), w')"
  obtains ca w1 where "CreateAccessToken J (an_tokenizer s) t e c w = (Inr (AccessToken a, ca), w1)"
    and "CreateRefreshToken J (an_tokenizer s) t e c w1 = (Inr (RefreshToken a, rc), w')"
    and "db w' = db w" and "wall w' = wall w" and "pg_now w' = pg_now w" and "faults w' = faults w"
    and "wall w1 = wall w"
proof -
  from assms obtain x y ca w1 where xy: "CreateAccessToken J (an_tokenizer s) t e c w = (Inr (x, ca), w1)"
    "CreateRefreshToken J (an_tokenizer s) t e c w1 = (Inr (y, rc), w')" "a = \<lparr>AccessToken = x, RefreshToken = y\<rparr>"
    by (auto simp: issue_def op_inr)
  moreover from xy(1,2) have "db w' = db w" "wall w' = wall w" "pg_now w' = pg_now w" "faults w' = faults w"
      "wall w1 = wall w"
    by (auto simp: CreateAccessToken_Inr CreateRefreshToken_Inr)
  ultimately show ?thesis using that by simp
qed

lemma liveAccount_Inr [op_inr]:
  "liveAccount t e w = (Inr a, w') \<longleftrightarrow> \<not> failing w \<and>
   (\<exists>r. account_at (db w) t e = Some r \<and> \<not> ac_deleted r \<and> ac_enabled r \<and> a = account_of_row r) \<and> w' = tick w"
  by (auto simp: liveAccount_def op_inr)

lemma readSession_Inr [op_inr]:
  "readSession t e c w = (Inr r, w') \<longleftrightarrow> \<not> failing w \<and> session_at (db w) t e c = Some r \<and> w' = tick w"
  by (auto simp: readSession_def op_inr)

lemma readSession_None:
  "\<not> failing w \<Longrightarrow> session_at (db w) t e c = None \<Longrightarrow>
   readSession t e c w = (Inl (AuthnErr TokenNotAcknowledgedError), tick w)"
  by (simp add: readSession_def map_err_def attempt_def session_Read_def bindE_def query_def exec_def
      session_at_def throw_def session_missing_def tick_def)

lemma expires_at_Inr [op_inr]: "expires_at c w = (Inr x, w') \<longleftrightarrow> claim_ExpiresAt c = Some x \<and> w' = w"
  by (auto simp: expires_at_def op_inr)

text \<open>What a successful validation says, and when it succeeds.\<close>

lemma Validate_Inr:
  "Validate J s t token w = (Inr c, w') \<longleftrightarrow>
   validate J (an_tokenizer s) token UseAccess (wall w) = Inr c \<and> claim_TenantID c = t \<and>
   \<not> failing w \<and> session_at (db w) t (claim_Subject c) (claim_ClientID c) \<noteq> None \<and>
   \<not> failing (tick w) \<and>
   (\<exists>r. account_at (db w) t (claim_Subject c) = Some r \<and> \<not> ac_deleted r \<and> ac_enabled r) \<and>
   w' = tick (tick w)"
  by (auto simp: Validate_def op_inr)

lemma Validate_unacknowledged:
  assumes "validate J (an_tokenizer s) token UseAccess (wall w) = Inr c" and "claim_TenantID c = t"
    and "\<not> failing w" and "session_at (db w) t (claim_Subject c) (claim_ClientID c) = None"
  shows "Validate J s t token w = (Inl (AuthnErr TokenNotAcknowledgedError), tick w)"
proof -
  have "ValidateAccessToken J (an_tokenizer s) token w = (Inr c, w)"
    using assms(1) by (simp add: ValidateAccessToken_Inr)
  then show ?thesis
    using assms(2) readSession_None [OF assms(3,4)] by (simp add: Validate_def bindE_def attempt_def throw_def)
qed

lemma Acknowledge_Inr:
  "Acknowledge J s t a w = (Inr u, w') \<longleftrightarrow>
   (\<exists>ca cr x. validate J (an_tokenizer s) (AccessToken a) UseAccess (wall w) = Inr ca \<and>
      validate J (an_tokenizer s) (RefreshToken a) UseRefresh (wall w) = Inr cr \<and>
      claim_TenantID ca = t \<and> claim_TenantID cr = t \<and> claim_ClientID ca = claim_ClientID cr \<and>
      claim_Subject ca = claim_Subject cr \<and> claim_ExpiresAt cr = Some x \<and>
      session_Upsert \<lparr>se_id = [], se_tenant = t, se_email = claim_Subject cr, se_client = claim_ClientID cr,
        se_refresh_jti = claim_ID cr, se_expires = x, se_created = zero_instant, se_modified = zero_instant\<rparr> w = (Inr u, w'))"
  by (auto simp: Acknowledge_def op_inr)

text \<open>The two halves of a renewal: the checks and the mint, which write nothing, and the rotation.\<close>

definition renew_prepare :: "'tok jwt_lib \<Rightarrow> authn_service \<Rightarrow> string \<Rightarrow> 'tok \<Rightarrow>
    (token_claims \<times> 'tok Authenticated \<times> string \<times> instant) op" where
  "renew_prepare J s tenantID refreshToken =
     bindE (ValidateRefreshToken J (an_tokenizer s) refreshToken) (\<lambda>claims.
     if claim_TenantID claims \<noteq> tenantID then throw (AuthnErr TokenTenantMismatchError)
     else bindE (liveAccount tenantID (claim_Subject claims)) (\<lambda>_.
          bindE (issue J s tenantID (claim_Subject claims) (claim_ClientID claims)) (\<lambda>(authenticated, refreshClaims).
          bindE (expires_at refreshClaims) (\<lambda>expires.
          ret (claims, authenticated, claim_ID refreshClaims, expires)))))"

definition renew_commit :: "string \<Rightarrow> token_claims \<times> 'tok Authenticated \<times> string \<times> instant \<Rightarrow>
    'tok Authenticated op" where
  "renew_commit tenantID p = (case p of (claims, authenticated, jti, expires) \<Rightarrow>
     bindE (session_Rotate tenantID (claim_Subject claims) (claim_ClientID claims) (claim_ID claims) jti expires)
       (\<lambda>rotated. if \<not> rotated then throw (AuthnErr TokenNotAcknowledgedError) else ret authenticated))"

lemma Renew_split: "Renew J s t token = bindE (renew_prepare J s t token) (renew_commit t)"
  unfolding Renew_def renew_prepare_def
  by (simp only: bindE_laws renew_commit_def prod.case)

lemma reads_renew_prepare: "reads (renew_prepare J s t token)"
proof -
  have "reads (CreateAccessToken J z t e c)" "reads (CreateRefreshToken J z t e c)" for z t e c
    unfolding CreateAccessToken_def CreateRefreshToken_def registeredClaims_def
    by (intro steps_intros reading.steps_bindE reading.steps_prod reading.steps_ret reading.steps_time_now reading.steps_new_uuid
        reading.steps_lift_result)+
  then show ?thesis
    unfolding renew_prepare_def ValidateRefreshToken_def liveAccount_def issue_def expires_at_def account_Read_def account_read_def
    by (intro reading.steps_bindE reading.steps_prod reading.steps_ret reading.steps_time_now reading.steps_lift_result
        reading.steps_If reading.steps_throw reading.steps_query reading.steps_option)
qed

section \<open>Facts: a run of logons\<close>

text \<open>One logon attempt after the other, whatever each returns.\<close>

fun logons :: "crypto \<Rightarrow> authn_service \<Rightarrow> string \<Rightarrow> string \<Rightarrow> string list \<Rightarrow> world \<Rightarrow> world" where
  "logons C s t e [] w = w"
| "logons C s t e (pw # pws) w = logons C s t e pws (snd (VerifyPassword C s t e pw w))"

lemma logons_locked:
  "locked (db w) (wall w) t e \<Longrightarrow> quiet w \<Longrightarrow>
   db (logons C s t e pws w) = db w \<and> wall (logons C s t e pws w) = wall w \<and> quiet (logons C s t e pws w)"
proof (induction pws arbitrary: w)
  case (Cons pw pws)
  obtain u where "VerifyPassword C s t e pw w = (Inl (AuthnErr (AccountLockedError e u)), tick w)"
    using VerifyPassword_locked [OF Cons.prems(1)] Cons.prems(2) by fastforce
  moreover have "locked (db (tick w)) (wall (tick w)) t e" "quiet (tick w)" using Cons.prems by simp_all
  ultimately show ?case using Cons.IH by simp
qed simp

lemma wrong_logon_step:
  assumes "quiet w" and "may_log_on (db w) t e r" and "attempts (db w) t e = (k, None)" and "0 \<le> k" and "k < maxAttempts s"
    and "int4 (maxAttempts s)" and "bcrypt_compare C (ac_password_hash r) pw = BcryptMismatch"
  shows "attempts (db (snd (VerifyPassword C s t e pw w))) t e =
      (k + 1, lock_if (maxAttempts s \<le> k + 1) (pg_now w) (lockoutDuration s) None)"
    and "may_log_on (db (snd (VerifyPassword C s t e pw w))) t e r" and "quiet (snd (VerifyPassword C s t e pw w))"
    and "wall (snd (VerifyPassword C s t e pw w)) = wall w" and "pg_now (snd (VerifyPassword C s t e pw w)) = pg_now w"
proof -
  have open_: "\<not> locked (db w) (wall w) t e" using assms(3) by (simp add: locked_def)
  obtain w1 where g: "gateLogon t e w = (Inr (account_of_row r), w1)" "quiet w1"
    and v: "VerifyPassword C s t e pw w = countFailure s t e w1"
    using VerifyPassword_wrong [OF assms(2) open_ assms(1,7)] .
  from g(1) have w1: "db w1 = db w" "wall w1 = wall w" "pg_now w1 = pg_now w"
    using assms(3) by (auto elim!: gateLogon_Inr simp: unlock_def)
  obtain err w2 where c: "(countFailure s t e w1 :: (go_error + Account) \<times> world) = (Inl err, w2)"
    using countFailure_Inl_ex by blast
  have k1: "int4 (k + 1)" using assms(4-6) by (simp add: int4_def)
  note f = countFailure_Inl [OF c _ assms(6)] 
  show "attempts (db (snd (VerifyPassword C s t e pw w))) t e =
      (k + 1, lock_if (maxAttempts s \<le> k + 1) (pg_now w) (lockoutDuration s) None)"
    using f(1) g(2) k1 assms(3) w1 c v by simp
  have "t_accounts (db w2) = t_accounts (db w1)"
  proof -
    have "db w2 = (db w1)\<lparr>t_failed_attempts := t_failed_attempts (db w2)\<rparr>"
      using f(2) g(2) k1 assms(3) w1 by simp
    then have "t_accounts (db w2) = t_accounts ((db w1)\<lparr>t_failed_attempts := t_failed_attempts (db w2)\<rparr>)" by (rule arg_cong)
    then show ?thesis by simp
  qed
  then show "may_log_on (db (snd (VerifyPassword C s t e pw w))) t e r"
    using assms(2) w1 c v by (simp add: may_log_on_def account_at_def)
  have "faults w2 = tl (faults w1)" using f(5) g(2) k1 assms(3) w1 by simp
  then show "quiet (snd (VerifyPassword C s t e pw w))"
    using g(2) c v by (cases "faults w1") (auto simp: quiet_def)
  show "wall (snd (VerifyPassword C s t e pw w)) = wall w" "pg_now (snd (VerifyPassword C s t e pw w)) = pg_now w"
    using f(3,4) g(2) k1 assms(3) w1 c v by simp_all
qed

lemma wrong_logons:
  assumes "quiet w" and "may_log_on (db w) t e r" and "attempts (db w) t e = (k, None)" and "0 \<le> k" and "k < maxAttempts s"
    and "int4 (maxAttempts s)" and "\<forall>pw\<in>set pws. bcrypt_compare C (ac_password_hash r) pw = BcryptMismatch"
    and "wall w < instant_add (pg_now w) (lockoutDuration s)"
  shows "quiet (logons C s t e pws w) \<and> wall (logons C s t e pws w) = wall w \<and>
    (if k + int (length pws) < maxAttempts s
     then attempts (db (logons C s t e pws w)) t e = (k + int (length pws), None) \<and>
          may_log_on (db (logons C s t e pws w)) t e r
     else locked (db (logons C s t e pws w)) (wall w) t e \<and> fst (attempts (db (logons C s t e pws w)) t e) = maxAttempts s)"
  using assms
proof (induction pws arbitrary: w k)
  case (Cons pw pws)
  let ?w = "snd (VerifyPassword C s t e pw w)"
  note step = wrong_logon_step [OF Cons.prems(1-6), where C = C and pw = pw]
  have mis: "bcrypt_compare C (ac_password_hash r) pw = BcryptMismatch" using Cons.prems(7) by simp
  show ?case
  proof (cases "k + 1 < maxAttempts s")
    case True
    then have "attempts (db ?w) t e = (k + 1, None)" using step(1) [OF mis] by (simp add: lock_if_def)
    from Cons.IH [OF step(3) [OF mis] step(2) [OF mis] this] True Cons.prems step(4,5) [OF mis]
    show ?thesis by (auto simp: add.assoc split: if_splits)
  next
    case False
    then have at: "attempts (db ?w) t e = (maxAttempts s, Some (instant_add (pg_now w) (lockoutDuration s)))"
      using step(1) [OF mis] Cons.prems(5) by (simp add: lock_if_def)
    then have "locked (db ?w) (wall ?w) t e" using step(4) [OF mis] Cons.prems(8) by (simp add: locked_def)
    from logons_locked [OF this step(3) [OF mis]] this at False step(4) [OF mis]
    show ?thesis by simp
  qed
qed simp

section \<open>Properties\<close>

text \<open>
  C3: what a successful password logon means. The account exists in the tenant, is not deleted,
  is enabled and verified, was not locked, and the password matches its hash; the failed attempts
  of the address are forgotten and nothing else in the database changes. The tokens carry the
  tenant, the address and the client, in the uses access and refresh.
\<close>

theorem logon_is_gated:
  assumes "jwt_ok J" and "Authenticate C J s t e c pw w = (Inr a, w')"
  shows "\<exists>r. may_log_on (db w) t e r \<and> \<not> locked (db w) (wall w) t e \<and>
      bcrypt_compare C (ac_password_hash r) pw = BcryptMatch \<and>
      db w' = (db w)\<lparr>t_failed_attempts :=
        filter (\<lambda>r. \<not> (fa_tenant r = t \<and> fa_email r = e)) (t_failed_attempts (db w))\<rparr> \<and>
      (\<exists>h hc rh rc. jwt_parts J (AccessToken a) = Some (h, hc) \<and> jwt_parts J (RefreshToken a) = Some (rh, rc) \<and>
         hd_use h = Some UseAccess \<and> hd_use rh = Some UseRefresh \<and>
         claim_TenantID hc = t \<and> claim_Subject hc = e \<and> claim_ClientID hc = c \<and>
         claim_TenantID rc = t \<and> claim_Subject rc = e \<and> claim_ClientID rc = c)"
proof -
  from assms(2) obtain acc w1 rc where v: "VerifyPassword C s t e pw w = (Inr acc, w1)"
    and i: "issue J s t e c w1 = (Inr (a, rc), w')"
    by (auto simp: Authenticate_def op_inr)
  from i obtain ca w2 where tokens: "CreateAccessToken J (an_tokenizer s) t e c w1 = (Inr (AccessToken a, ca), w2)"
      "CreateRefreshToken J (an_tokenizer s) t e c w2 = (Inr (RefreshToken a, rc), w')" and db: "db w' = db w1"
    by (rule issue_Inr)
  then have "jwt_parts J (AccessToken a) = Some (\<lparr>hd_alg = ''RS256'', hd_kid = Some (signingKid (an_tokenizer s)), hd_use = Some UseAccess\<rparr>, ca)"
    "jwt_parts J (RefreshToken a) = Some (\<lparr>hd_alg = ''RS256'', hd_kid = Some (signingKid (an_tokenizer s)), hd_use = Some UseRefresh\<rparr>, rc)"
    "claim_TenantID ca = t \<and> claim_Subject ca = e \<and> claim_ClientID ca = c"
    "claim_TenantID rc = t \<and> claim_Subject rc = e \<and> claim_ClientID rc = c"
    using sign_parts [OF assms(1)] by (auto simp: CreateAccessToken_Inr CreateRefreshToken_Inr)
  with v db show ?thesis
    by (elim VerifyPassword_Inr) auto
qed

text \<open>A tenant with one live account, password \<open>hunter22\<close>, for the witnesses.\<close>

definition sample_account :: account_row where
  "sample_account = \<lparr>ac_id = ''u0'', ac_tenant = ''default'', ac_email = ''a@b.co'', ac_password_hash = ''hunter22'',
     ac_verified = True, ac_verification_hash = None, ac_enabled = True, ac_deleted = False,
     ac_created = Instant 0, ac_modified = Instant 0, ac_name = None\<rparr>"

definition sample_db :: database where
  "sample_db = empty_db\<lparr>t_accounts := [sample_account]\<rparr>"

definition sample_service :: authn_service where
  "sample_service = \<lparr>an_tokenizer = sample_tokenizer, maxAttempts = 3, lockoutDuration = 900000000000\<rparr>"

definition sample_pair :: "sample_token Authenticated" where
  "sample_pair = \<lparr>AccessToken = sample_access_token, RefreshToken = sample_refresh_token\<rparr>"

lemma sample_db_sel [simp]:
  "t_accounts sample_db = [sample_account]" "t_sessions sample_db = []" "t_failed_attempts sample_db = []"
  "account_at sample_db ''default'' ''a@b.co'' = Some sample_account"
  "attempts sample_db t e = (0, None)" "session_at sample_db t e c = None"
  by (simp_all add: sample_db_def empty_db_def account_at_def select_row_def sample_account_def attempts_def
      attempt_at_def session_at_def)

lemma sample_may_log_on: "may_log_on sample_db ''default'' ''a@b.co'' sample_account"
  by (simp add: may_log_on_def) (simp add: sample_account_def)

lemma sample_issue:
  "issue sample_jwt sample_service ''default'' ''a@b.co'' ''web'' (sample_world sample_db 7000000000 [''j1'', ''j2'']) =
   (Inr (sample_pair, sample_refresh_claims), sample_world sample_db 7000000000 [])"
  by code_simp

lemma sample_logon:
  "Authenticate sample_crypto sample_jwt sample_service ''default'' ''a@b.co'' ''web'' ''hunter22''
     (sample_world sample_db 7000000000 [''j1'', ''j2'']) = (Inr sample_pair, sample_world sample_db 7000000000 [])"
  by code_simp

theorem logon_is_gated_witness:
  "\<exists>r. may_log_on sample_db ''default'' ''a@b.co'' r \<and> \<not> locked sample_db (Instant 7000000000) ''default'' ''a@b.co''"
  using logon_is_gated [OF jwt_ok_sample sample_logon] by auto

text \<open>
  C4: the lockout. From a clean counter, fewer than \<open>maxAttempts\<close> wrong passwords in a row
  leave the address open with the counter at their number; from the \<open>maxAttempts\<close>-th on the
  address is locked, the counter stops there, and every later attempt is refused as locked,
  whatever the password, without touching the database. (The lock lies in the future of the
  process's clock when the lockout outlasts the skew between it and the server's.)
\<close>

theorem wrong_passwords_lock:
  assumes "quiet w" and "may_log_on (db w) t e r" and "attempts (db w) t e = (0, None)"
    and "0 < maxAttempts s" and "int4 (maxAttempts s)" and "wall w < instant_add (pg_now w) (lockoutDuration s)"
    and "\<forall>pw\<in>set pws. bcrypt_compare C (ac_password_hash r) pw = BcryptMismatch"
  shows "if int (length pws) < maxAttempts s
    then attempts (db (logons C s t e pws w)) t e = (int (length pws), None) \<and>
      may_log_on (db (logons C s t e pws w)) t e r
    else fst (attempts (db (logons C s t e pws w)) t e) = maxAttempts s \<and>
      (\<forall>pw. \<exists>u. fst (VerifyPassword C s t e pw (logons C s t e pws w)) = Inl (AuthnErr (AccountLockedError e u)) \<and>
        db (snd (VerifyPassword C s t e pw (logons C s t e pws w))) = db (logons C s t e pws w))"
proof -
  note run = wrong_logons [OF assms(1-3) _ assms(4,5,7,6)]
  have "\<exists>u. fst (VerifyPassword C s t e pw (logons C s t e pws w)) = Inl (AuthnErr (AccountLockedError e u)) \<and>
        db (snd (VerifyPassword C s t e pw (logons C s t e pws w))) = db (logons C s t e pws w)"
    if "\<not> int (length pws) < maxAttempts s" for pw
  proof -
    from run that have "locked (db (logons C s t e pws w)) (wall (logons C s t e pws w)) t e"
      and "quiet (logons C s t e pws w)" by simp_all
    then obtain u where "VerifyPassword C s t e pw (logons C s t e pws w) =
        (Inl (AuthnErr (AccountLockedError e u)), tick (logons C s t e pws w))"
      using VerifyPassword_locked by fastforce
    then show ?thesis by simp
  qed
  with run show ?thesis by auto
qed

theorem wrong_passwords_lock_witness:
  "fst (attempts (db (logons sample_crypto sample_service ''default'' ''a@b.co'' [''x'', ''y'', ''z'']
     (sample_world sample_db 7000000000 []))) ''default'' ''a@b.co'') = 3 \<and>
   (\<exists>u. fst (VerifyPassword sample_crypto sample_service ''default'' ''a@b.co'' ''hunter22''
     (logons sample_crypto sample_service ''default'' ''a@b.co'' [''x'', ''y'', ''z''] (sample_world sample_db 7000000000 []))) =
     Inl (AuthnErr (AccountLockedError ''a@b.co'' u)))"
proof -
  let ?w = "sample_world sample_db 7000000000 []"
  have "\<forall>pw\<in>set [''x'', ''y'', ''z'']. bcrypt_compare sample_crypto (ac_password_hash sample_account) pw = BcryptMismatch"
    by (simp add: sample_account_def)
  from wrong_passwords_lock [of ?w "''default''" "''a@b.co''" sample_account sample_service, OF _ _ _ _ _ _ this]
  show ?thesis
    by (simp add: sample_may_log_on sample_service_def int4_def)
qed

text \<open>
  A freshly issued pair is inert. Where the address has no session with the client, the
  access token of a successful logon is refused as not acknowledged, and after \<open>Acknowledge\<close> of
  the pair it validates, as long as it has not expired, with the tenant, the address and the
  client it was issued for.
\<close>

theorem issued_pair_needs_acknowledgement:
  assumes J: "jwt_ok J" and keys: "reads_tokens_of (an_tokenizer s) (an_tokenizer s)"
    and log: "Authenticate C J s t e c pw w = (Inr a, w1)"
    and time: "wall w \<le> wall w2" "wall w2 < jwt_NumericDate J (instant_add (wall w) (accessExpiry (an_tokenizer s)))"
    and db: "db w2 = db w1" and "quiet w2"
  shows "(session_at (db w1) t e c = None \<longrightarrow>
      fst (Validate J s t (AccessToken a) w2) = Inl (AuthnErr TokenNotAcknowledgedError)) \<and>
    (\<forall>w3. Acknowledge J s t a w2 = (Inr (), w3) \<longrightarrow>
      (\<exists>claims. fst (Validate J s t (AccessToken a) w3) = Inr claims \<and>
         claim_TenantID claims = t \<and> claim_Subject claims = e \<and> claim_ClientID claims = c))"
proof -
  from log obtain acc w0 rc where v: "VerifyPassword C s t e pw w = (Inr acc, w0)"
    and i: "issue J s t e c w0 = (Inr (a, rc), w1)"
    by (auto simp: Authenticate_def op_inr)
  from v obtain r where r: "may_log_on (db w) t e r" and w0: "wall w0 = wall w" "t_accounts (db w0) = t_accounts (db w)"
    by (elim VerifyPassword_Inr) simp
  from i obtain ca w0' where ca: "CreateAccessToken J (an_tokenizer s) t e c w0 = (Inr (AccessToken a, ca), w0')"
    and w1: "db w1 = db w0" by (rule issue_Inr)
  from ca have signed: "sign J (an_tokenizer s) ca UseAccess = Inr (AccessToken a)"
    "claim_Issuer ca = tz_issuer (an_tokenizer s)" "claim_Audience ca = [tz_audience (an_tokenizer s)]"
    "claim_NotBefore ca = Some (jwt_NumericDate J (wall w0))"
    "claim_ExpiresAt ca = Some (jwt_NumericDate J (instant_add (wall w0) (accessExpiry (an_tokenizer s))))"
    and claims: "claim_TenantID ca = t" "claim_Subject ca = e" "claim_ClientID ca = c"
    by (auto simp: CreateAccessToken_Inr)
  have valid: "validate J (an_tokenizer s) (AccessToken a) UseAccess (wall w2) = Inr ca"
    using signed_validates [OF J keys signed] numeric_date_le [OF J, of "wall w0"] time w0(1) by simp
  show ?thesis
  proof (intro conjI impI allI)
    assume "session_at (db w1) t e c = None"
    with Validate_unacknowledged [where w = w2, OF valid claims(1)] db \<open>quiet w2\<close> claims show
      "fst (Validate J s t (AccessToken a) w2) = Inl (AuthnErr TokenNotAcknowledgedError)" by simp
  next
    fix w3
    assume ack: "Acknowledge J s t a w2 = (Inr (), w3)"
    then obtain cr :: token_claims and x where cr: "claim_Subject cr = e" "claim_ClientID cr = c"
      and up: "session_Upsert \<lparr>se_id = [], se_tenant = t, se_email = claim_Subject cr, se_client = claim_ClientID cr,
        se_refresh_jti = claim_ID cr, se_expires = x, se_created = zero_instant, se_modified = zero_instant\<rparr> w2 = (Inr (), w3)"
      using valid claims unfolding Acknowledge_Inr by auto
    from up cr have at: "session_at (db w3) t e c \<noteq> None"
      using session_Upsert_at(1) [OF up] by auto
    from up have w3: "wall w3 = wall w2" "t_accounts (db w3) = t_accounts (db w2)" "quiet w3"
      using \<open>quiet w2\<close> by (auto simp: session_Upsert_def op_inr stmt_defs)
    have "account_at (db w3) t e = Some r" "\<not> ac_deleted r" "ac_enabled r"
      using r w0(2) w1 w3(2) db by (auto simp: may_log_on_def account_at_def)
    with valid claims w3 at have "Validate J s t (AccessToken a) w3 = (Inr ca, tick (tick w3))"
      by (simp add: Validate_Inr)
    with claims show "\<exists>claims. fst (Validate J s t (AccessToken a) w3) = Inr claims \<and>
         claim_TenantID claims = t \<and> claim_Subject claims = e \<and> claim_ClientID claims = c" by simp
  qed
qed

theorem issued_pair_needs_acknowledgement_witness:
  "fst (Validate sample_jwt sample_service ''default'' sample_access_token (sample_world sample_db 9000000000 [''s1''])) =
     Inl (AuthnErr TokenNotAcknowledgedError) \<and>
   (\<exists>w3 claims. Acknowledge sample_jwt sample_service ''default'' sample_pair (sample_world sample_db 9000000000 [''s1'']) =
        (Inr (), w3) \<and>
      fst (Validate sample_jwt sample_service ''default'' sample_access_token w3) = Inr claims)"
proof -
  have keys: "reads_tokens_of (an_tokenizer sample_service) (an_tokenizer sample_service)"
    by (simp add: sample_service_def sample_tokenizer_reads)
  have ack: "fst (Acknowledge sample_jwt sample_service ''default'' sample_pair (sample_world sample_db 9000000000 [''s1''])) = Inr ()"
    by code_simp
  then obtain w3 where "Acknowledge sample_jwt sample_service ''default'' sample_pair
      (sample_world sample_db 9000000000 [''s1'']) = (Inr (), w3)" by (metis prod.collapse)
  with issued_pair_needs_acknowledgement [OF jwt_ok_sample keys sample_logon,
      where ?w2.0 = "sample_world sample_db 9000000000 [''s1'']"]
  show ?thesis by (simp add: sample_service_def sample_pair_def) blast
qed

section \<open>Facts: sessions and renewals\<close>

abbreviation session_keys :: "database \<Rightarrow> (string \<times> string \<times> string) list" where
  "session_keys d \<equiv> map (\<lambda>r. (se_tenant r, se_email r, se_client r)) (t_sessions d)"

text \<open>The refresh token with the claims \<open>c\<close> is the latest one of its session.\<close>

definition latest_of :: "database \<Rightarrow> string \<Rightarrow> token_claims \<Rightarrow> bool" where
  "latest_of d t c \<longleftrightarrow> (\<exists>r. session_at d t (claim_Subject c) (claim_ClientID c) = Some r \<and> se_refresh_jti r = claim_ID c)"

lemma rotate_hits:
  assumes "distinct (session_keys d)"
  shows "length (filter (\<lambda>r. session_key t e c r \<and> se_refresh_jti r = j) (t_sessions d)) = 1 \<longleftrightarrow>
    (\<exists>r. session_at d t e c = Some r \<and> se_refresh_jti r = j)"
proof -
  have "filter (\<lambda>r. session_key t e c r \<and> se_refresh_jti r = j) (t_sessions d) =
      filter (\<lambda>r. se_refresh_jti r = j) (filter (session_key t e c) (t_sessions d))"
    by (simp add: conj_commute)
  then show ?thesis
    using session_rows_unique [OF assms, of t e c] by (auto split: option.splits)
qed

text \<open>A rotation succeeds exactly for the latest token, and replaces it.\<close>

lemma renew_commit_eq:
  assumes uniq: "distinct (session_keys (db w))" and nf: "\<not> failing w"
  shows "renew_commit t (c, a, j, x) w =
    (if latest_of (db w) t c
     then (Inr a, (tick w)\<lparr>db := (db w)\<lparr>t_sessions :=
       map (\<lambda>r. if session_key t (claim_Subject c) (claim_ClientID c) r \<and> se_refresh_jti r = claim_ID c
                then r\<lparr>se_refresh_jti := j, se_expires := x, se_modified := pg_now w\<rparr> else r) (t_sessions (db w))\<rparr>\<rparr>)
     else (Inl (AuthnErr TokenNotAcknowledgedError), tick w))"
proof -
  let ?P = "\<lambda>r. session_key t (claim_Subject c) (claim_ClientID c) r \<and> se_refresh_jti r = claim_ID c"
  let ?f = "\<lambda>r. r\<lparr>se_refresh_jti := j, se_expires := x, se_modified := pg_now w\<rparr>"
  have rot: "session_Rotate t (claim_Subject c) (claim_ClientID c) (claim_ID c) j x w =
      (Inr (latest_of (db w) t c), (tick w)\<lparr>db := (db w)\<lparr>t_sessions := map (\<lambda>r. if ?P r then ?f r else r) (t_sessions (db w))\<rparr>\<rparr>)"
    using nf rotate_hits [OF uniq, of t "claim_Subject c" "claim_ClientID c" "claim_ID c"]
    by (simp add: session_Rotate_Inr latest_of_def)
  show ?thesis
  proof (cases "latest_of (db w) t c")
    case True
    with rot show ?thesis by (simp add: renew_commit_def bindE_def attempt_def ret_def)
  next
    case False
    have "filter ?P (t_sessions (db w)) = filter (\<lambda>r. se_refresh_jti r = claim_ID c)
        (filter (session_key t (claim_Subject c) (claim_ClientID c)) (t_sessions (db w)))"
      by (simp add: conj_commute)
    also have "\<dots> = []"
      using False session_rows_unique [OF uniq, of t "claim_Subject c" "claim_ClientID c"]
      by (auto simp: latest_of_def split: option.splits)
    finally have none: "map (\<lambda>r. if ?P r then ?f r else r) (t_sessions (db w)) = t_sessions (db w)"
      by (intro map_idI) (auto simp: filter_empty_conv)
    have "(tick w)\<lparr>db := (db w)\<lparr>t_sessions := t_sessions (db w)\<rparr>\<rparr> = tick w"
      by (simp add: tick_def)
    with rot False none show ?thesis by (simp add: renew_commit_def bindE_def attempt_def throw_def)
  qed
qed

lemma latest_after_rotation:
  assumes "latest_of d t c" and d': "d' = d\<lparr>t_sessions :=
       map (\<lambda>r. if session_key t (claim_Subject c) (claim_ClientID c) r \<and> se_refresh_jti r = claim_ID c
                then r\<lparr>se_refresh_jti := j, se_expires := x, se_modified := n\<rparr> else r) (t_sessions d)\<rparr>"
    and "distinct (session_keys d)"
  shows "\<exists>r. session_at d' t (claim_Subject c) (claim_ClientID c) = Some r \<and> se_refresh_jti r = j"
    and "session_keys d' = session_keys d"
proof -
  let ?K = "session_key t (claim_Subject c) (claim_ClientID c)"
  obtain r0 where r0: "filter ?K (t_sessions d) = [r0]" "se_refresh_jti r0 = claim_ID c"
    using assms(1) session_rows_unique [OF assms(3)] by (auto simp: latest_of_def split: option.splits)
  have "t_sessions d' = map (\<lambda>r. if ?K r then r\<lparr>se_refresh_jti := j, se_expires := x, se_modified := n\<rparr> else r) (t_sessions d)"
  proof -
    have "?K r \<Longrightarrow> se_refresh_jti r = claim_ID c" if "r \<in> set (t_sessions d)" for r
    proof -
      assume "?K r"
      with that have "r \<in> set (filter ?K (t_sessions d))" by simp
      with r0 show "se_refresh_jti r = claim_ID c" by simp
    qed
    then show ?thesis by (auto simp: d')
  qed
  note rows = this
  have sel: "select_row ?K (t_sessions d) \<noteq> None"
    using assms(1) by (auto simp: latest_of_def session_at_def)
  show "\<exists>r. session_at d' t (claim_Subject c) (claim_ClientID c) = Some r \<and> se_refresh_jti r = j"
  proof -
    have keep: "?K r \<Longrightarrow> ?K (r\<lparr>se_refresh_jti := j, se_expires := x, se_modified := n\<rparr>)" for r
      by (simp add: session_key_def)
    have "session_at d' t (claim_Subject c) (claim_ClientID c) =
        map_option (\<lambda>r. r\<lparr>se_refresh_jti := j, se_expires := x, se_modified := n\<rparr>) (select_row ?K (t_sessions d))"
      unfolding session_at_def rows by (rule select_row_update) (rule keep)
    with sel show ?thesis by auto
  qed
  show "session_keys d' = session_keys d" by (simp add: d' comp_def if_distrib cong: if_cong)
qed

lemma renew_prepare_Inr:
  assumes J: "jwt_ok J" and "renew_prepare J s t token w = (Inr (c, a, j, x), w')"
  shows "\<exists>h. jwt_parts J token = Some (h, c)" and "claim_TenantID c = t" and "db w' = db w"
    and "\<exists>r. account_at (db w) t (claim_Subject c) = Some r \<and> \<not> ac_deleted r \<and> ac_enabled r"
    and "\<exists>h rc. jwt_parts J (RefreshToken a) = Some (h, rc) \<and> claim_ID rc = j \<and> claim_Subject rc = claim_Subject c \<and>
           claim_ClientID rc = claim_ClientID c"
    and "j \<in> set (uuids w)" and "set (uuids w') \<subseteq> set (uuids w)" and "faults w' = tl (faults w)" and "wall w' = wall w"
proof -
  from assms(2) obtain rc w1 where v: "validate J (an_tokenizer s) token UseRefresh (wall w) = Inr c"
    and t: "claim_TenantID c = t"
    and live: "\<exists>acc. liveAccount t (claim_Subject c) w = (Inr acc, w1)"
    and i: "issue J s t (claim_Subject c) (claim_ClientID c) w1 = (Inr (a, rc), w')" and j: "j = claim_ID rc"
    by (auto simp: renew_prepare_def op_inr)
  show "\<exists>h. jwt_parts J token = Some (h, c)" using v by (auto simp: validate_Inr [OF J])
  show "claim_TenantID c = t" by (fact t)
  from live have live: "w1 = tick w" "\<exists>r. account_at (db w) t (claim_Subject c) = Some r \<and> \<not> ac_deleted r \<and> ac_enabled r"
    by (auto simp: op_inr)
  then show "\<exists>r. account_at (db w) t (claim_Subject c) = Some r \<and> \<not> ac_deleted r \<and> ac_enabled r" by simp
  from i obtain ca w2 where ca: "CreateAccessToken J (an_tokenizer s) t (claim_Subject c) (claim_ClientID c) w1 = (Inr (AccessToken a, ca), w2)"
    and cr: "CreateRefreshToken J (an_tokenizer s) t (claim_Subject c) (claim_ClientID c) w2 = (Inr (RefreshToken a, rc), w')"
    and w': "db w' = db w1" "wall w' = wall w1" "faults w' = faults w1" by (rule issue_Inr)
  from w' live(1) show "db w' = db w" "faults w' = tl (faults w)" "wall w' = wall w" by simp_all
  from ca cr live(1) j show "j \<in> set (uuids w)" "set (uuids w') \<subseteq> set (uuids w)"
    by (auto simp: CreateAccessToken_Inr CreateRefreshToken_Inr)
  from cr j show "\<exists>h rc. jwt_parts J (RefreshToken a) = Some (h, rc) \<and> claim_ID rc = j \<and> claim_Subject rc = claim_Subject c \<and>
           claim_ClientID rc = claim_ClientID c"
    using sign_parts [OF J] by (fastforce simp: CreateRefreshToken_Inr)
qed

section \<open>Properties: sessions\<close>

text \<open>
  C26: what a validated access token is worth. It was signed as an access token of this tenant
  with a key the tokenizer knows and has not expired, its client has an acknowledged session, and
  its account exists, is not deleted and is enabled. Validation only reads.
\<close>

theorem validated_token_is_live:
  assumes J: "jwt_ok J" and "Validate J s t token w = (Inr c, w')"
  shows "(\<exists>h k. jwt_parts J token = Some (h, c) \<and> hd_use h = Some UseAccess \<and>
           publicKey (an_tokenizer s) (or_empty (hd_kid h)) = Some k \<and> jwt_verifies J k token) \<and>
    claim_TenantID c = t \<and> (\<exists>x. claim_ExpiresAt c = Some x \<and> wall w < x) \<and>
    session_at (db w) t (claim_Subject c) (claim_ClientID c) \<noteq> None \<and>
    (\<exists>r. account_at (db w) t (claim_Subject c) = Some r \<and> \<not> ac_deleted r \<and> ac_enabled r) \<and> db w' = db w"
proof -
  from assms(2) have v: "validate J (an_tokenizer s) token UseAccess (wall w) = Inr c" and
    rest: "claim_TenantID c = t" "session_at (db w) t (claim_Subject c) (claim_ClientID c) \<noteq> None"
      "\<exists>r. account_at (db w) t (claim_Subject c) = Some r \<and> \<not> ac_deleted r \<and> ac_enabled r" "db w' = db w"
    by (auto simp: Validate_Inr)
  from v obtain h k where h: "jwt_parts J token = Some (h, c)" "or_empty (hd_use h) = UseAccess"
      "publicKey (an_tokenizer s) (or_empty (hd_kid h)) = Some k" "jwt_verifies J k token"
    and "claims_valid \<lparr>WithIssuer = tz_issuer (an_tokenizer s), WithAudience = tz_audience (an_tokenizer s),
      WithExpirationRequired = True\<rparr> (wall w) c"
    unfolding validate_Inr [OF J] by blast
  then have "\<exists>x. claim_ExpiresAt c = Some x \<and> wall w < x"
    by (auto simp: claims_valid_def split: option.splits)
  moreover from h(2) have "hd_use h = Some UseAccess"
    by (auto simp: or_empty_def UseAccess_def split: option.splits)
  ultimately show ?thesis using h rest by blast
qed

text \<open>A world in which the pair was acknowledged.\<close>

definition sample_session :: session_row where
  "sample_session = \<lparr>se_id = ''s1'', se_tenant = ''default'', se_email = ''a@b.co'', se_client = ''web'',
     se_refresh_jti = ''j2'', se_expires = Instant 86407000000000, se_created = Instant 9000000000,
     se_modified = Instant 9000000000\<rparr>"

definition sample_open_db :: database where
  "sample_open_db = sample_db\<lparr>t_sessions := [sample_session]\<rparr>"

lemma sample_validates:
  "Validate sample_jwt sample_service ''default'' sample_access_token (sample_world sample_open_db 9000000000 []) =
   (Inr sample_access_claims, sample_world sample_open_db 9000000000 [])"
  by code_simp

theorem validated_token_is_live_witness:
  "session_at sample_open_db ''default'' ''a@b.co'' ''web'' \<noteq> None \<and>
   (\<exists>r. account_at sample_open_db ''default'' ''a@b.co'' = Some r \<and> \<not> ac_deleted r)"
  using validated_token_is_live [OF jwt_ok_sample sample_validates] by (simp add: sample_access_claims_def) blast

text \<open>
  C30: \<open>Revoke\<close> of a client, or of all clients with an empty client id, signs out: no token of the
  address and the client validates or renews afterwards, whatever it carries, for as long as the
  sessions are as the revocation left them.
\<close>

theorem revoked_client_is_signed_out:
  assumes J: "jwt_ok J" and "Revoke t e cl w = (Inr u, w1)" and "db w2 = db w1"
    and "jwt_parts J token = Some (h, c)" and "claim_Subject c = e" and "cl = [] \<or> cl = claim_ClientID c"
  shows "fst (Validate J s t token w2) \<noteq> Inr c' \<and> fst (Renew J s t token w2) \<noteq> Inr a"
proof -
  have "filter (session_key t e (claim_ClientID c)) (t_sessions (db w2)) = []"
    using assms(2,3,6) by (auto simp: Revoke_def op_inr session_key_def filter_empty_conv split: if_splits)
  then have gone: "session_at (db w2) t e (claim_ClientID c) = None"
    and none: "filter (\<lambda>r. session_key t e (claim_ClientID c) r \<and> P r) (t_sessions (db w2)) = []" for P
    by (auto simp: session_at_def select_row_def find_None_iff_filter filter_empty_conv)
  have "(Inr c', w3) \<noteq> Validate J s t token w2" for w3
    using gone assms(4,5) by (auto simp: Validate_Inr validate_Inr [OF J] dest!: sym [where t = "Validate _ _ _ _ _"])
  moreover have "Renew J s t token w2 \<noteq> (Inr a, w3)" for w3
  proof
    assume "Renew J s t token w2 = (Inr a, w3)"
    then obtain c1 a1 j x w2' where prep: "renew_prepare J s t token w2 = (Inr (c1, a1, j, x), w2')"
      and com: "renew_commit t (c1, a1, j, x) w2' = (Inr a, w3)"
      unfolding Renew_split bindE_Inr by (metis prod_cases4)
    from renew_prepare_Inr(1,3) [OF J prep] assms(4) have "c1 = c" "db w2' = db w2" by auto
    with com none assms(5) show False by (auto simp: renew_commit_def op_inr)
  qed
  ultimately show ?thesis by (metis prod.collapse)
qed

theorem revoked_client_is_signed_out_witness:
  "\<exists>w1. Revoke ''default'' ''a@b.co'' ''web'' (sample_world sample_open_db 9000000000 []) = (Inr (), w1) \<and>
     (\<forall>c'. fst (Validate sample_jwt sample_service ''default'' sample_access_token w1) \<noteq> Inr c')"
proof -
  have "fst (Revoke ''default'' ''a@b.co'' ''web'' (sample_world sample_open_db 9000000000 [])) = Inr ()" by code_simp
  then obtain w1 where rev: "Revoke ''default'' ''a@b.co'' ''web'' (sample_world sample_open_db 9000000000 []) = (Inr (), w1)"
    by (metis prod.collapse)
  have "jwt_parts sample_jwt sample_access_token =
      Some (\<lparr>hd_alg = ''RS256'', hd_kid = Some ''kid'', hd_use = Some ''access''\<rparr>, sample_access_claims)"
    by (simp add: sample_jwt_def sample_access_token_def)
  from revoked_client_is_signed_out [OF jwt_ok_sample rev refl this] rev show ?thesis
    by (simp add: sample_access_claims_def)
qed

text \<open>
  C13: a renewal rotates the session. It succeeds only with the latest refresh token of the
  session of a live account; it leaves the session with the id of the refresh token it returns,
  so the token it consumed does not renew again, and the one it returned is the latest.
\<close>

theorem renewal_rotates:
  assumes J: "jwt_ok J" and uniq: "distinct (session_keys (db w))" and run: "Renew J s t token w = (Inr a, w')"
    and parts: "jwt_parts J token = Some (h, c)" and fresh: "claim_ID c \<notin> set (uuids w)"
  shows "latest_of (db w) t c \<and>
    (\<exists>r. account_at (db w) t (claim_Subject c) = Some r \<and> \<not> ac_deleted r \<and> ac_enabled r) \<and>
    (\<exists>rh rc. jwt_parts J (RefreshToken a) = Some (rh, rc) \<and> latest_of (db w') t rc \<and>
       claim_Subject rc = claim_Subject c \<and> claim_ClientID rc = claim_ClientID c) \<and>
    (\<forall>w2 a2. db w2 = db w' \<longrightarrow> fst (Renew J s t token w2) \<noteq> Inr a2)"
proof -
  from run obtain c1 a1 j x w1 where prep: "renew_prepare J s t token w = (Inr (c1, a1, j, x), w1)"
    and com: "renew_commit t (c1, a1, j, x) w1 = (Inr a, w')"
    unfolding Renew_split bindE_Inr by (metis prod_cases4)
  note p = renew_prepare_Inr [OF J prep]
  from p(1) parts have c1: "c1 = c" by auto
  have nf: "\<not> failing w1" using com by (auto simp: renew_commit_def op_inr)
  from com renew_commit_eq [OF _ nf, of t c a1 j x] uniq p(3) c1 have latest: "latest_of (db w) t c" and a: "a = a1"
    and w': "w' = (tick w1)\<lparr>db := (db w1)\<lparr>t_sessions :=
       map (\<lambda>r. if session_key t (claim_Subject c) (claim_ClientID c) r \<and> se_refresh_jti r = claim_ID c
                then r\<lparr>se_refresh_jti := j, se_expires := x, se_modified := pg_now w1\<rparr> else r) (t_sessions (db w1))\<rparr>\<rparr>"
    by (simp_all split: if_splits)
  from latest_after_rotation [OF latest, where d' = "db w'" and j = j and x = x and n = "pg_now w1"] w' p(3) uniq
  have at: "\<exists>r. session_at (db w') t (claim_Subject c) (claim_ClientID c) = Some r \<and> se_refresh_jti r = j"
    and keys: "session_keys (db w') = session_keys (db w)" by simp_all
  have "claim_ID c \<noteq> j" using p(6) fresh by auto
  with at have spent: "\<not> latest_of (db w') t c" by (auto simp: latest_of_def)
  have "Renew J s t token w2 \<noteq> (Inr a2, w3)" if "db w2 = db w'" for w2 a2 w3
  proof
    assume "Renew J s t token w2 = (Inr a2, w3)"
    then obtain c2 b k y w2' where prep2: "renew_prepare J s t token w2 = (Inr (c2, b, k, y), w2')"
      and com2: "renew_commit t (c2, b, k, y) w2' = (Inr a2, w3)"
      unfolding Renew_split bindE_Inr by (metis prod_cases4)
    from renew_prepare_Inr(1,3) [OF J prep2] parts have "c2 = c" "db w2' = db w2" by auto
    moreover have "\<not> failing w2'" using com2 by (auto simp: renew_commit_def op_inr)
    ultimately show False
      using com2 renew_commit_eq [of w2' t c b k y] spent that keys uniq by (simp split: if_splits)
  qed
  moreover have "\<exists>rh rc. jwt_parts J (RefreshToken a) = Some (rh, rc) \<and> latest_of (db w') t rc \<and>
       claim_Subject rc = claim_Subject c \<and> claim_ClientID rc = claim_ClientID c"
    using p(5) at by (auto simp: a c1 latest_of_def)
  ultimately show ?thesis using latest p(4) c1 by (metis prod.collapse)
qed

theorem renewal_rotates_witness:
  "latest_of sample_open_db ''default'' sample_refresh_claims \<and>
   (\<exists>a w'. Renew sample_jwt sample_service ''default'' sample_refresh_token
       (sample_world sample_open_db 9000000000 [''j3'', ''j4'']) = (Inr a, w') \<and>
     (\<forall>a2. fst (Renew sample_jwt sample_service ''default'' sample_refresh_token w') \<noteq> Inr a2))"
proof -
  let ?w = "sample_world sample_open_db 9000000000 [''j3'', ''j4'']"
  have "case fst (Renew sample_jwt sample_service ''default'' sample_refresh_token ?w) of Inl _ \<Rightarrow> False | Inr _ \<Rightarrow> True"
    by code_simp
  then obtain a w' where run: "Renew sample_jwt sample_service ''default'' sample_refresh_token ?w = (Inr a, w')"
    by (cases "Renew sample_jwt sample_service ''default'' sample_refresh_token ?w") (auto split: sum.splits)
  have uniq: "distinct (session_keys (db ?w))" by (simp add: sample_open_db_def)
  have parts: "jwt_parts sample_jwt sample_refresh_token =
      Some (\<lparr>hd_alg = ''RS256'', hd_kid = Some ''kid'', hd_use = Some ''refresh''\<rparr>, sample_refresh_claims)"
    by (simp add: sample_jwt_def sample_refresh_token_def)
  have "claim_ID sample_refresh_claims \<notin> set (uuids ?w)" by (simp add: sample_refresh_claims_def)
  from renewal_rotates [OF jwt_ok_sample uniq run parts this] run show ?thesis by auto
qed

text \<open>
  Acknowledging does not consult what happened to the session since. A pair that was
  acknowledged, then revoked or renewed away, acknowledges again while its two tokens have not
  expired, and its access token validates again.
\<close>

theorem acknowledgement_revives_a_pair:
  assumes J: "jwt_ok J" and ack: "Acknowledge J s t a w = (Inr u, w1)"
    and "wall w2 = wall w" and "quiet w2" and "uuids w2 = i # us"
    and "\<forall>r\<in>set (t_sessions (db w2)). se_id r \<noteq> i"
    and "jwt_parts J (AccessToken a) = Some (h, c)"
    and "account_at (db w2) t (claim_Subject c) = Some r" and "\<not> ac_deleted r" and "ac_enabled r"
  shows "\<exists>w3. Acknowledge J s t a w2 = (Inr (), w3) \<and> fst (Validate J s t (AccessToken a) w3) = Inr c"
proof -
  from ack obtain ca cr x where v: "validate J (an_tokenizer s) (AccessToken a) UseAccess (wall w) = Inr ca"
      "validate J (an_tokenizer s) (RefreshToken a) UseRefresh (wall w) = Inr cr"
      "claim_TenantID ca = t" "claim_TenantID cr = t" "claim_ClientID ca = claim_ClientID cr"
      "claim_Subject ca = claim_Subject cr" "claim_ExpiresAt cr = Some x"
    unfolding Acknowledge_Inr by blast
  from v(1) assms(7) have ca: "ca = c" by (auto simp: validate_Inr [OF J])
  let ?s = "\<lparr>se_id = [], se_tenant = t, se_email = claim_Subject cr, se_client = claim_ClientID cr,
        se_refresh_jti = claim_ID cr, se_expires = x, se_created = zero_instant, se_modified = zero_instant\<rparr>"
  have "\<exists>ts. upsert_row session_same session_conflict
      (\<lambda>r. r\<lparr>se_refresh_jti := se_refresh_jti ?s, se_expires := se_expires ?s, se_modified := pg_now w2\<rparr>)
      (?s\<lparr>se_id := i, se_created := pg_now w2, se_modified := pg_now w2\<rparr>) (t_sessions (db w2)) = Inr ts"
    using assms(6) by (auto simp: upsert_row_def insert_row_def session_conflict_def)
  then obtain w3 where up: "session_Upsert ?s w2 = (Inr (), w3)"
    using assms(4,5) by (auto simp: session_Upsert_def op_inr stmt_defs)
  from up have w3: "wall w3 = wall w2" "t_accounts (db w3) = t_accounts (db w2)" "quiet w3"
    using assms(4) by (auto simp: session_Upsert_def op_inr stmt_defs)
  have "Acknowledge J s t a w2 = (Inr (), w3)"
    using v up assms(3) unfolding Acknowledge_Inr by metis
  moreover have "session_at (db w3) t (claim_Subject c) (claim_ClientID c) \<noteq> None"
    using session_Upsert_at(1) [OF up] v(5,6) ca by auto
  then have "Validate J s t (AccessToken a) w3 = (Inr c, tick (tick w3))"
    using v(1,3) ca w3 assms(3,8,9,10) by (simp add: Validate_Inr account_at_def)
  ultimately show ?thesis by auto
qed

theorem acknowledgement_revives_a_pair_witness:
  "\<exists>w1 w2 w3. Acknowledge sample_jwt sample_service ''default'' sample_pair (sample_world sample_db 9000000000 [''s1'', ''s2'']) = (Inr (), w1) \<and>
     Revoke ''default'' ''a@b.co'' ''web'' w1 = (Inr (), w2) \<and>
     Acknowledge sample_jwt sample_service ''default'' sample_pair w2 = (Inr (), w3) \<and>
     fst (Validate sample_jwt sample_service ''default'' sample_access_token w3) = Inr sample_access_claims"
proof -
  let ?w = "sample_world sample_db 9000000000 [''s1'', ''s2'']"
  let ?w1 = "snd (Acknowledge sample_jwt sample_service ''default'' sample_pair ?w)"
  let ?w2 = "snd (Revoke ''default'' ''a@b.co'' ''web'' ?w1)"
  have runs: "fst (Acknowledge sample_jwt sample_service ''default'' sample_pair ?w) = Inr ()"
    "fst (Revoke ''default'' ''a@b.co'' ''web'' ?w1) = Inr ()"
    by code_simp+
  have w2: "?w2 = sample_world sample_db 9000000000 [''s2'']" by code_simp
  have parts: "jwt_parts sample_jwt (AccessToken sample_pair) =
      Some (\<lparr>hd_alg = ''RS256'', hd_kid = Some ''kid'', hd_use = Some ''access''\<rparr>, sample_access_claims)"
    by (simp add: sample_jwt_def sample_pair_def sample_access_token_def)
  have ack: "Acknowledge sample_jwt sample_service ''default'' sample_pair ?w = (Inr (), ?w1)"
    using runs(1) by (metis prod.collapse)
  have rev: "Revoke ''default'' ''a@b.co'' ''web'' ?w1 = (Inr (), ?w2)"
    using runs(2) by (metis prod.collapse)
  have "\<exists>w3. Acknowledge sample_jwt sample_service ''default'' sample_pair ?w2 = (Inr (), w3) \<and>
      fst (Validate sample_jwt sample_service ''default'' (AccessToken sample_pair) w3) = Inr sample_access_claims"
    by (rule acknowledgement_revives_a_pair [OF jwt_ok_sample ack _ _ _ _ parts, where r = sample_account])
      (simp_all add: w2 sample_access_claims_def, simp_all add: sample_account_def)
  with ack rev show ?thesis by (auto simp: sample_pair_def)
qed

end
