(* ===== verification/Renewals.thy ===== *)
theory Renewals
  imports Authn
begin

text \<open>
  Concurrent calls of \<open>Renew\<close> with one refresh token. A call makes two round trips to the
  database: it reads the account (\<open>renew_prepare\<close>, with the checks and the mint that need no
  database) and rotates the session in one conditional update (\<open>renew_commit\<close>);
  \<open>Renew_split\<close> shows that a call alone is these two in sequence. Here the calls of several
  processes interleave, with other writers in between.
\<close>

section \<open>The interleaved calls\<close>

datatype 'tok renewal =
    Started
  | Prepared "token_claims \<times> 'tok Authenticated \<times> string \<times> instant"
  | Won "'tok Authenticated"
  | Lost go_error

record 'tok race =
  race_world :: world
  race_calls :: "'tok renewal list"

text \<open>One call takes its next step.\<close>

definition next_step :: "'tok jwt_lib \<Rightarrow> authn_service \<Rightarrow> string \<Rightarrow> 'tok \<Rightarrow> 'tok renewal \<Rightarrow> world \<Rightarrow>
    ('tok renewal \<times> world) option" where
  "next_step J s t token call w =
     (case call of
        Started \<Rightarrow> (case renew_prepare J s t token w of
            (Inl e, w') \<Rightarrow> Some (Lost e, w')
          | (Inr p, w') \<Rightarrow> Some (Prepared p, w'))
      | Prepared p \<Rightarrow> (case renew_commit t p w of
            (Inl e, w') \<Rightarrow> Some (Lost e, w')
          | (Inr a, w') \<Rightarrow> Some (Won a, w'))
      | Won _ \<Rightarrow> None
      | Lost _ \<Rightarrow> None)"

inductive race_step :: "'tok jwt_lib \<Rightarrow> authn_service \<Rightarrow> string \<Rightarrow> 'tok \<Rightarrow> 'tok race \<Rightarrow> 'tok race \<Rightarrow> bool"
  for J s t token where
  call_steps: "i < length (race_calls st) \<Longrightarrow>
    next_step J s t token (race_calls st ! i) (race_world st) = Some (call, w') \<Longrightarrow>
    race_step J s t token st \<lparr>race_world = w', race_calls = (race_calls st)[i := call]\<rparr>"

inductive_cases race_stepE: "race_step J s t token st st'"

text \<open>
  Any other writer: it may do what it likes to the database and the clocks, but it does not give
  the session the presented token back (only an acknowledgement of that token would), it keeps
  the sessions' key unique, and the ids it leaves to be drawn are among the unused ones.
\<close>

inductive other_step :: "string \<Rightarrow> token_claims \<Rightarrow> 'tok race \<Rightarrow> 'tok race \<Rightarrow> bool" for t c where
  other_writes: "(latest_of (db w') t c \<Longrightarrow> latest_of (db (race_world st)) t c) \<Longrightarrow>
    distinct (session_keys (db w')) \<Longrightarrow> set (uuids w') \<subseteq> set (uuids (race_world st)) \<Longrightarrow>
    other_step t c st (st\<lparr>race_world := w'\<rparr>)"

inductive_cases other_stepE: "other_step t c st st'"

text \<open>The start: \<open>n\<close> calls that have not read anything yet.\<close>

definition race_start :: "world \<Rightarrow> nat \<Rightarrow> 'tok race" where
  "race_start w n = \<lparr>race_world = w, race_calls = replicate n Started\<rparr>"

definition races :: "'tok jwt_lib \<Rightarrow> authn_service \<Rightarrow> string \<Rightarrow> 'tok \<Rightarrow> token_claims \<Rightarrow> 'tok race \<Rightarrow> 'tok race \<Rightarrow> bool" where
  "races J s t token c = (\<lambda>st st'. race_step J s t token st st' \<or> other_step t c st st')\<^sup>*\<^sup>*"

fun won :: "'tok renewal \<Rightarrow> bool" where
  "won (Won a) = True"
| "won _ = False"

definition winners :: "'tok race \<Rightarrow> nat" where
  "winners st = length (filter won (race_calls st))"

section \<open>The invariant\<close>

text \<open>
  A winner and the presented token's being the latest exclude each other, and what the calls have
  prepared would replace the token by another.
\<close>

definition good_call :: "token_claims \<Rightarrow> 'tok renewal \<Rightarrow> bool" where
  "good_call c call = (case call of Prepared (c', a, j, x) \<Rightarrow> c' = c \<and> j \<noteq> claim_ID c | _ \<Rightarrow> True)"

definition race_inv :: "string \<Rightarrow> token_claims \<Rightarrow> 'tok race \<Rightarrow> bool" where
  "race_inv t c st \<longleftrightarrow>
     distinct (session_keys (db (race_world st))) \<and> claim_ID c \<notin> set (uuids (race_world st)) \<and>
     (\<forall>call\<in>set (race_calls st). good_call c call) \<and>
     winners st + (if latest_of (db (race_world st)) t c then 1 else 0) \<le> 1"

text \<open>Operations only use up ids and round trips, they never put one back.\<close>

definition draws :: "'a op \<Rightarrow> bool" where
  "draws m \<longleftrightarrow> (\<forall>w. set (uuids (snd (m w))) \<subseteq> set (uuids w) \<and> set (faults (snd (m w))) \<subseteq> set (faults w))"

lemma draws_bindE: "draws m \<Longrightarrow> (\<And>x. draws (k x)) \<Longrightarrow> draws (bindE m k)"
  by (fastforce simp: draws_def bindE_def attempt_def throw_def split: prod.splits sum.splits)

lemma tl_member: "x \<in> set (tl xs) \<Longrightarrow> x \<in> set xs"
  by (cases xs) auto

lemma draws_basic: "draws (ret x)" "draws (throw e)" "draws time_now" "draws new_uuid" "draws (exec f)" "draws (query q)"
  "draws (lift_result r)"
  by (auto simp: draws_def ret_def throw_def time_now_def new_uuid_def exec_def query_def lift_result_def
      dest: tl_member split: list.splits sum.splits prod.splits)

lemma draws_cases:
  "draws m \<Longrightarrow> draws m' \<Longrightarrow> draws (if b then m else m')"
  "draws m \<Longrightarrow> (\<And>x. draws (k x)) \<Longrightarrow> draws (case z of None \<Rightarrow> m | Some x \<Rightarrow> k x)"
  "(\<And>x y. draws (f x y)) \<Longrightarrow> draws (case p of (x, y) \<Rightarrow> f x y)"
  by (simp_all split: option.split prod.split)

lemma renew_prepare_draws:
  assumes "renew_prepare J s t token w = (r, w')"
  shows "set (uuids w') \<subseteq> set (uuids w)" and "quiet w \<Longrightarrow> quiet w'"
proof -
  have "draws (renew_prepare J s t token)"
    unfolding renew_prepare_def ValidateRefreshToken_def liveAccount_def issue_def expires_at_def account_Read_def
      account_read_def CreateAccessToken_def CreateRefreshToken_def registeredClaims_def
    by (intro draws_bindE draws_basic draws_cases)
  then have "set (uuids w') \<subseteq> set (uuids w) \<and> set (faults w') \<subseteq> set (faults w)"
    using assms unfolding draws_def by (metis snd_conv)
  then show "set (uuids w') \<subseteq> set (uuids w)" and "quiet w \<Longrightarrow> quiet w'"
    by (auto simp: quiet_def)
qed

lemma winners_update:
  "i < length calls \<Longrightarrow> \<not> won (calls ! i) \<Longrightarrow>
   length (filter won (calls[i := call])) = length (filter won calls) + (if won call then 1 else 0)"
proof (induction calls arbitrary: i)
  case (Cons x calls)
  then show ?case by (cases i) auto
qed simp

lemma renew_commit_faults: "failing w \<Longrightarrow> renew_commit t p w = (Inl (PgErr ConnectionFailure), tick w)"
  by (cases p) (simp add: renew_commit_def session_Rotate_def bindE_def attempt_def exec_def throw_def)

lemma next_step_inv:
  assumes J: "jwt_ok J" and parts: "jwt_parts J token = Some (h, c)"
    and inv: "distinct (session_keys (db w))" "claim_ID c \<notin> set (uuids w)" "good_call c call"
    and step: "next_step J s t token call w = Some (call', w')"
  shows "distinct (session_keys (db w')) \<and> claim_ID c \<notin> set (uuids w') \<and> good_call c call' \<and> \<not> won call \<and>
    (if won call' then latest_of (db w) t c \<and> \<not> latest_of (db w') t c else db w' = db w)"
proof (cases call)
  case Started
  show ?thesis
  proof (cases "renew_prepare J s t token w")
    case (Pair r w1)
    have db: "db w1 = db w" using reads_keeps [OF reads_renew_prepare Pair] .
    show ?thesis
    proof (cases r)
      case (Inl e)
      have "set (uuids w1) \<subseteq> set (uuids w)" using renew_prepare_draws(1) [OF Pair] .
      with Inl Pair Started step db inv show ?thesis by (auto simp: next_step_def good_call_def)
    next
      case (Inr p)
      obtain c' a j x where p: "p = (c', a, j, x)" by (cases p)
      note prep = renew_prepare_Inr [OF J Pair [unfolded Inr p]]
      have "c' = c" "j \<noteq> claim_ID c" using prep(1,6) parts inv(2) by auto
      with Inr Pair Started step db inv prep(7) p show ?thesis by (auto simp: next_step_def good_call_def)
    qed
  qed
next
  case (Prepared p)
  obtain c' a j x where p: "p = (c', a, j, x)" by (cases p)
  with inv(3) Prepared have c: "c' = c" "j \<noteq> claim_ID c" by (auto simp: good_call_def)
  show ?thesis
  proof (cases "failing w")
    case True
    then show ?thesis using step inv Prepared by (auto simp: next_step_def renew_commit_faults good_call_def)
  next
    case nf: False
    show ?thesis
    proof (cases "latest_of (db w) t c")
      case True
      with step Prepared p c renew_commit_eq [OF inv(1) nf, of t c a j x]
      have call': "call' = Won a" and w': "w' = (tick w)\<lparr>db := (db w)\<lparr>t_sessions :=
         map (\<lambda>r. if session_key t (claim_Subject c) (claim_ClientID c) r \<and> se_refresh_jti r = claim_ID c
                then r\<lparr>se_refresh_jti := j, se_expires := x, se_modified := pg_now w\<rparr> else r) (t_sessions (db w))\<rparr>\<rparr>"
        by (auto simp: next_step_def)
      from latest_after_rotation [OF True _ inv(1), where d' = "db w'" and j = j and x = x and n = "pg_now w"] w' c
      have "\<not> latest_of (db w') t c" "session_keys (db w') = session_keys (db w)"
        by (auto simp: latest_of_def)
      moreover have "uuids w' = uuids w" using w' by simp
      ultimately show ?thesis using True call' inv Prepared by (simp add: good_call_def del: map_eq_conv)
    next
      case False
      with step Prepared p c renew_commit_eq [OF inv(1) nf, of t c a j x] inv show ?thesis
        by (auto simp: next_step_def good_call_def)
    qed
  qed
qed (use step in \<open>auto simp: next_step_def\<close>)

lemma race_step_inv:
  assumes J: "jwt_ok J" and parts: "jwt_parts J token = Some (h, c)"
    and inv: "race_inv t c st" and step: "race_step J s t token st st'"
  shows "race_inv t c st'"
  using step
proof (cases rule: race_step.cases)
  case (call_steps i call w')
  from inv call_steps(2) have good: "good_call c (race_calls st ! i)" by (simp add: race_inv_def)
  from inv next_step_inv [OF J parts _ _ good call_steps(3)] have nxt:
    "distinct (session_keys (db w')) \<and> claim_ID c \<notin> set (uuids w') \<and> good_call c call \<and> \<not> won (race_calls st ! i) \<and>
    (if won call then latest_of (db (race_world st)) t c \<and> \<not> latest_of (db w') t c else db w' = db (race_world st))"
    by (simp add: race_inv_def)
  moreover have "winners st' = winners st + (if won call then 1 else 0)"
    using winners_update [OF call_steps(2)] nxt call_steps(1) by (simp add: winners_def)
  moreover have "\<forall>x\<in>set (race_calls st'). good_call c x"
    using inv nxt call_steps(1) by (auto simp: race_inv_def dest!: set_update_subset_insert [THEN subsetD])
  ultimately show ?thesis
    using inv call_steps(1) by (auto simp: race_inv_def split: if_splits)
qed

lemma other_step_inv: "race_inv t c st \<Longrightarrow> other_step t c st st' \<Longrightarrow> race_inv t c st'"
  by (erule other_stepE) (auto simp: race_inv_def winners_def split: if_splits)

lemma races_inv:
  assumes "jwt_ok J" and "jwt_parts J token = Some (h, c)" and "races J s t token c st st'" and "race_inv t c st"
  shows "race_inv t c st'"
  using assms(3,4) unfolding races_def
  by (induction rule: rtranclp_induct) (auto intro: race_step_inv [OF assms(1,2)] other_step_inv)

section \<open>Undisturbed races\<close>

text \<open>
  Without other writers and without failures of the connection, the presented token stays the
  latest until a call wins; a call that lost the rotation lost it to a winner.
\<close>

definition outrun :: "'tok renewal \<Rightarrow> bool" where
  "outrun call \<longleftrightarrow> call = Lost (AuthnErr TokenNotAcknowledgedError)"

definition quiet_inv :: "string \<Rightarrow> token_claims \<Rightarrow> 'tok race \<Rightarrow> bool" where
  "quiet_inv t c st \<longleftrightarrow> race_inv t c st \<and> quiet (race_world st) \<and>
     winners st + (if latest_of (db (race_world st)) t c then 1 else 0) = 1 \<and>
     ((\<exists>call\<in>set (race_calls st). outrun call) \<longrightarrow> winners st = 1)"

text \<open>\<open>never err m\<close>: the operation does not end in that error.\<close>

definition never :: "go_error \<Rightarrow> 'a op \<Rightarrow> bool" where
  "never err m \<longleftrightarrow> (\<forall>w w'. m w \<noteq> (Inl err, w'))"

lemma never_bindE: "never err m \<Longrightarrow> (\<And>x. never err (k x)) \<Longrightarrow> never err (bindE m k)"
  by (auto simp: never_def bindE_Inl)

lemma never_basic: "never err (ret x)" "never err time_now" "err \<noteq> e \<Longrightarrow> never err (throw e)"
  "\<forall>m. err \<noteq> PlainErr m \<Longrightarrow> never err new_uuid" "err \<noteq> PgErr ConnectionFailure \<Longrightarrow> never err (query q)"
  "r \<noteq> Inl err \<Longrightarrow> never err (lift_result r)"
  by (auto simp: never_def ret_def time_now_def throw_def new_uuid_def query_Inl lift_result_def
      split: list.splits sum.splits)

lemma never_cases:
  "never err m \<Longrightarrow> never err m' \<Longrightarrow> never err (if b then m else m')"
  "never err m \<Longrightarrow> (\<And>x. never err (k x)) \<Longrightarrow> never err (case z of None \<Rightarrow> m | Some x \<Rightarrow> k x)"
  "(\<And>x y. never err (f x y)) \<Longrightarrow> never err (case p of (x, y) \<Rightarrow> f x y)"
  by (simp_all split: option.split prod.split)

lemma renew_prepare_error: "renew_prepare J s t token w \<noteq> (Inl (AuthnErr TokenNotAcknowledgedError), w')"
proof -
  have "validate J z token use now \<noteq> Inl (AuthnErr TokenNotAcknowledgedError)"
    "sign J z c use \<noteq> Inl (AuthnErr TokenNotAcknowledgedError)" for z token use now c
    by (auto simp: validate_def sign_def split: sum.splits prod.splits)
  then have "never (AuthnErr TokenNotAcknowledgedError) (renew_prepare J s t token)"
    unfolding renew_prepare_def ValidateRefreshToken_def liveAccount_def issue_def expires_at_def account_Read_def
      account_read_def CreateAccessToken_def CreateRefreshToken_def registeredClaims_def
    by (intro never_bindE never_basic never_cases) simp_all
  then show ?thesis by (simp add: never_def)
qed

lemma next_step_quiet:
  assumes J: "jwt_ok J" and parts: "jwt_parts J token = Some (h, c)"
    and inv: "distinct (session_keys (db w))" "good_call c call" and q: "quiet w"
    and step: "next_step J s t token call w = Some (call', w')"
  shows "quiet w' \<and> (if won call' \<or> \<not> outrun call' then True else \<not> latest_of (db w) t c \<and> db w' = db w) \<and>
    (latest_of (db w) t c \<and> \<not> won call' \<longrightarrow> db w' = db w)"
proof (cases call)
  case Started
  then show ?thesis
    using step q renew_prepare_draws(2) reads_keeps [OF reads_renew_prepare]
    by (auto simp: next_step_def outrun_def renew_prepare_error split: prod.splits sum.splits)
next
  case (Prepared p)
  obtain c' a j x where p: "p = (c', a, j, x)" by (cases p)
  with inv(2) Prepared have c: "c' = c" by (auto simp: good_call_def)
  show ?thesis
    using step Prepared p c q renew_commit_eq [OF inv(1) quiet_not_failing [OF q], of t c a j x]
    by (auto simp: next_step_def outrun_def split: if_splits)
qed (use step in \<open>auto simp: next_step_def\<close>)

lemma race_step_quiet:
  assumes J: "jwt_ok J" and parts: "jwt_parts J token = Some (h, c)"
    and inv: "quiet_inv t c st" and step: "race_step J s t token st st'"
  shows "quiet_inv t c st'"
proof -
  have r: "race_inv t c st'" using race_step_inv [OF J parts _ step] inv by (simp add: quiet_inv_def)
  from step show ?thesis
  proof (cases rule: race_step.cases)
    case (call_steps i call w')
    from inv call_steps(2) have good: "good_call c (race_calls st ! i)"
      and uniq: "distinct (session_keys (db (race_world st)))" and id: "claim_ID c \<notin> set (uuids (race_world st))"
      by (simp_all add: quiet_inv_def race_inv_def)
    note a = next_step_inv [OF J parts uniq id good call_steps(3)]
    note b = next_step_quiet [OF J parts uniq good _ call_steps(3)]
    have w: "winners st' = winners st + (if won call then 1 else 0)"
      using winners_update [OF call_steps(2)] a call_steps(1) by (simp add: winners_def)
    have exact: "winners st' + (if latest_of (db w') t c then 1 else 0) = 1"
      using a w inv by (auto simp: quiet_inv_def split: if_splits)
    have "winners st' = 1" if "\<exists>x\<in>set (race_calls st'). outrun x"
    proof -
      from that have "outrun call \<or> (\<exists>x\<in>set (race_calls st). outrun x)"
        using call_steps(1) by (auto dest!: set_update_subset_insert [THEN subsetD])
      moreover have "\<not> won call" if "outrun call" using that by (simp add: outrun_def)
      ultimately show ?thesis
        using a b w inv exact by (auto simp: quiet_inv_def split: if_splits)
    qed
    with r exact b inv call_steps(1) show ?thesis by (simp add: quiet_inv_def)
  qed
qed

section \<open>Properties\<close>

text \<open>
  C6: concurrent renewals of one refresh token have at most one winner. Whatever the
  interleaving of the calls, the failures and what other writers do, as long as none of them
  acknowledges the token again, at most one of the calls renews, and after it the token is not
  the session's latest. Undisturbed, where the token was the latest, exactly one wins as soon as
  any call has won or lost the rotation.
\<close>

theorem one_renewal_wins:
  assumes J: "jwt_ok J" and parts: "jwt_parts J token = Some (h, c)"
    and uniq: "distinct (session_keys (db w))" and fresh: "claim_ID c \<notin> set (uuids w)"
  shows "(races J s t token c (race_start w n) st \<longrightarrow>
      winners st \<le> 1 \<and> (winners st = 1 \<longrightarrow> \<not> latest_of (db (race_world st)) t c)) \<and>
    (quiet w \<and> latest_of (db w) t c \<and> (race_step J s t token)\<^sup>*\<^sup>* (race_start w n) st \<and>
      (\<exists>call\<in>set (race_calls st). won call \<or> outrun call) \<longrightarrow> winners st = 1)"
proof -
  have "race_inv t c (race_start w n)"
    using uniq fresh by (simp add: race_inv_def race_start_def winners_def good_call_def)
  then have any: "races J s t token c (race_start w n) st \<Longrightarrow> race_inv t c st"
    using races_inv [OF J parts] by blast
  have "winners st = 1"
    if q: "quiet w" "latest_of (db w) t c" and run: "(race_step J s t token)\<^sup>*\<^sup>* (race_start w n) st"
      and decided: "\<exists>call\<in>set (race_calls st). won call \<or> outrun call"
  proof -
    from q uniq fresh have "quiet_inv t c (race_start w n)"
      by (simp add: quiet_inv_def race_inv_def race_start_def winners_def good_call_def outrun_def)
    with run have "quiet_inv t c st"
      by (induction rule: rtranclp_induct) (auto intro: race_step_quiet [OF J parts])
    moreover have "winners st \<noteq> 0" if "\<exists>call\<in>set (race_calls st). won call"
      using that by (auto simp: winners_def filter_empty_conv)
    ultimately show ?thesis using decided by (auto simp: quiet_inv_def split: if_splits)
  qed
  with any show ?thesis by (auto simp: race_inv_def split: if_splits)
qed

text \<open>An interleaving given by the calls that step, in order.\<close>

definition do_step :: "'tok jwt_lib \<Rightarrow> authn_service \<Rightarrow> string \<Rightarrow> 'tok \<Rightarrow> nat \<Rightarrow> 'tok race \<Rightarrow> 'tok race" where
  "do_step J s t token i st =
     (if i < length (race_calls st)
      then case next_step J s t token (race_calls st ! i) (race_world st) of
             None \<Rightarrow> st
           | Some (call, w') \<Rightarrow> \<lparr>race_world = w', race_calls = (race_calls st)[i := call]\<rparr>
      else st)"

lemma do_steps_reach: "(race_step J s t token)\<^sup>*\<^sup>* st (fold (do_step J s t token) is st)"
proof (induction "is" arbitrary: st)
  case (Cons i "is")
  have "(race_step J s t token)\<^sup>*\<^sup>* st (do_step J s t token i st)"
    by (auto simp: do_step_def split: option.splits intro!: race_step.call_steps)
  also have "(race_step J s t token)\<^sup>*\<^sup>* (do_step J s t token i st) (fold (do_step J s t token) is (do_step J s t token i st))"
    by (rule Cons.IH)
  finally show ?case by simp
qed simp

theorem one_renewal_wins_witness:
  "winners (fold (do_step sample_jwt sample_service ''default'' sample_refresh_token) [0, 1, 1, 0]
     (race_start (sample_world sample_open_db 9000000000 [''j3'', ''j4'', ''j5'', ''j6'']) 2)) = 1"
proof -
  let ?w = "sample_world sample_open_db 9000000000 [''j3'', ''j4'', ''j5'', ''j6'']"
  let ?st = "fold (do_step sample_jwt sample_service ''default'' sample_refresh_token) [0, 1, 1, 0] (race_start ?w 2)"
  have parts: "jwt_parts sample_jwt sample_refresh_token =
      Some (\<lparr>hd_alg = ''RS256'', hd_kid = Some ''kid'', hd_use = Some ''refresh''\<rparr>, sample_refresh_claims)"
    by (simp add: sample_jwt_def sample_refresh_token_def)
  have uniq: "distinct (session_keys (db ?w))" by (simp add: sample_open_db_def)
  have "claim_ID sample_refresh_claims \<notin> set (uuids ?w)" by (simp add: sample_refresh_claims_def)
  note wins = one_renewal_wins [OF jwt_ok_sample parts uniq this, where n = 2 and st = ?st, THEN conjunct2, THEN mp]
  have latest: "latest_of (db ?w) ''default'' sample_refresh_claims"
    by (simp add: latest_of_def sample_open_db_def session_at_def select_row_def session_key_def sample_session_def
        sample_refresh_claims_def sample_access_claims_def)
  have "list_ex won (race_calls ?st)" by code_simp
  then have "\<exists>call\<in>set (race_calls ?st). won call \<or> outrun call"
    by (simp only: list_ex_iff) blast
  then show ?thesis
    by (intro wins [of "''default''" sample_service] conjI quiet_sample latest do_steps_reach)
qed

end
