(* ===== verification/SessionLife.thy ===== *)
theory SessionLife
  imports Authn
begin

text \<open>
  A logon gets through: where nothing fails, an account that may log on opens a session with the
  right password, the service accepts its tokens, and the session is renewed.
\<close>

section \<open>Steps that succeed\<close>

text \<open>RS256 signs any claims with a key; the library reports errors of other algorithms only.\<close>

definition signs :: "'tok jwt_lib \<Rightarrow> tokenizer \<Rightarrow> bool" where
  "signs J tok \<longleftrightarrow> (\<forall>h c. \<exists>x. jwt_SignedString J h c (signingKey tok) = Inr x)"

lemma sign_runs: "signs J tok \<Longrightarrow> \<exists>x. sign J tok c use = Inr x"
  by (auto simp: signs_def sign_def signingKeyPair_def map_sum_def split: sum.split) (metis Inr_not_Inl)

lemma issue_runs:
  assumes "signs J (an_tokenizer s)" and "uuids w = i # j # us"
  obtains a ca rc where "issue J s t e c w = (Inr (a, rc), w\<lparr>uuids := us\<rparr>)"
    and "sign J (an_tokenizer s) ca UseAccess = Inr (AccessToken a)"
    and "sign J (an_tokenizer s) rc UseRefresh = Inr (RefreshToken a)"
    and "ca = \<lparr>claim_TenantID = t, claim_ClientID = c, claim_ID = i, claim_Subject = e,
          claim_Issuer = tz_issuer (an_tokenizer s), claim_Audience = [tz_audience (an_tokenizer s)],
          claim_ExpiresAt = Some (jwt_NumericDate J (instant_add (wall w) (accessExpiry (an_tokenizer s)))),
          claim_IssuedAt = Some (jwt_NumericDate J (wall w)), claim_NotBefore = Some (jwt_NumericDate J (wall w))\<rparr>"
    and "rc = ca\<lparr>claim_ID := j, claim_ExpiresAt := Some (jwt_NumericDate J (instant_add (wall w) (refreshExpiry (an_tokenizer s))))\<rparr>"
proof -
  define ca where "ca = \<lparr>claim_TenantID = t, claim_ClientID = c, claim_ID = i, claim_Subject = e,
          claim_Issuer = tz_issuer (an_tokenizer s), claim_Audience = [tz_audience (an_tokenizer s)],
          claim_ExpiresAt = Some (jwt_NumericDate J (instant_add (wall w) (accessExpiry (an_tokenizer s)))),
          claim_IssuedAt = Some (jwt_NumericDate J (wall w)), claim_NotBefore = Some (jwt_NumericDate J (wall w))\<rparr>"
  define rc where "rc = ca\<lparr>claim_ID := j,
      claim_ExpiresAt := Some (jwt_NumericDate J (instant_add (wall w) (refreshExpiry (an_tokenizer s))))\<rparr>"
  obtain x y where xy: "sign J (an_tokenizer s) ca UseAccess = Inr x" "sign J (an_tokenizer s) rc UseRefresh = Inr y"
    using sign_runs [OF assms(1)] by blast
  have "CreateAccessToken J (an_tokenizer s) t e c w = (Inr (x, ca), w\<lparr>uuids := j # us\<rparr>)"
    using assms(2) xy(1) by (simp add: CreateAccessToken_Inr ca_def)
  moreover have "CreateRefreshToken J (an_tokenizer s) t e c (w\<lparr>uuids := j # us\<rparr>) = (Inr (y, rc), w\<lparr>uuids := us\<rparr>)"
    using xy(2) by (simp add: CreateRefreshToken_Inr rc_def ca_def)
  ultimately have "issue J s t e c w = (Inr (\<lparr>AccessToken = x, RefreshToken = y\<rparr>, rc), w\<lparr>uuids := us\<rparr>)"
    by (simp add: issue_def bindE_def attempt_def ret_def)
  then show ?thesis
  proof (rule that)
    show "sign J (an_tokenizer s) ca UseAccess = Inr (AccessToken \<lparr>AccessToken = x, RefreshToken = y\<rparr>)"
      and "sign J (an_tokenizer s) rc UseRefresh = Inr (RefreshToken \<lparr>AccessToken = x, RefreshToken = y\<rparr>)"
      using xy by simp_all
  qed (fact ca_def, fact rc_def)
qed

lemma issue_runs_expiry:
  assumes "signs J (an_tokenizer s)" and "uuids w = i # j # us"
  shows "\<exists>a rc x. issue J s t e c w = (Inr (a, rc), w\<lparr>uuids := us\<rparr>) \<and> claim_ExpiresAt rc = Some x"
  using assms
proof (rule issue_runs)
  fix a ca rc
  assume "issue J s t e c w = (Inr (a, rc), w\<lparr>uuids := us\<rparr>)"
    and "rc = ca\<lparr>claim_ID := j, claim_ExpiresAt := Some (jwt_NumericDate J (instant_add (wall w) (refreshExpiry (an_tokenizer s))))\<rparr>"
  then show ?thesis by auto
qed

text \<open>An expiry of at least a second survives the truncation of a date to seconds.\<close>

lemma numeric_date_after:
  assumes "jwt_ok J" and "1000000000 \<le> d"
  shows "now < jwt_NumericDate J (instant_add now d)"
proof -
  have "instant_add now d < instant_add (jwt_NumericDate J (instant_add now d)) 1000000000"
    using assms(1) by (auto simp: jwt_ok_def)
  with assms(2) show ?thesis by (simp add: less_instant_def instant_add_def)
qed

lemma session_Upsert_runs:
  assumes "quiet w" and "uuids w = k # us" and "k \<notin> se_id ` set (t_sessions (db w))"
    and "distinct (session_keys (db w))"
  obtains w' where "session_Upsert q w = (Inr (), w')" and "quiet w'" and "t_accounts (db w') = t_accounts (db w)"
    and "wall w' = wall w" and "uuids w' = us" and "distinct (session_keys (db w'))"
proof -
  let ?row = "q\<lparr>se_id := k, se_created := pg_now w, se_modified := pg_now w\<rparr>"
  let ?upd = "\<lambda>r. r\<lparr>se_refresh_jti := se_refresh_jti (q\<lparr>se_id := k\<rparr>), se_expires := se_expires (q\<lparr>se_id := k\<rparr>), se_modified := pg_now w\<rparr>"
  have "\<exists>ts. upsert_row session_same session_conflict ?upd ?row (t_sessions (db w)) = Inr ts"
    using assms(3) by (auto simp: upsert_row_def insert_row_def session_conflict_def session_same_def)
  then obtain ts where ts: "upsert_row session_same session_conflict ?upd ?row (t_sessions (db w)) = Inr ts" by blast
  have "session_Upsert q w = (Inr (), (tick (w\<lparr>uuids := us\<rparr>))\<lparr>db := (db w)\<lparr>t_sessions := ts\<rparr>\<rparr>)"
    using assms(1,2) ts by (simp add: session_Upsert_def bindE_def attempt_def new_uuid_def exec_def session_Upsert_stmt_def)
  then show ?thesis
    by (rule that) (use assms(1,4) session_client.upsert_distinct [OF _ _ ts] in simp_all)
qed

section \<open>Property\<close>

text \<open>The pair a logon gives is valid, and starts a session when it is acknowledged.\<close>

lemma logon_runs:
  assumes "jwt_ok J" and "reads_tokens_of (an_tokenizer s) (an_tokenizer s)" and "signs J (an_tokenizer s)"
    and "1000000000 \<le> accessExpiry (an_tokenizer s)" and "1000000000 \<le> refreshExpiry (an_tokenizer s)"
    and "quiet w" and "may_log_on (db w) t e r" and "\<not> locked (db w) (wall w) t e"
    and "bcrypt_compare C (ac_password_hash r) pw = BcryptMatch" and "uuids w = i # j # us"
  obtains a ca rc wa x where "Authenticate C J s t e c pw w = (Inr a, wa)"
    and "validate J (an_tokenizer s) (AccessToken a) UseAccess (wall wa) = Inr ca"
    and "validate J (an_tokenizer s) (RefreshToken a) UseRefresh (wall wa) = Inr rc"
    and "claim_TenantID ca = t" "claim_Subject ca = e" "claim_ClientID ca = c"
    and "claim_TenantID rc = t" "claim_Subject rc = e" "claim_ClientID rc = c" "claim_ExpiresAt rc = Some x"
    and "quiet wa" and "uuids wa = us" and "t_accounts (db wa) = t_accounts (db w)" and "t_sessions (db wa) = t_sessions (db w)"
proof -
  let ?z = "an_tokenizer s"
  obtain w1 where v: "VerifyPassword C s t e pw w = (Inr (account_of_row r), w1)" "quiet w1"
    and w1: "t_accounts (db w1) = t_accounts (db w)" "t_sessions (db w1) = t_sessions (db w)" "wall w1 = wall w" "uuids w1 = uuids w"
    using VerifyPassword_runs [OF assms(6-9), of s] by (auto simp: goes_on_def)
  obtain a ca rc where iss: "issue J s t e c w1 = (Inr (a, rc), w1\<lparr>uuids := us\<rparr>)"
    and signed: "sign J ?z ca UseAccess = Inr (AccessToken a)" "sign J ?z rc UseRefresh = Inr (RefreshToken a)"
    and ca: "ca = \<lparr>claim_TenantID = t, claim_ClientID = c, claim_ID = i, claim_Subject = e,
          claim_Issuer = tz_issuer ?z, claim_Audience = [tz_audience ?z],
          claim_ExpiresAt = Some (jwt_NumericDate J (instant_add (wall w1) (accessExpiry ?z))),
          claim_IssuedAt = Some (jwt_NumericDate J (wall w1)), claim_NotBefore = Some (jwt_NumericDate J (wall w1))\<rparr>"
    and rc: "rc = ca\<lparr>claim_ID := j, claim_ExpiresAt := Some (jwt_NumericDate J (instant_add (wall w1) (refreshExpiry ?z)))\<rparr>"
    using assms(3) w1(4) [unfolded assms(10)] by (rule issue_runs)
  let ?wa = "w1\<lparr>uuids := us\<rparr>"
  have log: "Authenticate C J s t e c pw w = (Inr a, ?wa)"
    using v(1) iss by (simp add: Authenticate_def bindE_def attempt_def ret_def)
  note nbf = numeric_date_le [OF assms(1), of "wall w1"]
  have valid: "validate J ?z (AccessToken a) UseAccess (wall ?wa) = Inr ca" "validate J ?z (RefreshToken a) UseRefresh (wall ?wa) = Inr rc"
    using signed_validates [OF assms(1,2) signed(1)] signed_validates [OF assms(1,2) signed(2)] nbf
      numeric_date_after [OF assms(1,4)] numeric_date_after [OF assms(1,5)] by (simp_all add: ca rc)
  show ?thesis by (rule that [OF log valid]) (use v(2) w1 in \<open>simp_all add: ca rc\<close>)
qed

lemma acknowledgement_runs:
  assumes "validate J (an_tokenizer s) (AccessToken a) UseAccess (wall w) = Inr ca"
    and "validate J (an_tokenizer s) (RefreshToken a) UseRefresh (wall w) = Inr rc"
    and "claim_TenantID ca = t" "claim_TenantID rc = t" "claim_Subject rc = e" "claim_ClientID rc = c" "claim_ExpiresAt rc = Some x"
    and "claim_Subject ca = e" "claim_ClientID ca = c"
    and "quiet w" and "uuids w = k # us" and "k \<notin> se_id ` set (t_sessions (db w))" and "distinct (session_keys (db w))"
  obtains w' where "Acknowledge J s t a w = (Inr (), w')" and "quiet w'" and "wall w' = wall w" and "uuids w' = us"
    and "t_accounts (db w') = t_accounts (db w)" and "distinct (session_keys (db w'))"
    and "\<exists>q. session_at (db w') t e c = Some q \<and> se_refresh_jti q = claim_ID rc"
proof -
  let ?q = "\<lparr>se_id = [], se_tenant = t, se_email = e, se_client = c, se_refresh_jti = claim_ID rc,
      se_expires = x, se_created = zero_instant, se_modified = zero_instant\<rparr>"
  obtain w' where up: "session_Upsert ?q w = (Inr (), w')" and w': "quiet w'" "t_accounts (db w') = t_accounts (db w)"
      "wall w' = wall w" "uuids w' = us" "distinct (session_keys (db w'))"
    using assms(10-13) by (rule session_Upsert_runs)
  have "Acknowledge J s t a w = (Inr (), w')"
    unfolding Acknowledge_Inr using assms(1-9) up by simp
  then show ?thesis by (rule that) (use w' session_Upsert_at(1) [OF up] in auto)
qed

lemma renewal_runs:
  assumes "signs J (an_tokenizer s)" and "validate J (an_tokenizer s) tok UseRefresh (wall w) = Inr rc"
    and "claim_TenantID rc = t" "claim_Subject rc = e" "claim_ClientID rc = c"
    and "account_at (db w) t e = Some r" "\<not> ac_deleted r" "ac_enabled r"
    and "session_at (db w) t e c = Some q" "se_refresh_jti q = claim_ID rc"
    and "quiet w" and "uuids w = l # m # us" and "distinct (session_keys (db w))"
  shows "\<exists>b w'. Renew J s t tok w = (Inr b, w')"
proof -
  obtain b rb x where again: "issue J s t e c (tick w) = (Inr (b, rb), (tick w)\<lparr>uuids := us\<rparr>)"
    and x: "claim_ExpiresAt rb = Some x"
    using issue_runs_expiry [OF assms(1), of "tick w" l m us t e c] assms(12) by auto
  let ?w = "(tick w)\<lparr>uuids := us\<rparr>"
  have "ValidateRefreshToken J (an_tokenizer s) tok w = (Inr rc, w)"
    using assms(2) by (simp add: ValidateRefreshToken_Inr)
  moreover have "liveAccount t e w = (Inr (account_of_row r), tick w)" using assms(6-8,11) by (simp add: liveAccount_Inr)
  ultimately have prep: "renew_prepare J s t tok w = (Inr (rc, b, claim_ID rb, x), ?w)"
    using again x assms(3-5) by (simp add: renew_prepare_def bindE_def attempt_def expires_at_def ret_def)
  have "latest_of (db ?w) t rc" using assms(4,5,9,10) by (simp add: latest_of_def)
  then have "\<exists>w'. renew_commit t (rc, b, claim_ID rb, x) ?w = (Inr b, w')"
    using renew_commit_eq [of ?w t rc b "claim_ID rb" x] assms(11,13) by simp
  then show ?thesis using prep by (auto simp: Renew_split bindE_def attempt_def)
qed

text \<open>
  C16: a user who may log on gets in. Where nothing fails and the address is not locked, the right
  password of a live verified account is answered with a pair of tokens; acknowledging the pair
  opens a session; the access token then validates with the tenant, the address and the client; and
  the refresh token is renewed for another pair. The tokenizer knows its own key, tokens live for at
  least a second, and ids are fresh.
\<close>

theorem a_user_gets_in:
  assumes "jwt_ok J" and "reads_tokens_of (an_tokenizer s) (an_tokenizer s)" and "signs J (an_tokenizer s)"
    and "1000000000 \<le> accessExpiry (an_tokenizer s)" and "1000000000 \<le> refreshExpiry (an_tokenizer s)"
    and "quiet w" and "may_log_on (db w) t e r" and "\<not> locked (db w) (wall w) t e"
    and "bcrypt_compare C (ac_password_hash r) pw = BcryptMatch"
    and "uuids w = i # j # k # l # m # us" and "k \<notin> se_id ` set (t_sessions (db w))" and "distinct (session_keys (db w))"
  shows "\<exists>pair wa wb claims wc next wd. Authenticate C J s t e c pw w = (Inr pair, wa) \<and>
    Acknowledge J s t pair wa = (Inr (), wb) \<and>
    Validate J s t (AccessToken pair) wb = (Inr claims, wc) \<and>
    claim_TenantID claims = t \<and> claim_Subject claims = e \<and> claim_ClientID claims = c \<and>
    Renew J s t (RefreshToken pair) wc = (Inr next, wd)"
proof -
  obtain a ca rc wa x where log: "Authenticate C J s t e c pw w = (Inr a, wa)"
    and valid: "validate J (an_tokenizer s) (AccessToken a) UseAccess (wall wa) = Inr ca"
      "validate J (an_tokenizer s) (RefreshToken a) UseRefresh (wall wa) = Inr rc"
    and ca: "claim_TenantID ca = t" "claim_Subject ca = e" "claim_ClientID ca = c"
    and rc: "claim_TenantID rc = t" "claim_Subject rc = e" "claim_ClientID rc = c" "claim_ExpiresAt rc = Some x"
    and wa: "quiet wa" "uuids wa = k # l # m # us" "t_accounts (db wa) = t_accounts (db w)" "t_sessions (db wa) = t_sessions (db w)"
    using assms(1-10) by (rule logon_runs)
  have fresh: "k \<notin> se_id ` set (t_sessions (db wa))" "distinct (session_keys (db wa))" using assms(11,12) wa(4) by simp_all
  obtain wb where ack: "Acknowledge J s t a wa = (Inr (), wb)" and wb: "quiet wb" "wall wb = wall wa" "uuids wb = l # m # us"
      "t_accounts (db wb) = t_accounts (db wa)" "distinct (session_keys (db wb))"
      and "\<exists>q. session_at (db wb) t e c = Some q \<and> se_refresh_jti q = claim_ID rc"
    using valid ca(1) rc ca(2,3) wa(1,2) fresh by (rule acknowledgement_runs)
  then obtain q where q: "session_at (db wb) t e c = Some q" "se_refresh_jti q = claim_ID rc" by blast
  have live: "account_at (db wb) t e = Some r" "\<not> ac_deleted r" "ac_enabled r"
    using assms(7) wa(3) wb(4) by (auto simp: may_log_on_def account_at_def)
  have val: "Validate J s t (AccessToken a) wb = (Inr ca, tick (tick wb))"
    using valid(1) ca wb(1,2) q(1) live by (simp add: Validate_Inr)
  have "\<exists>b wd. Renew J s t (RefreshToken a) (tick (tick wb)) = (Inr b, wd)"
    by (rule renewal_runs [OF assms(3)]) (use valid(2) rc live q wb in simp_all)
  with log ack val ca show ?thesis by blast
qed

theorem a_user_gets_in_witness:
  "\<exists>pair wa wb claims wc. Authenticate sample_crypto sample_jwt sample_service ''default'' ''a@b.co'' ''web'' ''hunter22''
       (sample_world sample_db 7000000000 [''j1'', ''j2'', ''s1'', ''j3'', ''j4'']) = (Inr pair, wa) \<and>
     Acknowledge sample_jwt sample_service ''default'' pair wa = (Inr (), wb) \<and>
     Validate sample_jwt sample_service ''default'' (AccessToken pair) wb = (Inr claims, wc) \<and> claim_Subject claims = ''a@b.co''"
proof -
  let ?w = "sample_world sample_db 7000000000 [''j1'', ''j2'', ''s1'', ''j3'', ''j4'']"
  have "signs sample_jwt (an_tokenizer sample_service)" by (simp add: signs_def sample_jwt_def)
  moreover have "reads_tokens_of (an_tokenizer sample_service) (an_tokenizer sample_service)"
    by (simp add: sample_service_def sample_tokenizer_reads)
  moreover have "1000000000 \<le> accessExpiry (an_tokenizer sample_service)" "1000000000 \<le> refreshExpiry (an_tokenizer sample_service)"
    by (simp_all add: sample_service_def sample_tokenizer_def seconds_exact)
  moreover have "\<not> locked (db ?w) (wall ?w) ''default'' ''a@b.co''" by (simp add: locked_def)
  moreover have "bcrypt_compare sample_crypto (ac_password_hash sample_account) ''hunter22'' = BcryptMatch"
    by (simp add: sample_account_def)
  ultimately show ?thesis
    using a_user_gets_in [of sample_jwt sample_service ?w "''default''" "''a@b.co''" sample_account sample_crypto "''hunter22''"
        "''j1''" "''j2''" "''s1''" "''j3''" "''j4''" "[]" "''web''"] sample_may_log_on jwt_ok_sample
    by (simp add: sample_may_log_on) blast
qed

end
