(* ===== verification/OidcRequests.thy ===== *)
theory OidcRequests
  imports AccountRepository
begin

text \<open>
  \<open>src/internal/oidc/oidc.go\<close> and \<open>auth_request_repository.go\<close>: the tenant carried through
  the request context, the authorization request, and its store. A nil slice and an empty
  one are the same list, so \<open>emptyIfNil\<close> is the identity.
\<close>

section \<open>The tenant of a request\<close>

text \<open>What \<open>WithTenant\<close> put into the context, if anything.\<close>

type_synonym oidc_context = "string option"

definition WithTenant :: "oidc_context \<Rightarrow> string \<Rightarrow> oidc_context" where
  "WithTenant ctx tenantID = Some tenantID"

definition TenantFrom :: "oidc_context \<Rightarrow> string op" where
  "TenantFrom ctx =
     (case ctx of
        None \<Rightarrow> throw (OidcErr MissingTenantError)
      | Some tenantID \<Rightarrow> if tenantID = [] then throw (OidcErr MissingTenantError) else ret tenantID)"

section \<open>Authorization requests\<close>

record AuthRequest =
  AuthRequest_ID :: string
  AuthRequest_TenantID :: string
  AuthRequest_ClientID :: string
  AuthRequest_Subject :: string
  AuthRequest_RedirectURI :: string
  AuthRequest_ResponseType :: string
  AuthRequest_ResponseMode :: string
  AuthRequest_Scopes :: "string list"
  AuthRequest_State :: string
  AuthRequest_Nonce :: string
  AuthRequest_CodeChallenge :: string
  AuthRequest_CodeChallengeMethod :: string
  AuthRequest_AMR :: "string list"
  AuthRequest_AuthTime :: instant
  AuthRequest_Complete :: bool
  AuthRequest_Expires :: instant
  AuthRequest_Created :: instant
  AuthRequest_Modified :: instant

text \<open>The getters the provider library reads a request through that are not plain fields.\<close>

definition GetAudience :: "AuthRequest \<Rightarrow> string list" where
  "GetAudience a = [AuthRequest_ClientID a]"

definition GetCodeChallenge :: "AuthRequest \<Rightarrow> (string \<times> string) option" where
  "GetCodeChallenge a =
     (if AuthRequest_CodeChallenge a = [] then None
      else Some (AuthRequest_CodeChallenge a, AuthRequest_CodeChallengeMethod a))"

subsection \<open>The store\<close>

definition nullableTime :: "instant \<Rightarrow> instant option" where
  "nullableTime v = (if v = zero_instant then None else Some v)"

definition auth_request_insert_stmt :: "AuthRequest \<Rightarrow> instant \<Rightarrow> database \<Rightarrow> pg_error + (instant \<times> instant) \<times> database" where
  [stmt_defs]: "auth_request_insert_stmt request now d =
     map_sum id (\<lambda>t. ((now, now), d\<lparr>t_auth_requests := t\<rparr>))
       (insert_row auth_request_conflict
          \<lparr>rq_id = AuthRequest_ID request, rq_tenant = AuthRequest_TenantID request,
           rq_client = AuthRequest_ClientID request, rq_subject = AuthRequest_Subject request,
           rq_redirect_uri = AuthRequest_RedirectURI request,
           rq_response_type = AuthRequest_ResponseType request,
           rq_response_mode = AuthRequest_ResponseMode request, rq_scopes = AuthRequest_Scopes request,
           rq_state = AuthRequest_State request, rq_nonce = AuthRequest_Nonce request,
           rq_code_challenge = AuthRequest_CodeChallenge request,
           rq_code_challenge_method = AuthRequest_CodeChallengeMethod request, rq_code_hash = None,
           rq_amr = AuthRequest_AMR request, rq_auth_time = nullableTime (AuthRequest_AuthTime request),
           rq_done = AuthRequest_Complete request, rq_expires = AuthRequest_Expires request,
           rq_created = now, rq_modified = now\<rparr>
          (t_auth_requests d))"

definition auth_request_error :: "go_error \<Rightarrow> go_error" where
  "auth_request_error e = constraintError e ''auth request''"

definition auth_request_Create :: "AuthRequest \<Rightarrow> AuthRequest op" where
  "auth_request_Create request =
     bindE new_uuid (\<lambda>i.
     (let request = request\<lparr>AuthRequest_ID := i\<rparr> in
      bindE (map_err auth_request_error (exec (auth_request_insert_stmt request))) (\<lambda>(created, modified).
      ret (request\<lparr>AuthRequest_Created := created, AuthRequest_Modified := modified\<rparr>))))"

definition auth_request_of_row :: "auth_request_row \<Rightarrow> AuthRequest" where
  "auth_request_of_row r =
     \<lparr>AuthRequest_ID = rq_id r, AuthRequest_TenantID = rq_tenant r, AuthRequest_ClientID = rq_client r,
      AuthRequest_Subject = rq_subject r, AuthRequest_RedirectURI = rq_redirect_uri r,
      AuthRequest_ResponseType = rq_response_type r, AuthRequest_ResponseMode = rq_response_mode r,
      AuthRequest_Scopes = rq_scopes r, AuthRequest_State = rq_state r, AuthRequest_Nonce = rq_nonce r,
      AuthRequest_CodeChallenge = rq_code_challenge r,
      AuthRequest_CodeChallengeMethod = rq_code_challenge_method r, AuthRequest_AMR = rq_amr r,
      AuthRequest_AuthTime = (case rq_auth_time r of None \<Rightarrow> zero_instant | Some t \<Rightarrow> t),
      AuthRequest_Complete = rq_done r, AuthRequest_Expires = rq_expires r,
      AuthRequest_Created = rq_created r, AuthRequest_Modified = rq_modified r\<rparr>"

text \<open>
  A statement with an id as its parameter casts the text to the type of the column; a text
  that does not cast is an error of the statement.
\<close>

definition at_uuid :: "crypto \<Rightarrow> string \<Rightarrow> (string \<Rightarrow> pg_error + 'a) \<Rightarrow> pg_error + 'a" where
  "at_uuid C i s = (case pg_uuid C i of None \<Rightarrow> Inl InvalidText | Some u \<Rightarrow> s u)"

text \<open>
  The checks every read of the OIDC stores makes on the row it found: the tenant after the
  read, so that the attempt is distinguishable from a miss, then the expiry.
\<close>

definition live_row :: "string \<Rightarrow> go_error \<Rightarrow> ('r \<Rightarrow> string) \<Rightarrow> ('r \<Rightarrow> instant) \<Rightarrow> 'r option \<Rightarrow> 'r op" where
  "live_row tenantID notFound tenant expires row =
     (case row of
        None \<Rightarrow> throw notFound
      | Some r \<Rightarrow>
          if tenant r \<noteq> tenantID then throw (OidcErr TenantMismatchError)
          else bindE time_now (\<lambda>now.
               if instant_before (expires r) now then throw notFound else ret r))"

definition auth_request_read :: "auth_request_row option op \<Rightarrow> string \<Rightarrow> string \<Rightarrow> AuthRequest op" where
  "auth_request_read found tenantID notFound =
     bindE found (\<lambda>row.
     bindE (live_row tenantID (OidcErr (AuthRequestNotFoundError notFound)) rq_tenant rq_expires row) (\<lambda>r.
     ret (auth_request_of_row r)))"

definition auth_request_Read :: "crypto \<Rightarrow> string \<Rightarrow> string \<Rightarrow> AuthRequest op" where
  "auth_request_Read C tenantID i =
     (if \<not> uuid_parse C i then throw (OidcErr (AuthRequestNotFoundError i))
      else auth_request_read
             (exec (\<lambda>now d. at_uuid C i (\<lambda>u. Inr (select_row (\<lambda>r. rq_id r = u) (t_auth_requests d), d))))
             tenantID i)"

definition auth_request_ReadByCode :: "crypto \<Rightarrow> string \<Rightarrow> string \<Rightarrow> AuthRequest op" where
  "auth_request_ReadByCode C tenantID code =
     auth_request_read
       (query (\<lambda>d. select_row (\<lambda>r. rq_code_hash r = Some (Sha256Hex C code)) (t_auth_requests d)))
       tenantID ''code''"

definition auth_request_update :: "(instant \<Rightarrow> database \<Rightarrow> pg_error + nat \<times> database) \<Rightarrow> string \<Rightarrow> unit op" where
  "auth_request_update stmt i =
     bindE (map_err auth_request_error (exec stmt)) (\<lambda>n.
     if n = 0 then throw (OidcErr (AuthRequestNotFoundError i)) else ret ())"

definition auth_request_set_stmt ::
    "crypto \<Rightarrow> string \<Rightarrow> string \<Rightarrow> (instant \<Rightarrow> auth_request_row \<Rightarrow> auth_request_row) \<Rightarrow> instant \<Rightarrow> database \<Rightarrow>
     pg_error + nat \<times> database" where
  [stmt_defs]: "auth_request_set_stmt C tenantID i f now d =
     at_uuid C i (\<lambda>u. map_sum id (\<lambda>(n, t). (n, d\<lparr>t_auth_requests := t\<rparr>))
       (update_checked auth_request_conflict (\<lambda>r. rq_tenant r = tenantID \<and> rq_id r = u) (f now) (t_auth_requests d)))"

definition set_authenticated :: "string \<Rightarrow> instant \<Rightarrow> string list \<Rightarrow> instant \<Rightarrow> auth_request_row \<Rightarrow> auth_request_row" where
  "set_authenticated subject authTime amr now r =
     r\<lparr>rq_subject := subject, rq_auth_time := Some authTime, rq_amr := amr, rq_done := True, rq_modified := now\<rparr>"

definition set_code :: "string \<Rightarrow> instant \<Rightarrow> auth_request_row \<Rightarrow> auth_request_row" where
  "set_code h now r = r\<lparr>rq_code_hash := Some h, rq_modified := now\<rparr>"

definition auth_request_Authenticate :: "crypto \<Rightarrow> string \<Rightarrow> string \<Rightarrow> string \<Rightarrow> instant \<Rightarrow> string list \<Rightarrow> unit op" where
  "auth_request_Authenticate C tenantID i subject authTime amr =
     auth_request_update (auth_request_set_stmt C tenantID i (set_authenticated subject authTime amr)) i"

definition auth_request_SaveCode :: "crypto \<Rightarrow> string \<Rightarrow> string \<Rightarrow> string \<Rightarrow> unit op" where
  "auth_request_SaveCode C tenantID i code =
     auth_request_update (auth_request_set_stmt C tenantID i (set_code (Sha256Hex C code))) i"

definition auth_request_Delete_stmt :: "crypto \<Rightarrow> string \<Rightarrow> string \<Rightarrow> instant \<Rightarrow> database \<Rightarrow> pg_error + nat \<times> database" where
  [stmt_defs]: "auth_request_Delete_stmt C tenantID i now d =
     at_uuid C i (\<lambda>u. let (n, t) = delete_where (\<lambda>r. rq_tenant r = tenantID \<and> rq_id r = u) (t_auth_requests d) in
       Inr (n, d\<lparr>t_auth_requests := t\<rparr>))"

definition auth_request_Delete :: "crypto \<Rightarrow> string \<Rightarrow> string \<Rightarrow> unit op" where
  "auth_request_Delete C tenantID i =
     (if \<not> uuid_parse C i then throw (OidcErr (AuthRequestNotFoundError i))
      else auth_request_update (auth_request_Delete_stmt C tenantID i) i)"

definition auth_request_DeleteExpired_stmt :: "instant \<Rightarrow> database \<Rightarrow> pg_error + nat \<times> database" where
  [stmt_defs]: "auth_request_DeleteExpired_stmt now d =
     (let (n, t) = delete_where (\<lambda>r. rq_expires r < now) (t_auth_requests d) in
      Inr (n, d\<lparr>t_auth_requests := t\<rparr>))"

definition auth_request_DeleteExpired :: "nat op" where
  "auth_request_DeleteExpired = exec auth_request_DeleteExpired_stmt"

section \<open>Facts\<close>

lemma TenantFrom_Inr [op_inr]: "TenantFrom ctx w = (Inr t, w') \<longleftrightarrow> ctx = Some t \<and> t \<noteq> [] \<and> w' = w"
  by (auto simp: TenantFrom_def op_inr split: option.splits)

lemma TenantFrom_Inl: "TenantFrom ctx w = (Inl e, w') \<longleftrightarrow>
   (ctx = None \<or> ctx = Some []) \<and> e = OidcErr MissingTenantError \<and> w' = w"
  by (auto simp: TenantFrom_def throw_def ret_def split: option.splits)

lemma at_uuid_Inr [simp]: "at_uuid C i s = Inr x \<longleftrightarrow> (\<exists>u. pg_uuid C i = Some u \<and> s u = Inr x)"
  by (auto simp: at_uuid_def split: option.splits)

lemma live_row_Inr [op_inr]:
  "live_row t nf tenant expires row w = (Inr r, w') \<longleftrightarrow>
   row = Some r \<and> tenant r = t \<and> \<not> expires r < wall w \<and> w' = w"
  by (auto simp: live_row_def op_inr split: option.splits)

text \<open>The request an id or a code stands for.\<close>

definition request_at :: "database \<Rightarrow> string \<Rightarrow> auth_request_row option" where
  "request_at d u = select_row (\<lambda>r. rq_id r = u) (t_auth_requests d)"

definition request_of_code :: "database \<Rightarrow> string \<Rightarrow> auth_request_row option" where
  "request_of_code d h = select_row (\<lambda>r. rq_code_hash r = Some h) (t_auth_requests d)"

lemma auth_request_Read_Inr [op_inr]:
  "auth_request_Read C t i w = (Inr a, w') \<longleftrightarrow> \<not> failing w \<and> uuid_parse C i \<and>
   (\<exists>u r. pg_uuid C i = Some u \<and> request_at (db w) u = Some r \<and> rq_tenant r = t \<and> \<not> rq_expires r < wall w \<and>
     a = auth_request_of_row r) \<and> w' = tick w"
  by (auto simp: auth_request_Read_def auth_request_read_def request_at_def op_inr tick_def)

lemma auth_request_ReadByCode_Inr [op_inr]:
  "auth_request_ReadByCode C t c w = (Inr a, w') \<longleftrightarrow> \<not> failing w \<and>
   (\<exists>r. request_of_code (db w) (Sha256Hex C c) = Some r \<and> rq_tenant r = t \<and> \<not> rq_expires r < wall w \<and>
     a = auth_request_of_row r) \<and> w' = tick w"
  by (auto simp: auth_request_ReadByCode_def auth_request_read_def request_of_code_def op_inr tick_def)

lemma auth_request_update_Inr [op_inr]:
  "auth_request_update stmt i w = (Inr u, w') \<longleftrightarrow>
   \<not> failing w \<and> (\<exists>n d. stmt (pg_now w) (db w) = Inr (n, d) \<and> n \<noteq> 0 \<and> w' = (tick w)\<lparr>db := d\<rparr>)"
  by (auto simp: auth_request_update_def op_inr)

lemma auth_request_Delete_Inr [op_inr]:
  "auth_request_Delete C t i w = (Inr u, w') \<longleftrightarrow> \<not> failing w \<and> uuid_parse C i \<and>
   (\<exists>v. pg_uuid C i = Some v \<and> (\<exists>r\<in>set (t_auth_requests (db w)). rq_tenant r = t \<and> rq_id r = v) \<and>
     w' = (tick w)\<lparr>db := (db w)\<lparr>t_auth_requests :=
       filter (\<lambda>r. \<not> (rq_tenant r = t \<and> rq_id r = v)) (t_auth_requests (db w))\<rparr>\<rparr>)"
  by (auto simp: auth_request_Delete_def op_inr stmt_defs delete_where_def filter_empty_conv)

end
