(* ===== verification/OidcClients.thy ===== *)
theory OidcClients
  imports OidcRequests
begin

text \<open>
  \<open>src/internal/oidc/client.go\<close> and \<open>client_repository.go\<close>: the clients of the provider, one
  configured and the others registered per tenant, and the registry the storage resolves
  them through. \<open>ClientRegistry\<close> is an interface with two implementations; the datatype
  \<open>client_registry\<close> has a constructor for each, the locale \<open>client_resolution\<close> states what
  the storage and the login handler rely on.
\<close>

section \<open>Clients\<close>

record StaticClient =
  sc_ID :: string
  sc_SecretHash :: string
  sc_RedirectURIs :: "string list"
  sc_PostLogoutRedirectURIs :: "string list"
  sc_FirstParty :: bool
  sc_IDTokenLifetime :: duration
  sc_ClockSkewTolerance :: duration

text \<open>The scopes and grant types of the specification the library names.\<close>

definition SupportedScopes :: "string list" where
  "SupportedScopes = [''openid'', ''email'', ''profile'', ''offline_access'']"

definition SupportedGrantTypes :: "string list" where
  "SupportedGrantTypes = [''authorization_code'', ''refresh_token'']"

text \<open>
  \<open>providerClient\<close>, as the provider library sees a client: the client, and the login page of
  an authorization request.
\<close>

record providerClient =
  pc_client :: StaticClient
  pc_LoginURL :: "string \<Rightarrow> string"

definition pc_IsScopeAllowed :: "providerClient \<Rightarrow> string \<Rightarrow> bool" where
  "pc_IsScopeAllowed c scope \<longleftrightarrow> scope \<in> set SupportedScopes"

definition pc_GrantTypes :: "providerClient \<Rightarrow> string list" where
  "pc_GrantTypes c = SupportedGrantTypes"

section \<open>Registered clients\<close>

text \<open>The Go struct has the fields of the row.\<close>

definition client_insert_stmt :: "client_row \<Rightarrow> instant \<Rightarrow> database \<Rightarrow> pg_error + unit \<times> database" where
  [stmt_defs]: "client_insert_stmt client now d =
     map_sum id (\<lambda>t. ((), d\<lparr>t_clients := t\<rparr>)) (insert_row client_conflict client (t_clients d))"

definition client_error :: "string \<Rightarrow> go_error \<Rightarrow> go_error" where
  "client_error clientID e = constraintError e clientID"

definition client_repo_Create :: "crypto \<Rightarrow> client_row \<Rightarrow> (client_row \<times> string) op" where
  "client_repo_Create C client =
     bindE RandomToken (\<lambda>secret.
     bindE time_now (\<lambda>now.
     (let client = client\<lparr>cl_secret_hash := Sha256Hex C secret, cl_created_at := now\<rparr> in
      bindE (map_err (client_error (cl_id client)) (exec (client_insert_stmt client))) (\<lambda>_.
      ret (client, secret)))))"

definition client_repo_Read :: "string \<Rightarrow> string \<Rightarrow> client_row op" where
  "client_repo_Read tenantID clientID =
     bindE (query (\<lambda>d. select_row (\<lambda>r. cl_tenant r = tenantID \<and> cl_id r = clientID) (t_clients d))) (\<lambda>row.
     case row of
       None \<Rightarrow> throw (OidcErr (ClientNotFoundError clientID))
     | Some client \<Rightarrow> ret client)"

definition client_Delete_stmt :: "string \<Rightarrow> string \<Rightarrow> instant \<Rightarrow> database \<Rightarrow> pg_error + nat \<times> database" where
  [stmt_defs]: "client_Delete_stmt tenantID clientID now d =
     (let (n, t) = delete_where (\<lambda>r. cl_tenant r = tenantID \<and> cl_id r = clientID) (t_clients d) in
      Inr (n, d\<lparr>t_clients := t\<rparr>))"

definition client_repo_Delete :: "string \<Rightarrow> string \<Rightarrow> unit op" where
  "client_repo_Delete tenantID clientID =
     bindE (exec (client_Delete_stmt tenantID clientID)) (\<lambda>n.
     if n = 0 then throw (OidcErr (ClientNotFoundError clientID)) else ret ())"

section \<open>The registries\<close>

datatype client_registry =
    StaticClientRegistry "StaticClient option"
  | RegistryClientRegistry client_registry

fun idTokenLifetime :: "client_registry \<Rightarrow> duration" where
  "idTokenLifetime (StaticClientRegistry (Some c)) = sc_IDTokenLifetime c"
| "idTokenLifetime _ = 0"

definition admit_redirect :: "string \<Rightarrow> StaticClient \<Rightarrow> unit op" where
  "admit_redirect redirectURI client =
     (if redirectURI \<notin> set (sc_PostLogoutRedirectURIs client)
      then throw (OidcErr (RedirectURINotAllowedError redirectURI)) else ret ())"

text \<open>The configured client is not of a tenant: it answers to its id in each.\<close>

definition NewStaticClientRegistry :: "StaticClient option \<Rightarrow> client_registry" where
  [simp]: "NewStaticClientRegistry client = StaticClientRegistry client"

definition static_Client :: "StaticClient option \<Rightarrow> string \<Rightarrow> StaticClient op" where
  "static_Client client clientID =
     (case client of
        None \<Rightarrow> throw (OidcErr (ClientNotFoundError clientID))
      | Some c \<Rightarrow>
          if sc_ID c \<noteq> clientID then throw (OidcErr (ClientNotFoundError clientID))
          else if \<not> sc_FirstParty c then throw (OidcErr (ClientNotFirstPartyError clientID))
          else ret c)"

definition static_Authenticate :: "crypto \<Rightarrow> StaticClient option \<Rightarrow> string \<Rightarrow> string \<Rightarrow> unit op" where
  "static_Authenticate C configured clientID secret =
     bindE (static_Client configured clientID) (\<lambda>client.
     if \<not> SafeCompare (Sha256Hex C secret) (sc_SecretHash client) then throw (OidcErr ClientAuthenticationError)
     else ret ())"

definition static_PostLogoutRedirect :: "StaticClient option \<Rightarrow> string \<Rightarrow> string \<Rightarrow> unit op" where
  "static_PostLogoutRedirect configured clientID redirectURI =
     bindE (if clientID \<noteq> [] then bindE (static_Client configured clientID) (\<lambda>resolved. ret (Some resolved))
            else ret configured) (\<lambda>client.
     case client of
       None \<Rightarrow> throw (OidcErr (ClientNotFoundError clientID))
     | Some c \<Rightarrow> admit_redirect redirectURI c)"

text \<open>The registered clients stand behind it, and are of one tenant.\<close>

definition NewRegistryClientRegistry :: "client_registry \<Rightarrow> client_registry" where
  [simp]: "NewRegistryClientRegistry configured = RegistryClientRegistry configured"

fun registry_Client :: "client_registry \<Rightarrow> string \<Rightarrow> string \<Rightarrow> StaticClient op" where
  "registry_Client (StaticClientRegistry client) tenantID clientID = static_Client client clientID"
| "registry_Client (RegistryClientRegistry configured) tenantID clientID =
     attempt (registry_Client configured tenantID clientID) (\<lambda>r. case r of
       Inr c \<Rightarrow> ret c
     | Inl _ \<Rightarrow>
         bindE (client_repo_Read tenantID clientID) (\<lambda>registered.
         if \<not> cl_first_party registered then throw (OidcErr (ClientNotFirstPartyError clientID))
         else ret \<lparr>sc_ID = cl_id registered, sc_SecretHash = cl_secret_hash registered,
                   sc_RedirectURIs = cl_redirect_uris registered,
                   sc_PostLogoutRedirectURIs = cl_post_logout_redirect_uris registered,
                   sc_FirstParty = cl_first_party registered,
                   sc_IDTokenLifetime = idTokenLifetime configured, sc_ClockSkewTolerance = 0\<rparr>))"

fun registry_Authenticate :: "crypto \<Rightarrow> client_registry \<Rightarrow> string \<Rightarrow> string \<Rightarrow> string \<Rightarrow> unit op" where
  "registry_Authenticate C (StaticClientRegistry client) tenantID clientID secret = static_Authenticate C client clientID secret"
| "registry_Authenticate C (RegistryClientRegistry configured) tenantID clientID secret =
     bindE (registry_Client (RegistryClientRegistry configured) tenantID clientID) (\<lambda>client.
     if \<not> SafeCompare (Sha256Hex C secret) (sc_SecretHash client) then throw (OidcErr ClientAuthenticationError)
     else ret ())"

fun PostLogoutRedirect :: "client_registry \<Rightarrow> string \<Rightarrow> string \<Rightarrow> string \<Rightarrow> unit op" where
  "PostLogoutRedirect (StaticClientRegistry client) tenantID clientID redirectURI =
     static_PostLogoutRedirect client clientID redirectURI"
| "PostLogoutRedirect (RegistryClientRegistry configured) tenantID clientID redirectURI =
     (if clientID = [] then PostLogoutRedirect configured tenantID clientID redirectURI
      else bindE (registry_Client (RegistryClientRegistry configured) tenantID clientID) (admit_redirect redirectURI))"

text \<open>Both implementations authenticate alike.\<close>

lemma registry_Authenticate_eq:
  "registry_Authenticate C reg t i s =
     bindE (registry_Client reg t i) (\<lambda>client.
     if \<not> SafeCompare (Sha256Hex C s) (sc_SecretHash client) then throw (OidcErr ClientAuthenticationError) else ret ())"
  by (cases reg) (simp_all add: static_Authenticate_def)

section \<open>What a registry promises\<close>

locale client_resolution =
  fixes Client :: "string \<Rightarrow> string \<Rightarrow> StaticClient op"
    and ClientAuth :: "string \<Rightarrow> string \<Rightarrow> string \<Rightarrow> unit op"
    and Redirect :: "string \<Rightarrow> string \<Rightarrow> string \<Rightarrow> unit op"
    and hash_of :: "string \<Rightarrow> string"
  assumes Client_reads: "reads (Client t i)"
    and Client_served: "Client t i w = (Inr c, w') \<Longrightarrow> sc_ID c = i \<and> sc_FirstParty c"
    and ClientAuth_Inr: "ClientAuth t i s w = (Inr u, w') \<longleftrightarrow>
      (\<exists>c. Client t i w = (Inr c, w') \<and> hash_of s = sc_SecretHash c)"
    and Redirect_Inr: "i \<noteq> [] \<Longrightarrow> Redirect t i uri w = (Inr u, w') \<longleftrightarrow>
      (\<exists>c. Client t i w = (Inr c, w') \<and> uri \<in> set (sc_PostLogoutRedirectURIs c))"
begin

text \<open>Resolving, authenticating and admitting a redirect never change the database.\<close>

lemma authenticated_reads: "ClientAuth t i s w = (Inr u, w') \<Longrightarrow> db w' = db w"
  using Client_reads by (auto simp: ClientAuth_Inr dest: reads_keeps)

text \<open>The secret of a client is all a caller can present: two accepted ones have one hash.\<close>

lemma secret_unique:
  "ClientAuth t i s w = (Inr u, w1) \<Longrightarrow> ClientAuth t i s' w = (Inr u, w2) \<Longrightarrow> hash_of s = hash_of s'"
  by (auto simp: ClientAuth_Inr)

lemma redirect_registered:
  "i \<noteq> [] \<Longrightarrow> Redirect t i uri w = (Inr u, w') \<Longrightarrow>
   \<exists>c. Client t i w = (Inr c, w') \<and> sc_ID c = i \<and> sc_FirstParty c \<and> uri \<in> set (sc_PostLogoutRedirectURIs c)"
  by (auto simp: Redirect_Inr dest: Client_served)

end

lemma reads_client_Read: "reads (client_repo_Read t i)"
  unfolding client_repo_Read_def
  by (intro reading.steps_bindE reading.steps_query reading.steps_option reading.steps_throw reading.steps_ret)

lemma reads_static_Client: "reads (static_Client conf i)"
  unfolding static_Client_def by (intro reading.steps_option reading.steps_If reading.steps_throw reading.steps_ret)

lemma reads_registry_Client: "reads (registry_Client reg t i)"
  by (induction reg)
    (auto intro!: reads_static_Client reading.steps_attempt reading.steps_option reading.steps_sum reading.steps_bindE
      reading.steps_If reading.steps_throw reading.steps_ret reads_client_Read)

lemma client_Read_Inr [op_inr]:
  "client_repo_Read t i w = (Inr c, w') \<longleftrightarrow> \<not> failing w \<and>
   select_row (\<lambda>r. cl_tenant r = t \<and> cl_id r = i) (t_clients (db w)) = Some c \<and> w' = tick w"
  by (auto simp: client_repo_Read_def op_inr split: option.splits)

lemma registry_Client_served: "registry_Client reg t i w = (Inr c, w') \<Longrightarrow> sc_ID c = i \<and> sc_FirstParty c"
proof (induction reg arbitrary: w)
  case (StaticClientRegistry client)
  then show ?case by (cases client) (auto simp: static_Client_def throw_eq ret_eq split: if_splits)
next
  case (RegistryClientRegistry configured)
  obtain r w1 where m: "registry_Client configured t i w = (r, w1)" by fastforce
  show ?case
  proof (cases r)
    case (Inl e)
    then show ?thesis using RegistryClientRegistry.prems m by (auto simp: attempt_eq op_inr dest: select_row_SomeD)
  next
    case (Inr c')
    then show ?thesis using RegistryClientRegistry m by (auto simp: attempt_eq ret_eq)
  qed
qed

lemma registry_Authenticate_Inr [op_inr]:
  "registry_Authenticate C reg t i s w = (Inr u, w') \<longleftrightarrow>
   (\<exists>c. registry_Client reg t i w = (Inr c, w') \<and> Sha256Hex C s = sc_SecretHash c)"
  by (auto simp: registry_Authenticate_eq op_inr)

lemma PostLogoutRedirect_Inr:
  "i \<noteq> [] \<Longrightarrow> PostLogoutRedirect reg t i uri w = (Inr u, w') \<longleftrightarrow>
   (\<exists>c. registry_Client reg t i w = (Inr c, w') \<and> uri \<in> set (sc_PostLogoutRedirectURIs c))"
  by (cases reg) (auto simp: op_inr admit_redirect_def static_PostLogoutRedirect_def)

interpretation registry: client_resolution
  "registry_Client reg" "registry_Authenticate C reg" "PostLogoutRedirect reg" "Sha256Hex C"
  for C :: crypto and reg :: client_registry
  by unfold_locales
    (fact reads_registry_Client, fact registry_Client_served, fact registry_Authenticate_Inr,
     fact PostLogoutRedirect_Inr)

section \<open>Registered clients belong to a tenant\<close>

definition client_at :: "database \<Rightarrow> string \<Rightarrow> string \<Rightarrow> client_row option" where
  "client_at d t i = select_row (\<lambda>r. cl_tenant r = t \<and> cl_id r = i) (t_clients d)"

text \<open>The configured client does not answer to the id.\<close>

definition not_configured :: "StaticClient option \<Rightarrow> string \<Rightarrow> bool" where
  "not_configured conf i \<longleftrightarrow> (case conf of None \<Rightarrow> True | Some k \<Rightarrow> sc_ID k \<noteq> i)"

lemma registry_Client_stored:
  assumes "not_configured conf i" and "\<not> failing w"
  shows "registry_Client (RegistryClientRegistry (StaticClientRegistry conf)) t i w =
    (case client_at (db w) t i of
       None \<Rightarrow> (Inl (OidcErr (ClientNotFoundError i)), tick w)
     | Some r \<Rightarrow> if \<not> cl_first_party r then (Inl (OidcErr (ClientNotFirstPartyError i)), tick w)
         else (Inr \<lparr>sc_ID = cl_id r, sc_SecretHash = cl_secret_hash r, sc_RedirectURIs = cl_redirect_uris r,
                   sc_PostLogoutRedirectURIs = cl_post_logout_redirect_uris r, sc_FirstParty = True,
                   sc_IDTokenLifetime = idTokenLifetime (StaticClientRegistry conf),
                   sc_ClockSkewTolerance = 0\<rparr>, tick w))"
proof -
  have "registry_Client (StaticClientRegistry conf) t i = throw (OidcErr (ClientNotFoundError i))"
    using assms(1) by (auto simp: not_configured_def static_Client_def split: option.splits)
  moreover have "client_repo_Read t i w = (case client_at (db w) t i of
      None \<Rightarrow> (Inl (OidcErr (ClientNotFoundError i)), tick w) | Some r \<Rightarrow> (Inr r, tick w))"
    using assms(2)
    by (auto simp: client_repo_Read_def client_at_def bindE_def attempt_def query_def exec_def throw_def ret_def
        tick_def split: option.splits)
  ultimately show ?thesis
    by (simp add: attempt_def throw_def bindE_def ret_def split: option.splits)
qed

lemma registry_Authenticate_stored:
  assumes "not_configured conf i" and "\<not> failing w"
  shows "fst (registry_Authenticate C (RegistryClientRegistry (StaticClientRegistry conf)) t i s w) =
    (case client_at (db w) t i of
       None \<Rightarrow> Inl (OidcErr (ClientNotFoundError i))
     | Some r \<Rightarrow> if \<not> cl_first_party r then Inl (OidcErr (ClientNotFirstPartyError i))
         else if Sha256Hex C s = cl_secret_hash r then Inr () else Inl (OidcErr ClientAuthenticationError))"
  unfolding registry_Authenticate_eq bindE_def attempt_def registry_Client_stored [OF assms]
  by (simp add: throw_def ret_def split: option.splits)

lemma client_repo_Create_Inr:
  assumes "client_repo_Create C cl w = (Inr (c, secret), w')"
  shows "c = cl\<lparr>cl_secret_hash := Sha256Hex C secret, cl_created_at := wall w\<rparr>"
    and "client_at (db w) (cl_tenant cl) (cl_id cl) = None"
    and "client_at (db w') t i = (if t = cl_tenant cl \<and> i = cl_id cl then Some c else client_at (db w) t i)"
proof -
  from assms have c: "c = cl\<lparr>cl_secret_hash := Sha256Hex C secret, cl_created_at := wall w\<rparr>"
    and ins: "insert_row client_conflict c (t_clients (db w)) = Inr (t_clients (db w'))"
    by (auto simp: client_repo_Create_def Let_def op_inr stmt_defs RandomToken_def)
  show "c = cl\<lparr>cl_secret_hash := Sha256Hex C secret, cl_created_at := wall w\<rparr>" by (fact c)
  show none: "client_at (db w) (cl_tenant cl) (cl_id cl) = None"
    using ins c by (auto simp: client_at_def insert_row_Inr client_conflict_def select_row_def find_None_iff)
  show "client_at (db w') t i = (if t = cl_tenant cl \<and> i = cl_id cl then Some c else client_at (db w) t i)"
    using select_row_insert [OF ins, of "\<lambda>r. cl_tenant r = t \<and> cl_id r = i"] none c
    by (auto simp: client_at_def split: option.splits)
qed

lemma client_repo_Delete_at:
  "client_repo_Delete t i w = (Inr u, w') \<Longrightarrow> client_at (db w') t i = None"
  by (auto simp: client_repo_Delete_def op_inr stmt_defs client_at_def delete_where_def select_row_filter_none)

text \<open>
  A registered client is a credential of its tenant. Under an id the configured client does
  not have, a first-party client registered with \<open>Create\<close> authenticates in its tenant with the
  secret that was returned and is refused with any secret of another hash; in a tenant where
  the id is not registered it does not exist; and once it is deleted it does not exist in its
  own tenant either.
\<close>

theorem registered_client_authenticates_in_its_tenant:
  assumes create: "client_repo_Create C cl w = (Inr (c, secret), wa)"
    and own: "not_configured conf (cl_id cl)" and first: "cl_first_party cl"
    and stored: "db wb = db wa" and live: "\<not> failing wb"
    and deleted: "client_repo_Delete (cl_tenant cl) (cl_id cl) wb = (Inr (), wc)" "\<not> failing wc"
    and reg: "reg = RegistryClientRegistry (StaticClientRegistry conf)"
    and other: "t' \<noteq> cl_tenant cl" "client_at (db w) t' (cl_id cl) = None"
  shows "fst (registry_Authenticate C reg (cl_tenant cl) (cl_id cl) s wb) =
      (if Sha256Hex C s = Sha256Hex C secret then Inr () else Inl (OidcErr ClientAuthenticationError)) \<and>
    fst (registry_Authenticate C reg t' (cl_id cl) s wb) = Inl (OidcErr (ClientNotFoundError (cl_id cl))) \<and>
    fst (registry_Authenticate C reg (cl_tenant cl) (cl_id cl) s wc) = Inl (OidcErr (ClientNotFoundError (cl_id cl)))"
  unfolding reg registry_Authenticate_stored [OF own live] registry_Authenticate_stored [OF own deleted(2)]
  using first other stored client_repo_Create_Inr [OF create] client_repo_Delete_at [OF deleted(1)]
  by simp_all

definition sample_client :: client_row where
  "sample_client = \<lparr>cl_tenant = ''acme'', cl_id = ''shop'', cl_secret_hash = [], cl_redirect_uris = [''https://shop/cb''],
     cl_post_logout_redirect_uris = [], cl_first_party = True, cl_name = ''Shop'', cl_created_at = Instant 0\<rparr>"

lemma sample_client_created:
  "case client_repo_Create sample_crypto sample_client (sample_world empty_db 7 []) of
     (Inl e, w1) \<Rightarrow> False
   | (Inr (c, secret), w1) \<Rightarrow> fst (client_repo_Delete ''acme'' ''shop'' w1) = Inr () \<and> faults w1 = []"
  by code_simp

theorem registered_client_authenticates_in_its_tenant_witness:
  "\<exists>secret w1. fst (registry_Authenticate sample_crypto (RegistryClientRegistry (StaticClientRegistry None)) ''acme'' ''shop'' secret w1) = Inr () \<and>
     fst (registry_Authenticate sample_crypto (RegistryClientRegistry (StaticClientRegistry None)) ''other'' ''shop'' secret w1) =
       Inl (OidcErr (ClientNotFoundError ''shop''))"
proof -
  obtain c secret w1 where create: "client_repo_Create sample_crypto sample_client (sample_world empty_db 7 []) = (Inr (c, secret), w1)"
    and del: "fst (client_repo_Delete ''acme'' ''shop'' w1) = Inr ()" and f: "faults w1 = []"
    using sample_client_created by (auto split: prod.splits sum.splits)
  from del obtain w3 where d: "client_repo_Delete ''acme'' ''shop'' w1 = (Inr (), w3)" by (metis prod.collapse)
  with f have "\<not> failing w1" "\<not> failing w3"
    by (auto simp: failing_def client_repo_Delete_def op_inr tick_def)
  with registered_client_authenticates_in_its_tenant [OF create, where conf = None and wb = w1 and wc = w3 and t' = "''other''"] d
  show ?thesis
    by (intro exI [of _ secret] exI [of _ w1])
      (simp add: not_configured_def sample_client_def client_at_def empty_db_def select_row_def)
qed

end
