(* ===== verification/ApiKeys.thy ===== *)
theory ApiKeys
  imports Utils
begin

text \<open>
  \<open>src/internal/apikeys\<close>: tenant-scoped api keys, stored as the hash of a random token and
  looked up by its first characters, and \<open>src/api/auth/auth.go\<close>: the middleware that admits a
  request with the bootstrap key, a tenant key or a public path.
\<close>

definition tokenMarker :: string where "tokenMarker = ''ank_''"
definition prefixLength :: nat where "prefixLength = length tokenMarker + 8"

record ApiKey =
  ApiKey_ID :: string
  ApiKey_TenantID :: string
  ApiKey_Name :: string
  ApiKey_Prefix :: string
  ApiKey_Created :: instant

record CreatedApiKey = ApiKey +
  CreatedApiKey_Key :: string

section \<open>apikey_repository.go\<close>

definition api_key_insert_stmt :: "ApiKey \<Rightarrow> string \<Rightarrow> instant \<Rightarrow> database \<Rightarrow> pg_error + instant \<times> database" where
  [stmt_defs]: "api_key_insert_stmt key h now d =
     map_sum id (\<lambda>t. (now, d\<lparr>t_api_keys := t\<rparr>))
       (insert_row api_key_conflict
          \<lparr>ak_id = ApiKey_ID key, ak_tenant = ApiKey_TenantID key, ak_name = ApiKey_Name key,
           ak_prefix = ApiKey_Prefix key, ak_hash = h, ak_created = now\<rparr> (t_api_keys d))"

definition duplicate_key :: "string \<Rightarrow> go_error \<Rightarrow> go_error" where
  "duplicate_key nm err = (if err = PgErr UniqueViolation then ApiKeyErr (ApiKeyDuplicateError nm) else err)"

definition api_key_Create :: "ApiKey \<Rightarrow> string \<Rightarrow> ApiKey op" where
  "api_key_Create key h =
     bindE new_uuid (\<lambda>i.
     (let key = key\<lparr>ApiKey_ID := i\<rparr> in
      bindE (map_err (duplicate_key (ApiKey_Name key)) (exec (api_key_insert_stmt key h))) (\<lambda>created.
      ret (key\<lparr>ApiKey_Created := created\<rparr>))))"

definition api_key_of_row :: "api_key_row \<Rightarrow> ApiKey" where
  "api_key_of_row r = \<lparr>ApiKey_ID = ak_id r, ApiKey_TenantID = ak_tenant r, ApiKey_Name = ak_name r,
     ApiKey_Prefix = ak_prefix r, ApiKey_Created = ak_created r\<rparr>"

text \<open>\<open>ORDER BY name\<close> uses the collation of the database; the model compares the bytes.\<close>

definition api_key_ReadAll :: "string \<Rightarrow> ApiKey list op" where
  "api_key_ReadAll tenantID =
     query (\<lambda>d. map api_key_of_row (sort_key ak_name (filter (\<lambda>r. ak_tenant r = tenantID) (t_api_keys d))))"

definition api_key_ReadByPrefix :: "string \<Rightarrow> (string \<times> string) op" where
  "api_key_ReadByPrefix prefix =
     bindE (query (\<lambda>d. select_row (\<lambda>r. ak_prefix r = prefix) (t_api_keys d))) (\<lambda>row.
     case row of
       None \<Rightarrow> throw (ApiKeyErr InvalidApiKeyError)
     | Some r \<Rightarrow> ret (ak_tenant r, ak_hash r))"

definition api_key_Delete_stmt :: "crypto \<Rightarrow> string \<Rightarrow> string \<Rightarrow> instant \<Rightarrow> database \<Rightarrow> pg_error + nat \<times> database" where
  [stmt_defs]: "api_key_Delete_stmt C tenantID i now d =
     (case pg_uuid C i of
        None \<Rightarrow> Inl InvalidText
      | Some u \<Rightarrow> (let (n, t) = delete_where (\<lambda>r. ak_tenant r = tenantID \<and> ak_id r = u) (t_api_keys d) in
                   Inr (n, d\<lparr>t_api_keys := t\<rparr>)))"

definition api_key_Delete :: "crypto \<Rightarrow> string \<Rightarrow> string \<Rightarrow> unit op" where
  "api_key_Delete C tenantID i =
     bindE (exec (api_key_Delete_stmt C tenantID i)) (\<lambda>n.
     if n = 0 then throw (ApiKeyErr (ApiKeyNotFoundError i)) else ret ())"

section \<open>apikeys.go\<close>

definition hashToken :: "crypto \<Rightarrow> string \<Rightarrow> string" where
  "hashToken C token = hex_encode (sha256 C (bytes_of token))"

definition apikeys_Create :: "crypto \<Rightarrow> string \<Rightarrow> string \<Rightarrow> CreatedApiKey op" where
  "apikeys_Create C tenantID nm =
     (if nm = [] then throw (ApiKeyErr (InvalidApiKeyRequestError ''name is required''))
      else bindE (rand_read 32) (\<lambda>secret.
           (let token = tokenMarker @ hex_encode secret;
                key = \<lparr>ApiKey_ID = [], ApiKey_TenantID = tenantID, ApiKey_Name = nm,
                       ApiKey_Prefix = take prefixLength token, ApiKey_Created = zero_instant\<rparr> in
            bindE (api_key_Create key (hashToken C token)) (\<lambda>created.
            ret \<lparr>ApiKey_ID = ApiKey_ID created, ApiKey_TenantID = ApiKey_TenantID created,
                 ApiKey_Name = ApiKey_Name created, ApiKey_Prefix = ApiKey_Prefix created,
                 ApiKey_Created = ApiKey_Created created, CreatedApiKey_Key = token\<rparr>))))"

definition apikeys_List :: "string \<Rightarrow> ApiKey list op" where
  "apikeys_List tenantID = api_key_ReadAll tenantID"

definition apikeys_Revoke :: "crypto \<Rightarrow> string \<Rightarrow> string \<Rightarrow> unit op" where
  "apikeys_Revoke C tenantID i =
     (case ValidateUUID C i of
        Inl _ \<Rightarrow> throw (ApiKeyErr (InvalidApiKeyRequestError ''invalid api key id''))
      | Inr _ \<Rightarrow> api_key_Delete C tenantID i)"

definition apikeys_Authenticate :: "crypto \<Rightarrow> string \<Rightarrow> string op" where
  "apikeys_Authenticate C token =
     (if take (length tokenMarker) token \<noteq> tokenMarker \<or> length token < prefixLength
      then throw (ApiKeyErr InvalidApiKeyError)
      else bindE (api_key_ReadByPrefix (take prefixLength token)) (\<lambda>(tenantID, storedHash).
           if constant_time_compare (bytes_of storedHash) (bytes_of (hashToken C token)) \<noteq> 1
           then throw (ApiKeyErr InvalidApiKeyError)
           else ret tenantID))"

section \<open>auth.go\<close>

text \<open>What the middleware sets on the request's context.\<close>

record auth_context =
  contextTenant :: "string option"
  contextRoot :: bool

definition no_context :: auth_context where
  "no_context = \<lparr>contextTenant = None, contextRoot = False\<rparr>"

text \<open>
  \<open>key_header\<close> is the first value of \<open>X-AN-API-KEY\<close>, empty where there is none; \<open>nxt\<close> the handler
  and \<open>unauthorized\<close> the 401 response.
\<close>

definition Middleware :: "crypto \<Rightarrow> string \<Rightarrow> (string \<Rightarrow> bool) list \<Rightarrow> 'a op \<Rightarrow> (auth_context \<Rightarrow> 'a op) \<Rightarrow>
    string \<Rightarrow> string \<Rightarrow> 'a op" where
  "Middleware C bootstrapKey public unauthorized nxt path key_header =
     (if path = ''/health'' \<or> take 13 path = ''/.well-known/'' then nxt no_context
      else if list_ex (\<lambda>isPublic. isPublic path) public then nxt no_context
      else if key_header = [] then unauthorized
      else if SafeCompare key_header bootstrapKey then nxt (no_context\<lparr>contextRoot := True\<rparr>)
      else attempt (apikeys_Authenticate C key_header) (\<lambda>r.
           case r of
             Inl _ \<Rightarrow> unauthorized
           | Inr tenantID \<Rightarrow> nxt (no_context\<lparr>contextTenant := Some tenantID\<rparr>)))"

definition EffectiveTenant :: "auth_context \<Rightarrow> string \<Rightarrow> string" where
  "EffectiveTenant c requested =
     (case contextTenant c of
        Some tenantID \<Rightarrow> if tenantID \<noteq> [] then tenantID else TenantOrDefault requested
      | None \<Rightarrow> TenantOrDefault requested)"

definition IsRoot :: "auth_context \<Rightarrow> bool" where
  "IsRoot c = contextRoot c"

section \<open>Facts\<close>

lemma token_lengths: "length tokenMarker = 4" "prefixLength = 12"
  by (simp_all add: tokenMarker_def prefixLength_def)

lemma apikeys_Authenticate_Inr:
  "apikeys_Authenticate C token w = (Inr t, w') \<longleftrightarrow>
   take 4 token = ''ank_'' \<and> 12 \<le> length token \<and> \<not> failing w \<and>
   (\<exists>r. select_row (\<lambda>r. ak_prefix r = take 12 token) (t_api_keys (db w)) = Some r \<and> ak_tenant r = t \<and>
      ak_hash r = hashToken C token) \<and> w' = tick w"
  unfolding apikeys_Authenticate_def token_lengths
  by (auto simp: tokenMarker_def api_key_ReadByPrefix_def op_inr constant_time_compare_iff)

lemma apikeys_Create_Inr:
  assumes "apikeys_Create C t nm w = (Inr k, w')"
  shows "CreatedApiKey_Key k = ''ank_'' @ hex_encode (take 32 (rng w))" and "length (CreatedApiKey_Key k) = 68"
    and "\<exists>r. select_row (\<lambda>r. ak_prefix r = take 12 (CreatedApiKey_Key k)) (t_api_keys (db w')) = Some r \<and>
           ak_tenant r = t \<and> ak_id r = ApiKey_ID k \<and> ak_name r = nm \<and> ak_hash r = hashToken C (CreatedApiKey_Key k)"
    and "\<exists>u us. uuids w = u # us \<and> ApiKey_ID k = u"
proof -
  let ?token = "''ank_'' @ hex_encode (take 32 (rng w))"
  from assms obtain u us where rnd: "32 \<le> length (rng w)" and u: "uuids w = u # us"
    and k: "k = \<lparr>ApiKey_ID = u, ApiKey_TenantID = t, ApiKey_Name = nm, ApiKey_Prefix = take 12 ?token,
              ApiKey_Created = pg_now w, CreatedApiKey_Key = ?token\<rparr>"
    and ins: "insert_row api_key_conflict \<lparr>ak_id = u, ak_tenant = t, ak_name = nm, ak_prefix = take 12 ?token,
        ak_hash = hashToken C ?token, ak_created = pg_now w\<rparr> (t_api_keys (db w)) = Inr (t_api_keys (db w'))"
    by (auto simp: apikeys_Create_def op_inr Let_def tokenMarker_def prefixLength_def api_key_Create_def stmt_defs)
  show "CreatedApiKey_Key k = ?token" by (simp add: k)
  show "length (CreatedApiKey_Key k) = 68" using rnd by (simp add: k)
  show "\<exists>u us. uuids w = u # us \<and> ApiKey_ID k = u" using u by (simp add: k)
  show "\<exists>r. select_row (\<lambda>r. ak_prefix r = take 12 (CreatedApiKey_Key k)) (t_api_keys (db w')) = Some r \<and>
           ak_tenant r = t \<and> ak_id r = ApiKey_ID k \<and> ak_name r = nm \<and> ak_hash r = hashToken C (CreatedApiKey_Key k)"
    using api_key_prefix.inserted_found [OF ins] by (simp add: k)
qed

lemma apikeys_Revoke_Inr:
  "apikeys_Revoke C t i w = (Inr x, w') \<longleftrightarrow> uuid_parse C i \<and> \<not> failing w \<and>
   (\<exists>u. pg_uuid C i = Some u \<and> (\<exists>r\<in>set (t_api_keys (db w)). ak_tenant r = t \<and> ak_id r = u) \<and>
     w' = (tick w)\<lparr>db := (db w)\<lparr>t_api_keys := filter (\<lambda>r. \<not> (ak_tenant r = t \<and> ak_id r = u)) (t_api_keys (db w))\<rparr>\<rparr>)"
  by (auto simp: apikeys_Revoke_def ValidateUUID_def api_key_Delete_def op_inr stmt_defs delete_where_def
      filter_empty_conv split: option.splits sum.splits if_splits)

section \<open>Properties\<close>

text \<open>
  C35: an api key belongs to its tenant. A created key authenticates as the tenant it was created
  for; any token that authenticates is, hash for hash, the stored key of the tenant it is given;
  and after \<open>Revoke\<close> of a key by its tenant the key authenticates no more.
\<close>

theorem api_key_authenticates_its_tenant:
  assumes create: "apikeys_Create C t nm w = (Inr k, w1)" and "\<not> failing w2" and "db w2 = db w1"
  shows "apikeys_Authenticate C (CreatedApiKey_Key k) w2 = (Inr t, tick w2) \<and>
    (apikeys_Authenticate C token w2 = (Inr t', w') \<longrightarrow>
       (\<exists>r\<in>set (t_api_keys (db w2)). ak_tenant r = t' \<and> ak_prefix r = take 12 token \<and> ak_hash r = hashToken C token)) \<and>
    (distinct (map ak_prefix (t_api_keys (db w2))) \<and> pg_uuid C (ApiKey_ID k) = Some (ApiKey_ID k) \<and>
       apikeys_Revoke C t (ApiKey_ID k) w2 = (Inr (), w3) \<and> db w4 = db w3 \<longrightarrow>
     fst (apikeys_Authenticate C (CreatedApiKey_Key k) w4) \<noteq> Inr t'')"
proof -
  from apikeys_Create_Inr [OF create] obtain r where key: "CreatedApiKey_Key k = ''ank_'' @ hex_encode (take 32 (rng w))"
      "length (CreatedApiKey_Key k) = 68"
    and r: "select_row (\<lambda>r. ak_prefix r = take 12 (CreatedApiKey_Key k)) (t_api_keys (db w1)) = Some r"
      "ak_tenant r = t" "ak_id r = ApiKey_ID k" "ak_hash r = hashToken C (CreatedApiKey_Key k)" by blast
  have "apikeys_Authenticate C (CreatedApiKey_Key k) w2 = (Inr t, tick w2)"
    using key r assms(2,3) by (simp add: apikeys_Authenticate_Inr)
  moreover have "\<exists>r\<in>set (t_api_keys (db w2)). ak_tenant r = t' \<and> ak_prefix r = take 12 token \<and> ak_hash r = hashToken C token"
    if "apikeys_Authenticate C token w2 = (Inr t', w')"
    using that unfolding apikeys_Authenticate_Inr by (blast dest: select_row_SomeD)
  moreover have "fst (apikeys_Authenticate C (CreatedApiKey_Key k) w4) \<noteq> Inr t''"
    if uniq: "distinct (map ak_prefix (t_api_keys (db w2)))" and id: "pg_uuid C (ApiKey_ID k) = Some (ApiKey_ID k)"
      and rev: "apikeys_Revoke C t (ApiKey_ID k) w2 = (Inr (), w3)" and "db w4 = db w3"
  proof -
    have "t_api_keys (db w4) = filter (\<lambda>r. \<not> (ak_tenant r = t \<and> ak_id r = ApiKey_ID k)) (t_api_keys (db w2))"
      using rev id \<open>db w4 = db w3\<close> by (auto simp: apikeys_Revoke_Inr)
    moreover have "x = r" if "x \<in> set (t_api_keys (db w2))" "ak_prefix x = take 12 (CreatedApiKey_Key k)" for x
      using api_key_prefix.select_member [OF uniq that(1)] that(2) r(1) assms(3) by simp
    ultimately have "select_row (\<lambda>r. ak_prefix r = take 12 (CreatedApiKey_Key k)) (t_api_keys (db w4)) = None"
      using r(2,3) by (auto intro!: select_row_filter_none)
    then have "apikeys_Authenticate C (CreatedApiKey_Key k) w4 \<noteq> (Inr t'', w5)" for w5
      by (simp add: apikeys_Authenticate_Inr)
    then show ?thesis by (metis prod.collapse)
  qed
  ultimately show ?thesis by blast
qed

theorem api_key_authenticates_its_tenant_witness:
  "\<exists>k w1. apikeys_Create sample_crypto ''acme'' ''ci'' (sample_world empty_db 5 [''k1'']) = (Inr k, w1) \<and>
     apikeys_Authenticate sample_crypto (CreatedApiKey_Key k) w1 = (Inr ''acme'', tick w1) \<and>
     (\<exists>w3. apikeys_Revoke sample_crypto ''acme'' ''k1'' w1 = (Inr (), w3) \<and>
        fst (apikeys_Authenticate sample_crypto (CreatedApiKey_Key k) w3) \<noteq> Inr ''acme'')"
proof -
  let ?w = "sample_world empty_db 5 [''k1'']"
  let ?r = "apikeys_Create sample_crypto ''acme'' ''ci'' ?w"
  have ok: "case ?r of (Inl _, _) \<Rightarrow> False | (Inr k, w1) \<Rightarrow> ApiKey_ID k = ''k1'' \<and> faults w1 = [] \<and>
      distinct (map ak_prefix (t_api_keys (db w1))) \<and> fst (apikeys_Revoke sample_crypto ''acme'' ''k1'' w1) = Inr ()"
    by code_simp
  then obtain k w1 where run: "?r = (Inr k, w1)" and k: "ApiKey_ID k = ''k1''" and w1: "faults w1 = []"
      "distinct (map ak_prefix (t_api_keys (db w1)))" "fst (apikeys_Revoke sample_crypto ''acme'' ''k1'' w1) = Inr ()"
    by (cases ?r) (auto split: sum.splits)
  obtain w3 where rev: "apikeys_Revoke sample_crypto ''acme'' ''k1'' w1 = (Inr (), w3)"
    using w1(3) by (metis prod.collapse)
  have "\<not> failing w1" using w1(1) by (simp add: failing_def)
  from api_key_authenticates_its_tenant [OF run this refl] rev k w1(2) run show ?thesis by auto
qed

text \<open>A request past the public paths, by its key.\<close>

lemma Middleware_cases:
  assumes "path \<noteq> ''/health''" and "take 13 path \<noteq> ''/.well-known/''" and "\<not> list_ex (\<lambda>f. f path) public"
  shows "if key \<noteq> [] \<and> key = bootstrapKey
    then Middleware C bootstrapKey public un nxt path key w = nxt \<lparr>contextTenant = None, contextRoot = True\<rparr> w
    else (\<exists>t w1. apikeys_Authenticate C key w = (Inr t, w1) \<and> db w1 = db w \<and>
            Middleware C bootstrapKey public un nxt path key w = nxt \<lparr>contextTenant = Some t, contextRoot = False\<rparr> w1) \<or>
         (\<exists>w1. Middleware C bootstrapKey public un nxt path key w = un w1 \<and> db w1 = db w)"
proof (cases "key \<noteq> [] \<and> key = bootstrapKey")
  case True
  then have "key \<noteq> []" and boot: "bootstrapKey = key" by auto
  then show ?thesis unfolding boot using assms by (simp add: Middleware_def no_context_def)
next
  case False
  show ?thesis
  proof (cases "key = []")
    case True
    then show ?thesis using assms by (auto simp: Middleware_def)
  next
    case nonempty: False
    obtain r w1 where auth: "apikeys_Authenticate C key w = (r, w1)" by fastforce
    have "reads (apikeys_Authenticate C key)"
      unfolding apikeys_Authenticate_def api_key_ReadByPrefix_def
      by (intro reading.steps_If reading.steps_throw reading.steps_bindE reading.steps_query reading.steps_option
          reading.steps_ret reading.steps_prod)
    then have "db w1 = db w" using auth by (rule reads_keeps)
    with False nonempty assms auth show ?thesis
      by (cases r) (auto simp: Middleware_def attempt_def no_context_def)
  qed
qed

text \<open>
  The gate. A request to a path that is neither \<open>/health\<close>, under \<open>/.well-known/\<close> nor public
  reaches its handler only with the bootstrap key, as root, or with a key that authenticates, as
  the tenant of that key: it is not root, and whatever tenant it asks for it operates on that of
  its key. Any other request is refused, with the database as it was.
\<close>

theorem gate_confines_tenant_keys:
  assumes "path \<noteq> ''/health''" and "take 13 path \<noteq> ''/.well-known/''" and "\<not> list_ex (\<lambda>f. f path) public"
  shows "if key \<noteq> [] \<and> key = bootstrapKey
    then Middleware C bootstrapKey public un nxt path key w = nxt \<lparr>contextTenant = None, contextRoot = True\<rparr> w
    else (\<exists>c t w1. apikeys_Authenticate C key w = (Inr t, w1) \<and> db w1 = db w \<and>
            Middleware C bootstrapKey public un nxt path key w = nxt c w1 \<and>
            \<not> IsRoot c \<and> (t \<noteq> [] \<longrightarrow> EffectiveTenant c requested = t)) \<or>
         (\<exists>w1. Middleware C bootstrapKey public un nxt path key w = un w1 \<and> db w1 = db w)"
proof (cases "key \<noteq> [] \<and> key = bootstrapKey")
  case True
  show ?thesis using Middleware_cases [OF assms, of key bootstrapKey C un nxt w] unfolding if_P [OF True] .
next
  case False
  let ?c = "\<lambda>t. \<lparr>contextTenant = Some t, contextRoot = False\<rparr>"
  have "\<not> IsRoot (?c t)" and "t \<noteq> [] \<Longrightarrow> EffectiveTenant (?c t) requested = t" for t
    by (simp_all add: IsRoot_def EffectiveTenant_def)
  then show ?thesis
    using Middleware_cases [OF assms, of key bootstrapKey C un nxt w] unfolding if_not_P [OF False] by blast
qed


theorem gate_confines_tenant_keys_witness:
  "\<exists>w1. Middleware sample_crypto ''root'' [] (throw (PlainErr ''401'')) (\<lambda>c. ret (EffectiveTenant c ''other''))
     ''/api/accounts'' ''nokey'' (sample_world empty_db 5 []) = throw (PlainErr ''401'') w1"
  using gate_confines_tenant_keys [of "''/api/accounts''" "[]" "''nokey''" "''root''" sample_crypto
      "throw (PlainErr ''401'')" "\<lambda>c. ret (EffectiveTenant c ''other'')" "sample_world empty_db 5 []" "''other''"]
  by (auto simp: apikeys_Authenticate_Inr)

end
