(* ===== verification/GoStrings.thy ===== *)
theory GoStrings
  imports Utils
begin

text \<open>
  What the code uses of Go's \<open>strings\<close> and \<open>strconv\<close>: prefixes and suffixes, cutting and splitting
  at a character, trimming of white space, and decimal numbers. A string is its bytes.
\<close>

section \<open>Prefixes and suffixes\<close>

definition HasPrefix :: "string \<Rightarrow> string \<Rightarrow> bool" where
  "HasPrefix s p \<longleftrightarrow> take (length p) s = p"

definition TrimPrefix :: "string \<Rightarrow> string \<Rightarrow> string" where
  "TrimPrefix s p = (if HasPrefix s p then drop (length p) s else s)"

definition HasSuffix :: "string \<Rightarrow> string \<Rightarrow> bool" where
  "HasSuffix s p \<longleftrightarrow> HasPrefix (rev s) (rev p)"

definition TrimSuffix :: "string \<Rightarrow> string \<Rightarrow> string" where
  "TrimSuffix s p = (if HasSuffix s p then take (length s - length p) s else s)"

section \<open>Cutting and splitting at a character\<close>

definition Cut :: "string \<Rightarrow> char \<Rightarrow> string \<times> string \<times> bool" where
  "Cut s sep =
     (if sep \<in> set s then (takeWhile (\<lambda>c. c \<noteq> sep) s, tl (dropWhile (\<lambda>c. c \<noteq> sep) s), True)
      else (s, [], False))"

fun Split :: "char \<Rightarrow> string \<Rightarrow> string list" where
  "Split sep [] = [[]]"
| "Split sep (c # s) =
     (if c = sep then [] # Split sep s
      else case Split sep s of [] \<Rightarrow> [[c]] | p # ps \<Rightarrow> (c # p) # ps)"

section \<open>White space\<close>

text \<open>
  The code points \<open>unicode.IsSpace\<close> accepts, in UTF-8: tab, line feed, vertical tab, form feed,
  carriage return, space, U+0085, U+00A0, U+1680, U+2000 to U+200A, U+2028, U+2029, U+202F,
  U+205F and U+3000.
\<close>

definition space_runes :: "string list" where
  "space_runes =
     [[CHR 0x09], [CHR 0x0A], [CHR 0x0B], [CHR 0x0C], [CHR 0x0D], [CHR 0x20],
      [CHR 0xC2, CHR 0x85], [CHR 0xC2, CHR 0xA0], [CHR 0xE1, CHR 0x9A, CHR 0x80]]
     @ map (\<lambda>n. [CHR 0xE2, CHR 0x80, char_of (0x80 + n)]) [0..<11]
     @ [[CHR 0xE2, CHR 0x80, CHR 0xA8], [CHR 0xE2, CHR 0x80, CHR 0xA9], [CHR 0xE2, CHR 0x80, CHR 0xAF],
        [CHR 0xE2, CHR 0x81, CHR 0x9F], [CHR 0xE3, CHR 0x80, CHR 0x80]]"

definition leading :: "string list \<Rightarrow> string \<Rightarrow> string option" where
  "leading ps s = find (\<lambda>p. p \<noteq> [] \<and> HasPrefix s p) ps"

lemma leading_Some: "leading ps s = Some p \<Longrightarrow> p \<in> set ps \<and> p \<noteq> [] \<and> (\<exists>t. s = p @ t)"
  by (auto simp: leading_def HasPrefix_def find_Some_iff) (metis append_take_drop_id)

function trim_left :: "string list \<Rightarrow> string \<Rightarrow> string" where
  "trim_left ps s = (case leading ps s of None \<Rightarrow> s | Some p \<Rightarrow> trim_left ps (drop (length p) s))"
  by auto
termination
  by (relation "measure (\<lambda>(ps, s). length s)") (auto dest!: leading_Some)

declare trim_left.simps [simp del]

definition TrimSpace :: "string \<Rightarrow> string" where
  "TrimSpace s = rev (trim_left (map rev space_runes) (rev (trim_left space_runes s)))"

section \<open>Decimal numbers\<close>

definition digit_value :: "char \<Rightarrow> int" where
  "digit_value c = int (of_char c) - 48"

definition decimal :: "string \<Rightarrow> int" where
  "decimal s = foldl (\<lambda>n c. 10 * n + digit_value c) 0 s"

text \<open>\<open>strconv.Atoi\<close>: an optional sign, then digits, within 64 bits.\<close>

definition Atoi :: "string \<Rightarrow> int option" where
  "Atoi s =
     (let (neg, ds) = (case s of c # r \<Rightarrow> if c = CHR ''-'' then (True, r) else if c = CHR ''+'' then (False, r) else (False, s)
                             | [] \<Rightarrow> (False, s));
          n = (if neg then - decimal ds else decimal ds) in
      if ds = [] \<or> \<not> list_all is_digit ds \<or> n < - (2 ^ 63) \<or> 2 ^ 63 \<le> n then None else Some n)"

section \<open>Facts\<close>

lemma HasPrefix_iff: "HasPrefix s p \<longleftrightarrow> (\<exists>t. s = p @ t)"
  by (auto simp: HasPrefix_def) (metis append_take_drop_id)

lemma HasPrefix_append [simp]: "HasPrefix (p @ t) p"
  by (simp add: HasPrefix_def)

lemma TrimPrefix_append [simp]: "TrimPrefix (p @ t) p = t"
  by (simp add: TrimPrefix_def)

lemma HasSuffix_iff: "HasSuffix s p \<longleftrightarrow> (\<exists>t. s = t @ p)"
  unfolding HasSuffix_def HasPrefix_iff by (metis rev_append rev_rev_ident)

lemma TrimSuffix_append [simp]: "TrimSuffix (t @ p) p = t"
  by (simp add: TrimSuffix_def HasSuffix_iff)

lemma while_not_sep [simp]:
  "sep \<notin> set a \<Longrightarrow> takeWhile (\<lambda>c. c \<noteq> sep) (a @ sep # b) = a"
  "sep \<notin> set a \<Longrightarrow> dropWhile (\<lambda>c. c \<noteq> sep) (a @ sep # b) = sep # b"
  by (induction a) auto

lemma Cut_found [simp]: "sep \<notin> set a \<Longrightarrow> Cut (a @ sep # b) sep = (a, b, True)"
  by (simp add: Cut_def)

lemma Cut_absent [simp]: "sep \<notin> set s \<Longrightarrow> Cut s sep = (s, [], False)"
  by (simp add: Cut_def)

lemma Cut_True: "Cut s sep = (a, b, True) \<longleftrightarrow> s = a @ sep # b \<and> sep \<notin> set a"
proof
  assume "Cut s sep = (a, b, True)"
  then have sep: "sep \<in> set s" and a: "a = takeWhile (\<lambda>c. c \<noteq> sep) s" and b: "b = tl (dropWhile (\<lambda>c. c \<noteq> sep) s)"
    by (auto simp: Cut_def split: if_splits)
  from sep obtain u v where "s = u @ sep # v" "sep \<notin> set u" by (metis split_list_first)
  with a b show "s = a @ sep # b \<and> sep \<notin> set a" by simp
qed auto

lemma Cut_False: "Cut s sep = (a, b, False) \<longleftrightarrow> a = s \<and> b = [] \<and> sep \<notin> set s"
  by (auto simp: Cut_def)

lemma Split_nonempty [simp]: "Split sep s \<noteq> []"
  by (induction s) (auto split: list.split)

lemma Split_pieces: "p \<in> set (Split sep s) \<Longrightarrow> sep \<notin> set p"
  by (induction s arbitrary: p) (auto split: list.splits if_splits)

text \<open>Trimming leaves a part of the string that starts and ends with no white space.\<close>

lemma trim_left_suffix: "\<exists>u. s = u @ trim_left ps s"
proof (induction ps s rule: trim_left.induct)
  case (1 ps s)
  show ?case
  proof (cases "leading ps s")
    case None
    then show ?thesis by (simp add: trim_left.simps [of ps s])
  next
    case (Some p)
    from 1 [OF Some] obtain u where "drop (length p) s = u @ trim_left ps (drop (length p) s)" by blast
    moreover have "trim_left ps s = trim_left ps (drop (length p) s)"
      using Some by (simp add: trim_left.simps [of ps s])
    ultimately have "s = (take (length p) s @ u) @ trim_left ps s"
      by (metis append_assoc append_take_drop_id)
    then show ?thesis by blast
  qed
qed

lemma leading_trim_left: "leading ps (trim_left ps s) = None"
proof (induction ps s rule: trim_left.induct)
  case (1 ps s)
  then show ?case by (cases "leading ps s") (simp_all add: trim_left.simps [of ps s])
qed

lemma TrimSpace_part: "\<exists>u v. s = u @ TrimSpace s @ v"
proof -
  obtain u where u: "s = u @ trim_left space_runes s" using trim_left_suffix by blast
  obtain v where "rev (trim_left space_runes s) = v @ trim_left (map rev space_runes) (rev (trim_left space_runes s))"
    using trim_left_suffix by blast
  then have "trim_left space_runes s = TrimSpace s @ rev v" unfolding TrimSpace_def by (metis rev_append rev_rev_ident)
  with u show ?thesis by metis
qed

lemma leading_None: "leading ps s = None \<longleftrightarrow> (\<forall>p\<in>set ps. p = [] \<or> \<not> HasPrefix s p)"
  by (auto simp: leading_def find_None_iff)

lemma trim_left_id: "leading ps s = None \<Longrightarrow> trim_left ps s = s"
  by (simp add: trim_left.simps [of ps s])

lemma leading_TrimSpace: "leading space_runes (TrimSpace s) = None"
proof -
  let ?m = "trim_left space_runes s"
  obtain v where "rev ?m = v @ trim_left (map rev space_runes) (rev ?m)" using trim_left_suffix by blast
  then have "?m = TrimSpace s @ rev v" unfolding TrimSpace_def by (metis rev_append rev_rev_ident)
  then have pre: "HasPrefix ?m p" if "HasPrefix (TrimSpace s) p" for p
    using that unfolding HasPrefix_iff by (metis append_assoc)
  have "leading space_runes ?m = None" by (rule leading_trim_left)
  with pre show ?thesis unfolding leading_None by blast
qed

lemma TrimSpace_idem [simp]: "TrimSpace (TrimSpace s) = TrimSpace s"
proof -
  have "trim_left space_runes (TrimSpace s) = TrimSpace s" by (rule trim_left_id, rule leading_TrimSpace)
  moreover have "trim_left (map rev space_runes) (rev (TrimSpace s)) = rev (TrimSpace s)"
    by (rule trim_left_id) (simp add: TrimSpace_def leading_trim_left)
  ultimately show ?thesis unfolding TrimSpace_def [of "TrimSpace s"] by simp
qed

lemma Atoi_range: "Atoi s = Some n \<Longrightarrow> - (2 ^ 63) \<le> n \<and> n < 2 ^ 63"
  by (auto simp: Atoi_def Let_def split: list.splits if_splits)

end
