(* ===== verification/Problem.thy ===== *)
theory Problem
  imports World
begin

text \<open>
  \<open>src/api/problem/problem_details.go\<close>: the error body of every REST handler, the responses a
  handler writes, and the two patterns all handlers share: decode the request, and answer with
  the outcome of one service call.
\<close>

section \<open>problem_details.go\<close>

definition InternalError :: string where "InternalError = ''Internal Error''"
definition BadRequest :: string where "BadRequest = ''Bad Request''"
definition Unauthorized :: string where "Unauthorized = ''Unauthorized''"
definition Forbidden :: string where "Forbidden = ''Forbidden''"
definition NotFound :: string where "NotFound = ''Not Found''"
definition Conflict :: string where "Conflict = ''Conflict''"
definition TooManyRequests :: string where "TooManyRequests = ''Too Many Requests''"

definition errorType :: string where "errorType = ''https://latebit.io/an/errors/''"

record Details =
  Details_Type :: string
  Details_Title :: string
  Details_Status :: int
  Details_Detail :: string
  Details_Instance :: string

text \<open>The texts an error can carry come from the formats of the Go library and of the driver.\<close>

record error_texts =
  rfc3339 :: "instant \<Rightarrow> string"
  driver_text :: "pg_error \<Rightarrow> string"

definition text_of :: "error_texts \<Rightarrow> go_error \<Rightarrow> string" where
  "text_of T err = error_text (rfc3339 T) (driver_text T) err"

definition NewServerError :: "go_error \<Rightarrow> Details" where
  "NewServerError err =
     \<lparr>Details_Type = errorType, Details_Title = InternalError, Details_Status = 500,
      Details_Detail = ''an unexpected error occurred'', Details_Instance = []\<rparr>"

definition NewBadRequest :: "string \<Rightarrow> Details" where
  "NewBadRequest err =
     \<lparr>Details_Type = errorType, Details_Title = BadRequest, Details_Status = 400,
      Details_Detail = err, Details_Instance = []\<rparr>"

definition NewUnauthorized :: "string \<Rightarrow> Details" where
  "NewUnauthorized detail =
     \<lparr>Details_Type = errorType, Details_Title = Unauthorized, Details_Status = 401,
      Details_Detail = detail, Details_Instance = []\<rparr>"

definition NewProblem :: "string \<Rightarrow> int \<Rightarrow> string \<Rightarrow> Details" where
  "NewProblem title code err =
     \<lparr>Details_Type = errorType, Details_Title = title, Details_Status = code,
      Details_Detail = err, Details_Instance = []\<rparr>"

section \<open>Responses\<close>

text \<open>
  \<open>c.JSON\<close> with a result, \<open>c.JSON\<close> with problem details, \<open>c.NoContent\<close>; and what echo answers itself
  where no route is mounted, whose body is the library's.
\<close>

datatype 'a response =
    JSON (status: int) 'a
  | ProblemJSON (status: int) (details: Details)
  | NoContent (status: int)
  | RouterAnswer (status: int)

definition problem_response :: "Details \<Rightarrow> 'a response" where
  "problem_response d = ProblemJSON (Details_Status d) d"

text \<open>A typed error answered under a title and a status, and anything else as a server error.\<close>

definition problem_of :: "error_texts \<Rightarrow> string \<Rightarrow> int \<Rightarrow> go_error \<Rightarrow> 'a response" where
  "problem_of T title code err = ProblemJSON code (NewProblem title code (text_of T err))"

definition server_error :: "go_error \<Rightarrow> 'a response" where
  "server_error err = problem_response (NewServerError err)"

text \<open>
  \<open>c.Bind\<close> decodes the request by the struct's tags: its outcome, the text of an error or the
  request, is an argument of a handler.
\<close>

definition bound :: "string + 'req \<Rightarrow> ('req \<Rightarrow> 'a response op) \<Rightarrow> 'a response op" where
  "bound binding k =
     (case binding of
        Inl err \<Rightarrow> ret (problem_response (NewBadRequest err))
      | Inr request \<Rightarrow> k request)"

definition answer :: "(go_error \<Rightarrow> 'a response) \<Rightarrow> ('r \<Rightarrow> 'a response) \<Rightarrow> 'r op \<Rightarrow> 'a response op" where
  "answer problem success service =
     attempt service (\<lambda>r. case r of Inl err \<Rightarrow> ret (problem err) | Inr x \<Rightarrow> ret (success x))"

section \<open>Facts\<close>

lemma problem_details_sel [simp]:
  "Details_Status (NewServerError err) = 500" "Details_Status (NewBadRequest m) = 400"
  "Details_Status (NewUnauthorized m) = 401" "Details_Status (NewProblem title n m) = n"
  "Details_Detail (NewProblem title n m) = m" "Details_Detail (NewBadRequest m) = m"
  by (simp_all add: NewServerError_def NewBadRequest_def NewUnauthorized_def NewProblem_def)

lemma status_problem [simp]:
  "status (problem_response d) = Details_Status d" "status (problem_of T title n err) = n"
  "status (server_error err) = 500"
  by (simp_all add: problem_response_def problem_of_def server_error_def)

lemma server_error_const: "server_error err = server_error err'"
  by (simp add: server_error_def NewServerError_def)

lemma bound_simps [simp]:
  "bound (Inl m) k = ret (problem_response (NewBadRequest m))" "bound (Inr rq) k = k rq"
  by (simp_all add: bound_def)

lemma answer_eq:
  "answer p s m w = (Inr (case fst (m w) of Inl err \<Rightarrow> p err | Inr x \<Rightarrow> s x), snd (m w))"
  by (simp add: answer_def attempt_def ret_def split: prod.split sum.split)

lemma answer_run: "m w = (r, w') \<Longrightarrow> answer p s m w = (Inr (case r of Inl err \<Rightarrow> p err | Inr x \<Rightarrow> s x), w')"
  by (simp add: answer_eq)

end
