(* ===== verification/ClientHandlers.thy ===== *)
theory ClientHandlers
  imports OidcClients ApiKeys GoStrings Problem
begin

text \<open>
  \<open>src/api/oidc/client_handlers.go\<close>: registration and removal of the clients of the provider, for
  the bootstrap key only.
\<close>

section \<open>URLs\<close>

text \<open>
  \<open>net/url\<close> and \<open>net\<close>: parsing a URL gives an error or its parts, \<open>ParseIP_IsLoopback\<close> is
  \<open>net.ParseIP\<close> followed by \<open>IsLoopback\<close>, and a parsed URL is printed again, with a query
  parameter set where there is one to add.
\<close>

record url =
  url_Scheme :: string
  url_Host :: string
  url_Hostname :: string
  url_Query :: "(string \<times> string list) list"

record net_lib =
  url_Parse :: "string \<Rightarrow> string + url"
  ParseIP_IsLoopback :: "string \<Rightarrow> bool option"
  query_Set :: "url \<Rightarrow> string \<Rightarrow> string \<Rightarrow> url"
  url_String :: "url \<Rightarrow> string"

section \<open>Requests and responses\<close>

record CreateClientRequest =
  CreateClient_TenantID :: string
  CreateClient_ClientID :: string
  CreateClient_Name :: string
  CreateClient_RedirectURIs :: "string list"
  CreateClient_PostLogoutRedirectURIs :: "string list"

record DeleteClientRequest =
  DeleteClient_TenantID :: string
  DeleteClient_ClientID :: string

record CreateClientResponse =
  CreatedClient_TenantID :: string
  CreatedClient_ClientID :: string
  CreatedClient_ClientSecret :: string
  CreatedClient_RedirectURIs :: "string list"

section \<open>Validation\<close>

definition isLoopback :: "net_lib \<Rightarrow> string \<Rightarrow> bool" where
  "isLoopback U host =
     (if host = ''localhost'' then True
      else case ParseIP_IsLoopback U host of Some b \<Rightarrow> b | None \<Rightarrow> False)"

definition validateRedirectURI :: "net_lib \<Rightarrow> string \<Rightarrow> string \<Rightarrow> string + unit" where
  "validateRedirectURI U field uri =
     (case url_Parse U uri of
        Inl err \<Rightarrow> Inl (field @ '' must be absolute URLs with a host'')
      | Inr parsed \<Rightarrow>
          if url_Host parsed = [] then Inl (field @ '' must be absolute URLs with a host'')
          else if CHR ''#'' \<in> set uri then Inl (field @ '' must not contain a fragment'')
          else if url_Scheme parsed = ''https'' then Inr ()
          else if url_Scheme parsed = ''http''
          then (if isLoopback U (url_Hostname parsed) then Inr ()
                else Inl (field @ '' must be https except on loopback''))
          else Inl (field @ '' must be https''))"

text \<open>The first error of a loop that returns at the first one.\<close>

fun each_valid :: "('a \<Rightarrow> string + unit) \<Rightarrow> 'a list \<Rightarrow> string + unit" where
  "each_valid f [] = Inr ()"
| "each_valid f (x # xs) = (case f x of Inl err \<Rightarrow> Inl err | Inr _ \<Rightarrow> each_valid f xs)"

text \<open>\<open>reserved\<close> is the id of the configured client.\<close>

definition validateClient :: "net_lib \<Rightarrow> string \<Rightarrow> CreateClientRequest \<Rightarrow> string + string" where
  "validateClient U reserved request =
     (let clientID = TrimSpace (CreateClient_ClientID request) in
      if clientID = [] then Inl ''clientId is required''
      else if reserved \<noteq> [] \<and> clientID = reserved then Inl ''clientId is reserved by the configured client''
      else if CreateClient_RedirectURIs request = [] then Inl ''at least one redirectUri is required''
      else case each_valid (validateRedirectURI U ''redirectUris'') (CreateClient_RedirectURIs request) of
        Inl err \<Rightarrow> Inl err
      | Inr _ \<Rightarrow>
          (case each_valid (validateRedirectURI U ''postLogoutRedirectUris'') (CreateClient_PostLogoutRedirectURIs request) of
             Inl err \<Rightarrow> Inl err
           | Inr _ \<Rightarrow> Inr clientID))"

section \<open>Handlers\<close>

definition clientProblem :: "error_texts \<Rightarrow> go_error \<Rightarrow> 'a response" where
  "clientProblem T err =
     (case err of
        OidcErr (DuplicateError _) \<Rightarrow> problem_of T ''Duplicate client'' 409 err
      | OidcErr (ClientNotFoundError _) \<Rightarrow> problem_of T ''Client not found'' 404 err
      | _ \<Rightarrow> server_error err)"

definition clientForbidden :: "'a response op" where
  "clientForbidden = ret (ProblemJSON 403 (NewProblem Forbidden 403 ''bootstrap api key required''))"

definition new_client :: "string \<Rightarrow> string \<Rightarrow> CreateClientRequest \<Rightarrow> client_row" where
  "new_client tenantID clientID request =
     \<lparr>cl_tenant = tenantID, cl_id = clientID, cl_secret_hash = [],
      cl_redirect_uris = CreateClient_RedirectURIs request,
      cl_post_logout_redirect_uris = CreateClient_PostLogoutRedirectURIs request,
      cl_first_party = True, cl_name = CreateClient_Name request, cl_created_at = zero_instant\<rparr>"

definition ClientHandler_Create ::
    "error_texts \<Rightarrow> crypto \<Rightarrow> net_lib \<Rightarrow> string \<Rightarrow> auth_context \<Rightarrow> string + CreateClientRequest \<Rightarrow>
     CreateClientResponse response op" where
  "ClientHandler_Create T C U reserved c binding =
     (if \<not> IsRoot c then clientForbidden
      else bound binding (\<lambda>request.
           case validateClient U reserved request of
             Inl err \<Rightarrow> ret (problem_response (NewBadRequest err))
           | Inr clientID \<Rightarrow>
               answer (clientProblem T)
                 (\<lambda>(created, secret). JSON 201
                    \<lparr>CreatedClient_TenantID = cl_tenant created, CreatedClient_ClientID = cl_id created,
                     CreatedClient_ClientSecret = secret, CreatedClient_RedirectURIs = cl_redirect_uris created\<rparr>)
                 (client_repo_Create C
                    (new_client (EffectiveTenant c (CreateClient_TenantID request)) clientID request))))"

definition ClientHandler_Delete ::
    "error_texts \<Rightarrow> auth_context \<Rightarrow> string + DeleteClientRequest \<Rightarrow> unit response op" where
  "ClientHandler_Delete T c binding =
     (if \<not> IsRoot c then clientForbidden
      else bound binding (\<lambda>request.
           answer (clientProblem T) (\<lambda>_. NoContent 204)
             (client_repo_Delete (EffectiveTenant c (DeleteClient_TenantID request)) (DeleteClient_ClientID request))))"

end
