(* ===== verification/Registration.thy ===== *)
theory Registration
  imports ClientHandlers
begin

text \<open>
  What the registration of a client through \<open>src/api/oidc/client_handlers.go\<close> guarantees: the
  client can complete a login, and the configured client is not shadowed.
\<close>

section \<open>Redirect URIs\<close>

text \<open>A URI an authorization code may be sent to.\<close>

definition redirectable :: "net_lib \<Rightarrow> string \<Rightarrow> bool" where
  "redirectable U uri \<longleftrightarrow>
     (\<exists>p. url_Parse U uri = Inr p \<and> url_Host p \<noteq> [] \<and> CHR ''#'' \<notin> set uri \<and>
        (url_Scheme p = ''https'' \<or>
         url_Scheme p = ''http'' \<and>
           (url_Hostname p = ''localhost'' \<or> ParseIP_IsLoopback U (url_Hostname p) = Some True)))"

lemma validateRedirectURI_Inr: "validateRedirectURI U field uri = Inr u \<longleftrightarrow> redirectable U uri"
  by (auto simp: validateRedirectURI_def redirectable_def isLoopback_def split: sum.split option.split)

lemma each_valid_Inr: "each_valid f xs = Inr u \<longleftrightarrow> (\<forall>x\<in>set xs. \<exists>v. f x = Inr v)"
  by (induction xs) (auto split: sum.split)

lemma validateClient_Inr:
  "validateClient U reserved rq = Inr i \<longleftrightarrow>
   i = TrimSpace (CreateClient_ClientID rq) \<and> i \<noteq> [] \<and> (reserved \<noteq> [] \<longrightarrow> i \<noteq> reserved) \<and>
   CreateClient_RedirectURIs rq \<noteq> [] \<and>
   (\<forall>uri\<in>set (CreateClient_RedirectURIs rq) \<union> set (CreateClient_PostLogoutRedirectURIs rq). redirectable U uri)"
proof -
  have valid: "(\<exists>v. r = Inr v) \<longleftrightarrow> r = Inr ()" for r :: "string + unit" by auto
  have case_Inr: "(case r of Inl err \<Rightarrow> Inl err | Inr _ \<Rightarrow> k) = Inr i \<longleftrightarrow> r = Inr () \<and> k = Inr i"
    for r :: "string + unit" and k :: "string + string"
    by (cases r) auto
  show ?thesis
    by (auto simp: validateClient_def Let_def case_Inr each_valid_Inr validateRedirectURI_Inr)
qed

section \<open>Property\<close>

text \<open>What a handler does with a valid registration: it is stored and answered, or nothing happens.\<close>

lemma registration_run:
  assumes "ClientHandler_Create T C U reserved c (Inr rq) w = (Inr resp, w')" and "IsRoot c" and "validateClient U reserved rq = Inr i"
    and "t = EffectiveTenant c (CreateClient_TenantID rq)"
  shows "status resp \<noteq> 201 \<and> db w' = db w \<or>
    (\<exists>cl secret. client_repo_Create C (new_client t i rq) w = (Inr (cl, secret), w') \<and>
      resp = JSON 201 \<lparr>CreatedClient_TenantID = t, CreatedClient_ClientID = i,
        CreatedClient_ClientSecret = secret, CreatedClient_RedirectURIs = CreateClient_RedirectURIs rq\<rparr>)"
proof -
  obtain q w1 where run: "client_repo_Create C (new_client t i rq) w = (q, w1)" by fastforce
  show ?thesis
  proof (cases q)
    case (Inl err)
    have "atomic (client_repo_Create C (new_client t i rq))"
      unfolding client_repo_Create_def Let_def RandomToken_def
      by (intro atomic_bindE atomic_then_ret atomic_map_err atomic_exec reading.steps_bindE reading.steps_rand_read
          reading.steps_ret reading.steps_time_now)
    from atomicD [OF this run [unfolded Inl]] have "db w1 = db w" .
    moreover have "status (clientProblem T err) \<noteq> 201"
      by (auto simp: clientProblem_def split: go_error.split oidc_error.split)
    ultimately show ?thesis using assms run Inl by (auto simp: ClientHandler_Create_def answer_run)
  next
    case (Inr p)
    obtain cl secret where p: "p = (cl, secret)" by (cases p)
    show ?thesis
      using assms run Inr p client_repo_Create_Inr(1) [OF run [unfolded Inr p]]
      by (intro disjI2 exI [of _ cl] exI [of _ secret]) (auto simp: ClientHandler_Create_def answer_run new_client_def)
  qed
qed

text \<open>
  C36: a registered client can complete a login. Anything but a 201 leaves the database as it was.
  A 201 takes the bootstrap key; the client is stored under the trimmed id in the tenant of the
  request, as first party, with the redirect URIs of the request: at least one, and each an
  absolute https URL without fragment, or http on loopback. Its id is not that of the configured
  client, so in its tenant it authenticates with the secret in the response and with no other.
\<close>

theorem registered_clients_can_complete_a_login:
  assumes "ClientHandler_Create T C U reserved c binding w = (Inr resp, w')"
  shows "if status resp \<noteq> 201 then db w' = db w
    else IsRoot c \<and>
      (\<exists>rq i secret. binding = Inr rq \<and> i = TrimSpace (CreateClient_ClientID rq) \<and> i \<noteq> [] \<and>
        (reserved \<noteq> [] \<longrightarrow> i \<noteq> reserved) \<and> CreateClient_RedirectURIs rq \<noteq> [] \<and>
        (\<forall>uri\<in>set (CreateClient_RedirectURIs rq) \<union> set (CreateClient_PostLogoutRedirectURIs rq). redirectable U uri) \<and>
        client_at (db w) (EffectiveTenant c (CreateClient_TenantID rq)) i = None \<and>
        resp = JSON 201 \<lparr>CreatedClient_TenantID = EffectiveTenant c (CreateClient_TenantID rq), CreatedClient_ClientID = i,
          CreatedClient_ClientSecret = secret, CreatedClient_RedirectURIs = CreateClient_RedirectURIs rq\<rparr> \<and>
        (\<not> failing wb \<and> db wb = db w' \<and> not_configured conf i \<longrightarrow>
          fst (registry_Authenticate C (RegistryClientRegistry (StaticClientRegistry conf))
                 (EffectiveTenant c (CreateClient_TenantID rq)) i s wb) =
            (if Sha256Hex C s = Sha256Hex C secret then Inr () else Inl (OidcErr ClientAuthenticationError))))"
proof (cases "IsRoot c \<and> (\<exists>rq i. binding = Inr rq \<and> validateClient U reserved rq = Inr i)")
  case False
  with assms show ?thesis
    by (cases binding) (auto simp: ClientHandler_Create_def clientForbidden_def ret_eq split: if_splits sum.splits)
next
  case True
  then obtain rq i where root: "IsRoot c" and rq: "binding = Inr rq" and valid: "validateClient U reserved rq = Inr i" by blast
  let ?t = "EffectiveTenant c (CreateClient_TenantID rq)"
  from registration_run [OF assms [unfolded rq] root valid refl] show ?thesis
  proof (elim disjE exE conjE)
    assume "status resp \<noteq> 201" "db w' = db w"
    then show ?thesis by simp
  next
    fix cl secret
    assume run: "client_repo_Create C (new_client ?t i rq) w = (Inr (cl, secret), w')"
      and resp: "resp = JSON 201 \<lparr>CreatedClient_TenantID = ?t, CreatedClient_ClientID = i,
        CreatedClient_ClientSecret = secret, CreatedClient_RedirectURIs = CreateClient_RedirectURIs rq\<rparr>"
    note made = client_repo_Create_Inr [OF run]
    have "fst (registry_Authenticate C (RegistryClientRegistry (StaticClientRegistry conf)) ?t i s wb) =
        (if Sha256Hex C s = Sha256Hex C secret then Inr () else Inl (OidcErr ClientAuthenticationError))"
      if "\<not> failing wb" "db wb = db w'" "not_configured conf i"
      using registry_Authenticate_stored [OF that(3,1), of C ?t s] made that(2) by (simp add: new_client_def)
    moreover have "client_at (db w) ?t i = None" using made(2) by (simp add: new_client_def)
    moreover have "status resp = 201" by (simp add: resp)
    ultimately show ?thesis
      using root rq resp valid [unfolded validateClient_Inr]
      by (simp del: registry_Authenticate.simps split del: if_split) blast
  qed
qed

definition sample_net :: net_lib where
  "sample_net =
     \<lparr>url_Parse = (\<lambda>u. if HasPrefix u ''https://'' then Inr \<lparr>url_Scheme = ''https'', url_Host = ''shop'', url_Hostname = ''shop'', url_Query = []\<rparr>
        else Inl ''no scheme''),
      ParseIP_IsLoopback = (\<lambda>h. None), query_Set = (\<lambda>u k v. u), url_String = (\<lambda>u. [])\<rparr>"

definition sample_registration :: CreateClientRequest where
  "sample_registration = \<lparr>CreateClient_TenantID = ''acme'', CreateClient_ClientID = '' shop '', CreateClient_Name = ''Shop'',
     CreateClient_RedirectURIs = [''https://shop/cb''], CreateClient_PostLogoutRedirectURIs = []\<rparr>"

definition sample_texts :: error_texts where
  "sample_texts = \<lparr>rfc3339 = (\<lambda>t. ''now''), driver_text = (\<lambda>e. ''ERROR'')\<rparr>"

definition root_context :: auth_context where
  "root_context = \<lparr>contextTenant = None, contextRoot = True\<rparr>"

theorem registered_clients_can_complete_a_login_witness:
  "\<exists>secret w'. db w' = db (snd (ClientHandler_Create sample_texts sample_crypto sample_net [] root_context (Inr sample_registration)
        (sample_world empty_db 7 []))) \<and>
     fst (registry_Authenticate sample_crypto (RegistryClientRegistry (StaticClientRegistry None)) ''acme'' ''shop'' secret w') = Inr ()"
proof -
  let ?w = "sample_world empty_db 7 []"
  obtain resp w' where run: "ClientHandler_Create sample_texts sample_crypto sample_net [] root_context (Inr sample_registration) ?w = (Inr resp, w')"
    and resp: "status resp = 201" and f: "faults w' = []"
  proof -
    have "case ClientHandler_Create sample_texts sample_crypto sample_net [] root_context (Inr sample_registration) ?w of
        (Inl e, w') \<Rightarrow> False | (Inr resp, w') \<Rightarrow> status resp = 201 \<and> faults w' = []" by code_simp
    then show ?thesis by (auto split: prod.splits sum.splits intro: that)
  qed
  have id: "TrimSpace (CreateClient_ClientID sample_registration) = ''shop''"
    "EffectiveTenant root_context (CreateClient_TenantID sample_registration) = ''acme''" by code_simp+
  have wb: "\<not> failing w'" "not_configured None ''shop''" using f by (simp_all add: failing_def not_configured_def)
  obtain body where body: "resp = JSON 201 body"
    using registered_clients_can_complete_a_login [OF run, of w' None "[]"] resp by auto
  from registered_clients_can_complete_a_login [OF run, of w' None "CreatedClient_ClientSecret body"] resp
  have "fst (registry_Authenticate sample_crypto (RegistryClientRegistry (StaticClientRegistry None)) ''acme'' ''shop''
      (CreatedClient_ClientSecret body) w') = Inr ()"
    using wb id body by (auto simp del: registry_Authenticate.simps)
  with run show ?thesis by (auto simp del: registry_Authenticate.simps)
qed

end
