(* ===== verification/LogonCode.thy ===== *)
theory LogonCode
  imports Authn
begin

text \<open>
  \<open>src/internal/authn/logon_code.go\<close>: logon with a six-digit code sent to the address, behind
  the same lockout as passwords.
\<close>

definition logonCodeLength :: nat where "logonCodeLength = 6"

record IssuedCode =
  issued_Code :: string
  issued_Expires :: instant

record logon_code_service =
  lcs_authentication :: authn_service
  codeExpiry :: duration
  bcryptCost :: int

definition NewDefaultLogonCodeService :: "authn_service \<Rightarrow> duration \<Rightarrow> int \<Rightarrow> logon_code_service" where
  [simp]: "NewDefaultLogonCodeService authentication expiry cost =
     \<lparr>lcs_authentication = authentication, codeExpiry = expiry, bcryptCost = cost\<rparr>"

definition code_Request :: "crypto \<Rightarrow> logon_code_service \<Rightarrow> string \<Rightarrow> string \<Rightarrow> IssuedCode op" where
  "code_Request C s tenantID email =
     bindE (account_Read tenantID email) (\<lambda>account.
     if Account_Deleted account then throw (AccountErr (AccountNotFoundError email))
     else if \<not> Account_Enabled account then throw (AccountErr (AccountDisabledError email))
     else bindE (RandomDigits logonCodeLength) (\<lambda>code.
          bindE (BcryptHash C code (bcryptCost s)) (\<lambda>codeHash.
          bindE time_now (\<lambda>now.
          (let expires = instant_add now (codeExpiry s) in
           bindE (code_Upsert tenantID email codeHash expires) (\<lambda>_.
           ret \<lparr>issued_Code = code, issued_Expires = expires\<rparr>))))))"

definition code_Authenticate :: "crypto \<Rightarrow> 'tok jwt_lib \<Rightarrow> logon_code_service \<Rightarrow> string \<Rightarrow> string \<Rightarrow> string \<Rightarrow>
    string \<Rightarrow> 'tok Authenticated op" where
  "code_Authenticate C J s tenantID email clientID code =
     bindE (checkLockout tenantID email) (\<lambda>_.
     case ValidateCode code logonCodeLength of
       Inl _ \<Rightarrow> throw (AuthnErr LogonCodeInvalidError)
     | Inr _ \<Rightarrow>
         bindE (map_err not_found_fails (account_Read tenantID email)) (\<lambda>account.
         if Account_Deleted account then throw (AuthnErr AuthenticationError)
         else if \<not> Account_Enabled account then throw (AccountErr (AccountDisabledError email))
         else bindE (code_Read tenantID email) (\<lambda>codeHash.
              bindE (lift_result (BcryptVerify C codeHash code)) (\<lambda>match.
              if \<not> match then countFailure (lcs_authentication s) tenantID email
              else bindE (code_Delete tenantID email) (\<lambda>_.
                   bindE (attempt_Clear tenantID email) (\<lambda>_.
                   bindE (if \<not> Account_Verified account then SetVerified tenantID email else ret ()) (\<lambda>_.
                   bindE (issue J (lcs_authentication s) tenantID email clientID) (\<lambda>(authenticated, _).
                   ret authenticated))))))))"

section \<open>Facts\<close>

lemma ValidateCode_Inr:
  "ValidateCode code n = Inr u \<longleftrightarrow> length code = n \<and> (\<forall>c\<in>set code. CHR ''0'' \<le> c \<and> c \<le> CHR ''9'')"
  by (auto simp: ValidateCode_def simp flip: not_less)

lemma attempt_Clear_gone: "attempt_Clear t e w = (Inr u, w') \<Longrightarrow> attempt_at (db w') t e = None"
  by (auto simp: op_inr attempt_at_def select_row_filter_none)

lemma case_sum_const_throw_Inr [op_inr]:
  "(case z of Inl _ \<Rightarrow> throw e | Inr x \<Rightarrow> k x) w = (Inr y, w') \<longleftrightarrow> (\<exists>x. z = Inr x \<and> k x w = (Inr y, w'))"
  by (cases z) (simp_all add: throw_def)

text \<open>A code that was issued is six digits, so it passes \<open>ValidateCode\<close>, and only its hash is stored.\<close>

lemma code_Request_Inr:
  assumes "code_Request C s t e w = (Inr c, w')"
  obtains r h where "account_at (db w) t e = Some r" and "\<not> ac_deleted r" and "ac_enabled r"
    and "ValidateCode (issued_Code c) logonCodeLength = Inr ()"
    and "issued_Expires c = instant_add (wall w) (codeExpiry s)"
    and "\<exists>salt. bcrypt_generate C (issued_Code c) (bcryptCost s) salt = Inr h"
    and "code_stored (db w') t e = Some (h, issued_Expires c)"
    and "db w' = (db w)\<lparr>t_logon_codes := t_logon_codes (db w')\<rparr>"
    and "wall w' = wall w"
proof -
  from assms obtain r code h w2 w3 where r: "account_at (db w) t e = Some r" "\<not> ac_deleted r" "ac_enabled r"
    and code: "RandomDigits logonCodeLength (tick w) = (Inr code, w2)"
    and h: "BcryptHash C code (bcryptCost s) w2 = (Inr h, w3)"
    and up: "code_Upsert t e h (instant_add (wall w3) (codeExpiry s)) w3 = (Inr (), w')"
    and c: "c = \<lparr>issued_Code = code, issued_Expires = instant_add (wall w3) (codeExpiry s)\<rparr>"
    by (auto simp: code_Request_def op_inr Let_def)
  from RandomDigits_Inr [OF code] h have w3: "wall w3 = wall w" "db w3 = db w" by (auto simp: op_inr)
  have "ValidateCode code logonCodeLength = Inr ()"
    using RandomDigits_digits [OF code] by (simp add: ValidateCode_Inr)
  moreover have "\<exists>salt. bcrypt_generate C code (bcryptCost s) salt = Inr h" using h by (auto simp: op_inr)
  moreover have "code_stored (db w') t e = Some (h, instant_add (wall w3) (codeExpiry s))"
    using code_Upsert_at [OF up] by simp
  moreover have "db w' = (db w3)\<lparr>t_logon_codes := t_logon_codes (db w')\<rparr>" "wall w' = wall w3"
    using up by (auto simp: code_Upsert_def op_inr stmt_defs)
  ultimately show ?thesis using r c w3 by (intro that [of r h]) simp_all
qed

text \<open>What a successful logon with a code did.\<close>

lemma code_Authenticate_Inr:
  assumes "code_Authenticate C J s t e cl code w = (Inr a, w')"
  obtains r h x where "\<not> locked (db w) (wall w) t e" and "account_at (db w) t e = Some r" and "\<not> ac_deleted r" and "ac_enabled r"
    and "code_stored (db w) t e = Some (h, x)" and "\<not> x < wall w" and "bcrypt_compare C h code = BcryptMatch"
    and "code_stored (db w') t e = None" and "attempt_at (db w') t e = None"
    and "account_at (db w') t e = Some (if ac_verified r then r else set_verified (pg_now w) r)"
    and "t_sessions (db w') = t_sessions (db w)"
proof -
  from assms obtain w1 acc h b where lock: "checkLockout t e w = (Inr (), w1)"
    and acc: "account_Read t e w1 = (Inr acc, tick w1)" "\<not> Account_Deleted acc" "Account_Enabled acc"
    and read: "code_Read t e (tick w1) = (Inr h, tick (tick w1))"
    and b: "BcryptVerify C h code = Inr b"
    and rest: "(if \<not> b then countFailure (lcs_authentication s) t e
        else bindE (code_Delete t e) (\<lambda>_. bindE (attempt_Clear t e) (\<lambda>_.
             bindE (if \<not> Account_Verified acc then SetVerified t e else ret ()) (\<lambda>_.
             bindE (issue J (lcs_authentication s) t e cl) (\<lambda>(authenticated, _). ret authenticated)))))
        (tick (tick w1)) = (Inr a, w')"
    by (auto simp: code_Authenticate_def op_inr)
  note w1 = checkLockout_Inr [OF lock]
  from rest b have b: "bcrypt_compare C h code = BcryptMatch"
    and "bindE (code_Delete t e) (\<lambda>_. bindE (attempt_Clear t e) (\<lambda>_.
             bindE (if \<not> Account_Verified acc then SetVerified t e else ret ()) (\<lambda>_.
             bindE (issue J (lcs_authentication s) t e cl) (\<lambda>(authenticated, _). ret authenticated))))
        (tick (tick w1)) = (Inr a, w')"
    by (auto simp: countFailure_fails BcryptVerify_True split: if_splits)
  then obtain w2 w3 w4 rc where del: "code_Delete t e (tick (tick w1)) = (Inr (), w2)" and clr: "attempt_Clear t e w2 = (Inr (), w3)"
    and ver: "(if \<not> Account_Verified acc then SetVerified t e else ret ()) w3 = (Inr (), w4)"
    and iss: "issue J (lcs_authentication s) t e cl w4 = (Inr (a, rc), w')"
    unfolding bindE_Inr by (auto simp: ret_eq split: prod.splits)
  have db': "db w' = db w4" using iss by (rule issue_Inr)
  from acc w1 obtain r where r: "account_at (db w) t e = Some r" "\<not> ac_deleted r" "ac_enabled r" "acc = account_of_row r"
    by (auto simp: op_inr)
  from read w1 obtain x where x: "code_stored (db w) t e = Some (h, x)" "\<not> x < wall w"
    by (auto simp: op_inr code_stored_def code_at_def)
  have tabs: "t_accounts (db w3) = t_accounts (db w)" "t_sessions (db w3) = t_sessions (db w)"
      "attempt_at (db w3) t e = None" "code_stored (db w3) t e = None" "pg_now w3 = pg_now w"
    using del clr w1 code_Delete_at [OF del, of t e] attempt_Clear_gone [OF clr]
    by (auto simp: op_inr code_stored_def code_at_def)
  have "account_at (db w4) t e = Some (if ac_verified r then r else set_verified (pg_now w) r) \<and>
      t_sessions (db w4) = t_sessions (db w) \<and> attempt_at (db w4) t e = None \<and> code_stored (db w4) t e = None"
  proof (cases "ac_verified r")
    case True
    with ver r tabs show ?thesis by (simp add: op_inr account_at_def)
  next
    case False
    with ver r have upd: "account_update set_verified t e w3 = (Inr (), w4)" by (simp add: SetVerified_def)
    have "account_at (db w3) t e = Some r" using r(1) tabs(1) by (simp add: account_at_def)
    with upd have "account_at (db w4) t e = Some (set_verified (pg_now w3) r)"
      by (auto simp: account_update_Inr account_at_update account_setters)
    moreover have "t_sessions (db w4) = t_sessions (db w3)" "attempt_at (db w4) t e = attempt_at (db w3) t e"
      "code_stored (db w4) t e = code_stored (db w3) t e"
      using upd by (auto simp: account_update_Inr attempt_at_def code_stored_def code_at_def)
    ultimately show ?thesis using False tabs by simp
  qed
  with db' w1 r x b show ?thesis by (intro that [of r h x]) auto
qed

section \<open>Properties\<close>

text \<open>
  C33: a logon code works once, for the address it was issued to, before it expires. A successful
  logon found an unlocked, enabled, undeleted account with an unexpired code whose hash matches;
  afterwards the code and the failed attempts are gone and the account is verified, so no code
  logs on again before the next request, and the session store is as it was.
\<close>

theorem logon_code_is_single_use:
  assumes "code_Authenticate C J s t e cl code w = (Inr a, w')"
  shows "(\<exists>r h x. account_at (db w) t e = Some r \<and> \<not> ac_deleted r \<and> ac_enabled r \<and> \<not> locked (db w) (wall w) t e \<and>
      code_stored (db w) t e = Some (h, x) \<and> wall w \<le> x \<and> bcrypt_compare C h code = BcryptMatch \<and>
      account_at (db w') t e = Some (if ac_verified r then r else set_verified (pg_now w) r)) \<and>
    attempts (db w') t e = (0, None) \<and> t_sessions (db w') = t_sessions (db w) \<and>
    (\<forall>w2 cl2 code2 a2. db w2 = db w' \<longrightarrow> fst (code_Authenticate C J s t e cl2 code2 w2) \<noteq> Inr a2)"
  using assms
proof (rule code_Authenticate_Inr)
  fix r h x
  assume *: "\<not> locked (db w) (wall w) t e" "account_at (db w) t e = Some r" "\<not> ac_deleted r" "ac_enabled r"
    "code_stored (db w) t e = Some (h, x)" "\<not> x < wall w" "bcrypt_compare C h code = BcryptMatch"
    "code_stored (db w') t e = None" "attempt_at (db w') t e = None"
    "account_at (db w') t e = Some (if ac_verified r then r else set_verified (pg_now w) r)"
    "t_sessions (db w') = t_sessions (db w)"
  have "code_Authenticate C J s t e cl2 code2 w2 \<noteq> (Inr a2, w3)" if "db w2 = db w'" for w2 cl2 code2 a2 w3
    using *(8) that by (auto elim!: code_Authenticate_Inr)
  then show ?thesis using * by (auto simp: attempts_def not_less) (metis prod.collapse)
qed

definition sample_codes :: logon_code_service where
  "sample_codes = \<lparr>lcs_authentication = sample_service, codeExpiry = 600000000000, bcryptCost = 10\<rparr>"

definition sample_code_db :: database where
  "sample_code_db = sample_db\<lparr>t_logon_codes := [\<lparr>lc_tenant = ''default'', lc_email = ''a@b.co'', lc_code_hash = ''123456'',
     lc_expires = Instant 607000000000, lc_created = Instant 7000000000\<rparr>]\<rparr>"

theorem logon_code_is_single_use_witness:
  "\<exists>a w'. code_Authenticate sample_crypto sample_jwt sample_codes ''default'' ''a@b.co'' ''web'' ''123456''
      (sample_world sample_code_db 9000000000 [''j1'', ''j2'']) = (Inr a, w') \<and>
    (\<forall>a2. fst (code_Authenticate sample_crypto sample_jwt sample_codes ''default'' ''a@b.co'' ''web'' ''123456'' w') \<noteq> Inr a2)"
proof -
  let ?r = "code_Authenticate sample_crypto sample_jwt sample_codes ''default'' ''a@b.co'' ''web'' ''123456''
      (sample_world sample_code_db 9000000000 [''j1'', ''j2''])"
  have "case fst ?r of Inl _ \<Rightarrow> False | Inr _ \<Rightarrow> True" by code_simp
  then obtain a w' where run: "?r = (Inr a, w')" by (cases ?r) (auto split: sum.splits)
  from logon_code_is_single_use [OF this] run show ?thesis by auto
qed

text \<open>
  Codes and passwords share one lockout. A locked address is refused whatever the code,
  without a change to the database; a wrong code of the right form, while a code is stored, counts
  one failure and locks the address as the \<open>maxAttempts\<close>-th wrong password would.
\<close>

theorem wrong_code_counts:
  assumes "quiet w" and "account_at (db w) t e = Some r" and "\<not> ac_deleted r" and "ac_enabled r"
    and "code_stored (db w) t e = Some (h, x)" and "wall w \<le> x" and "bcrypt_compare C h code = BcryptMismatch"
    and "ValidateCode code logonCodeLength = Inr ()" and "attempts (db w) t e = (k, l)" and "0 \<le> k"
    and "int4 (maxAttempts (lcs_authentication s))" and "k < maxAttempts (lcs_authentication s)"
  shows "if locked (db w) (wall w) t e
    then (\<exists>u. fst (code_Authenticate C J s t e cl code w) = Inl (AuthnErr (AccountLockedError e u))) \<and>
      db (snd (code_Authenticate C J s t e cl code w)) = db w
    else attempts (db (snd (code_Authenticate C J s t e cl code w))) t e =
      (let n = (if l = None then k else 0) + 1 in
       (n, lock_if (maxAttempts (lcs_authentication s) \<le> n) (pg_now w) (lockoutDuration (lcs_authentication s)) None))"
proof (cases "locked (db w) (wall w) t e")
  case True
  obtain u where "checkLockout t e w = (Inl (AuthnErr (AccountLockedError e u)), tick w)"
    using checkLockout_locked [OF True] assms(1) by auto
  then show ?thesis using True by (simp add: code_Authenticate_def bindE_def attempt_def throw_def)
next
  case False
  obtain w1 where c: "checkLockout t e w = (Inr (), w1)" "quiet w1"
    using checkLockout_open [OF False assms(1)] by blast
  note w1 = checkLockout_Inr [OF c(1)]
  have acc: "map_err not_found_fails (account_Read t e) w1 = (Inr (account_of_row r), tick w1)"
    using assms(2) c(2) w1 by (simp add: op_inr)
  have read: "code_Read t e (tick w1) = (Inr h, tick (tick w1))"
  proof -
    have "code_stored (db (tick w1)) t e = Some (h, x)"
      using assms(5) w1 by (simp add: code_stored_def code_at_def)
    with assms(6) c(2) w1 show ?thesis by (auto simp: code_Read_Inr)
  qed
  have run: "code_Authenticate C J s t e cl code w = countFailure (lcs_authentication s) t e (tick (tick w1))"
    using c(1) acc read assms(3,4,7,8)
    by (simp add: code_Authenticate_def bindE_def attempt_def BcryptVerify_def lift_result_def ret_def)
  obtain err w2 where f: "(countFailure (lcs_authentication s) t e (tick (tick w1)) :: (go_error + 'a Authenticated) \<times> world) = (Inl err, w2)"
    using countFailure_Inl_ex by blast
  have at: "attempts (db (tick (tick w1))) t e = (if l = None then (k, None) else (0, None))"
    using w1 assms(9) by (simp add: attempts_unlock)
  have "int4 (fst (attempts (db (tick (tick w1))) t e) + 1)"
    using at assms(10-12) by (auto simp: int4_def)
  from countFailure_Inl(1) [OF f _ assms(11) this] c(2) at w1 False run f show ?thesis
    by (auto simp: Let_def)
qed

theorem wrong_code_counts_witness:
  "attempts (db (snd (code_Authenticate sample_crypto sample_jwt sample_codes ''default'' ''a@b.co'' ''web'' ''000000''
      (sample_world sample_code_db 9000000000 [])))) ''default'' ''a@b.co'' = (1, None)"
proof -
  let ?w = "sample_world sample_code_db 9000000000 []"
  have d: "account_at sample_code_db ''default'' ''a@b.co'' = Some sample_account"
    "code_stored sample_code_db ''default'' ''a@b.co'' = Some (''123456'', Instant 607000000000)"
    "attempts sample_code_db ''default'' ''a@b.co'' = (0, None)"
    by (simp_all add: sample_code_db_def sample_db_def empty_db_def account_at_def sample_account_def code_stored_def
        code_at_def attempts_def attempt_at_def select_row_def)
  have v: "ValidateCode ''000000'' logonCodeLength = Inr ()" by code_simp
  have "bcrypt_compare sample_crypto ''123456'' ''000000'' = BcryptMismatch" by simp
  from wrong_code_counts [of ?w, OF _ _ _ _ _ _ this v, of "''default''" "''a@b.co''" sample_account "Instant 607000000000" 0 None
      sample_codes sample_jwt "''web''"] d
  show ?thesis
    by (simp add: sample_codes_def sample_service_def int4_def lock_if_def locked_def) (simp add: sample_account_def)
qed

end
