(* ===== verification/Interleaving.thy ===== *)
theory Interleaving
  imports LogonCode
begin

text \<open>
  Calls that interleave. An operation runs alone; a program is the same code cut at its round
  trips, so that the programs of several callers can take turns on one world. \<open>alone\<close> runs a
  program without interruption and gives back the operation, which ties the programs to the
  definitions of the services. Here are the logons of \<open>src/internal/authn\<close> by password and by
  code; the renewals have their own theory.
\<close>

section \<open>Programs\<close>

datatype 'a prog =
    Done "go_error + 'a"
  | Trip "world \<Rightarrow> 'a prog \<times> world"

primrec alone :: "'a prog \<Rightarrow> 'a op" where
  "alone (Done r) = (\<lambda>w. (r, w))"
| "alone (Trip f) = (\<lambda>w. case map_prod alone id (f w) of (m, w') \<Rightarrow> m w')"

primrec attemptP :: "'a prog \<Rightarrow> (go_error + 'a \<Rightarrow> 'b prog) \<Rightarrow> 'b prog" where
  "attemptP (Done r) k = k r"
| "attemptP (Trip f) k = Trip (\<lambda>w. map_prod (\<lambda>p. attemptP p k) id (f w))"

definition seqP :: "'a prog \<Rightarrow> ('a \<Rightarrow> 'b prog) \<Rightarrow> 'b prog" where
  "seqP p k = attemptP p (\<lambda>r. case r of Inl e \<Rightarrow> Done (Inl e) | Inr x \<Rightarrow> k x)"

text \<open>An operation as one turn: a statement, a read of the clock, a draw.\<close>

definition trip :: "'a op \<Rightarrow> 'a prog" where
  "trip m = Trip (\<lambda>w. case m w of (r, w') \<Rightarrow> (Done r, w'))"

abbreviation retP :: "'a \<Rightarrow> 'a prog" where "retP x \<equiv> Done (Inr x)"
abbreviation throwP :: "go_error \<Rightarrow> 'a prog" where "throwP e \<equiv> Done (Inl e)"

lemma alone_attemptP: "alone (attemptP p k) w = attempt (alone p) (\<lambda>r. alone (k r)) w"
proof (induction p arbitrary: w)
  case (Done r)
  then show ?case by (simp add: attempt_def)
next
  case (Trip f)
  obtain p' w' where f: "f w = (p', w')" by fastforce
  then have "p' \<in> Basic_BNFs.fsts (f w)" by simp
  from Trip [OF rangeI this] f show ?case by (simp add: attempt_def)
qed

declare alone.simps [simp del]

lemma alone_simps [simp]:
  "alone (trip m) = m" "alone (retP x) = ret x" "alone (throwP e) = throw e"
  "alone (seqP p k) = bindE (alone p) (\<lambda>x. alone (k x))"
proof -
  show "alone (trip m) = m" by (simp add: alone.simps trip_def fun_eq_iff split: prod.split)
  show "alone (retP x) = ret x" "alone (throwP e) = throw e" by (simp_all add: alone.simps ret_def throw_def fun_eq_iff)
  show "alone (seqP p k) = bindE (alone p) (\<lambda>x. alone (k x))"
    by (auto simp: fun_eq_iff seqP_def alone_attemptP alone.simps bindE_def attempt_def throw_def split: prod.split sum.split)
qed

lemma seqP_trip:
  "seqP (trip m) k = Trip (\<lambda>w. case m w of (Inl e, w') \<Rightarrow> (throwP e, w') | (Inr x, w') \<Rightarrow> (k x, w'))"
  by (auto simp: seqP_def trip_def fun_eq_iff split: prod.split sum.split)

lemma attemptP_attemptP: "attemptP (attemptP p f) g = attemptP p (\<lambda>r. attemptP (f r) g)"
proof (induction p)
  case (Trip f')
  have "map_prod (\<lambda>p. attemptP p g) id (map_prod (\<lambda>p. attemptP p f) id (f' w)) =
      map_prod (\<lambda>p. attemptP p (\<lambda>r. attemptP (f r) g)) id (f' w)" for w
    using Trip [OF rangeI, of _ w] by (cases "f' w") simp
  then show ?case by simp
qed simp

lemma seqP_assoc: "seqP (seqP p f) g = seqP p (\<lambda>x. seqP (f x) g)"
  by (auto simp: seqP_def attemptP_attemptP intro!: arg_cong [where f = "attemptP p"] split: sum.split)

lemma seqP_done [simp]: "seqP (retP x) k = k x" "seqP (throwP e) k = throwP e"
  by (simp_all add: seqP_def)

section \<open>Taking turns\<close>

type_synonym 'a pool = "world \<times> 'a prog list"

inductive turn :: "'a pool \<Rightarrow> 'a pool \<Rightarrow> bool" where
  turn_of: "i < length ps \<Longrightarrow> ps ! i = Trip f \<Longrightarrow> f w = (p, w') \<Longrightarrow> turn (w, ps) (w', ps[i := p])"

inductive_cases turnE: "turn (w, ps) st"

abbreviation turns :: "'a pool \<Rightarrow> 'a pool \<Rightarrow> bool" where "turns \<equiv> turn\<^sup>*\<^sup>*"

fun is_done :: "'a prog \<Rightarrow> bool" where
  "is_done (Done r) = True"
| "is_done (Trip f) = False"

lemma turns_length: "turns st st' \<Longrightarrow> length (snd st') = length (snd st)"
  by (induction rule: rtranclp_induct) (auto elim: turn.cases)

text \<open>A schedule names the caller whose turn it is.\<close>

definition take_turn :: "nat \<Rightarrow> 'a pool \<Rightarrow> 'a pool" where
  "take_turn i st = (case st of (w, ps) \<Rightarrow>
     if i < length ps then (case ps ! i of Done r \<Rightarrow> st | Trip f \<Rightarrow> (case f w of (p, w') \<Rightarrow> (w', ps[i := p]))) else st)"

lemma schedule_turns: "turns st (fold take_turn is st)"
proof (induction "is" arbitrary: st)
  case (Cons i "is")
  have "turns st (take_turn i st)"
    by (auto simp: take_turn_def split: prod.split prog.split intro!: turn_of)
  with Cons.IH [of "take_turn i st"] show ?case by simp
qed simp

section \<open>Every interleaving ends\<close>

text \<open>A program within \<open>n\<close> turns of its end, whatever it is answered.\<close>

primrec within :: "nat \<Rightarrow> 'a prog \<Rightarrow> bool" where
  "within 0 p \<longleftrightarrow> is_done p"
| "within (Suc n) p \<longleftrightarrow> (case p of Done r \<Rightarrow> True | Trip f \<Rightarrow> \<forall>w. within n (fst (f w)))"

lemma within_Suc: "within n p \<Longrightarrow> within (Suc n) p"
proof (induction n arbitrary: p)
  case (Suc n)
  then show ?case by (cases p) (simp_all del: within.simps, simp_all)
qed (auto elim: is_done.elims)

lemma within_mono: "within n p \<Longrightarrow> n \<le> m \<Longrightarrow> within m p"
  by (induction m) (auto simp: le_Suc_eq within_Suc simp del: within.simps(2))

lemma within_done [simp]: "within n (Done r)"
  by (cases n) simp_all

lemma within_trip: "within (Suc n) (trip m)"
  by (simp add: trip_def split: prod.split)

lemma within_tripP: "(\<And>x. within n (k x)) \<Longrightarrow> within (Suc n) (seqP (trip m) k)"
  by (auto simp: seqP_trip split: prod.split sum.split)

lemma within_doneP: "(\<And>x. within n (k x)) \<Longrightarrow> within n (seqP (Done r) k)"
  by (cases r) simp_all

lemma within_attemptP: "within m p \<Longrightarrow> (\<And>r. within n (k r)) \<Longrightarrow> within (m + n) (attemptP p k)"
proof (induction m arbitrary: p)
  case 0
  then show ?case by (cases p) simp_all
next
  case (Suc m)
  show ?case
  proof (cases p)
    case (Done r)
    with Suc.prems(2) [of r] show ?thesis by (auto intro: within_mono simp del: within.simps)
  next
    case (Trip f)
    with Suc show ?thesis by (simp add: map_prod_def split_beta)
  qed
qed

lemma within_seqP: "within m p \<Longrightarrow> (\<And>x. within n (k x)) \<Longrightarrow> within (m + n) (seqP p k)"
  unfolding seqP_def by (rule within_attemptP) (auto split: sum.split)

lemma turn_budget:
  assumes "turn (w, ps) (w', ps')" and "list_all2 within ns ps"
  obtains ns' where "list_all2 within ns' ps'" and "sum_list ns = Suc (sum_list ns')"
  using assms(1)
proof (cases rule: turn.cases)
  case (turn_of i f p)
  have i: "i < length ns" using turn_of(2) list_all2_lengthD [OF assms(2)] by simp
  have "within (ns ! i) (Trip f)" using list_all2_nthD [OF assms(2) i] turn_of(3) by simp
  then obtain n where n: "ns ! i = Suc n" "within n p"
    using turn_of(4) by (cases "ns ! i") (simp, metis fst_conv prog.case(2) within.simps(2))
  have "list_all2 within (ns[i := n]) (ps[i := p])" using assms(2) n(2) by (intro list_all2_update_cong)
  moreover have "sum_list ns = Suc (sum_list (ns[i := n]))"
    using n(1) i member_le_sum_list [OF nth_mem [OF i]] by (simp add: sum_list_update)
  ultimately show ?thesis using turn_of(1) that by blast
qed

lemma turns_budget:
  "(turn ^^ m) st st' \<Longrightarrow> list_all2 within ns (snd st) \<Longrightarrow>
   \<exists>ns'. list_all2 within ns' (snd st') \<and> sum_list ns = m + sum_list ns'"
proof (induction m arbitrary: st')
  case (Suc m)
  from Suc.prems(1) obtain st1 where "(turn ^^ m) st st1" and last: "turn st1 st'" by auto
  with Suc obtain ns1 where "list_all2 within ns1 (snd st1)" "sum_list ns = m + sum_list ns1" by blast
  with last show ?case by (cases st1; cases st') (auto elim: turn_budget)
qed auto

lemma stuck_done:
  assumes "\<And>st'. \<not> turn (w, ps) st'"
  shows "list_all is_done ps"
  unfolding list_all_length
proof (intro allI impI)
  fix i assume i: "i < length ps"
  show "is_done (ps ! i)"
  proof (cases "ps ! i")
    case (Trip f)
    moreover obtain p w' where "f w = (p, w')" by fastforce
    ultimately show ?thesis using turn_of i assms by blast
  qed simp
qed

section \<open>Invariants of a pool\<close>

text \<open>
  Each program is at a stage \<open>g\<close>, which \<open>ok\<close> relates to what is left of it; \<open>I\<close> is the invariant of
  the stages and the world. What a turn does to both is to be shown for the program whose turn it is.
\<close>

locale staged =
  fixes ok :: "'g \<Rightarrow> 'a prog \<Rightarrow> bool" and I :: "'g list \<Rightarrow> world \<Rightarrow> bool"
  assumes stage_step: "I gs w \<Longrightarrow> i < length gs \<Longrightarrow> ok (gs ! i) (Trip f) \<Longrightarrow> f w = (p, w') \<Longrightarrow>
      \<exists>g. ok g p \<and> I (gs[i := g]) w'"
begin

lemma staged_turn:
  assumes "turn (w, ps) (w', ps')" and "list_all2 ok gs ps" and "I gs w"
  shows "\<exists>gs'. list_all2 ok gs' ps' \<and> I gs' w'"
  using assms(1)
proof (cases rule: turn.cases)
  case (turn_of i f p)
  have len: "length gs = length ps" using assms(2) by (rule list_all2_lengthD)
  have "ok (gs ! i) (Trip f)" using list_all2_nthD2 [OF assms(2) turn_of(2)] turn_of(3) by simp
  with stage_step [OF assms(3)] turn_of(2,4) len obtain g where "ok g p" "I (gs[i := g]) w'" by metis
  moreover from this(1) have "list_all2 ok (gs[i := g]) (ps[i := p])" using assms(2) by (rule list_all2_update_cong [rotated])
  ultimately show ?thesis using turn_of(1) by blast
qed

lemma staged_turns:
  assumes "turns st st'" and "list_all2 ok gs (snd st)" and "I gs (fst st)"
  shows "\<exists>gs'. list_all2 ok gs' (snd st') \<and> I gs' (fst st')"
  using assms
proof (induction rule: rtranclp_induct)
  case (step st1 st2)
  then obtain gs' where "list_all2 ok gs' (snd st1)" "I gs' (fst st1)" by blast
  with staged_turn [of "fst st1" "snd st1" "fst st2" "snd st2" gs'] step.hyps(2) show ?case by simp
qed blast

end

section \<open>The logons as programs\<close>

definition checkLockout_prog :: "string \<Rightarrow> string \<Rightarrow> unit prog" where
  "checkLockout_prog tenantID email =
     seqP (trip (attempt_Get tenantID email)) (\<lambda>row.
     case row of
       None \<Rightarrow> retP ()
     | Some r \<Rightarrow>
         (case fa_locked_until r of
            None \<Rightarrow> retP ()
          | Some lockedUntil \<Rightarrow>
              seqP (trip time_now) (\<lambda>now.
              if instant_after lockedUntil now then throwP (AuthnErr (AccountLockedError email lockedUntil))
              else trip (attempt_Clear tenantID email))))"

definition gateLogon_prog :: "string \<Rightarrow> string \<Rightarrow> Account prog" where
  "gateLogon_prog tenantID email =
     seqP (checkLockout_prog tenantID email) (\<lambda>_.
     seqP (trip (map_err not_found_fails (account_Read tenantID email))) (\<lambda>account.
     if Account_Deleted account then throwP (AuthnErr AuthenticationError)
     else if \<not> Account_Enabled account then throwP (AccountErr (AccountDisabledError email))
     else if \<not> Account_Verified account then throwP (AccountErr (AccountNotVerifiedError email))
     else retP account))"

definition countFailure_prog :: "authn_service \<Rightarrow> string \<Rightarrow> string \<Rightarrow> 'a prog" where
  "countFailure_prog s tenantID email =
     seqP (trip (IncrementAndLock tenantID email (maxAttempts s) (lockoutDuration s))) (\<lambda>lockedUntil.
     seqP (trip time_now) (\<lambda>now.
     case lockedUntil of
       None \<Rightarrow> throwP (AuthnErr AuthenticationError)
     | Some u \<Rightarrow>
         if instant_after u now then throwP (AuthnErr (AccountLockedError email u))
         else throwP (AuthnErr AuthenticationError)))"

definition VerifyPassword_prog :: "crypto \<Rightarrow> authn_service \<Rightarrow> string \<Rightarrow> string \<Rightarrow> string \<Rightarrow> Account prog" where
  "VerifyPassword_prog C s tenantID email password =
     seqP (gateLogon_prog tenantID email) (\<lambda>account.
     seqP (Done (BcryptVerify C (Account_PasswordHash account) password)) (\<lambda>match.
     if \<not> match then countFailure_prog s tenantID email
     else seqP (trip (attempt_Clear tenantID email)) (\<lambda>_. retP account)))"

text \<open>\<open>issue\<close> makes no round trip: the keys are in memory. It is one turn.\<close>

definition Authenticate_prog :: "crypto \<Rightarrow> 'tok jwt_lib \<Rightarrow> authn_service \<Rightarrow> string \<Rightarrow> string \<Rightarrow> string \<Rightarrow>
    string \<Rightarrow> 'tok Authenticated prog" where
  "Authenticate_prog C J s tenantID email clientID password =
     seqP (VerifyPassword_prog C s tenantID email password) (\<lambda>_.
     seqP (trip (issue J s tenantID email clientID)) (\<lambda>(authenticated, _). retP authenticated))"

definition code_Authenticate_prog :: "crypto \<Rightarrow> 'tok jwt_lib \<Rightarrow> logon_code_service \<Rightarrow> string \<Rightarrow> string \<Rightarrow>
    string \<Rightarrow> string \<Rightarrow> 'tok Authenticated prog" where
  "code_Authenticate_prog C J s tenantID email clientID code =
     seqP (checkLockout_prog tenantID email) (\<lambda>_.
     case ValidateCode code logonCodeLength of
       Inl _ \<Rightarrow> throwP (AuthnErr LogonCodeInvalidError)
     | Inr _ \<Rightarrow>
         seqP (trip (map_err not_found_fails (account_Read tenantID email))) (\<lambda>account.
         if Account_Deleted account then throwP (AuthnErr AuthenticationError)
         else if \<not> Account_Enabled account then throwP (AccountErr (AccountDisabledError email))
         else seqP (trip (code_Read tenantID email)) (\<lambda>codeHash.
              seqP (Done (BcryptVerify C codeHash code)) (\<lambda>match.
              if \<not> match then countFailure_prog (lcs_authentication s) tenantID email
              else seqP (trip (code_Delete tenantID email)) (\<lambda>_.
                   seqP (trip (attempt_Clear tenantID email)) (\<lambda>_.
                   seqP (if \<not> Account_Verified account then trip (SetVerified tenantID email) else retP ()) (\<lambda>_.
                   seqP (trip (issue J (lcs_authentication s) tenantID email clientID)) (\<lambda>(authenticated, _).
                   retP authenticated))))))))"

text \<open>Run alone, each program is the operation of the service.\<close>

lemma alone_done: "alone (Done r) = lift_result r"
  by (auto simp: alone.simps fun_eq_iff lift_result_def ret_def throw_def split: sum.split)

lemma lift_result_simps: "lift_result (Inl err) = throw err" "lift_result (Inr x) = ret x"
  by (simp_all add: lift_result_def)

lemmas alone_distrib = alone_done lift_result_simps if_distrib [of alone] option.case_distrib [of alone] sum.case_distrib [of alone]
  prod.case_distrib [of alone]

lemma alone_checkLockout: "alone (checkLockout_prog t e) = checkLockout t e"
  by (simp add: checkLockout_prog_def checkLockout_def alone_distrib cong: option.case_cong if_cong)

lemma alone_countFailure: "alone (countFailure_prog s t e) = countFailure s t e"
  by (simp add: countFailure_prog_def countFailure_def alone_distrib cong: option.case_cong if_cong)

lemma alone_VerifyPassword: "alone (VerifyPassword_prog C s t e pw) = VerifyPassword C s t e pw"
  by (simp add: VerifyPassword_prog_def VerifyPassword_def gateLogon_prog_def gateLogon_def alone_distrib
      alone_checkLockout alone_countFailure cong: if_cong)

lemma alone_Authenticate: "alone (Authenticate_prog C J s t e c pw) = Authenticate C J s t e c pw"
  by (simp add: Authenticate_prog_def Authenticate_def alone_VerifyPassword alone_distrib)

lemma alone_code_Authenticate: "alone (code_Authenticate_prog C J s t e c code) = code_Authenticate C J s t e c code"
  by (simp add: code_Authenticate_prog_def code_Authenticate_def alone_distrib alone_checkLockout alone_countFailure
      cong: if_cong sum.case_cong)

end
