(* ===== verification/LogonBursts.thy ===== *)
theory LogonBursts
  imports Interleaving
begin

text \<open>
  Bursts of logons on one address, by password and by code at once, as programs that take turns on
  one world: the attacker who guesses in parallel. \<open>siege\<close> is the environment in which they run,
  \<open>doomed\<close> what a guess that is wrong does at each of its turns, whatever the others have done.
\<close>

section \<open>Guesses\<close>

datatype guess = Password string | Code string

fun guess_prog :: "crypto \<Rightarrow> 'tok jwt_lib \<Rightarrow> logon_code_service \<Rightarrow> string \<Rightarrow> string \<Rightarrow> string \<Rightarrow> guess \<Rightarrow>
    'tok Authenticated prog" where
  "guess_prog C J s t e clientID (Password pw) = Authenticate_prog C J (lcs_authentication s) t e clientID pw"
| "guess_prog C J s t e clientID (Code code) = code_Authenticate_prog C J s t e clientID code"

definition burst :: "crypto \<Rightarrow> 'tok jwt_lib \<Rightarrow> logon_code_service \<Rightarrow> string \<Rightarrow> string \<Rightarrow> string \<Rightarrow> guess list \<Rightarrow>
    world \<Rightarrow> 'tok Authenticated pool" where
  "burst C J s t e clientID guesses w = (w, map (guess_prog C J s t e clientID) guesses)"

text \<open>A guess that the stored hash refuses; a code is refused for its hash only where one is stored.\<close>

fun wrong_guess :: "crypto \<Rightarrow> account_row \<Rightarrow> (string \<times> instant) option \<Rightarrow> instant \<Rightarrow> guess \<Rightarrow> bool" where
  "wrong_guess C r stored now (Password pw) \<longleftrightarrow> bcrypt_compare C (ac_password_hash r) pw = BcryptMismatch"
| "wrong_guess C r stored now (Code code) \<longleftrightarrow> ValidateCode code logonCodeLength = Inr () \<and>
     (case stored of None \<Rightarrow> False
      | Some (h, x) \<Rightarrow> now \<le> x \<and> bcrypt_compare C h code = BcryptMismatch)"

section \<open>What a wrong guess does\<close>

text \<open>The counter and the lock after one more failure.\<close>

definition failed_once :: "authn_service \<Rightarrow> instant \<Rightarrow> int \<times> instant option \<Rightarrow> int \<times> instant option" where
  "failed_once s now a = (fst a + 1, lock_if (maxAttempts s \<le> fst a + 1) now (lockoutDuration s) (snd a))"

text \<open>
  What the calls of a burst rely on and keep: a live account, the stored code, the two clocks, no
  failing connection, and a counter that is locked exactly from \<open>maxAttempts\<close> on.
\<close>

definition siege :: "authn_service \<Rightarrow> string \<Rightarrow> string \<Rightarrow> account_row \<Rightarrow> (string \<times> instant) option \<Rightarrow> instant \<Rightarrow>
    instant \<Rightarrow> int \<Rightarrow> world \<Rightarrow> bool" where
  "siege s t e r stored srv now n w \<longleftrightarrow> quiet w \<and> may_log_on (db w) t e r \<and> code_stored (db w) t e = stored \<and>
     pg_now w = srv \<and> wall w = now \<and> now < instant_add srv (lockoutDuration s) \<and> int4 (maxAttempts s) \<and>
     0 \<le> n \<and> int4 (n + 1) \<and>
     attempts (db w) t e = (n, if maxAttempts s \<le> n then Some (instant_add srv (lockoutDuration s)) else None)"

primrec doomed :: "authn_service \<Rightarrow> string \<Rightarrow> string \<Rightarrow> account_row \<Rightarrow> (string \<times> instant) option \<Rightarrow> instant \<Rightarrow>
    instant \<Rightarrow> 'a prog \<Rightarrow> bool \<Rightarrow> bool" where
  "doomed s t e r stored srv now (Done x) answered \<longleftrightarrow> answered \<and> (\<exists>err. x = Inl err)"
| "doomed s t e r stored srv now (Trip f) answered \<longleftrightarrow> (\<forall>n w. siege s t e r stored srv now n w \<longrightarrow>
     (case map_prod (doomed s t e r stored srv now) id (f w) of (D, w') \<Rightarrow>
        quiet w' \<and> pg_now w' = srv \<and> wall w' = now \<and>
        (db w' = db w \<and> (D answered \<or> maxAttempts s \<le> n \<and> D True) \<or>
         \<not> answered \<and> D True \<and> may_log_on (db w') t e r \<and> code_stored (db w') t e = stored \<and>
           attempts (db w') t e = failed_once s srv (attempts (db w) t e))))"

text \<open>The turns of the logons.\<close>

lemma doomed_query:
  assumes "\<And>n w w1. siege s t e r stored srv now n w \<Longrightarrow>
      \<exists>x. m w = (Inr x, tick w) \<and> (doomed s t e r stored srv now (k x) b \<or>
        maxAttempts s \<le> n \<and> doomed s t e r stored srv now (k x) True)"
  shows "doomed s t e r stored srv now (seqP (trip m) k) b"
  using assms by (fastforce simp: seqP_trip siege_def map_prod_def)

lemma doomed_clock:
  "doomed s t e r stored srv now (k now) b \<Longrightarrow> doomed s t e r stored srv now (seqP (trip time_now) k) b"
  by (auto simp: seqP_trip siege_def time_now_def)

lemma doomed_count:
  assumes "\<And>x. doomed s t e r stored srv now (k x) True"
  shows "doomed s t e r stored srv now (seqP (trip (IncrementAndLock t e (maxAttempts s) (lockoutDuration s))) k) False"
proof -
  have "\<exists>l w'. IncrementAndLock t e (maxAttempts s) (lockoutDuration s) w = (Inr l, w') \<and> quiet w' \<and> pg_now w' = srv \<and>
      wall w' = now \<and> may_log_on (db w') t e r \<and> code_stored (db w') t e = stored \<and>
      attempts (db w') t e = failed_once s srv (attempts (db w) t e)"
    if w: "siege s t e r stored srv now n w" for n w
  proof -
    have n: "fst (attempts (db w) t e) = n" using w by (simp add: siege_def)
    have "\<not> failing w" "int4 (maxAttempts s)" "int4 (fst (attempts (db w) t e) + 1)" using w n by (auto simp: siege_def)
    then obtain l w' where inc: "IncrementAndLock t e (maxAttempts s) (lockoutDuration s) w = (Inr l, w')"
      by (rule IncrementAndLock_succeeds)
    note at = IncrementAndLock_at [OF inc]
    from inc obtain d where w': "w' = (tick w)\<lparr>db := d\<rparr>" by (auto simp: IncrementAndLock_def op_inr)
    obtain T where "db w' = (db w)\<lparr>t_failed_attempts := T\<rparr>" using at(4) by blast
    then have "may_log_on (db w') t e r" "code_stored (db w') t e = stored"
      using w by (simp_all add: siege_def may_log_on_def account_at_def code_stored_def code_at_def)
    with inc at(1,2) w w' show ?thesis by (auto simp: siege_def failed_once_def)
  qed
  note run = this
  show ?thesis
    unfolding seqP_trip doomed.simps
  proof (intro allI impI)
    fix n w assume "siege s t e r stored srv now n w"
    from run [OF this] assms show "case map_prod (doomed s t e r stored srv now) id
          (case IncrementAndLock t e (maxAttempts s) (lockoutDuration s) w of
            (Inl err, w') \<Rightarrow> (throwP err, w') | (Inr x, w') \<Rightarrow> (k x, w')) of (D, w') \<Rightarrow>
        quiet w' \<and> pg_now w' = srv \<and> wall w' = now \<and>
        (db w' = db w \<and> (D False \<or> maxAttempts s \<le> n \<and> D True) \<or>
         \<not> False \<and> D True \<and> may_log_on (db w') t e r \<and> code_stored (db w') t e = stored \<and>
           attempts (db w') t e = failed_once s srv (attempts (db w) t e))"
      by (elim exE conjE) simp
  qed
qed

lemma doomed_countFailure: "doomed (lcs_authentication s) t e r stored srv now (countFailure_prog (lcs_authentication s) t e) False"
  unfolding countFailure_prog_def by (intro doomed_count doomed_clock) (auto split: option.split)

lemma doomed_checkLockout:
  assumes "doomed s t e r stored srv now (k ()) False"
  shows "doomed s t e r stored srv now (seqP (checkLockout_prog t e) k) False"
  unfolding checkLockout_prog_def seqP_assoc
proof (rule doomed_query)
  fix n w
  assume w: "siege s t e r stored srv now n w"
  then have "attempt_Get t e w = (Inr (attempt_at (db w) t e), tick w)" by (simp add: siege_def attempt_Get_Inr)
  moreover have "maxAttempts s \<le> n \<and> snd (attempts (db w) t e) = Some (instant_add srv (lockoutDuration s)) \<or>
      snd (attempts (db w) t e) = None" and "now < instant_add srv (lockoutDuration s)"
    using w by (auto simp: siege_def)
  ultimately show "\<exists>x. attempt_Get t e w = (Inr x, tick w) \<and>
      (doomed s t e r stored srv now
         (seqP (case x of None \<Rightarrow> retP () | Some r \<Rightarrow>
           (case fa_locked_until r of None \<Rightarrow> retP () | Some lockedUntil \<Rightarrow>
             seqP (trip time_now) (\<lambda>now. if instant_after lockedUntil now
               then throwP (AuthnErr (AccountLockedError e lockedUntil)) else trip (attempt_Clear t e)))) k) False \<or>
       maxAttempts s \<le> n \<and> doomed s t e r stored srv now
         (seqP (case x of None \<Rightarrow> retP () | Some r \<Rightarrow>
           (case fa_locked_until r of None \<Rightarrow> retP () | Some lockedUntil \<Rightarrow>
             seqP (trip time_now) (\<lambda>now. if instant_after lockedUntil now
               then throwP (AuthnErr (AccountLockedError e lockedUntil)) else trip (attempt_Clear t e)))) k) True)"
    using assms
    by (auto simp: attempts_def seqP_assoc intro!: doomed_clock split: option.splits)
qed

lemma doomed_account:
  assumes "\<And>a. \<not> Account_Deleted a \<Longrightarrow> Account_Enabled a \<Longrightarrow> Account_Verified a \<Longrightarrow>
      Account_PasswordHash a = ac_password_hash r \<Longrightarrow> doomed s t e r stored srv now (k a) b"
  shows "doomed s t e r stored srv now (seqP (trip (map_err not_found_fails (account_Read t e))) k) b"
proof (rule doomed_query)
  fix n w assume "siege s t e r stored srv now n w"
  then have r: "may_log_on (db w) t e r" and "map_err not_found_fails (account_Read t e) w = (Inr (account_of_row r), tick w)"
    by (auto simp: siege_def may_log_on_def op_inr)
  moreover have "doomed s t e r stored srv now (k (account_of_row r)) b"
    using r by (intro assms) (simp_all add: may_log_on_def)
  ultimately show "\<exists>x. map_err not_found_fails (account_Read t e) w = (Inr x, tick w) \<and>
      (doomed s t e r stored srv now (k x) b \<or> maxAttempts s \<le> n \<and> doomed s t e r stored srv now (k x) True)"
    by blast
qed

lemma doomed_code:
  assumes "stored = Some (h, x)" and "now \<le> x" and "doomed s t e r stored srv now (k h) b"
  shows "doomed s t e r stored srv now (seqP (trip (code_Read t e)) k) b"
proof (rule doomed_query)
  fix n w assume "siege s t e r stored srv now n w"
  then have "code_Read t e w = (Inr h, tick w)" using assms(1,2) by (auto simp: siege_def code_Read_Inr)
  with assms(3) show "\<exists>x. code_Read t e w = (Inr x, tick w) \<and>
      (doomed s t e r stored srv now (k x) b \<or> maxAttempts s \<le> n \<and> doomed s t e r stored srv now (k x) True)"
    by blast
qed

lemma seqP_countFailure: "seqP (countFailure_prog s t e) k = countFailure_prog s t e"
  by (simp add: countFailure_prog_def seqP_assoc if_distrib [of "\<lambda>p. seqP p k"] option.case_distrib [of "\<lambda>p. seqP p k"]
      cong: option.case_cong if_cong)

lemma doomed_guess:
  assumes "wrong_guess C r stored now g"
  shows "doomed (lcs_authentication s) t e r stored srv now (guess_prog C J s t e clientID g) False"
proof (cases g)
  case (Password pw)
  then show ?thesis
    using assms
    by (auto simp: Authenticate_prog_def VerifyPassword_prog_def gateLogon_prog_def seqP_assoc
        BcryptVerify_def seqP_countFailure doomed_countFailure intro!: doomed_checkLockout doomed_account)
next
  case (Code code)
  then obtain h x where "ValidateCode code logonCodeLength = Inr ()" "stored = Some (h, x)" "now \<le> x"
    "bcrypt_compare C h code = BcryptMismatch"
    using assms by (auto split: option.splits)
  with Code show ?thesis
    by (auto simp: code_Authenticate_prog_def BcryptVerify_def doomed_countFailure
        intro!: doomed_checkLockout doomed_account doomed_code)
qed

section \<open>Bursts\<close>

datatype stage = Pending | Counted | Refused

abbreviation counted :: "stage list \<Rightarrow> nat" where "counted gs \<equiv> length (filter (\<lambda>g. g = Counted) gs)"

definition burst_inv :: "authn_service \<Rightarrow> string \<Rightarrow> string \<Rightarrow> account_row \<Rightarrow> (string \<times> instant) option \<Rightarrow> instant \<Rightarrow>
    instant \<Rightarrow> int \<Rightarrow> stage list \<Rightarrow> world \<Rightarrow> bool" where
  "burst_inv s t e r stored srv now c0 gs w \<longleftrightarrow> 0 \<le> c0 \<and> int4 (c0 + int (length gs) + 1) \<and>
     siege s t e r stored srv now (c0 + int (counted gs)) w \<and>
     (Refused \<in> set gs \<longrightarrow> maxAttempts s \<le> c0 + int (counted gs))"

lemma counted_update:
  "i < length gs \<Longrightarrow> counted (gs[i := g]) + (if gs ! i = Counted then 1 else 0) = counted gs + (if g = Counted then 1 else 0)"
proof (induction gs arbitrary: i)
  case (Cons a gs)
  then show ?case
  proof (cases i)
    case (Suc j)
    with Cons.IH [of j] Cons.prems show ?thesis by auto
  qed auto
qed simp

lemma all_counted: "Pending \<notin> set gs \<Longrightarrow> Refused \<notin> set gs \<Longrightarrow> counted gs = length gs"
proof (induction gs)
  case (Cons g gs)
  then show ?case by (cases g) auto
qed simp

interpretation bursting: staged "\<lambda>g p. doomed s t e r stored srv now p (g \<noteq> Pending)" "burst_inv s t e r stored srv now c0"
  for s t e r stored srv now c0
proof unfold_locales
  fix gs :: "stage list" and w w' and i and f :: "world \<Rightarrow> 'a prog \<times> world" and p
  assume I: "burst_inv s t e r stored srv now c0 gs w" and i: "i < length gs"
    and ok: "doomed s t e r stored srv now (Trip f) (gs ! i \<noteq> Pending)" and f: "f w = (p, w')"
  let ?n = "c0 + int (counted gs)"
  have siege: "siege s t e r stored srv now ?n w" and le: "counted gs \<le> length gs"
    using I by (simp_all add: burst_inv_def)
  let ?D = "doomed s t e r stored srv now p"
  from ok siege f have q: "quiet w'" "pg_now w' = srv" "wall w' = now"
    and cases: "db w' = db w \<and> (?D (gs ! i \<noteq> Pending) \<or> maxAttempts s \<le> ?n \<and> ?D True) \<or>
      gs ! i = Pending \<and> ?D True \<and> may_log_on (db w') t e r \<and> code_stored (db w') t e = stored \<and>
        attempts (db w') t e = failed_once s srv (attempts (db w) t e)"
    by (fastforce simp: map_prod_def)+
  have same: "siege s t e r stored srv now ?n w'" if "db w' = db w" using that q siege by (simp add: siege_def)
  from cases consider
      "db w' = db w" "?D (gs ! i \<noteq> Pending)"
    | "db w' = db w" "gs ! i = Pending" "maxAttempts s \<le> ?n" "?D True"
    | "gs ! i = Pending" "?D True" "may_log_on (db w') t e r" "code_stored (db w') t e = stored"
        "attempts (db w') t e = failed_once s srv (attempts (db w) t e)"
    by (cases "gs ! i = Pending") auto
  then show "\<exists>g. doomed s t e r stored srv now p (g \<noteq> Pending) \<and> burst_inv s t e r stored srv now c0 (gs[i := g]) w'"
  proof cases
    case 1
    with I same show ?thesis by (intro exI [of _ "gs ! i"]) (simp add: burst_inv_def)
  next
    case 2
    with counted_update [OF i, of Refused] I same i show ?thesis
      by (intro exI [of _ Refused]) (simp add: burst_inv_def)
  next
    case 3
    then have "counted (gs[i := Counted]) = Suc (counted gs)" using counted_update [OF i, of Counted] by simp
    moreover from this have "Suc (counted gs) \<le> length gs" by (metis length_filter_le length_list_update)
    then have "int4 (?n + 2)" using I by (auto simp: burst_inv_def int4_def siege_def)
    with 3 q siege have "siege s t e r stored srv now (?n + 1) w'" by (auto simp: siege_def failed_once_def lock_if_def add.commute)
    ultimately show ?thesis using 3(2) I
      by (intro exI [of _ Counted]) (auto simp: burst_inv_def algebra_simps dest!: set_update_subset_insert [THEN subsetD])
  qed
qed

lemma burst_start_inv:
  assumes "quiet w" and "may_log_on (db w) t e r" and "attempts (db w) t e = (c0, None)" and "0 \<le> c0"
    and "c0 < maxAttempts s" and "int4 (maxAttempts s)" and "int4 (c0 + int n + 1)"
    and "wall w < instant_add (pg_now w) (lockoutDuration s)"
  shows "burst_inv s t e r (code_stored (db w) t e) (pg_now w) (wall w) c0 (replicate n Pending) w"
  using assms by (auto simp: burst_inv_def siege_def int4_def)

lemma stages_done:
  assumes "list_all2 (\<lambda>g p. doomed s t e r stored srv now p (g \<noteq> Pending)) gs ps" and "list_all is_done ps"
  shows "list_all (\<lambda>p. \<exists>err. p = throwP err) ps" and "Pending \<notin> set gs"
proof -
  have "(\<exists>err. p = throwP err) \<and> g \<noteq> Pending" if "doomed s t e r stored srv now p (g \<noteq> Pending)" "is_done p" for g p
    using that by (cases p) auto
  with assms show "list_all (\<lambda>p. \<exists>err. p = throwP err) ps" "Pending \<notin> set gs"
    by (induction rule: list_all2_induct) auto
qed

text \<open>
  C5: guessing in parallel does not outrun the lockout. A burst of wrong passwords and wrong codes
  on one live address that is not locked, in any interleaving of their statements: when all calls
  have returned, none has logged on, and either every failure was counted or the address is
  locked; with at least \<open>maxAttempts\<close> failures in sum it is locked.
\<close>

theorem concurrent_guesses_lock:
  assumes "quiet w" and "may_log_on (db w) t e r" and "attempts (db w) t e = (c0, None)" and "0 \<le> c0"
    and "c0 < maxAttempts (lcs_authentication s)" and "int4 (maxAttempts (lcs_authentication s))"
    and "int4 (c0 + int (length guesses) + 1)"
    and "wall w < instant_add (pg_now w) (lockoutDuration (lcs_authentication s))"
    and "\<forall>g\<in>set guesses. wrong_guess C r (code_stored (db w) t e) (wall w) g"
    and "turns (burst C J s t e clientID guesses w) (w', ps)" and "list_all is_done ps"
  shows "list_all (\<lambda>p. \<exists>err. p = throwP err) ps \<and>
    (\<exists>k\<le>length guesses. fst (attempts (db w') t e) = c0 + int k \<and>
       (if maxAttempts (lcs_authentication s) \<le> c0 + int k then locked (db w') (wall w') t e else k = length guesses))"
proof -
  let ?s = "lcs_authentication s" and ?stored = "code_stored (db w) t e"
  let ?ok = "\<lambda>g p. doomed ?s t e r ?stored (pg_now w) (wall w) p (g \<noteq> Pending)"
  let ?start = "map (guess_prog C J s t e clientID) guesses"
  have start: "list_all2 ?ok (replicate (length guesses) Pending) ?start"
    using assms(9) by (auto simp: list_all2_conv_all_nth intro!: doomed_guess)
  have "\<exists>gs. list_all2 ?ok gs (snd (w', ps)) \<and> burst_inv ?s t e r ?stored (pg_now w) (wall w) c0 gs (fst (w', ps))"
  proof (rule bursting.staged_turns)
    show "turns (w, ?start) (w', ps)" using assms(10) by (simp add: burst_def)
    show "list_all2 ?ok (replicate (length guesses) Pending) (snd (w, ?start))" using start by simp
    show "burst_inv ?s t e r ?stored (pg_now w) (wall w) c0 (replicate (length guesses) Pending) (fst (w, ?start))"
      using burst_start_inv [OF assms(1-8)] by simp
  qed
  then obtain gs where gs: "list_all2 ?ok gs ps" and inv: "burst_inv ?s t e r ?stored (pg_now w) (wall w) c0 gs w'"
    by auto
  from stages_done [OF gs assms(11)] have refused: "list_all (\<lambda>p. \<exists>err. p = throwP err) ps"
    and no: "Pending \<notin> set gs" .
  have len: "length gs = length guesses"
    using list_all2_lengthD [OF gs] turns_length [OF assms(10)] by (simp add: burst_def)
  have "maxAttempts ?s \<le> c0 + int (counted gs) \<or> counted gs = length gs"
    using inv all_counted [OF no] by (auto simp: burst_inv_def)
  moreover have "counted gs \<le> length guesses" using len by (metis length_filter_le)
  moreover have "fst (attempts (db w') t e) = c0 + int (counted gs)"
    and "maxAttempts ?s \<le> c0 + int (counted gs) \<Longrightarrow> locked (db w') (wall w') t e"
    using inv by (simp_all add: burst_inv_def siege_def locked_def)
  ultimately show ?thesis using refused len by (intro conjI exI [of _ "counted gs"]) auto
qed

text \<open>A burst of five guesses at an address that locks at three.\<close>

definition sample_guesses :: "guess list" where
  "sample_guesses = [Password ''a'', Code ''000000'', Password ''b'', Password ''c'', Code ''111111'']"

definition sample_burst :: "sample_token Authenticated pool" where
  "sample_burst = burst sample_crypto sample_jwt sample_codes ''default'' ''a@b.co'' ''web'' sample_guesses
     (sample_world sample_code_db 9000000000 [])"

text \<open>Round robin: every call takes its first turn before any takes its second.\<close>

definition round_robin :: "nat \<Rightarrow> nat \<Rightarrow> nat list" where
  "round_robin n rounds = concat (replicate rounds [0..<n])"

lemma robin_done: "list_all is_done (snd (fold take_turn (round_robin 5 9) sample_burst))"
  by code_simp

theorem concurrent_guesses_lock_witness:
  "\<exists>w' ps. turns sample_burst (w', ps) \<and> list_all (\<lambda>p. \<exists>err. p = throwP err) ps \<and>
     locked (db w') (wall w') ''default'' ''a@b.co''"
proof -
  let ?w = "sample_world sample_code_db 9000000000 []"
  obtain w' ps where end': "fold take_turn (round_robin 5 9) sample_burst = (w', ps)" by fastforce
  have run: "turns sample_burst (w', ps)" using schedule_turns [of sample_burst "round_robin 5 9"] end' by simp
  have done': "list_all is_done ps" using robin_done end' by simp
  have d: "account_at sample_code_db ''default'' ''a@b.co'' = Some sample_account"
    "attempts sample_code_db ''default'' ''a@b.co'' = (0, None)"
    "code_stored sample_code_db ''default'' ''a@b.co'' = Some (''123456'', Instant 607000000000)"
    by (simp_all add: sample_code_db_def sample_db_def empty_db_def account_at_def sample_account_def code_stored_def
        code_at_def attempts_def attempt_at_def select_row_def)
  have live: "may_log_on (db ?w) ''default'' ''a@b.co'' sample_account" using d by (simp add: may_log_on_def sample_account_def)
  have v: "ValidateCode ''000000'' logonCodeLength = Inr ()" "ValidateCode ''111111'' logonCodeLength = Inr ()"
    by code_simp+
  have wrong: "\<forall>g\<in>set sample_guesses. wrong_guess sample_crypto sample_account (code_stored (db ?w) ''default'' ''a@b.co'') (wall ?w) g"
    using v d by (simp add: sample_guesses_def) (simp add: sample_account_def)
  have five: "length sample_guesses = 5" by (simp add: sample_guesses_def)
  from concurrent_guesses_lock [where guesses = sample_guesses and s = sample_codes and clientID = "''web''" and J = sample_jwt,
      OF _ live _ _ _ _ _ _ wrong run [unfolded sample_burst_def] done', of 0] d(2)
  obtain k where "list_all (\<lambda>p. \<exists>err. p = throwP err) ps" and k: "(3 \<le> int k \<longrightarrow> locked (db w') (wall w') ''default'' ''a@b.co'') \<and> (int k < 3 \<longrightarrow> k = 5)"
    by (auto simp: sample_codes_def sample_service_def int4_def five split: if_splits)
  moreover have "locked (db w') (wall w') ''default'' ''a@b.co''" using k by (cases "int k < 3") auto
  ultimately show ?thesis using run by blast
qed

section \<open>How long a burst lasts\<close>

lemmas within_intros = within_tripP within_doneP within_trip within_done

lemma within_checkLockout: "within (Suc (Suc (Suc 0))) (checkLockout_prog t e)"
  unfolding checkLockout_prog_def
  by (auto intro!: within_intros simp del: within.simps split: option.split)

lemma within_countFailure: "within (Suc (Suc n)) (countFailure_prog s t e)"
  unfolding countFailure_prog_def
  by (auto intro!: within_intros simp del: within.simps split: option.split)

lemma within_guess: "within 9 (guess_prog C J s t e clientID g)"
proof (cases g)
  case (Password pw)
  have "within (Suc (Suc (Suc 0)) + Suc (Suc (Suc 0))) (VerifyPassword_prog C (lcs_authentication s) t e pw)"
    unfolding VerifyPassword_prog_def gateLogon_prog_def seqP_assoc
    by (intro within_seqP [OF within_checkLockout] within_tripP)
      (auto intro!: within_intros within_countFailure simp del: within.simps)
  then have "within (Suc (Suc (Suc 0)) + Suc (Suc (Suc 0)) + Suc 0) (Authenticate_prog C J (lcs_authentication s) t e clientID pw)"
    unfolding Authenticate_prog_def by (rule within_seqP) (auto intro!: within_intros simp del: within.simps)
  with Password show ?thesis by (auto elim!: within_mono simp del: within.simps)
next
  case (Code code)
  have "within (Suc (Suc (Suc 0)) + Suc (Suc (Suc (Suc (Suc (Suc 0)))))) (code_Authenticate_prog C J s t e clientID code)"
    unfolding code_Authenticate_prog_def
    by (intro within_seqP [OF within_checkLockout])
      (auto intro!: within_intros within_countFailure simp del: within.simps split: sum.split)
  with Code show ?thesis by (auto elim!: within_mono simp del: within.simps)
qed

text \<open>
  Every burst of logons ends. Whatever the order of the turns and the answers of the database,
  a burst takes at most nine turns per call, and when no turn is left every call has returned.
\<close>

lemma bursts_end:
  assumes "(turn ^^ m) (burst C J s t e clientID guesses w) st"
  shows "m \<le> 9 * length guesses \<and> ((\<forall>st'. \<not> turn st st') \<longleftrightarrow> list_all is_done (snd st))"
proof -
  have "list_all2 within (replicate (length guesses) 9) (snd (burst C J s t e clientID guesses w))"
    by (simp add: burst_def list_all2_conv_all_nth within_guess del: within.simps)
  from turns_budget [OF assms this] have "m \<le> 9 * length guesses" by (auto simp: sum_list_replicate)
  moreover have "(\<forall>st'. \<not> turn st st') \<longleftrightarrow> list_all is_done (snd st)"
    using stuck_done [of "fst st" "snd st"] by (auto elim!: turn.cases simp: list_all_length)
  ultimately show ?thesis by blast
qed

section \<open>Orders in which it goes wrong\<close>

text \<open>
  Where the calls do not all fail, two orders break what the services promise one call at a time.
  A logon code is read and verified before it is deleted, and the number of deleted rows is not
  looked at, so that two calls with the same code can both log on.
\<close>

fun logged_on :: "'a prog \<Rightarrow> bool" where
  "logged_on (Done (Inr x)) = True"
| "logged_on _ = False"

lemma code_logs_on_two_callers:
  "list_all logged_on (snd (fold take_turn (round_robin 2 9)
     (burst sample_crypto sample_jwt sample_codes ''default'' ''a@b.co'' ''web'' [Code ''123456'', Code ''123456'']
        (sample_world sample_code_db 9000000000 [''j1'', ''j2'', ''j3'', ''j4'']))))"
  by code_simp

text \<open>
  A call that finds an expired lock clears the row whatever it holds by then. Of four calls with
  wrong passwords one stops before its clean-up, the others fail three times, which locks the
  address, and the clean-up of the first removes the fresh lock.
\<close>

definition expired_lock_world :: world where
  "expired_lock_world = sample_world (sample_db\<lparr>t_failed_attempts := [\<lparr>fa_tenant = ''default'', fa_email = ''a@b.co'',
     fa_count = 3, fa_locked_until = Some (Instant 8000000000), fa_modified = Instant 7000000000\<rparr>]\<rparr>) 9000000000 []"

definition late_cleanup :: "nat list" where
  "late_cleanup = [0, 0] @ replicate 7 1 @ replicate 7 2 @ replicate 7 3"

lemma cleanup_removes_a_fresh_lock:
  "case fold take_turn late_cleanup (burst sample_crypto sample_jwt sample_codes ''default'' ''a@b.co'' ''web''
       (replicate 4 (Password ''x'')) expired_lock_world) of (w, ps) \<Rightarrow>
     snd (attempts (db w) ''default'' ''a@b.co'') = Some (Instant 909000000000) \<and>
     (case take_turn 0 (w, ps) of (w', ps') \<Rightarrow> attempts (db w') ''default'' ''a@b.co'' = (0, None))"
  by code_simp

end
