(* ===== verification/PasswordResets.thy ===== *)
theory PasswordResets
  imports Contracts
begin

text \<open>
  \<open>src/internal/accounts/password_reset_repository.go\<close>: one reset token per address, held
  as a hash. The store is an interpretation of \<open>one_time_store\<close>.
\<close>

definition reset_Upsert_stmt :: "string \<Rightarrow> string \<Rightarrow> string \<Rightarrow> instant \<Rightarrow> instant \<Rightarrow> database \<Rightarrow>
    pg_error + unit \<times> database" where
  [stmt_defs]: "reset_Upsert_stmt tenantID email tokenHash expires now d =
     map_sum id (\<lambda>t. ((), d\<lparr>t_password_resets := t\<rparr>))
       (upsert_row password_reset_conflict password_reset_conflict
          (\<lambda>r. r\<lparr>pr_token_hash := tokenHash, pr_expires := expires, pr_created := now\<rparr>)
          \<lparr>pr_tenant = tenantID, pr_email = email, pr_token_hash = tokenHash, pr_expires = expires,
           pr_created = now\<rparr>
          (t_password_resets d))"

definition reset_Upsert :: "string \<Rightarrow> string \<Rightarrow> string \<Rightarrow> instant \<Rightarrow> unit op" where
  "reset_Upsert tenantID email tokenHash expires = exec (reset_Upsert_stmt tenantID email tokenHash expires)"

definition reset_Read :: "string \<Rightarrow> string \<Rightarrow> string op" where
  "reset_Read tenantID email =
     bindE (query (\<lambda>d. select_row (\<lambda>r. pr_tenant r = tenantID \<and> pr_email r = email) (t_password_resets d))) (\<lambda>row.
     case row of
       None \<Rightarrow> throw (AccountErr ResetTokenInvalidError)
     | Some r \<Rightarrow>
         bindE time_now (\<lambda>now.
         if instant_after now (pr_expires r) then throw (AccountErr ResetTokenExpiredError)
         else ret (pr_token_hash r)))"

definition reset_Delete_stmt :: "string \<Rightarrow> string \<Rightarrow> instant \<Rightarrow> database \<Rightarrow> pg_error + unit \<times> database" where
  [stmt_defs]: "reset_Delete_stmt tenantID email now d =
     Inr ((), d\<lparr>t_password_resets :=
       snd (delete_where (\<lambda>r. pr_tenant r = tenantID \<and> pr_email r = email) (t_password_resets d))\<rparr>)"

definition reset_Delete :: "string \<Rightarrow> string \<Rightarrow> unit op" where
  "reset_Delete tenantID email = exec (reset_Delete_stmt tenantID email)"

definition reset_DeleteExpired_stmt :: "instant \<Rightarrow> database \<Rightarrow> pg_error + nat \<times> database" where
  [stmt_defs]: "reset_DeleteExpired_stmt now d =
     (let (n, t) = delete_where (\<lambda>r. pr_expires r < now) (t_password_resets d) in
      Inr (n, d\<lparr>t_password_resets := t\<rparr>))"

definition reset_DeleteExpired :: "nat op" where
  "reset_DeleteExpired = exec reset_DeleteExpired_stmt"

definition reset_at :: "database \<Rightarrow> string \<Rightarrow> string \<Rightarrow> password_reset_row option" where
  "reset_at d t e = select_row (\<lambda>r. pr_tenant r = t \<and> pr_email r = e) (t_password_resets d)"

definition reset_stored :: "database \<Rightarrow> string \<Rightarrow> string \<Rightarrow> (string \<times> instant) option" where
  "reset_stored d t e = map_option (\<lambda>r. (pr_token_hash r, pr_expires r)) (reset_at d t e)"

lemma reset_Read_Inr [op_inr]:
  "reset_Read t e w = (Inr h, w') \<longleftrightarrow>
   \<not> failing w \<and> (\<exists>x. reset_stored (db w) t e = Some (h, x) \<and> \<not> x < wall w) \<and> w' = tick w"
  by (auto simp: reset_Read_def reset_stored_def reset_at_def op_inr split: option.splits)

lemma reset_Delete_Inr [op_inr]:
  "reset_Delete t e w = (Inr u, w') \<longleftrightarrow> \<not> failing w \<and>
   w' = (tick w)\<lparr>db := (db w)\<lparr>t_password_resets :=
     filter (\<lambda>r. \<not> (pr_tenant r = t \<and> pr_email r = e)) (t_password_resets (db w))\<rparr>\<rparr>"
  by (auto simp: reset_Delete_def op_inr stmt_defs)

lemma reset_Upsert_at:
  assumes "reset_Upsert t e h x w = (Inr u, w')"
  shows "reset_stored (db w') t' e' = (if t' = t \<and> e' = e then Some (h, x) else reset_stored (db w) t' e')"
proof -
  let ?r = "\<lparr>pr_tenant = t, pr_email = e, pr_token_hash = h, pr_expires = x, pr_created = pg_now w\<rparr>"
  let ?f = "\<lambda>r. r\<lparr>pr_token_hash := h, pr_expires := x, pr_created := pg_now w\<rparr>"
  from assms have up: "upsert_row password_reset_conflict password_reset_conflict ?f ?r
      (t_password_resets (db w)) = Inr (t_password_resets (db w'))"
    by (auto simp: reset_Upsert_def op_inr stmt_defs)
  show ?thesis
  proof (cases "t' = t \<and> e' = e")
    case True
    then show ?thesis
      using select_row_upsert [OF up, of "\<lambda>r. pr_tenant r = t \<and> pr_email r = e"]
      by (simp add: reset_stored_def reset_at_def password_reset_conflict_def split: option.splits)
  next
    case False
    then show ?thesis
      using select_row_upsert_other [OF up, of "\<lambda>r. pr_tenant r = t' \<and> pr_email r = e'"]
      by (auto simp: reset_stored_def reset_at_def password_reset_conflict_def)
  qed
qed

lemma reset_Delete_at:
  "reset_Delete t e w = (Inr u, w') \<Longrightarrow>
   reset_stored (db w') t' e' = (if t' = t \<and> e' = e then None else reset_stored (db w) t' e')"
  by (auto simp: op_inr reset_stored_def reset_at_def select_row_filter_none
      intro!: arg_cong [where f = "map_option _"] select_row_filter_same)

interpretation resets: one_time_store reset_Upsert reset_Read reset_Delete reset_stored
  by unfold_locales (fact reset_Upsert_at, fact reset_Read_Inr, fact reset_Delete_at)

end
