(* ===== verification/AccountService.thy ===== *)
theory AccountService
  imports AccountRepository PasswordResets
begin

text \<open>
  \<open>src/internal/accounts/accounts.go\<close>: the account service. Its record holds what the Go
  struct does, the session revokers and the lockout clearer included; the repositories it
  calls are the theories above.
\<close>

record account_service =
  sessions :: "revoker list"
  lockouts :: revoker
  passwordCost :: int
  resetExpiry :: duration

definition NewDefaultAccountService :: "revoker list \<Rightarrow> revoker \<Rightarrow> int \<Rightarrow> duration \<Rightarrow> account_service" where
  [simp]: "NewDefaultAccountService revokers clearer cost expiry =
     \<lparr>sessions = revokers, lockouts = clearer, passwordCost = cost, resetExpiry = expiry\<rparr>"

definition blank_account :: Account where
  "blank_account = \<lparr>Account_ID = [], Account_TenantID = [], Account_Email = [], Account_Name = [],
     Account_Verified = False, Account_Enabled = False, Account_Deleted = False,
     Account_Created = zero_instant, Account_Modified = zero_instant,
     Account_PasswordHash = [], Account_VerificationHash = []\<rparr>"

record RegisteredAccount =
  ra_Account :: Account
  ra_VerificationToken :: string

record ResetToken =
  rst_Token :: string
  rst_Expires :: instant

section \<open>The operations\<close>

text \<open>A validation failure becomes \<open>InvalidAccountError\<close> with its text.\<close>

definition check_account :: "string + unit \<Rightarrow> unit op" where
  "check_account r = lift_result (map_sum (\<lambda>e. AccountErr (InvalidAccountError e)) id r)"

definition readLive :: "string \<Rightarrow> string \<Rightarrow> Account op" where
  "readLive tenantID email =
     bindE (account_Read tenantID email) (\<lambda>account.
     if Account_Deleted account then throw (AccountErr (AccountNotFoundError email)) else ret account)"

definition Register :: "crypto \<Rightarrow> account_service \<Rightarrow> string \<Rightarrow> string \<Rightarrow> string \<Rightarrow> string \<Rightarrow>
    RegisteredAccount op" where
  "Register C s tenantID email password nm =
     bindE (check_account (ValidateEmail email)) (\<lambda>_.
     bindE (check_account (ValidateName nm)) (\<lambda>_.
     bindE (check_account (ValidatePassword password)) (\<lambda>_.
     bindE (BcryptHash C password (passwordCost s)) (\<lambda>passwordHash.
     bindE RandomToken (\<lambda>verificationToken.
     bindE (account_Create (blank_account
       \<lparr>Account_TenantID := tenantID, Account_Email := email, Account_Name := nm,
        Account_PasswordHash := passwordHash,
        Account_VerificationHash := Sha256Hex C verificationToken\<rparr>)) (\<lambda>account.
     ret \<lparr>ra_Account = account\<lparr>Account_PasswordHash := [], Account_VerificationHash := []\<rparr>,
          ra_VerificationToken = verificationToken\<rparr>))))))"

definition Verify :: "crypto \<Rightarrow> string \<Rightarrow> string \<Rightarrow> string \<Rightarrow> unit op" where
  "Verify C tenantID email token =
     bindE (readLive tenantID email) (\<lambda>account.
     if Account_Verified account then throw (AccountErr (VerificationError ''account already verified''))
     else if Account_VerificationHash account = [] \<or>
             \<not> SafeCompare (Sha256Hex C token) (Account_VerificationHash account)
          then throw (AccountErr (VerificationError ''wrong verification token''))
     else SetVerified tenantID email)"

definition ResendVerification :: "crypto \<Rightarrow> string \<Rightarrow> string \<Rightarrow> string op" where
  "ResendVerification C tenantID email =
     bindE (readLive tenantID email) (\<lambda>account.
     if Account_Verified account then throw (AccountErr (VerificationError ''account already verified''))
     else bindE RandomToken (\<lambda>verificationToken.
          bindE (UpdateVerificationHash tenantID email (Sha256Hex C verificationToken)) (\<lambda>_.
          ret verificationToken)))"

definition Forgot :: "crypto \<Rightarrow> account_service \<Rightarrow> string \<Rightarrow> string \<Rightarrow> ResetToken op" where
  "Forgot C s tenantID email =
     bindE (readLive tenantID email) (\<lambda>_.
     bindE RandomToken (\<lambda>token.
     bindE time_now (\<lambda>now.
     (let expires = instant_add now (resetExpiry s) in
      bindE (reset_Upsert tenantID email (Sha256Hex C token) expires) (\<lambda>_.
      ret \<lparr>rst_Token = token, rst_Expires = expires\<rparr>)))))"

definition Reset :: "crypto \<Rightarrow> account_service \<Rightarrow> string \<Rightarrow> string \<Rightarrow> string \<Rightarrow> string \<Rightarrow> unit op" where
  "Reset C s tenantID email token newPassword =
     bindE (check_account (ValidatePassword newPassword)) (\<lambda>_.
     bindE (readLive tenantID email) (\<lambda>_.
     bindE (reset_Read tenantID email) (\<lambda>tokenHash.
     if \<not> SafeCompare (Sha256Hex C token) tokenHash then throw (AccountErr ResetTokenInvalidError)
     else bindE (BcryptHash C newPassword (passwordCost s)) (\<lambda>passwordHash.
          with_transaction
            (bindE (UpdatePasswordHash tenantID email passwordHash) (\<lambda>_.
             bindE (reset_Delete tenantID email) (\<lambda>_.
             bindE (revokeSessions (sessions s) tenantID email) (\<lambda>_.
             lockouts s tenantID email))))))))"

definition UpdateName :: "string \<Rightarrow> string \<Rightarrow> string \<Rightarrow> unit op" where
  "UpdateName tenantID email nm =
     bindE (check_account (ValidateName nm)) (\<lambda>_.
     bindE (readLive tenantID email) (\<lambda>_.
     account_UpdateName tenantID email nm))"

definition UpdatePassword :: "crypto \<Rightarrow> account_service \<Rightarrow> string \<Rightarrow> string \<Rightarrow> string \<Rightarrow> string \<Rightarrow> unit op" where
  "UpdatePassword C s tenantID email currentPassword newPassword =
     bindE (check_account (ValidatePassword newPassword)) (\<lambda>_.
     bindE (readLive tenantID email) (\<lambda>account.
     bindE (lift_result (BcryptVerify C (Account_PasswordHash account) currentPassword)) (\<lambda>match.
     if \<not> match then throw (AccountErr (InvalidAccountError ''wrong password''))
     else bindE (BcryptHash C newPassword (passwordCost s)) (\<lambda>passwordHash.
          with_transaction
            (bindE (UpdatePasswordHash tenantID email passwordHash) (\<lambda>_.
             revokeSessions (sessions s) tenantID email))))))"

definition Delete :: "account_service \<Rightarrow> string \<Rightarrow> string \<Rightarrow> unit op" where
  "Delete s tenantID email =
     bindE (readLive tenantID email) (\<lambda>_.
     with_transaction
       (bindE (SoftDelete tenantID email) (\<lambda>_.
        revokeSessions (sessions s) tenantID email)))"

section \<open>Facts\<close>

lemma check_account_Inr [op_inr]: "check_account r w = (Inr u, w') \<longleftrightarrow> r = Inr () \<and> w' = w"
  by (auto simp: check_account_def op_inr)

lemma readLive_Inr [op_inr]:
  "readLive t e w = (Inr a, w') \<longleftrightarrow> \<not> failing w \<and>
   (\<exists>r. account_at (db w) t e = Some r \<and> \<not> ac_deleted r \<and> a = account_of_row r) \<and> w' = tick w"
  by (auto simp: readLive_def op_inr)

lemma reads_account_read: "reads (account_read P t n)"
  unfolding account_read_def
  by (intro reading.steps_bindE reading.steps_query reading.steps_option reading.steps_throw reading.steps_ret)

lemma reads_readLive: "reads (readLive t e)"
  unfolding readLive_def account_Read_def
  by (intro reading.steps_bindE reads_account_read reading.steps_If reading.steps_throw reading.steps_ret)

lemma reads_reset_Read: "reads (reset_Read t e)"
  unfolding reset_Read_def
  by (intro reading.steps_bindE reading.steps_query reading.steps_option reading.steps_throw reading.steps_ret
      reading.steps_If reading.steps_time_now)

lemma reads_check_account: "reads (check_account r)"
  unfolding check_account_def by (rule reading.steps_lift_result)

lemma reads_BcryptHash: "reads (BcryptHash C v n)"
  unfolding BcryptHash_def
  by (intro reading.steps_bindE reading.steps_rand_read reading.steps_sum reading.steps_throw reading.steps_ret)

lemma reads_RandomToken: "reads RandomToken"
  unfolding RandomToken_def
  by (intro reading.steps_bindE reading.steps_rand_read reading.steps_ret)

text \<open>
  A successful update of the password: what the transaction leaves, whatever the surfaces
  are, provided they only close sessions.
\<close>

lemma password_transaction:
  assumes tx: "bindE (account_update (set_password_hash h) t e) (\<lambda>_. m) w = (Inr u, w')"
    and m: "\<And>w1 w2. m w1 = (Inr u, w2) \<Longrightarrow> t_accounts (db w2) = t_accounts (db w1)"
  shows "account_at (db w') t e = map_option (set_password_hash h (pg_now w)) (account_at (db w) t e)"
    and "(t', e') \<noteq> (t, e) \<Longrightarrow> account_at (db w') t' e' = account_at (db w) t' e'"
proof -
  from tx obtain w1 u1 where upd: "account_update (set_password_hash h) t e w = (Inr u1, w1)"
    and rest: "m w1 = (Inr u, w')" unfolding bindE_Inr by blast
  have "account_at (db w1) t' e' = (if t' = t \<and> e' = e
      then map_option (set_password_hash h (pg_now w)) (account_at (db w) t e) else account_at (db w) t' e')"
    for t' e' using upd by (simp add: account_update_Inr account_at_update account_setters)
  moreover have "account_at (db w') t' e' = account_at (db w1) t' e'" for t' e'
    using m [OF rest] by (simp add: account_at_def)
  ultimately show "account_at (db w') t e = map_option (set_password_hash h (pg_now w)) (account_at (db w) t e)"
    and "(t', e') \<noteq> (t, e) \<Longrightarrow> account_at (db w') t' e' = account_at (db w) t' e'"
    by auto
qed

lemma revoke_frame:
  assumes "\<forall>r\<in>set rs. steps closes (r t e)" and "revokeSessions rs t e w = (x, w')"
  shows "closes (db w) (db w')"
  using stepsD [OF steps_revokeSessions [OF assms(1)] assms(2)] .

text \<open>Every operation that runs a transaction is atomic.\<close>

lemma atomic_Reset: "atomic (Reset C s t e token pw)"
  unfolding Reset_def
  by (intro atomic_bindE reads_check_account reads_readLive reads_reset_Read reads_BcryptHash atomic_intros)

lemma atomic_UpdatePassword: "atomic (UpdatePassword C s t e cur pw)"
  unfolding UpdatePassword_def
  by (intro atomic_bindE reads_check_account reads_readLive reading.steps_lift_result reads_BcryptHash atomic_intros)

lemma atomic_Delete: "atomic (Delete s t e)"
  unfolding Delete_def by (intro atomic_bindE reads_readLive atomic_intros)

end
