(* ===== verification/AccountHandlers.thy ===== *)
theory AccountHandlers
  imports AccountService ApiKeys Problem
begin

text \<open>
  \<open>src/api/accounts/account_handlers.go\<close>: the REST handlers of the account service. A handler
  works on the tenant the gate leaves it (\<open>EffectiveTenant\<close>), whatever the request names.
\<close>

section \<open>Requests and responses\<close>

record RegisterAccountRequest =
  RegisterAccount_TenantID :: string
  RegisterAccount_Email :: string
  RegisterAccount_Password :: string
  RegisterAccount_Name :: string

record UpdateNameRequest =
  UpdateName_TenantID :: string
  UpdateName_Email :: string
  UpdateName_Name :: string

record VerifyAccountRequest =
  VerifyAccount_TenantID :: string
  VerifyAccount_Email :: string
  VerifyAccount_VerificationToken :: string

record ResendVerificationRequest =
  ResendVerification_TenantID :: string
  ResendVerification_Email :: string

record ResendVerificationResponse =
  ResendVerification_VerificationToken :: string

record ForgotPasswordRequest =
  ForgotPassword_TenantID :: string
  ForgotPassword_Email :: string

record ResetPasswordRequest =
  ResetPassword_TenantID :: string
  ResetPassword_Email :: string
  ResetPassword_ResetToken :: string
  ResetPassword_NewPassword :: string

record UpdatePasswordRequest =
  UpdatePassword_TenantID :: string
  UpdatePassword_Email :: string
  UpdatePassword_CurrentPassword :: string
  UpdatePassword_NewPassword :: string

record DeleteAccountRequest =
  DeleteAccount_TenantID :: string
  DeleteAccount_Email :: string

section \<open>Errors\<close>

definition accountProblem :: "error_texts \<Rightarrow> go_error \<Rightarrow> 'a response" where
  "accountProblem T err =
     (case err of
        AccountErr (AccountNotFoundError _) \<Rightarrow> problem_of T ''Account not found'' 404 err
      | AccountErr (AccountDuplicateError _) \<Rightarrow> problem_of T ''Duplicate account'' 409 err
      | AccountErr (InvalidAccountError _) \<Rightarrow> problem_of T ''Invalid account request'' 400 err
      | AccountErr (VerificationError _) \<Rightarrow> problem_of T ''Verification failed'' 401 err
      | AccountErr ResetTokenInvalidError \<Rightarrow> problem_of T ''Invalid reset token'' 401 err
      | AccountErr ResetTokenExpiredError \<Rightarrow> problem_of T ''Reset token expired'' 401 err
      | _ \<Rightarrow> server_error err)"

section \<open>Handlers\<close>

definition AccountHandler_Register ::
    "error_texts \<Rightarrow> crypto \<Rightarrow> account_service \<Rightarrow> auth_context \<Rightarrow> string + RegisterAccountRequest \<Rightarrow> RegisteredAccount response op" where
  "AccountHandler_Register T C s c binding =
     bound binding (\<lambda>request.
     answer (accountProblem T) (\<lambda>registered. JSON 201 registered)
       (Register C s (EffectiveTenant c (RegisterAccount_TenantID request)) (RegisterAccount_Email request)
          (RegisterAccount_Password request) (RegisterAccount_Name request)))"

definition AccountHandler_UpdateName ::
    "error_texts \<Rightarrow> auth_context \<Rightarrow> string + UpdateNameRequest \<Rightarrow> unit response op" where
  "AccountHandler_UpdateName T c binding =
     bound binding (\<lambda>request.
     answer (accountProblem T) (\<lambda>_. NoContent 204)
       (UpdateName (EffectiveTenant c (UpdateName_TenantID request)) (UpdateName_Email request)
          (UpdateName_Name request)))"

definition AccountHandler_Verify ::
    "error_texts \<Rightarrow> crypto \<Rightarrow> auth_context \<Rightarrow> string + VerifyAccountRequest \<Rightarrow> unit response op" where
  "AccountHandler_Verify T C c binding =
     bound binding (\<lambda>request.
     answer (accountProblem T) (\<lambda>_. NoContent 204)
       (Verify C (EffectiveTenant c (VerifyAccount_TenantID request)) (VerifyAccount_Email request)
          (VerifyAccount_VerificationToken request)))"

definition AccountHandler_ResendVerification ::
    "error_texts \<Rightarrow> crypto \<Rightarrow> auth_context \<Rightarrow> string + ResendVerificationRequest \<Rightarrow> ResendVerificationResponse response op" where
  "AccountHandler_ResendVerification T C c binding =
     bound binding (\<lambda>request.
     answer (accountProblem T) (\<lambda>token. JSON 200 \<lparr>ResendVerification_VerificationToken = token\<rparr>)
       (ResendVerification C (EffectiveTenant c (ResendVerification_TenantID request))
          (ResendVerification_Email request)))"

definition AccountHandler_Forgot ::
    "error_texts \<Rightarrow> crypto \<Rightarrow> account_service \<Rightarrow> auth_context \<Rightarrow> string + ForgotPasswordRequest \<Rightarrow> ResetToken response op" where
  "AccountHandler_Forgot T C s c binding =
     bound binding (\<lambda>request.
     answer (accountProblem T) (\<lambda>reset. JSON 200 reset)
       (Forgot C s (EffectiveTenant c (ForgotPassword_TenantID request)) (ForgotPassword_Email request)))"

definition AccountHandler_Reset ::
    "error_texts \<Rightarrow> crypto \<Rightarrow> account_service \<Rightarrow> auth_context \<Rightarrow> string + ResetPasswordRequest \<Rightarrow> unit response op" where
  "AccountHandler_Reset T C s c binding =
     bound binding (\<lambda>request.
     answer (accountProblem T) (\<lambda>_. NoContent 204)
       (Reset C s (EffectiveTenant c (ResetPassword_TenantID request)) (ResetPassword_Email request)
          (ResetPassword_ResetToken request) (ResetPassword_NewPassword request)))"

definition AccountHandler_UpdatePassword ::
    "error_texts \<Rightarrow> crypto \<Rightarrow> account_service \<Rightarrow> auth_context \<Rightarrow> string + UpdatePasswordRequest \<Rightarrow> unit response op" where
  "AccountHandler_UpdatePassword T C s c binding =
     bound binding (\<lambda>request.
     answer (accountProblem T) (\<lambda>_. NoContent 204)
       (UpdatePassword C s (EffectiveTenant c (UpdatePassword_TenantID request)) (UpdatePassword_Email request)
          (UpdatePassword_CurrentPassword request) (UpdatePassword_NewPassword request)))"

definition AccountHandler_Delete ::
    "error_texts \<Rightarrow> account_service \<Rightarrow> auth_context \<Rightarrow> string + DeleteAccountRequest \<Rightarrow> unit response op" where
  "AccountHandler_Delete T s c binding =
     bound binding (\<lambda>request.
     answer (accountProblem T) (\<lambda>_. NoContent 204)
       (Delete s (EffectiveTenant c (DeleteAccount_TenantID request)) (DeleteAccount_Email request)))"

end
