(* ===== verification/ApiKeyHandlers.thy ===== *)
theory ApiKeyHandlers
  imports ApiKeys SigningKeys Problem
begin

text \<open>
  \<open>src/api/apikeys/apikey_handlers.go\<close>: api key management, for the bootstrap key only, and
  \<open>src/api/jwks/jwks_handlers.go\<close>: the published signing keys.
\<close>

section \<open>apikey_handlers.go\<close>

record CreateApiKeyRequest =
  CreateApiKey_TenantID :: string
  CreateApiKey_Name :: string

record ListApiKeysRequest =
  ListApiKeys_TenantID :: string

record RevokeApiKeyRequest =
  RevokeApiKey_TenantID :: string
  RevokeApiKey_ID :: string

definition forbidden :: "'a response op" where
  "forbidden = ret (ProblemJSON 403 (NewProblem Forbidden 403 ''api key management requires the bootstrap key''))"

definition apiKeyProblem :: "error_texts \<Rightarrow> go_error \<Rightarrow> 'a response" where
  "apiKeyProblem T err =
     (case err of
        ApiKeyErr (ApiKeyNotFoundError _) \<Rightarrow> problem_of T ''Api key not found'' 404 err
      | ApiKeyErr (ApiKeyDuplicateError _) \<Rightarrow> problem_of T ''Duplicate api key'' 409 err
      | ApiKeyErr (InvalidApiKeyRequestError _) \<Rightarrow> problem_of T ''Invalid api key request'' 400 err
      | _ \<Rightarrow> server_error err)"

definition ApiKeyHandler_Create ::
    "error_texts \<Rightarrow> crypto \<Rightarrow> auth_context \<Rightarrow> string + CreateApiKeyRequest \<Rightarrow> CreatedApiKey response op" where
  "ApiKeyHandler_Create T C c binding =
     (if \<not> IsRoot c then forbidden
      else bound binding (\<lambda>request.
           answer (apiKeyProblem T) (\<lambda>created. JSON 201 created)
             (apikeys_Create C (EffectiveTenant c (CreateApiKey_TenantID request)) (CreateApiKey_Name request))))"

definition ApiKeyHandler_List ::
    "error_texts \<Rightarrow> auth_context \<Rightarrow> string + ListApiKeysRequest \<Rightarrow> ApiKey list response op" where
  "ApiKeyHandler_List T c binding =
     (if \<not> IsRoot c then forbidden
      else bound binding (\<lambda>request.
           answer (apiKeyProblem T) (\<lambda>keys. JSON 200 keys)
             (apikeys_List (EffectiveTenant c (ListApiKeys_TenantID request)))))"

definition ApiKeyHandler_Revoke ::
    "error_texts \<Rightarrow> crypto \<Rightarrow> auth_context \<Rightarrow> string + RevokeApiKeyRequest \<Rightarrow> unit response op" where
  "ApiKeyHandler_Revoke T C c binding =
     (if \<not> IsRoot c then forbidden
      else bound binding (\<lambda>request.
           answer (apiKeyProblem T) (\<lambda>_. NoContent 204)
             (apikeys_Revoke C (EffectiveTenant c (RevokeApiKey_TenantID request)) (RevokeApiKey_ID request))))"

section \<open>jwks_handlers.go\<close>

definition JwksHandler_Keys :: "pki \<Rightarrow> JWK list response op" where
  "JwksHandler_Keys K = answer server_error (\<lambda>keySet. JSON 200 keySet) (JWKS K)"

section \<open>The refusal of the gate\<close>

text \<open>\<open>unauthorized\<close> of \<open>src/api/auth/auth.go\<close>.\<close>

definition unauthorized :: "'a response op" where
  "unauthorized = ret (problem_response (NewUnauthorized ''a valid api key is required''))"

end
