(* ===== verification/Social.thy ===== *)
theory Social
  imports Authn
begin

text \<open>
  \<open>src/internal/social\<close>: sign-in with an identity a provider asserts. A validator is a function
  of the parameter \<open>validators\<close>; the account is found or made by the address, and the identity
  linked to it, in one transaction.
\<close>

record Identity =
  id_Provider :: string
  id_Subject :: string
  id_Email :: string
  id_EmailVerified :: bool

text \<open>\<open>google.go\<close>: what the verifier of go-oidc returns is the parameter \<open>verify\<close>.\<close>

record googleClaims =
  gc_Email :: string
  gc_EmailVerified :: bool

definition google_Name :: string where "google_Name = ''google''"

definition google_Validate :: "(string \<Rightarrow> string + (string \<times> (string + googleClaims))) \<Rightarrow> string \<Rightarrow> go_error + Identity" where
  "google_Validate verify idToken =
     (case verify idToken of
        Inl e \<Rightarrow> Inl (SocialErr (SocialTokenInvalidError e))
      | Inr (subject, Inl e) \<Rightarrow> Inl (SocialErr (SocialTokenInvalidError e))
      | Inr (subject, Inr claims) \<Rightarrow>
          Inr \<lparr>id_Provider = google_Name, id_Subject = subject, id_Email = gc_Email claims,
               id_EmailVerified = gc_EmailVerified claims\<rparr>)"

section \<open>social_repository.go\<close>

definition Link_stmt :: "string \<Rightarrow> string \<Rightarrow> string \<Rightarrow> instant \<Rightarrow> database \<Rightarrow> pg_error + unit \<times> database" where
  [stmt_defs]: "Link_stmt accountID provider subject now d =
     (if \<not> (\<exists>a\<in>set (t_accounts d). ac_id a = accountID) then Inl ForeignKeyViolation
      else map_sum id (\<lambda>t. ((), d\<lparr>t_social_logins := t\<rparr>))
        (upsert_checked social_login_same social_login_conflict (\<lambda>r. r\<lparr>sl_subject := subject\<rparr>)
           \<lparr>sl_account = accountID, sl_provider = provider, sl_subject = subject, sl_created = now\<rparr>
           (t_social_logins d)))"

definition already_linked :: "string \<Rightarrow> go_error \<Rightarrow> go_error" where
  "already_linked provider err =
     (if err = PgErr UniqueViolation then SocialErr (SocialAlreadyLinkedError provider) else err)"

definition Link :: "string \<Rightarrow> string \<Rightarrow> string \<Rightarrow> unit op" where
  "Link accountID provider subject =
     map_err (already_linked provider) (exec (Link_stmt accountID provider subject))"

section \<open>social.go\<close>

record social_service =
  validators :: "string \<Rightarrow> (string \<Rightarrow> go_error + Identity) option"
  sc_tokenizer :: tokenizer
  sc_passwordCost :: int

definition NewDefaultSocialService :: "tokenizer \<Rightarrow> int \<Rightarrow> social_service" where
  [simp]: "NewDefaultSocialService tok cost = \<lparr>validators = Map.empty, sc_tokenizer = tok, sc_passwordCost = cost\<rparr>"

definition AddValidator :: "social_service \<Rightarrow> string \<Rightarrow> (string \<Rightarrow> go_error + Identity) \<Rightarrow> social_service" where
  "AddValidator s nm validator = s\<lparr>validators := (validators s)(nm \<mapsto> validator)\<rparr>"

definition account_template :: Account where
  "account_template = \<lparr>Account_ID = [], Account_TenantID = [], Account_Email = [], Account_Name = [],
     Account_Verified = False, Account_Enabled = False, Account_Deleted = False,
     Account_Created = zero_instant, Account_Modified = zero_instant,
     Account_PasswordHash = [], Account_VerificationHash = []\<rparr>"

definition findOrCreate :: "crypto \<Rightarrow> social_service \<Rightarrow> string \<Rightarrow> string \<Rightarrow> Account op" where
  "findOrCreate C s tenantID email =
     attempt (account_Read tenantID email) (\<lambda>r.
     case r of
       Inr account \<Rightarrow> ret account
     | Inl (AccountErr (AccountNotFoundError _)) \<Rightarrow>
         bindE RandomToken (\<lambda>randomPassword.
         bindE (BcryptHash C randomPassword (sc_passwordCost s)) (\<lambda>passwordHash.
         account_CreateVerified (account_template\<lparr>Account_TenantID := tenantID, Account_Email := email,
           Account_PasswordHash := passwordHash\<rparr>)))
     | Inl err \<Rightarrow> throw err)"

definition social_signin :: "crypto \<Rightarrow> social_service \<Rightarrow> string \<Rightarrow> Identity \<Rightarrow> unit op" where
  "social_signin C s tenantID identity =
     bindE (findOrCreate C s tenantID (id_Email identity)) (\<lambda>account.
     if Account_Deleted account then throw (AuthnErr AuthenticationError)
     else if \<not> Account_Enabled account then throw (AccountErr (AccountDisabledError (id_Email identity)))
     else bindE (if \<not> Account_Verified account then SetVerified tenantID (id_Email identity) else ret ()) (\<lambda>_.
          Link (Account_ID account) (id_Provider identity) (id_Subject identity)))"

definition social_Authenticate :: "crypto \<Rightarrow> 'tok jwt_lib \<Rightarrow> social_service \<Rightarrow> string \<Rightarrow> string \<Rightarrow> string \<Rightarrow> string \<Rightarrow>
    'tok Authenticated op" where
  "social_Authenticate C J s tenantID provider idToken clientID =
     (case validators s provider of
        None \<Rightarrow> throw (SocialErr (ProviderNotConfiguredError provider))
      | Some validator \<Rightarrow>
          bindE (lift_result (validator idToken)) (\<lambda>identity.
          if id_Email identity = [] then throw (SocialErr (SocialTokenInvalidError ''no email in ID token''))
          else if \<not> id_EmailVerified identity then throw (SocialErr (EmailNotVerifiedError (id_Email identity)))
          else bindE (with_transaction (social_signin C s tenantID identity)) (\<lambda>_.
               bindE (CreateAccessToken J (sc_tokenizer s) tenantID (id_Email identity) clientID) (\<lambda>(accessToken, _).
               bindE (CreateRefreshToken J (sc_tokenizer s) tenantID (id_Email identity) clientID) (\<lambda>(refreshToken, _).
               ret \<lparr>AccessToken = accessToken, RefreshToken = refreshToken\<rparr>)))))"

section \<open>Facts\<close>

definition linked :: "database \<Rightarrow> string \<Rightarrow> string \<Rightarrow> string \<Rightarrow> bool" where
  "linked d account provider subject \<longleftrightarrow>
     (\<exists>r\<in>set (t_social_logins d). sl_account r = account \<and> sl_provider r = provider \<and> sl_subject r = subject)"

abbreviation identity_keys :: "database \<Rightarrow> (string \<times> string) list" where
  "identity_keys d \<equiv> map (\<lambda>r. (sl_provider r, sl_subject r)) (t_social_logins d)"

text \<open>Linking links, leaves the accounts alone and never lets two rows hold one identity.\<close>

lemma Link_Inr:
  assumes "Link i p sub w = (Inr u, w')"
  shows "linked (db w') i p sub" and "t_accounts (db w') = t_accounts (db w)"
    and "linked (db w) j p sub \<Longrightarrow> distinct (identity_keys (db w)) \<Longrightarrow> j = i"
proof -
  let ?r = "\<lparr>sl_account = i, sl_provider = p, sl_subject = sub, sl_created = pg_now w\<rparr>"
  from assms have up: "upsert_checked social_login_same social_login_conflict (\<lambda>r. r\<lparr>sl_subject := sub\<rparr>) ?r
      (t_social_logins (db w)) = Inr (t_social_logins (db w'))" and acc: "t_accounts (db w') = t_accounts (db w)"
    by (auto simp: Link_def op_inr stmt_defs split: if_splits)
  show "t_accounts (db w') = t_accounts (db w)" by (fact acc)
  show "linked (db w') i p sub"
  proof (cases "\<exists>x\<in>set (t_social_logins (db w)). social_login_same x ?r")
    case True
    then obtain x where x: "x \<in> set (t_social_logins (db w))" "social_login_same x ?r" by blast
    from True up have "t_social_logins (db w') =
        map (\<lambda>x. if social_login_same x ?r then x\<lparr>sl_subject := sub\<rparr> else x) (t_social_logins (db w))"
      by (auto simp: upsert_checked_def update_checked_def update_where_def split: if_splits)
    with x have "x\<lparr>sl_subject := sub\<rparr> \<in> set (t_social_logins (db w'))" by auto
    with x(2) show ?thesis unfolding linked_def by (intro bexI) (simp_all add: social_login_same_def)
  next
    case False
    with up show ?thesis by (auto simp: upsert_checked_def insert_row_Inr linked_def)
  qed
  assume "linked (db w) j p sub" and "distinct (identity_keys (db w))"
  then obtain y where y: "y \<in> set (t_social_logins (db w))" "sl_account y = j" "sl_provider y = p" "sl_subject y = sub"
    by (auto simp: linked_def)
  show "j = i"
  proof (rule ccontr)
    assume "j \<noteq> i"
    with y up show False
      by (auto simp: upsert_checked_def insert_row_Inr update_checked_def social_login_same_def
          social_login_conflict_def split: if_splits)
  qed
qed

lemma SetVerified_Inr:
  assumes "SetVerified t e w = (Inr u, w')"
  shows "account_at (db w') t e = map_option (set_verified (pg_now w)) (account_at (db w) t e)"
    and "t_social_logins (db w') = t_social_logins (db w)" and "account_at (db w) t e \<noteq> None"
  using assms by (auto simp: SetVerified_def account_update_Inr account_at_update account_setters)

lemma findOrCreate_Inr:
  assumes "findOrCreate C s t e w = (Inr a, w')"
  shows "\<exists>r. account_at (db w') t e = Some r \<and> Account_ID a = ac_id r \<and> Account_Deleted a = ac_deleted r \<and>
      Account_Enabled a = ac_enabled r \<and> Account_Verified a = ac_verified r \<and>
      (account_at (db w) t e = None \<or> account_at (db w) t e = Some r)"
    and "t_social_logins (db w') = t_social_logins (db w)"
proof -
  obtain r0 w1 where read: "account_Read t e w = (r0, w1)" by fastforce
  have "(\<exists>r. account_at (db w') t e = Some r \<and> Account_ID a = ac_id r \<and> Account_Deleted a = ac_deleted r \<and>
      Account_Enabled a = ac_enabled r \<and> Account_Verified a = ac_verified r \<and>
      (account_at (db w) t e = None \<or> account_at (db w) t e = Some r)) \<and>
      t_social_logins (db w') = t_social_logins (db w)"
  proof (cases r0)
    case (Inr acc)
    with assms read have "acc = a" "w' = w1" by (auto simp: findOrCreate_def attempt_def ret_def)
    with read Inr show ?thesis by (auto simp: op_inr)
  next
    case (Inl err)
    have db1: "db w1 = db w"
      using read unfolding account_Read_def account_read_def
      by (rule reads_keeps [rotated])
        (intro reading.steps_bindE reading.steps_query reading.steps_option reading.steps_throw reading.steps_ret)
    from assms read Inl obtain v where err: "err = AccountErr (AccountNotFoundError v)"
      by (auto simp: findOrCreate_def attempt_def throw_def split: go_error.splits account_error.splits)
    have "\<not> failing w"
      using read Inl err by (auto simp: account_Read_def account_read_def bindE_Inl query_Inl op_inr)
    then have none: "account_at (db w) t e = None"
      using read Inl account_Read_Some by (cases "account_at (db w) t e") fastforce+
    from assms read Inl err obtain pw w1' h w2 where "RandomToken w1 = (Inr pw, w1')"
      and "BcryptHash C pw (sc_passwordCost s) w1' = (Inr h, w2)"
      and cr: "account_CreateVerified (account_template\<lparr>Account_TenantID := t, Account_Email := e,
           Account_PasswordHash := h\<rparr>) w2 = (Inr a, w')"
      by (auto simp: findOrCreate_def attempt_def bindE_Inr)
    then have "db w2 = db w1" by (auto simp: op_inr)
    with cr show ?thesis
      using none db1
      by (auto simp: account_CreateVerified_def op_inr account_at_def select_row_def find_append account_template_def
          split: option.splits)
  qed
  then show "\<exists>r. account_at (db w') t e = Some r \<and> Account_ID a = ac_id r \<and> Account_Deleted a = ac_deleted r \<and>
      Account_Enabled a = ac_enabled r \<and> Account_Verified a = ac_verified r \<and>
      (account_at (db w) t e = None \<or> account_at (db w) t e = Some r)"
    and "t_social_logins (db w') = t_social_logins (db w)" by blast+
qed

lemma social_signin_Inr:
  assumes "social_signin C s t i w = (Inr u, w')"
  obtains r where "account_at (db w') t (id_Email i) = Some r" and "\<not> ac_deleted r" and "ac_enabled r" and "ac_verified r"
    and "linked (db w') (ac_id r) (id_Provider i) (id_Subject i)"
    and "\<And>r0. account_at (db w) t (id_Email i) = Some r0 \<Longrightarrow> ac_id r0 = ac_id r \<and> \<not> ac_deleted r0 \<and> ac_enabled r0"
    and "\<And>j. linked (db w) j (id_Provider i) (id_Subject i) \<Longrightarrow> distinct (identity_keys (db w)) \<Longrightarrow> j = ac_id r"
proof -
  from assms obtain a w1 w2 where foc: "findOrCreate C s t (id_Email i) w = (Inr a, w1)"
    and live: "\<not> Account_Deleted a" "Account_Enabled a"
    and ver: "(if \<not> Account_Verified a then SetVerified t (id_Email i) else ret ()) w1 = (Inr (), w2)"
    and link: "Link (Account_ID a) (id_Provider i) (id_Subject i) w2 = (Inr u, w')"
    unfolding social_signin_def by (auto simp: bindE_Inr if_throw_Inr)
  from findOrCreate_Inr(1) [OF foc] obtain r where r: "account_at (db w1) t (id_Email i) = Some r" "Account_ID a = ac_id r"
    "\<not> ac_deleted r" "ac_enabled r" "Account_Verified a = ac_verified r"
    "account_at (db w) t (id_Email i) = None \<or> account_at (db w) t (id_Email i) = Some r" using live by auto
  let ?r = "if ac_verified r then r else set_verified (pg_now w1) r"
  have w2: "account_at (db w2) t (id_Email i) = Some ?r" "t_social_logins (db w2) = t_social_logins (db w1)"
    using ver r(1,5) SetVerified_Inr [of t "id_Email i" w1 "()" w2] by (auto simp: ret_eq split: if_splits)
  have "account_at (db w') t (id_Email i) = Some ?r"
    using w2(1) Link_Inr(2) [OF link] by (simp add: account_at_def)
  moreover have "linked (db w') (ac_id ?r) (id_Provider i) (id_Subject i)"
    using Link_Inr(1) [OF link] r(2) by (simp add: set_verified_def)
  moreover have "j = ac_id ?r" if "linked (db w) j (id_Provider i) (id_Subject i)" "distinct (identity_keys (db w))" for j
    using that Link_Inr(3) [OF link, of j] findOrCreate_Inr(2) [OF foc] w2(2) r(2) by (simp add: linked_def set_verified_def)
  ultimately show ?thesis
    using r by (intro that [of ?r]) (auto simp: set_verified_def)
qed

section \<open>Properties\<close>

text \<open>
  C34: sign-in with a provider. A successful sign-in had an identity whose address the provider
  verified; the account of that address exists afterwards in the tenant, enabled, not deleted and
  verified, and is linked to the identity. An identity linked before was linked to this very
  account: in a database whose identities are unique, no sign-in moves or shares one. An identity
  without a verified address never reaches the database.
\<close>

theorem social_signin_links_one_account:
  assumes run: "social_Authenticate C J s t p tok cl w = (Inr a, w')"
  shows "\<exists>v i r. validators s p = Some v \<and> v tok = Inr i \<and> id_Email i \<noteq> [] \<and> id_EmailVerified i \<and>
    account_at (db w') t (id_Email i) = Some r \<and> \<not> ac_deleted r \<and> ac_enabled r \<and> ac_verified r \<and>
    linked (db w') (ac_id r) (id_Provider i) (id_Subject i) \<and>
    (\<forall>j. distinct (identity_keys (db w)) \<and> linked (db w) j (id_Provider i) (id_Subject i) \<longrightarrow> j = ac_id r)"
proof -
  from run obtain v i w1 where v: "validators s p = Some v" "v tok = Inr i" "id_Email i \<noteq> []" "id_EmailVerified i"
    and tx: "with_transaction (social_signin C s t i) w = (Inr (), w1)"
    and rest: "db w' = db w1"
    by (auto simp: social_Authenticate_def op_inr CreateAccessToken_Inr CreateRefreshToken_Inr)
  from tx obtain w2 where sign: "social_signin C s t i (tick w) = (Inr (), w2)" and "db w1 = db w2"
    by (auto simp: op_inr)
  with rest have db': "db w' = db w2" by simp
  from sign show ?thesis
  proof (rule social_signin_Inr)
    fix r
    assume "account_at (db w2) t (id_Email i) = Some r" "\<not> ac_deleted r" "ac_enabled r" "ac_verified r"
      "linked (db w2) (ac_id r) (id_Provider i) (id_Subject i)"
      "\<And>j. linked (db (tick w)) j (id_Provider i) (id_Subject i) \<Longrightarrow> distinct (identity_keys (db (tick w))) \<Longrightarrow> j = ac_id r"
    then show ?thesis using v db' by (intro exI [of _ v] exI [of _ i] exI [of _ r]) simp
  qed
qed

definition sample_google :: "string \<Rightarrow> go_error + Identity" where
  "sample_google tok = google_Validate (\<lambda>t. if t = ''good'' then Inr (''g1'', Inr \<lparr>gc_Email = ''a@b.co'', gc_EmailVerified = True\<rparr>)
     else Inl ''oidc: malformed jwt'') tok"

definition sample_social :: social_service where
  "sample_social = AddValidator \<lparr>validators = Map.empty, sc_tokenizer = sample_tokenizer, sc_passwordCost = 10\<rparr>
     google_Name sample_google"

theorem social_signin_links_one_account_witness:
  "\<exists>a w'. social_Authenticate sample_crypto sample_jwt sample_social ''default'' ''google'' ''good'' ''web''
      (sample_world empty_db 7000000000 [''u1'', ''j1'', ''j2'']) = (Inr a, w') \<and>
    (\<exists>e r. account_at (db w') ''default'' e = Some r \<and> ac_verified r \<and> linked (db w') (ac_id r) ''google'' ''g1'')"
proof -
  let ?r = "social_Authenticate sample_crypto sample_jwt sample_social ''default'' ''google'' ''good'' ''web''
      (sample_world empty_db 7000000000 [''u1'', ''j1'', ''j2''])"
  have "case fst ?r of Inl _ \<Rightarrow> False | Inr _ \<Rightarrow> True" by code_simp
  then obtain a w' where run: "?r = (Inr a, w')" by (cases ?r) (auto split: sum.splits)
  have g: "validators sample_social ''google'' = Some sample_google"
    by (simp add: sample_social_def AddValidator_def google_Name_def)
  from social_signin_links_one_account [OF run] run show ?thesis
    by (auto simp: g sample_google_def google_Validate_def google_Name_def)
qed

text \<open>
  An identity belongs to one account of the whole deployment, not of a tenant. Where the
  identity is linked to another account already, of whatever tenant, the sign-in ends in an error
  and leaves the database as it was.
\<close>

theorem linked_identity_is_refused_elsewhere:
  assumes "validators s p = Some v" and "v tok = Inr i" and "linked (db w) j (id_Provider i) (id_Subject i)"
    and "distinct (identity_keys (db w))" and "account_at (db w) t (id_Email i) = Some r" and "ac_id r \<noteq> j"
  shows "\<exists>e w'. social_Authenticate C J s t p tok cl w = (Inl e, w') \<and> db w' = db w"
proof -
  have no: "social_signin C s t i (tick w) \<noteq> (Inr u, w1)" for u w1
  proof
    assume "social_signin C s t i (tick w) = (Inr u, w1)"
    then show False
    proof (rule social_signin_Inr)
      fix r'
      assume "\<And>r0. account_at (db (tick w)) t (id_Email i) = Some r0 \<Longrightarrow> ac_id r0 = ac_id r' \<and> \<not> ac_deleted r0 \<and> ac_enabled r0"
        and "\<And>j. linked (db (tick w)) j (id_Provider i) (id_Subject i) \<Longrightarrow> distinct (identity_keys (db (tick w))) \<Longrightarrow> j = ac_id r'"
      from this(1) [of r] this(2) [of j] show False using assms(3-6) by simp
    qed
  qed
  obtain x w1 where tx: "with_transaction (social_signin C s t i) w = (x, w1)" by fastforce
  obtain e where e: "x = Inl e"
    using tx no by (cases x) (auto simp: with_transaction_Inr)
  then have "db w1 = db w" using tx atomicD [OF atomic_with_transaction] by blast
  with tx e assms(1,2) have "\<exists>e w'. social_Authenticate C J s t p tok cl w = (Inl e, w') \<and> db w' = db w"
    by (cases "id_Email i = [] \<or> \<not> id_EmailVerified i")
      (auto simp: social_Authenticate_def bindE_def attempt_def lift_result_def ret_def throw_def)
  then show ?thesis .
qed

definition sample_linked_db :: database where
  "sample_linked_db = sample_db\<lparr>t_accounts := [sample_account, sample_account\<lparr>ac_id := ''u9'', ac_tenant := ''acme''\<rparr>],
     t_social_logins := [\<lparr>sl_account = ''u9'', sl_provider = ''google'', sl_subject = ''g1'', sl_created = Instant 0\<rparr>]\<rparr>"

theorem linked_identity_is_refused_elsewhere_witness:
  "\<exists>e w'. social_Authenticate sample_crypto sample_jwt sample_social ''default'' ''google'' ''good'' ''web''
      (sample_world sample_linked_db 7000000000 [''j1'', ''j2'']) = (Inl e, w') \<and> db w' = sample_linked_db"
proof -
  let ?i = "\<lparr>id_Provider = ''google'', id_Subject = ''g1'', id_Email = ''a@b.co'', id_EmailVerified = True\<rparr>"
  let ?w = "sample_world sample_linked_db 7000000000 [''j1'', ''j2'']"
  have g: "validators sample_social ''google'' = Some sample_google" "sample_google ''good'' = Inr ?i"
    by (simp_all add: sample_social_def AddValidator_def google_Name_def sample_google_def google_Validate_def)
  have l: "linked (db ?w) ''u9'' (id_Provider ?i) (id_Subject ?i)" "distinct (identity_keys (db ?w))"
    "account_at (db ?w) ''default'' (id_Email ?i) = Some sample_account" "ac_id sample_account \<noteq> ''u9''"
    by (simp_all add: sample_linked_db_def linked_def account_at_def select_row_def sample_account_def)
  from linked_identity_is_refused_elsewhere [OF g l] show ?thesis by simp
qed

end
