(* ===== verification/AuthenticateHandlers.thy ===== *)
theory AuthenticateHandlers
  imports LogonCode Social ApiKeys Problem
begin

text \<open>
  \<open>src/api/authenticate\<close>: the REST handlers of the password logon and its token pair
  (\<open>authenticate_handlers.go\<close>), of the logon codes (\<open>logon_code_handlers.go\<close>) and of the social
  sign-in (\<open>social_handlers.go\<close>).
\<close>

section \<open>Requests and responses\<close>

record AuthenticateRequest =
  Authenticate_TenantID :: string
  Authenticate_Email :: string
  Authenticate_ClientID :: string
  Authenticate_Password :: string

record 'tok AcknowledgeRequest =
  Acknowledge_TenantID :: string
  Acknowledge_AccessToken :: 'tok
  Acknowledge_RefreshToken :: 'tok

record 'tok RenewRequest =
  Renew_TenantID :: string
  Renew_RefreshToken :: 'tok

record RevokeRequest =
  Revoke_TenantID :: string
  Revoke_Email :: string
  Revoke_ClientID :: string

record 'tok ValidateRequest =
  Validate_TenantID :: string
  Validate_AccessToken :: 'tok

record ValidateResponse =
  Validated_TenantID :: string
  Validated_ClientID :: string
  Validated_Subject :: string
  Validated_ID :: string
  Validated_Issuer :: string
  Validated_Audience :: "string list"
  Validated_ExpiresAt :: instant
  Validated_IssuedAt :: instant
  Validated_NotBefore :: instant

record RequestCodeRequest =
  RequestCode_TenantID :: string
  RequestCode_Email :: string

record CodeLogonRequest =
  CodeLogon_TenantID :: string
  CodeLogon_Email :: string
  CodeLogon_ClientID :: string
  CodeLogon_Code :: string

record SocialLogonRequest =
  SocialLogon_TenantID :: string
  SocialLogon_Provider :: string
  SocialLogon_IDToken :: string
  SocialLogon_ClientID :: string

section \<open>Errors\<close>

definition authenticateProblem :: "error_texts \<Rightarrow> go_error \<Rightarrow> 'a response" where
  "authenticateProblem T err =
     (case err of
        AuthnErr (AccountLockedError _ _) \<Rightarrow> problem_of T ''Account locked'' 423 err
      | AuthnErr AuthenticationError \<Rightarrow> problem_of T Unauthorized 401 err
      | TokenErr (TokenInvalidError _) \<Rightarrow> problem_of T Unauthorized 401 err
      | AuthnErr TokenNotAcknowledgedError \<Rightarrow> problem_of T Unauthorized 401 err
      | AuthnErr TokenTenantMismatchError \<Rightarrow> problem_of T Unauthorized 401 err
      | AccountErr (AccountNotVerifiedError _) \<Rightarrow> problem_of T Forbidden 403 err
      | AccountErr (AccountDisabledError _) \<Rightarrow> problem_of T Forbidden 403 err
      | AccountErr (AccountNotFoundError _) \<Rightarrow> problem_of T Unauthorized 401 err
      | AuthnErr (SessionNotFoundError _) \<Rightarrow> problem_of T ''Session not found'' 404 err
      | _ \<Rightarrow> server_error err)"

definition logonCodeProblem :: "error_texts \<Rightarrow> go_error \<Rightarrow> 'a response" where
  "logonCodeProblem T err =
     (case err of
        AuthnErr LogonCodeInvalidError \<Rightarrow> problem_of T Unauthorized 401 err
      | AuthnErr LogonCodeExpiredError \<Rightarrow> problem_of T Unauthorized 401 err
      | _ \<Rightarrow> authenticateProblem T err)"

definition socialProblem :: "error_texts \<Rightarrow> go_error \<Rightarrow> 'a response" where
  "socialProblem T err =
     (case err of
        SocialErr (ProviderNotConfiguredError _) \<Rightarrow> problem_of T ''Provider not configured'' 400 err
      | SocialErr (SocialTokenInvalidError _) \<Rightarrow> problem_of T Unauthorized 401 err
      | SocialErr (EmailNotVerifiedError _) \<Rightarrow> problem_of T Forbidden 403 err
      | SocialErr (SocialAlreadyLinkedError _) \<Rightarrow> problem_of T ''Social identity conflict'' 409 err
      | _ \<Rightarrow> authenticateProblem T err)"

section \<open>authenticate_handlers.go\<close>

definition AuthenticateHandler_Authenticate ::
    "error_texts \<Rightarrow> crypto \<Rightarrow> 'tok jwt_lib \<Rightarrow> authn_service \<Rightarrow> auth_context \<Rightarrow> string + AuthenticateRequest \<Rightarrow>
     'tok Authenticated response op" where
  "AuthenticateHandler_Authenticate T C J s c binding =
     bound binding (\<lambda>request.
     answer (authenticateProblem T) (\<lambda>authenticated. JSON 200 authenticated)
       (Authenticate C J s (EffectiveTenant c (Authenticate_TenantID request)) (Authenticate_Email request)
          (Authenticate_ClientID request) (Authenticate_Password request)))"

definition AuthenticateHandler_Acknowledge ::
    "error_texts \<Rightarrow> 'tok jwt_lib \<Rightarrow> authn_service \<Rightarrow> auth_context \<Rightarrow> string + 'tok AcknowledgeRequest \<Rightarrow>
     unit response op" where
  "AuthenticateHandler_Acknowledge T J s c binding =
     bound binding (\<lambda>request.
     answer (authenticateProblem T) (\<lambda>_. NoContent 204)
       (Acknowledge J s (EffectiveTenant c (Acknowledge_TenantID request))
          \<lparr>AccessToken = Acknowledge_AccessToken request, RefreshToken = Acknowledge_RefreshToken request\<rparr>))"

definition AuthenticateHandler_Renew ::
    "error_texts \<Rightarrow> 'tok jwt_lib \<Rightarrow> authn_service \<Rightarrow> auth_context \<Rightarrow> string + 'tok RenewRequest \<Rightarrow>
     'tok Authenticated response op" where
  "AuthenticateHandler_Renew T J s c binding =
     bound binding (\<lambda>request.
     answer (authenticateProblem T) (\<lambda>authenticated. JSON 200 authenticated)
       (Renew J s (EffectiveTenant c (Renew_TenantID request)) (Renew_RefreshToken request)))"

definition AuthenticateHandler_Revoke ::
    "error_texts \<Rightarrow> auth_context \<Rightarrow> string + RevokeRequest \<Rightarrow> unit response op" where
  "AuthenticateHandler_Revoke T c binding =
     bound binding (\<lambda>request.
     answer (authenticateProblem T) (\<lambda>_. NoContent 204)
       (Revoke (EffectiveTenant c (Revoke_TenantID request)) (Revoke_Email request) (Revoke_ClientID request)))"

text \<open>
  The claims of a validated token, flattened: the three instants are read through pointers, and
  a nil one ends the request.
\<close>

definition flatten_claims :: "token_claims \<Rightarrow> ValidateResponse option" where
  "flatten_claims claims =
     (case (claim_ExpiresAt claims, claim_IssuedAt claims, claim_NotBefore claims) of
        (Some expires, Some issued, Some notBefore) \<Rightarrow>
          Some \<lparr>Validated_TenantID = claim_TenantID claims, Validated_ClientID = claim_ClientID claims,
            Validated_Subject = claim_Subject claims, Validated_ID = claim_ID claims,
            Validated_Issuer = claim_Issuer claims, Validated_Audience = claim_Audience claims,
            Validated_ExpiresAt = expires, Validated_IssuedAt = issued, Validated_NotBefore = notBefore\<rparr>
      | _ \<Rightarrow> None)"

definition AuthenticateHandler_Validate ::
    "error_texts \<Rightarrow> 'tok jwt_lib \<Rightarrow> authn_service \<Rightarrow> auth_context \<Rightarrow> string + 'tok ValidateRequest \<Rightarrow>
     ValidateResponse response op" where
  "AuthenticateHandler_Validate T J s c binding =
     bound binding (\<lambda>request.
     attempt (Validate J s (EffectiveTenant c (Validate_TenantID request)) (Validate_AccessToken request)) (\<lambda>r.
     case r of
       Inl err \<Rightarrow> ret (authenticateProblem T err)
     | Inr claims \<Rightarrow>
         (case flatten_claims claims of
            None \<Rightarrow> throw (PlainErr ''runtime error: invalid memory address or nil pointer dereference'')
          | Some response \<Rightarrow> ret (JSON 200 response))))"

section \<open>logon_code_handlers.go\<close>

definition LogonCodeHandler_Request ::
    "error_texts \<Rightarrow> crypto \<Rightarrow> logon_code_service \<Rightarrow> auth_context \<Rightarrow> string + RequestCodeRequest \<Rightarrow> IssuedCode response op" where
  "LogonCodeHandler_Request T C s c binding =
     bound binding (\<lambda>request.
     answer (logonCodeProblem T) (\<lambda>issued. JSON 200 issued)
       (code_Request C s (EffectiveTenant c (RequestCode_TenantID request)) (RequestCode_Email request)))"

definition LogonCodeHandler_Logon ::
    "error_texts \<Rightarrow> crypto \<Rightarrow> 'tok jwt_lib \<Rightarrow> logon_code_service \<Rightarrow> auth_context \<Rightarrow> string + CodeLogonRequest \<Rightarrow>
     'tok Authenticated response op" where
  "LogonCodeHandler_Logon T C J s c binding =
     bound binding (\<lambda>request.
     answer (logonCodeProblem T) (\<lambda>authenticated. JSON 200 authenticated)
       (code_Authenticate C J s (EffectiveTenant c (CodeLogon_TenantID request)) (CodeLogon_Email request)
          (CodeLogon_ClientID request) (CodeLogon_Code request)))"

section \<open>social_handlers.go\<close>

definition SocialHandler_Logon ::
    "error_texts \<Rightarrow> crypto \<Rightarrow> 'tok jwt_lib \<Rightarrow> social_service \<Rightarrow> auth_context \<Rightarrow> string + SocialLogonRequest \<Rightarrow>
     'tok Authenticated response op" where
  "SocialHandler_Logon T C J s c binding =
     bound binding (\<lambda>request.
     answer (socialProblem T) (\<lambda>authenticated. JSON 200 authenticated)
       (social_Authenticate C J s (EffectiveTenant c (SocialLogon_TenantID request)) (SocialLogon_Provider request)
          (SocialLogon_IDToken request) (SocialLogon_ClientID request)))"

end
