(* ===== verification/Tenants.thy ===== *)
theory Tenants
  imports Utils
begin

text \<open>
  \<open>src/internal/tenants/tenants.go\<close>: the tenants table and its service. The Go struct
  \<open>Tenant\<close> has the fields of \<open>tenant_row\<close>. A \<open>SELECT\<close> without an order returns the rows in
  the order of the table.
\<close>

definition tenant_ReadAll :: "tenant_row list op" where
  "tenant_ReadAll = query t_tenants"

definition tenant_Read :: "string \<Rightarrow> tenant_row op" where
  "tenant_Read tenantID =
     bindE (query (\<lambda>d. select_row (\<lambda>r. tn_id r = tenantID) (t_tenants d))) (\<lambda>row.
     case row of
       None \<Rightarrow> throw (TenantErr (TenantNotFoundError tenantID))
     | Some tenant \<Rightarrow> ret tenant)"

definition tenant_Create_stmt :: "instant \<Rightarrow> database \<Rightarrow> pg_error + unit \<times> database" where
  [stmt_defs]: "tenant_Create_stmt now d =
     map_sum id (\<lambda>t. ((), d\<lparr>t_tenants := t\<rparr>))
       (insert_row tenant_conflict
          \<lparr>tn_id = DefaultTenantID, tn_name = ''default'', tn_created = now, tn_modified = now\<rparr>
          (t_tenants d))"

definition tenant_Create :: "unit op" where
  "tenant_Create = exec tenant_Create_stmt"

definition ListTenants :: "tenant_row list op" where
  "ListTenants = tenant_ReadAll"

definition GetTenant :: "string \<Rightarrow> tenant_row op" where
  "GetTenant tenantID = tenant_Read tenantID"

definition CreateDefault :: "unit op" where
  "CreateDefault = tenant_Create"

lemma tenant_Create_Inr [op_inr]:
  "tenant_Create w = (Inr u, w') \<longleftrightarrow>
   \<not> failing w \<and> (\<forall>r\<in>set (t_tenants (db w)). tn_id r \<noteq> DefaultTenantID) \<and>
   w' = (tick w)\<lparr>db := (db w)\<lparr>t_tenants := t_tenants (db w) @
     [\<lparr>tn_id = DefaultTenantID, tn_name = ''default'', tn_created = pg_now w, tn_modified = pg_now w\<rparr>]\<rparr>\<rparr>"
  by (auto simp: tenant_Create_def op_inr stmt_defs insert_row_def tenant_conflict_def)

lemma tenant_Read_Inr [op_inr]:
  "tenant_Read i w = (Inr r, w') \<longleftrightarrow>
   \<not> failing w \<and> select_row (\<lambda>r. tn_id r = i) (t_tenants (db w)) = Some r \<and> w' = tick w"
  by (auto simp: tenant_Read_def op_inr split: option.splits)

end
