(* ===== verification/OidcTokens.thy ===== *)
theory OidcTokens
  imports OidcRequests Contracts
begin

text \<open>
  \<open>src/internal/oidc/token_repository.go\<close>, \<open>browser_session_repository.go\<close> and
  \<open>revoker.go\<close>: the grants of the provider (refresh tokens and the access tokens minted
  with them), its browser sessions, and the revoker that ends all of them for an account.
  Deleting a refresh token takes its access tokens along, as the foreign key of
  \<open>0010_oidc.sql\<close> says.
\<close>

section \<open>Tokens\<close>

record RefreshGrant =
  RefreshToken_ID :: string
  RefreshToken_TenantID :: string
  RefreshToken_ClientID :: string
  RefreshToken_Subject :: string
  RefreshToken_Audience :: "string list"
  RefreshToken_Scopes :: "string list"
  RefreshToken_AMR :: "string list"
  RefreshToken_AuthTime :: instant
  RefreshToken_Expires :: instant
  RefreshToken_Created :: instant

record AccessGrant =
  AccessToken_ID :: string
  AccessToken_TenantID :: string
  AccessToken_ClientID :: string
  AccessToken_Subject :: string
  AccessToken_Audience :: "string list"
  AccessToken_Scopes :: "string list"
  AccessToken_RefreshTokenID :: string
  AccessToken_Expires :: instant
  AccessToken_Created :: instant

definition nullableID :: "string \<Rightarrow> string option" where
  "nullableID i = (if i = [] then None else Some i)"

text \<open>The column \<open>refresh_token_id uuid REFERENCES oidc_refresh_tokens (id)\<close>.\<close>

definition refresh_reference :: "crypto \<Rightarrow> string \<Rightarrow> pg_error + string option" where
  "refresh_reference C i =
     (case nullableID i of None \<Rightarrow> Inr None | Some i \<Rightarrow> at_uuid C i (\<lambda>u. Inr (Some u)))"

definition refresh_exists :: "string option \<Rightarrow> database \<Rightarrow> bool" where
  "refresh_exists ref d = (case ref of None \<Rightarrow> True | Some u \<Rightarrow> list_ex (\<lambda>r. rt_id r = u) (t_refresh_tokens d))"

definition access_row :: "AccessGrant \<Rightarrow> string option \<Rightarrow> instant \<Rightarrow> access_token_row" where
  "access_row token ref now =
     \<lparr>at_id = AccessToken_ID token, at_tenant = AccessToken_TenantID token,
      at_client = AccessToken_ClientID token, at_subject = AccessToken_Subject token,
      at_audience = AccessToken_Audience token, at_scopes = AccessToken_Scopes token,
      at_refresh_token = ref, at_expires = AccessToken_Expires token, at_created = now\<rparr>"

definition access_insert_stmt :: "crypto \<Rightarrow> AccessGrant \<Rightarrow> instant \<Rightarrow> database \<Rightarrow> pg_error + instant \<times> database" where
  [stmt_defs]: "access_insert_stmt C token now d =
     (case refresh_reference C (AccessToken_RefreshTokenID token) of
        Inl e \<Rightarrow> Inl e
      | Inr ref \<Rightarrow>
          (case insert_row access_token_conflict
             (access_row token ref now) (t_access_tokens d) of
             Inl e \<Rightarrow> Inl e
           | Inr t \<Rightarrow> if refresh_exists ref d then Inr (now, d\<lparr>t_access_tokens := t\<rparr>) else Inl ForeignKeyViolation))"

definition access_error :: "go_error \<Rightarrow> go_error" where
  "access_error e = constraintError e ''access token''"

definition repo_CreateAccessToken :: "crypto \<Rightarrow> AccessGrant \<Rightarrow> AccessGrant op" where
  "repo_CreateAccessToken C token =
     bindE new_uuid (\<lambda>i.
     (let token = token\<lparr>AccessToken_ID := i\<rparr> in
      bindE (map_err access_error (exec (access_insert_stmt C token))) (\<lambda>created.
      ret (token\<lparr>AccessToken_Created := created\<rparr>))))"

text \<open>\<open>refresh_token_id\<close> is not read back.\<close>

definition access_of_row :: "access_token_row \<Rightarrow> AccessGrant" where
  "access_of_row r =
     \<lparr>AccessToken_ID = at_id r, AccessToken_TenantID = at_tenant r, AccessToken_ClientID = at_client r,
      AccessToken_Subject = at_subject r, AccessToken_Audience = at_audience r,
      AccessToken_Scopes = at_scopes r, AccessToken_RefreshTokenID = [],
      AccessToken_Expires = at_expires r, AccessToken_Created = at_created r\<rparr>"

definition repo_ReadAccessToken :: "crypto \<Rightarrow> string \<Rightarrow> string \<Rightarrow> AccessGrant op" where
  "repo_ReadAccessToken C tenantID i =
     (if \<not> uuid_parse C i then throw (OidcErr (TokenNotFoundError i))
      else bindE (exec (\<lambda>now d. at_uuid C i (\<lambda>u. Inr (select_row (\<lambda>r. at_id r = u) (t_access_tokens d), d)))) (\<lambda>row.
           bindE (live_row tenantID (OidcErr (TokenNotFoundError i)) at_tenant at_expires row) (\<lambda>r.
           ret (access_of_row r))))"

text \<open>\<open>exec\<close> of the repository: no row affected is the given error.\<close>

definition repo_exec :: "(instant \<Rightarrow> database \<Rightarrow> pg_error + nat \<times> database) \<Rightarrow> go_error \<Rightarrow> unit op" where
  "repo_exec stmt notFound = bindE (exec stmt) (\<lambda>n. if n = 0 then throw notFound else ret ())"

definition delete_access :: "(access_token_row \<Rightarrow> bool) \<Rightarrow> database \<Rightarrow> nat \<times> database" where
  "delete_access P d =
     (let (n, t) = delete_where P (t_access_tokens d) in (n, d\<lparr>t_access_tokens := t\<rparr>))"

text \<open>\<open>ON DELETE CASCADE\<close>: the access tokens that reference a deleted refresh token go with it.\<close>

definition delete_refresh :: "(refresh_token_row \<Rightarrow> bool) \<Rightarrow> database \<Rightarrow> nat \<times> database" where
  "delete_refresh P d =
     (let (n, t) = delete_where P (t_refresh_tokens d);
          gone = map rt_id (filter P (t_refresh_tokens d)) in
      (n, d\<lparr>t_refresh_tokens := t,
            t_access_tokens := snd (delete_where
              (\<lambda>a. case at_refresh_token a of None \<Rightarrow> False | Some u \<Rightarrow> u \<in> set gone) (t_access_tokens d))\<rparr>))"

definition repo_DeleteAccessToken :: "crypto \<Rightarrow> string \<Rightarrow> string \<Rightarrow> unit op" where
  "repo_DeleteAccessToken C tenantID i =
     (if \<not> uuid_parse C i then throw (OidcErr (TokenNotFoundError i))
      else repo_exec (\<lambda>now d. at_uuid C i (\<lambda>u. Inr (delete_access (\<lambda>r. at_tenant r = tenantID \<and> at_id r = u) d)))
             (OidcErr (TokenNotFoundError i)))"

definition refresh_row :: "RefreshGrant \<Rightarrow> string \<Rightarrow> instant \<Rightarrow> refresh_token_row" where
  "refresh_row token h now =
     \<lparr>rt_id = RefreshToken_ID token, rt_token_hash = h, rt_tenant = RefreshToken_TenantID token,
      rt_client = RefreshToken_ClientID token, rt_subject = RefreshToken_Subject token,
      rt_audience = RefreshToken_Audience token, rt_scopes = RefreshToken_Scopes token,
      rt_amr = RefreshToken_AMR token, rt_auth_time = RefreshToken_AuthTime token,
      rt_expires = RefreshToken_Expires token, rt_created = now\<rparr>"

definition refresh_insert_stmt :: "RefreshGrant \<Rightarrow> string \<Rightarrow> instant \<Rightarrow> database \<Rightarrow> pg_error + instant \<times> database" where
  [stmt_defs]: "refresh_insert_stmt token h now d =
     map_sum id (\<lambda>t. (now, d\<lparr>t_refresh_tokens := t\<rparr>))
       (insert_row refresh_token_conflict
          (refresh_row token h now) (t_refresh_tokens d))"

definition refresh_error :: "go_error \<Rightarrow> go_error" where
  "refresh_error e = constraintError e ''refresh token''"

definition repo_CreateRefreshToken :: "crypto \<Rightarrow> RefreshGrant \<Rightarrow> (RefreshGrant \<times> string) op" where
  "repo_CreateRefreshToken C token =
     bindE new_uuid (\<lambda>i.
     bindE RandomToken (\<lambda>plaintext.
     (let token = token\<lparr>RefreshToken_ID := i\<rparr> in
      bindE (map_err refresh_error (exec (refresh_insert_stmt token (Sha256Hex C plaintext)))) (\<lambda>created.
      ret (token\<lparr>RefreshToken_Created := created\<rparr>, plaintext)))))"

definition refresh_of_row :: "refresh_token_row \<Rightarrow> RefreshGrant" where
  "refresh_of_row r =
     \<lparr>RefreshToken_ID = rt_id r, RefreshToken_TenantID = rt_tenant r, RefreshToken_ClientID = rt_client r,
      RefreshToken_Subject = rt_subject r, RefreshToken_Audience = rt_audience r,
      RefreshToken_Scopes = rt_scopes r, RefreshToken_AMR = rt_amr r, RefreshToken_AuthTime = rt_auth_time r,
      RefreshToken_Expires = rt_expires r, RefreshToken_Created = rt_created r\<rparr>"

definition readRefreshToken :: "refresh_token_row option op \<Rightarrow> string \<Rightarrow> string \<Rightarrow> RefreshGrant op" where
  "readRefreshToken found tenantID notFound =
     bindE found (\<lambda>row.
     bindE (live_row tenantID (OidcErr (TokenNotFoundError notFound)) rt_tenant rt_expires row) (\<lambda>r.
     ret (refresh_of_row r)))"

definition repo_ReadRefreshToken :: "crypto \<Rightarrow> string \<Rightarrow> string \<Rightarrow> RefreshGrant op" where
  "repo_ReadRefreshToken C tenantID token =
     readRefreshToken (query (\<lambda>d. select_row (\<lambda>r. rt_token_hash r = Sha256Hex C token) (t_refresh_tokens d)))
       tenantID ''refresh token''"

definition repo_ReadRefreshTokenByID :: "crypto \<Rightarrow> string \<Rightarrow> string \<Rightarrow> RefreshGrant op" where
  "repo_ReadRefreshTokenByID C tenantID i =
     (if \<not> uuid_parse C i then throw (OidcErr (TokenNotFoundError i))
      else readRefreshToken
             (exec (\<lambda>now d. at_uuid C i (\<lambda>u. Inr (select_row (\<lambda>r. rt_id r = u) (t_refresh_tokens d), d)))) tenantID i)"

definition repo_DeleteRefreshToken :: "crypto \<Rightarrow> string \<Rightarrow> string \<Rightarrow> unit op" where
  "repo_DeleteRefreshToken C tenantID i =
     (if \<not> uuid_parse C i then throw (OidcErr (TokenNotFoundError i))
      else repo_exec (\<lambda>now d. at_uuid C i (\<lambda>u. Inr (delete_refresh (\<lambda>r. rt_tenant r = tenantID \<and> rt_id r = u) d)))
             (OidcErr (TokenNotFoundError i)))"

subsection \<open>All grants of a subject\<close>

definition unit_stmt :: "nat \<times> database \<Rightarrow> pg_error + unit \<times> database" where
  "unit_stmt r = Inr ((), snd r)"

definition DeleteGrants :: "string \<Rightarrow> string \<Rightarrow> string \<Rightarrow> unit op" where
  "DeleteGrants tenantID subject clientID =
     bindE (exec (\<lambda>now d. unit_stmt (delete_refresh
        (\<lambda>r. rt_tenant r = tenantID \<and> rt_subject r = subject \<and> rt_client r = clientID) d))) (\<lambda>_.
     exec (\<lambda>now d. unit_stmt (delete_access
        (\<lambda>r. at_tenant r = tenantID \<and> at_subject r = subject \<and> at_client r = clientID) d)))"

text \<open>\<open>SELECT id::text FROM accounts WHERE tenant_id = $1 AND email = $2\<close>, inside each statement.\<close>

definition subjects :: "string \<Rightarrow> string \<Rightarrow> database \<Rightarrow> string list" where
  "subjects tenantID email d =
     map ac_id (filter (\<lambda>r. ac_tenant r = tenantID \<and> ac_email r = email) (t_accounts d))"

definition DeleteGrantsForEmail :: "string \<Rightarrow> string \<Rightarrow> unit op" where
  "DeleteGrantsForEmail tenantID email =
     bindE (exec (\<lambda>now d. unit_stmt (delete_refresh
        (\<lambda>r. rt_tenant r = tenantID \<and> rt_subject r \<in> set (subjects tenantID email d)) d))) (\<lambda>_.
     bindE (exec (\<lambda>now d. unit_stmt (delete_access
        (\<lambda>r. at_tenant r = tenantID \<and> at_subject r \<in> set (subjects tenantID email d)) d))) (\<lambda>_.
     exec (\<lambda>now d. Inr ((), d\<lparr>t_auth_requests := snd (delete_where
        (\<lambda>r. rq_tenant r = tenantID \<and> rq_subject r \<in> set (subjects tenantID email d)) (t_auth_requests d))\<rparr>))))"

text \<open>The count an error comes with is dropped.\<close>

text \<open>The count comes with the error: what the first statement removed is reported though the second fails.\<close>

definition token_DeleteExpired :: "(nat \<times> go_error option) op" where
  "token_DeleteExpired =
     attempt (exec (\<lambda>now d. Inr (delete_access (\<lambda>r. at_expires r < now) d))) (\<lambda>r. case r of
       Inl err \<Rightarrow> ret (0, Some err)
     | Inr accessTag \<Rightarrow>
         attempt (exec (\<lambda>now d. Inr (delete_refresh (\<lambda>r. rt_expires r < now) d))) (\<lambda>r. case r of
           Inl err \<Rightarrow> ret (accessTag, Some err)
         | Inr refreshTag \<Rightarrow> ret (accessTag + refreshTag, None)))"

section \<open>Browser sessions\<close>

record BrowserSession =
  BrowserSession_ID :: string
  BrowserSession_TenantID :: string
  BrowserSession_AccountID :: string
  BrowserSession_AuthTime :: instant
  BrowserSession_Expires :: instant
  BrowserSession_Created :: instant

text \<open>\<open>account_id uuid NOT NULL REFERENCES accounts (id)\<close>.\<close>

definition browser_row :: "BrowserSession \<Rightarrow> string \<Rightarrow> string \<Rightarrow> instant \<Rightarrow> browser_session_row" where
  "browser_row session h account now =
     \<lparr>bs_id = BrowserSession_ID session, bs_token_hash = h, bs_tenant = BrowserSession_TenantID session,
      bs_account = account, bs_auth_time = BrowserSession_AuthTime session,
      bs_expires = BrowserSession_Expires session, bs_created = now\<rparr>"

definition browser_insert_stmt :: "crypto \<Rightarrow> BrowserSession \<Rightarrow> string \<Rightarrow> instant \<Rightarrow> database \<Rightarrow> pg_error + instant \<times> database" where
  [stmt_defs]: "browser_insert_stmt C session h now d =
     at_uuid C (BrowserSession_AccountID session) (\<lambda>account.
       case insert_row browser_session_conflict (browser_row session h account now) (t_browser_sessions d) of
         Inl e \<Rightarrow> Inl e
       | Inr t \<Rightarrow>
           if list_ex (\<lambda>a. ac_id a = account) (t_accounts d) then Inr (now, d\<lparr>t_browser_sessions := t\<rparr>)
           else Inl ForeignKeyViolation)"

definition browser_error :: "go_error \<Rightarrow> go_error" where
  "browser_error e = constraintError e ''browser session''"

definition browser_Create :: "crypto \<Rightarrow> BrowserSession \<Rightarrow> (BrowserSession \<times> string) op" where
  "browser_Create C session =
     bindE new_uuid (\<lambda>i.
     bindE RandomToken (\<lambda>plaintext.
     (let session = session\<lparr>BrowserSession_ID := i\<rparr> in
      bindE (map_err browser_error (exec (browser_insert_stmt C session (Sha256Hex C plaintext)))) (\<lambda>created.
      ret (session\<lparr>BrowserSession_Created := created\<rparr>, plaintext)))))"

definition browser_of_row :: "browser_session_row \<Rightarrow> BrowserSession" where
  "browser_of_row r =
     \<lparr>BrowserSession_ID = bs_id r, BrowserSession_TenantID = bs_tenant r, BrowserSession_AccountID = bs_account r,
      BrowserSession_AuthTime = bs_auth_time r, BrowserSession_Expires = bs_expires r,
      BrowserSession_Created = bs_created r\<rparr>"

definition browser_Read :: "crypto \<Rightarrow> string \<Rightarrow> string \<Rightarrow> BrowserSession op" where
  "browser_Read C tenantID token =
     bindE (query (\<lambda>d. select_row (\<lambda>r. bs_token_hash r = Sha256Hex C token) (t_browser_sessions d))) (\<lambda>row.
     bindE (live_row tenantID (OidcErr BrowserSessionNotFoundError) bs_tenant bs_expires row) (\<lambda>r.
     ret (browser_of_row r)))"

definition delete_browser :: "(browser_session_row \<Rightarrow> bool) \<Rightarrow> database \<Rightarrow> nat \<times> database" where
  "delete_browser P d =
     (let (n, t) = delete_where P (t_browser_sessions d) in (n, d\<lparr>t_browser_sessions := t\<rparr>))"

definition browser_Delete :: "crypto \<Rightarrow> string \<Rightarrow> string \<Rightarrow> unit op" where
  "browser_Delete C tenantID token =
     repo_exec (\<lambda>now d. Inr (delete_browser
        (\<lambda>r. bs_tenant r = tenantID \<and> bs_token_hash r = Sha256Hex C token) d))
       (OidcErr BrowserSessionNotFoundError)"

definition browser_DeleteAll :: "crypto \<Rightarrow> string \<Rightarrow> string \<Rightarrow> unit op" where
  "browser_DeleteAll C tenantID accountID =
     (if \<not> uuid_parse C accountID then throw (OidcErr BrowserSessionNotFoundError)
      else exec (\<lambda>now d. at_uuid C accountID (\<lambda>u. unit_stmt (delete_browser
             (\<lambda>r. bs_tenant r = tenantID \<and> bs_account r = u) d))))"

definition DeleteAllForEmail :: "string \<Rightarrow> string \<Rightarrow> unit op" where
  "DeleteAllForEmail tenantID email =
     exec (\<lambda>now d. unit_stmt (delete_browser
        (\<lambda>r. bs_tenant r = tenantID \<and> bs_account r \<in> set (subjects tenantID email d)) d))"

definition browser_DeleteExpired :: "nat op" where
  "browser_DeleteExpired = exec (\<lambda>now d. Inr (delete_browser (\<lambda>r. bs_expires r < now) d))"

section \<open>The revoker\<close>

definition oidc_DeleteAll :: revoker where
  "oidc_DeleteAll tenantID email =
     bindE (DeleteAllForEmail tenantID email) (\<lambda>_. DeleteGrantsForEmail tenantID email)"

section \<open>Facts\<close>

lemma delete_access_simps [simp]:
  "fst (delete_access P d) = length (filter P (t_access_tokens d))"
  "snd (delete_access P d) = d\<lparr>t_access_tokens := filter (\<lambda>r. \<not> P r) (t_access_tokens d)\<rparr>"
  by (simp_all add: delete_access_def delete_where_def)

definition cascaded :: "(refresh_token_row \<Rightarrow> bool) \<Rightarrow> database \<Rightarrow> access_token_row \<Rightarrow> bool" where
  "cascaded P d a \<longleftrightarrow> (\<exists>r\<in>set (t_refresh_tokens d). P r \<and> at_refresh_token a = Some (rt_id r))"

lemma delete_refresh_simps [simp]:
  "fst (delete_refresh P d) = length (filter P (t_refresh_tokens d))"
  "snd (delete_refresh P d) = d\<lparr>t_refresh_tokens := filter (\<lambda>r. \<not> P r) (t_refresh_tokens d),
     t_access_tokens := filter (\<lambda>a. \<not> cascaded P d a) (t_access_tokens d)\<rparr>"
proof -
  have "(case at_refresh_token a of None \<Rightarrow> False | Some u \<Rightarrow> u \<in> set (map rt_id (filter P (t_refresh_tokens d)))) =
      cascaded P d a" for a
    by (auto simp: cascaded_def split: option.splits)
  then show "fst (delete_refresh P d) = length (filter P (t_refresh_tokens d))"
    and "snd (delete_refresh P d) = d\<lparr>t_refresh_tokens := filter (\<lambda>r. \<not> P r) (t_refresh_tokens d),
     t_access_tokens := filter (\<lambda>a. \<not> cascaded P d a) (t_access_tokens d)\<rparr>"
    by (simp_all only: delete_refresh_def delete_where_def Let_def prod.case fst_conv snd_conv)
qed

lemma delete_browser_simps [simp]:
  "fst (delete_browser P d) = length (filter P (t_browser_sessions d))"
  "snd (delete_browser P d) = d\<lparr>t_browser_sessions := filter (\<lambda>r. \<not> P r) (t_browser_sessions d)\<rparr>"
  by (simp_all add: delete_browser_def delete_where_def)

lemma repo_exec_Inr [op_inr]:
  "repo_exec stmt nf w = (Inr u, w') \<longleftrightarrow>
   \<not> failing w \<and> (\<exists>n d. stmt (pg_now w) (db w) = Inr (n, d) \<and> n \<noteq> 0 \<and> w' = (tick w)\<lparr>db := d\<rparr>)"
  by (auto simp: repo_exec_def op_inr)

lemma subjects_iff: "i \<in> set (subjects t e d) \<longleftrightarrow>
    (\<exists>a\<in>set (t_accounts d). ac_tenant a = t \<and> ac_email a = e \<and> ac_id a = i)"
  by (auto simp: subjects_def)

lemma case_sum_Inr [simp]:
  "(case z of Inl e \<Rightarrow> Inl e | Inr x \<Rightarrow> k x) = Inr y \<longleftrightarrow> (\<exists>x. z = Inr x \<and> k x = Inr y)"
  by (cases z) auto

lemma unit_stmt_Inr [simp]: "unit_stmt r = Inr x \<longleftrightarrow> x = ((), snd r)"
  by (auto simp: unit_stmt_def)

lemma access_row_sel [simp]:
  "at_id (access_row a ref now) = AccessToken_ID a" "at_tenant (access_row a ref now) = AccessToken_TenantID a"
  "at_client (access_row a ref now) = AccessToken_ClientID a" "at_subject (access_row a ref now) = AccessToken_Subject a"
  "at_scopes (access_row a ref now) = AccessToken_Scopes a" "at_refresh_token (access_row a ref now) = ref"
  "at_expires (access_row a ref now) = AccessToken_Expires a"
  by (simp_all add: access_row_def)

lemma refresh_row_sel [simp]:
  "rt_id (refresh_row g h now) = RefreshToken_ID g" "rt_token_hash (refresh_row g h now) = h"
  "rt_tenant (refresh_row g h now) = RefreshToken_TenantID g" "rt_expires (refresh_row g h now) = RefreshToken_Expires g"
  "rt_subject (refresh_row g h now) = RefreshToken_Subject g" "rt_client (refresh_row g h now) = RefreshToken_ClientID g"
  by (simp_all add: refresh_row_def)

lemma browser_row_sel [simp]:
  "bs_id (browser_row b h u now) = BrowserSession_ID b" "bs_token_hash (browser_row b h u now) = h"
  "bs_tenant (browser_row b h u now) = BrowserSession_TenantID b" "bs_account (browser_row b h u now) = u"
  "bs_expires (browser_row b h u now) = BrowserSession_Expires b"
  by (simp_all add: browser_row_def)

lemma access_insert_Inr:
  "access_insert_stmt C a now d = Inr (x, d') \<longleftrightarrow>
   (\<exists>ref t. refresh_reference C (AccessToken_RefreshTokenID a) = Inr ref \<and> refresh_exists ref d \<and>
     insert_row access_token_conflict (access_row a ref now) (t_access_tokens d) = Inr t \<and>
     x = now \<and> d' = d\<lparr>t_access_tokens := t\<rparr>)"
  unfolding access_insert_stmt_def by (auto split: if_splits)

lemma browser_insert_Inr:
  "browser_insert_stmt C b h now d = Inr (x, d') \<longleftrightarrow>
   (\<exists>u t. pg_uuid C (BrowserSession_AccountID b) = Some u \<and> list_ex (\<lambda>a. ac_id a = u) (t_accounts d) \<and>
     insert_row browser_session_conflict (browser_row b h u now) (t_browser_sessions d) = Inr t \<and>
     x = now \<and> d' = d\<lparr>t_browser_sessions := t\<rparr>)"
  unfolding browser_insert_stmt_def by (auto split: if_splits)

subsection \<open>The revoker ends what the provider holds for an account\<close>

definition holds_grant :: "database \<Rightarrow> string \<Rightarrow> string \<Rightarrow> bool" where
  "holds_grant d t i \<longleftrightarrow>
     (\<exists>r\<in>set (t_browser_sessions d). bs_tenant r = t \<and> bs_account r = i) \<or>
     (\<exists>r\<in>set (t_refresh_tokens d). rt_tenant r = t \<and> rt_subject r = i) \<or>
     (\<exists>r\<in>set (t_access_tokens d). at_tenant r = t \<and> at_subject r = i) \<or>
     (\<exists>r\<in>set (t_auth_requests d). rq_tenant r = t \<and> rq_subject r = i)"

definition oidc_open :: "database \<Rightarrow> string \<Rightarrow> string \<Rightarrow> bool" where
  "oidc_open d t e \<longleftrightarrow> (\<exists>i\<in>set (subjects t e d). holds_grant d t i)"

lemma oidc_DeleteAll_closes: "steps closes (oidc_DeleteAll t e)"
  unfolding oidc_DeleteAll_def DeleteAllForEmail_def DeleteGrantsForEmail_def
  by (intro closing.steps_bindE closing.steps_exec) (auto simp: closes_def)

interpretation oidc_sessions: session_revoker oidc_DeleteAll oidc_open
proof unfold_locales
  show "\<not> oidc_open (db w') t e" if "oidc_DeleteAll t e w = (Inr u, w')" for t e w u w'
    using that
    by (auto simp: oidc_DeleteAll_def DeleteAllForEmail_def DeleteGrantsForEmail_def op_inr oidc_open_def
        holds_grant_def subjects_def)
  show "steps closes (oidc_DeleteAll t e)" for t e by (rule oidc_DeleteAll_closes)
  show "oidc_open d t e" if c: "closes d d'" and o: "oidc_open d' t e" for d d' t e
  proof -
    from c have sub: "set (t_browser_sessions d') \<subseteq> set (t_browser_sessions d)"
      "set (t_refresh_tokens d') \<subseteq> set (t_refresh_tokens d)"
      "set (t_access_tokens d') \<subseteq> set (t_access_tokens d)"
      "set (t_auth_requests d') \<subseteq> set (t_auth_requests d)" by (simp_all add: closes_def)
    then have "holds_grant d' t i \<Longrightarrow> holds_grant d t i" for i
      unfolding holds_grant_def by blast
    moreover have "subjects t e d' = subjects t e d"
      using closes_frame(4) [OF c] by (simp add: subjects_def)
    ultimately show ?thesis using o by (auto simp: oidc_open_def)
  qed
qed

end
