(* ===== verification/OidcStorage.thy ===== *)
theory OidcStorage
  imports OidcTokens OidcClients SigningKeys
begin

text \<open>
  \<open>src/internal/oidc/storage.go\<close>: the storage the provider library works on. The library
  itself is not part of this repository: what it hands over (a token request, the scopes, its
  error values) is an argument of the definitions.
\<close>

section \<open>What comes from the library\<close>

text \<open>The errors of the library the storage returns.\<close>

record op_lib =
  ErrInvalidRefreshToken :: go_error
  ErrServerError :: "string \<Rightarrow> go_error"

text \<open>
  \<open>op.TokenRequest\<close> is an interface. The dynamic type is one of this package's two, or a type
  of the library; a library type may have the methods \<open>GetClientID\<close>, \<open>GetAMR\<close> and
  \<open>GetAuthTime\<close> the storage asks for, or not.
\<close>

record library_request =
  lib_Subject :: string
  lib_Audience :: "string list"
  lib_Scopes :: "string list"
  lib_ClientID :: "string option"
  lib_AMR :: "string list option"
  lib_AuthTime :: "instant option"

datatype token_request =
    FromAuthRequest AuthRequest
  | FromRefreshToken RefreshGrant
  | FromLibrary library_request

fun GetSubject :: "token_request \<Rightarrow> string" where
  "GetSubject (FromAuthRequest a) = AuthRequest_Subject a"
| "GetSubject (FromRefreshToken r) = RefreshToken_Subject r"
| "GetSubject (FromLibrary l) = lib_Subject l"

fun request_Audience :: "token_request \<Rightarrow> string list" where
  "request_Audience (FromAuthRequest a) = GetAudience a"
| "request_Audience (FromRefreshToken r) = RefreshToken_Audience r"
| "request_Audience (FromLibrary l) = lib_Audience l"

fun GetScopes :: "token_request \<Rightarrow> string list" where
  "GetScopes (FromAuthRequest a) = AuthRequest_Scopes a"
| "GetScopes (FromRefreshToken r) = RefreshToken_Scopes r"
| "GetScopes (FromLibrary l) = lib_Scopes l"

text \<open>The type assertions to \<open>GetClientID\<close> alone and to all three methods.\<close>

fun client_of :: "token_request \<Rightarrow> string option" where
  "client_of (FromAuthRequest a) = Some (AuthRequest_ClientID a)"
| "client_of (FromRefreshToken r) = Some (RefreshToken_ClientID r)"
| "client_of (FromLibrary l) = lib_ClientID l"

fun source_of :: "token_request \<Rightarrow> (string \<times> string list \<times> instant) option" where
  "source_of (FromAuthRequest a) = Some (AuthRequest_ClientID a, AuthRequest_AMR a, AuthRequest_AuthTime a)"
| "source_of (FromRefreshToken r) = Some (RefreshToken_ClientID r, RefreshToken_AMR r, RefreshToken_AuthTime r)"
| "source_of (FromLibrary l) =
     (case (lib_ClientID l, lib_AMR l, lib_AuthTime l) of
        (Some c, Some a, Some t) \<Rightarrow> Some (c, a, t)
      | _ \<Rightarrow> None)"

section \<open>The storage\<close>

text \<open>\<open>keySet\<close> is nil until the keys are loaded, as \<open>signingKey\<close> is.\<close>

record storage =
  clients :: client_registry
  loginURL :: "string \<Rightarrow> string \<Rightarrow> string"
  authCodeExpiry :: duration
  accessExpiry :: duration
  refreshExpiry :: duration
  signingKey :: "(string \<times> rsa_private) option"
  keySet :: "(string \<times> rsa_public) list option"

definition NewStorage :: "client_registry \<Rightarrow> (string \<Rightarrow> string \<Rightarrow> string) \<Rightarrow> duration \<Rightarrow> duration \<Rightarrow> duration \<Rightarrow> storage" where
  [simp]: "NewStorage registry url codeExpiry access refresh =
     \<lparr>clients = registry, loginURL = url, authCodeExpiry = codeExpiry, accessExpiry = access, refreshExpiry = refresh,
      signingKey = None, keySet = None\<rparr>"

subsection \<open>Keys\<close>

fun parse_keys :: "pki \<Rightarrow> signing_key_row list \<Rightarrow> go_error + (string \<times> rsa_public) list" where
  "parse_keys P [] = Inr []"
| "parse_keys P (k # ks) =
     (case ParsePublicKey P (sk_public_pem k) of
        Inl e \<Rightarrow> Inl e
      | Inr pub \<Rightarrow> map_sum id (\<lambda>rest. (sk_id k, pub) # rest) (parse_keys P ks))"

definition storage_ReloadKeys :: "pki \<Rightarrow> storage \<Rightarrow> storage op" where
  "storage_ReloadKeys P s =
     bindE Keys (\<lambda>signingKeys.
     if signingKeys = [] then throw (TokenErr NoSigningKeyError)
     else bindE (lift_result (parse_keys P signingKeys)) (\<lambda>set.
     (let latest = last signingKeys in
      bindE (lift_result (ParsePrivateKey P (sk_private_pem latest))) (\<lambda>privateKey.
      ret (s\<lparr>signingKey := Some (sk_id latest, privateKey), keySet := Some set\<rparr>)))))"

definition storage_SigningKey :: "pki \<Rightarrow> storage \<Rightarrow> ((string \<times> rsa_private) option \<times> storage) op" where
  "storage_SigningKey P s =
     (case signingKey s of
        Some k \<Rightarrow> ret (Some k, s)
      | None \<Rightarrow> bindE (storage_ReloadKeys P s) (\<lambda>s'. ret (signingKey s', s')))"

definition storage_KeySet :: "pki \<Rightarrow> storage \<Rightarrow> ((string \<times> rsa_public) list option \<times> storage) op" where
  "storage_KeySet P s =
     (case keySet s of
        Some ks \<Rightarrow> ret (Some ks, s)
      | None \<Rightarrow> bindE (storage_ReloadKeys P s) (\<lambda>s'. ret (keySet s', s')))"

subsection \<open>Authorization requests\<close>

text \<open>The fields of the library's \<open>oidc.AuthRequest\<close> that are stored.\<close>

record authorize_request =
  az_ClientID :: string
  az_RedirectURI :: string
  az_ResponseType :: string
  az_ResponseMode :: string
  az_Scopes :: "string list"
  az_State :: string
  az_Nonce :: string
  az_CodeChallenge :: string
  az_CodeChallengeMethod :: string

definition CreateAuthRequest :: "storage \<Rightarrow> oidc_context \<Rightarrow> authorize_request \<Rightarrow> AuthRequest op" where
  "CreateAuthRequest s ctx request =
     bindE (TenantFrom ctx) (\<lambda>tenantID.
     bindE time_now (\<lambda>now.
     auth_request_Create
       \<lparr>AuthRequest_ID = [], AuthRequest_TenantID = tenantID, AuthRequest_ClientID = az_ClientID request,
        AuthRequest_Subject = [], AuthRequest_RedirectURI = az_RedirectURI request,
        AuthRequest_ResponseType = az_ResponseType request, AuthRequest_ResponseMode = az_ResponseMode request,
        AuthRequest_Scopes = az_Scopes request, AuthRequest_State = az_State request,
        AuthRequest_Nonce = az_Nonce request, AuthRequest_CodeChallenge = az_CodeChallenge request,
        AuthRequest_CodeChallengeMethod =
          (if az_CodeChallenge request \<noteq> [] then az_CodeChallengeMethod request else []),
        AuthRequest_AMR = [], AuthRequest_AuthTime = zero_instant, AuthRequest_Complete = False,
        AuthRequest_Expires = instant_add now (authCodeExpiry s),
        AuthRequest_Created = zero_instant, AuthRequest_Modified = zero_instant\<rparr>))"

definition AuthRequestByID :: "crypto \<Rightarrow> oidc_context \<Rightarrow> string \<Rightarrow> AuthRequest op" where
  "AuthRequestByID C ctx i = bindE (TenantFrom ctx) (\<lambda>tenantID. auth_request_Read C tenantID i)"

definition AuthRequestByCode :: "crypto \<Rightarrow> oidc_context \<Rightarrow> string \<Rightarrow> AuthRequest op" where
  "AuthRequestByCode C ctx code = bindE (TenantFrom ctx) (\<lambda>tenantID. auth_request_ReadByCode C tenantID code)"

definition SaveAuthCode :: "crypto \<Rightarrow> oidc_context \<Rightarrow> string \<Rightarrow> string \<Rightarrow> unit op" where
  "SaveAuthCode C ctx i code = bindE (TenantFrom ctx) (\<lambda>tenantID. auth_request_SaveCode C tenantID i code)"

definition request_gone :: "go_error + unit \<Rightarrow> unit op" where
  "request_gone r =
     (case r of
        Inl (OidcErr (AuthRequestNotFoundError v)) \<Rightarrow> ret ()
      | Inl e \<Rightarrow> throw e
      | Inr u \<Rightarrow> ret ())"

definition DeleteAuthRequest :: "crypto \<Rightarrow> oidc_context \<Rightarrow> string \<Rightarrow> unit op" where
  "DeleteAuthRequest C ctx i =
     bindE (TenantFrom ctx) (\<lambda>tenantID. attempt (auth_request_Delete C tenantID i) request_gone)"

definition AuthenticateRequest :: "crypto \<Rightarrow> oidc_context \<Rightarrow> string \<Rightarrow> string \<Rightarrow> instant \<Rightarrow> string list \<Rightarrow> unit op" where
  "AuthenticateRequest C ctx i subject authTime amr =
     bindE (TenantFrom ctx) (\<lambda>tenantID. auth_request_Authenticate C tenantID i subject authTime amr)"

subsection \<open>Tokens\<close>

definition or_blank :: "string option \<Rightarrow> string" where
  "or_blank c = (case c of None \<Rightarrow> [] | Some c \<Rightarrow> c)"

definition createAccessToken :: "crypto \<Rightarrow> storage \<Rightarrow> string \<Rightarrow> token_request \<Rightarrow> string \<Rightarrow> AccessGrant op" where
  "createAccessToken C s tenantID request refreshTokenID =
     bindE time_now (\<lambda>now.
     repo_CreateAccessToken C
       \<lparr>AccessToken_ID = [], AccessToken_TenantID = tenantID,
        AccessToken_ClientID = or_blank (client_of request), AccessToken_Subject = GetSubject request,
        AccessToken_Audience = request_Audience request, AccessToken_Scopes = GetScopes request,
        AccessToken_RefreshTokenID = refreshTokenID,
        AccessToken_Expires = instant_add now (accessExpiry s), AccessToken_Created = zero_instant\<rparr>)"

definition createRefreshToken :: "crypto \<Rightarrow> storage \<Rightarrow> string \<Rightarrow> token_request \<Rightarrow> (RefreshGrant \<times> string) op" where
  "createRefreshToken C s tenantID request =
     bindE time_now (\<lambda>now.
     (let token = \<lparr>RefreshToken_ID = [], RefreshToken_TenantID = tenantID, RefreshToken_ClientID = [],
            RefreshToken_Subject = GetSubject request, RefreshToken_Audience = request_Audience request,
            RefreshToken_Scopes = GetScopes request, RefreshToken_AMR = [], RefreshToken_AuthTime = now,
            RefreshToken_Expires = instant_add now (refreshExpiry s), RefreshToken_Created = zero_instant\<rparr>
      in repo_CreateRefreshToken C
           (case source_of request of
              None \<Rightarrow> token
            | Some (clientID, amr, authTime) \<Rightarrow>
                token\<lparr>RefreshToken_ClientID := clientID, RefreshToken_AMR := amr,
                      RefreshToken_AuthTime := authTime\<rparr>)))"

definition storage_CreateAccessToken :: "crypto \<Rightarrow> storage \<Rightarrow> oidc_context \<Rightarrow> token_request \<Rightarrow> (string \<times> instant) op" where
  "storage_CreateAccessToken C s ctx request =
     bindE (TenantFrom ctx) (\<lambda>tenantID.
     bindE (createAccessToken C s tenantID request []) (\<lambda>token.
     ret (AccessToken_ID token, AccessToken_Expires token)))"

text \<open>The grant a renewal spends: the request itself, when the library loaded it, or a read.\<close>

definition spent_grant :: "crypto \<Rightarrow> string \<Rightarrow> token_request \<Rightarrow> string \<Rightarrow> RefreshGrant op" where
  "spent_grant C tenantID request currentRefreshToken =
     (case request of
        FromRefreshToken r \<Rightarrow> ret r
      | _ \<Rightarrow> repo_ReadRefreshToken C tenantID currentRefreshToken)"

definition CreateAccessAndRefreshTokens ::
    "crypto \<Rightarrow> storage \<Rightarrow> oidc_context \<Rightarrow> token_request \<Rightarrow> string \<Rightarrow> (string \<times> string \<times> instant) op" where
  "CreateAccessAndRefreshTokens C s ctx request currentRefreshToken =
     bindE (TenantFrom ctx) (\<lambda>tenantID.
     bindE (if currentRefreshToken \<noteq> []
            then bindE (spent_grant C tenantID request currentRefreshToken) (\<lambda>spent.
                 repo_DeleteRefreshToken C tenantID (RefreshToken_ID spent))
            else ret ()) (\<lambda>_.
     bindE (createRefreshToken C s tenantID request) (\<lambda>(refreshToken, plaintext).
     bindE (createAccessToken C s tenantID request (RefreshToken_ID refreshToken)) (\<lambda>accessToken.
     ret (AccessToken_ID accessToken, plaintext, AccessToken_Expires accessToken)))))"

definition TokenRequestByRefreshToken :: "crypto \<Rightarrow> oidc_context \<Rightarrow> string \<Rightarrow> RefreshGrant op" where
  "TokenRequestByRefreshToken C ctx token =
     bindE (TenantFrom ctx) (\<lambda>tenantID. repo_ReadRefreshToken C tenantID token)"

definition TerminateSession :: "oidc_context \<Rightarrow> string \<Rightarrow> string \<Rightarrow> unit op" where
  "TerminateSession ctx subject clientID =
     bindE (TenantFrom ctx) (\<lambda>tenantID. DeleteGrants tenantID subject clientID)"

definition access_revoked :: "op_lib \<Rightarrow> go_error + unit \<Rightarrow> unit op" where
  "access_revoked L r =
     (case r of
        Inl (OidcErr (TokenNotFoundError v)) \<Rightarrow> ret ()
      | Inl e \<Rightarrow> throw (ErrServerError L ''could not revoke access token'')
      | Inr u \<Rightarrow> ret ())"

definition RevokeToken :: "crypto \<Rightarrow> op_lib \<Rightarrow> oidc_context \<Rightarrow> string \<Rightarrow> string \<Rightarrow> string \<Rightarrow> unit op" where
  "RevokeToken C L ctx tokenID subject clientID =
     attempt (TenantFrom ctx) (\<lambda>r. case r of
       Inl e \<Rightarrow> throw (ErrServerError L ''no tenant in context'')
     | Inr tenantID \<Rightarrow>
         attempt (repo_ReadRefreshTokenByID C tenantID tokenID) (\<lambda>r. case r of
           Inr g \<Rightarrow> map_err (\<lambda>e. ErrServerError L ''could not revoke refresh token'')
                      (repo_DeleteRefreshToken C tenantID tokenID)
         | Inl e \<Rightarrow> attempt (repo_DeleteAccessToken C tenantID tokenID) (access_revoked L)))"

definition GetRefreshTokenInfo :: "crypto \<Rightarrow> op_lib \<Rightarrow> oidc_context \<Rightarrow> string \<Rightarrow> string \<Rightarrow> (string \<times> string) op" where
  "GetRefreshTokenInfo C L ctx clientID token =
     bindE (TenantFrom ctx) (\<lambda>tenantID.
     bindE (map_err (\<lambda>e. ErrInvalidRefreshToken L) (repo_ReadRefreshToken C tenantID token)) (\<lambda>g.
     if RefreshToken_ClientID g \<noteq> clientID then throw (ErrInvalidRefreshToken L)
     else ret (RefreshToken_Subject g, RefreshToken_ID g)))"

subsection \<open>Clients\<close>

definition GetClientByClientID :: "storage \<Rightarrow> oidc_context \<Rightarrow> string \<Rightarrow> providerClient op" where
  "GetClientByClientID s ctx clientID =
     bindE (TenantFrom ctx) (\<lambda>tenantID.
     bindE (registry_Client (clients s) tenantID clientID) (\<lambda>client.
     ret \<lparr>pc_client = client, pc_LoginURL = loginURL s tenantID\<rparr>))"

definition AuthorizeClientIDSecret :: "crypto \<Rightarrow> storage \<Rightarrow> oidc_context \<Rightarrow> string \<Rightarrow> string \<Rightarrow> unit op" where
  "AuthorizeClientIDSecret C s ctx clientID secret =
     bindE (TenantFrom ctx) (\<lambda>tenantID. registry_Authenticate C (clients s) tenantID clientID secret)"

subsection \<open>Claims\<close>

text \<open>The fields of the library's \<open>oidc.UserInfo\<close> that are set; \<open>EmailVerified\<close> may stay unset.\<close>

record userinfo =
  ui_Subject :: string
  ui_Email :: string
  ui_EmailVerified :: "bool option"
  ui_Name :: string

definition no_userinfo :: userinfo where
  "no_userinfo = \<lparr>ui_Subject = [], ui_Email = [], ui_EmailVerified = None, ui_Name = []\<rparr>"

definition scope_claims :: "Account \<Rightarrow> userinfo \<Rightarrow> string \<Rightarrow> userinfo" where
  "scope_claims account u scope =
     (if scope = ''email'' then u\<lparr>ui_Email := Account_Email account, ui_EmailVerified := Some (Account_Verified account)\<rparr>
      else if scope = ''profile'' then u\<lparr>ui_Name := Account_Name account\<rparr>
      else u)"

definition setUserinfo :: "crypto \<Rightarrow> oidc_context \<Rightarrow> userinfo \<Rightarrow> string \<Rightarrow> string list \<Rightarrow> userinfo op" where
  "setUserinfo C ctx u subject scopes =
     bindE (TenantFrom ctx) (\<lambda>tenantID.
     bindE (account_ReadByID C tenantID subject) (\<lambda>account.
     if Account_Deleted account \<or> \<not> Account_Enabled account
     then throw (AccountErr (AccountDisabledError (Account_Email account)))
     else ret (foldl (scope_claims account) (u\<lparr>ui_Subject := Account_ID account\<rparr>) scopes)))"

definition SetUserinfoFromRequest :: "crypto \<Rightarrow> oidc_context \<Rightarrow> userinfo \<Rightarrow> token_request \<Rightarrow> string list \<Rightarrow> userinfo op" where
  "SetUserinfoFromRequest C ctx u request scopes = setUserinfo C ctx u (GetSubject request) scopes"

definition SetUserinfoFromToken :: "crypto \<Rightarrow> oidc_context \<Rightarrow> userinfo \<Rightarrow> string \<Rightarrow> userinfo op" where
  "SetUserinfoFromToken C ctx u tokenID =
     bindE (TenantFrom ctx) (\<lambda>tenantID.
     bindE (repo_ReadAccessToken C tenantID tokenID) (\<lambda>token.
     setUserinfo C ctx u (AccessToken_Subject token) (AccessToken_Scopes token)))"

text \<open>What introspection answers: the claims, the scopes and the client of the token.\<close>

definition SetIntrospectionFromToken :: "crypto \<Rightarrow> oidc_context \<Rightarrow> string \<Rightarrow> (userinfo \<times> string list \<times> string) op" where
  "SetIntrospectionFromToken C ctx tokenID =
     bindE (TenantFrom ctx) (\<lambda>tenantID.
     bindE (repo_ReadAccessToken C tenantID tokenID) (\<lambda>token.
     bindE (setUserinfo C ctx no_userinfo (AccessToken_Subject token) (AccessToken_Scopes token)) (\<lambda>u.
     ret (u, AccessToken_Scopes token, AccessToken_ClientID token))))"

section \<open>The claims\<close>

text \<open>What the loop over the scopes amounts to: the claims of the scopes asked for, and no others.\<close>

definition scoped_userinfo :: "Account \<Rightarrow> string list \<Rightarrow> userinfo" where
  "scoped_userinfo a scopes =
     \<lparr>ui_Subject = Account_ID a,
      ui_Email = (if ''email'' \<in> set scopes then Account_Email a else []),
      ui_EmailVerified = (if ''email'' \<in> set scopes then Some (Account_Verified a) else None),
      ui_Name = (if ''profile'' \<in> set scopes then Account_Name a else [])\<rparr>"

lemma foldl_scope_claims:
  "foldl (scope_claims a) u scopes = u
     \<lparr>ui_Email := if ''email'' \<in> set scopes then Account_Email a else ui_Email u,
      ui_EmailVerified := if ''email'' \<in> set scopes then Some (Account_Verified a) else ui_EmailVerified u,
      ui_Name := if ''profile'' \<in> set scopes then Account_Name a else ui_Name u\<rparr>"
  by (induction scopes arbitrary: u) (auto simp: scope_claims_def)

lemma scoped_claims: "foldl (scope_claims a) (no_userinfo\<lparr>ui_Subject := Account_ID a\<rparr>) scopes = scoped_userinfo a scopes"
  by (simp add: foldl_scope_claims scoped_userinfo_def no_userinfo_def)

lemma setUserinfo_Inr:
  "setUserinfo C (Some t) no_userinfo i scopes w = (Inr u, w') \<Longrightarrow>
   \<exists>a. account_ReadByID C t i w = (Inr a, w') \<and> \<not> Account_Deleted a \<and> Account_Enabled a \<and> u = scoped_userinfo a scopes"
  by (auto simp: setUserinfo_def op_inr TenantFrom_def scoped_claims split: if_splits)

end
