(* ===== verification/Provider.thy ===== *)
theory Provider
  imports OidcClients ApiKeys GoStrings Problem
begin

text \<open>
  \<open>src/api/oidc/oidc_provider.go\<close>, \<open>oidc_discovery.go\<close> and \<open>oidc_routes.go\<close>: how the provider
  library is mounted under a tenant, what its discovery document says, and which paths the gate
  lets through; and the routes of the whole service.
\<close>

section \<open>oidc_provider.go\<close>

definition TenantPathPrefix :: string where "TenantPathPrefix = ''/t/''"
definition LoginPath :: string where "LoginPath = ''/login''"
definition EndSessionPath :: string where "EndSessionPath = ''/end_session''"
definition LogoutPath :: string where "LogoutPath = ''/logout''"

definition Issuer :: "string \<Rightarrow> string \<Rightarrow> string" where
  "Issuer publicBaseURL tenantID = TrimSuffix publicBaseURL ''/'' @ TenantPathPrefix @ tenantID"

definition LoginURL :: "string \<Rightarrow> string \<Rightarrow> string \<Rightarrow> string" where
  "LoginURL publicBaseURL tenantID authRequestID =
     Issuer publicBaseURL tenantID @ LoginPath @ ''?authRequestId='' @ authRequestID"

text \<open>The settings the library is built with, and the issuer of a request.\<close>

record ProviderConfig =
  PublicBaseURL :: string
  CryptoKey :: "byte list"
  Insecure :: bool

record op_config =
  oc_CryptoKey :: "byte list"
  oc_CodeMethodS256 :: bool
  oc_AuthMethodPost :: bool
  oc_GrantTypeRefreshToken :: bool
  oc_SupportedScopes :: "string list"
  oc_SupportedClaims :: "string list"
  oc_AllowInsecure :: bool

definition NewProvider :: "ProviderConfig \<Rightarrow> op_config" where
  "NewProvider config =
     \<lparr>oc_CryptoKey = CryptoKey config, oc_CodeMethodS256 = True, oc_AuthMethodPost = True,
      oc_GrantTypeRefreshToken = True, oc_SupportedScopes = SupportedScopes,
      oc_SupportedClaims = [''sub'', ''email'', ''email_verified'', ''name'', ''aud'', ''exp'', ''iat'', ''iss'',
        ''auth_time'', ''nonce''],
      oc_AllowInsecure = Insecure config\<rparr>"

definition issuer_of_request :: "ProviderConfig \<Rightarrow> oidc_context \<Rightarrow> string" where
  "issuer_of_request config ctx =
     (case ctx of
        None \<Rightarrow> PublicBaseURL config
      | Some tenantID \<Rightarrow> if tenantID = [] then PublicBaseURL config else Issuer (PublicBaseURL config) tenantID)"

definition splitTenantPath :: "string \<Rightarrow> string \<times> string" where
  "splitTenantPath path =
     (if \<not> HasPrefix path TenantPathPrefix then ([], [])
      else case Cut (TrimPrefix path TenantPathPrefix) (CHR ''/'') of
        (tenantID, rest, found) \<Rightarrow>
          if tenantID = [] then ([], [])
          else if \<not> found then (tenantID, ''/'')
          else (tenantID, ''/'' @ rest))"

text \<open>
  The mount: \<open>nxt\<close> is the provider, which gets the context with the tenant, the issuer and the
  path below the tenant.
\<close>

definition tenantHandler :: "string \<Rightarrow> (oidc_context \<Rightarrow> string \<Rightarrow> string \<Rightarrow> 'a op) \<Rightarrow> 'a op \<Rightarrow> oidc_context \<Rightarrow> string \<Rightarrow> 'a op" where
  "tenantHandler publicBaseURL nxt notFound ctx path =
     (case splitTenantPath path of
        (tenantID, rest) \<Rightarrow>
          if tenantID = [] then notFound
          else nxt (WithTenant ctx tenantID) (Issuer publicBaseURL tenantID) rest)"

record cookie =
  Cookie_Name :: string
  Cookie_Value :: string
  Cookie_Path :: string
  Cookie_Expires :: instant
  Cookie_HttpOnly :: bool
  Cookie_Secure :: bool
  Cookie_SameSite :: string

definition sessionCookie :: "string \<Rightarrow> string \<Rightarrow> bool \<Rightarrow> instant \<Rightarrow> cookie" where
  "sessionCookie nm val secure expires =
     \<lparr>Cookie_Name = nm, Cookie_Value = val, Cookie_Path = ''/'', Cookie_Expires = expires,
      Cookie_HttpOnly = True, Cookie_Secure = secure, Cookie_SameSite = ''Lax''\<rparr>"

section \<open>oidc_discovery.go\<close>

definition DiscoveryPath :: string where "DiscoveryPath = ''/.well-known/openid-configuration''"

definition supportedResponseTypes :: "string list" where "supportedResponseTypes = [''code'']"
definition supportedGrantTypes :: "string list" where "supportedGrantTypes = SupportedGrantTypes"
definition supportedAuthMethods :: "string list" where
  "supportedAuthMethods = [''client_secret_basic'', ''client_secret_post'']"

text \<open>
  The fields of the library's document that are overwritten; whatever else it holds is the rest
  of the record.
\<close>

record discovery_document =
  ResponseTypesSupported :: "string list"
  GrantTypesSupported :: "string list"
  DeviceAuthorizationEndpoint :: string
  TokenEndpointAuthMethodsSupported :: "string list"

text \<open>\<open>create\<close> is the library's \<open>CreateDiscoveryConfig\<close> on the issuer in the context.\<close>

definition Discovery :: "(string \<Rightarrow> 'e discovery_document_scheme) \<Rightarrow> string \<Rightarrow> string \<Rightarrow> 'e discovery_document_scheme response op" where
  "Discovery create publicBaseURL tenantID =
     (if tenantID = [] then ret (NoContent 404)
      else (let document = create (Issuer publicBaseURL tenantID) in
            ret (JSON 200 (document\<lparr>ResponseTypesSupported := supportedResponseTypes,
              GrantTypesSupported := supportedGrantTypes, DeviceAuthorizationEndpoint := [],
              TokenEndpointAuthMethodsSupported := supportedAuthMethods\<rparr>))))"

section \<open>Routes\<close>

text \<open>A route: the method, the path pattern and the handler.\<close>

type_synonym route = "string \<times> string \<times> string"

definition AccountRoutes :: "route list" where
  "AccountRoutes =
     [(''POST'', ''/api/accounts'', ''Register''), (''POST'', ''/api/accounts/verify'', ''Verify''),
      (''POST'', ''/api/accounts/verify/resend'', ''ResendVerification''), (''POST'', ''/api/accounts/forgot'', ''Forgot''),
      (''POST'', ''/api/accounts/reset'', ''Reset''), (''PUT'', ''/api/accounts/password'', ''UpdatePassword''),
      (''PUT'', ''/api/accounts/name'', ''UpdateName''), (''PUT'', ''/api/accounts/delete'', ''Delete'')]"

definition AuthenticateRoutes :: "route list" where
  "AuthenticateRoutes =
     [(''POST'', ''/api/authenticate'', ''Authenticate''), (''POST'', ''/api/authenticate/ack'', ''Acknowledge''),
      (''POST'', ''/api/authenticate/renew'', ''Renew''), (''PUT'', ''/api/authenticate/revoke'', ''Revoke''),
      (''POST'', ''/api/authenticate/validate'', ''Validate'')]"

definition LogonCodeRoutes :: "route list" where
  "LogonCodeRoutes =
     [(''POST'', ''/api/authenticate/code/request'', ''Request''), (''POST'', ''/api/authenticate/code'', ''Logon'')]"

definition SocialRoutes :: "route list" where
  "SocialRoutes = [(''POST'', ''/api/authenticate/social'', ''Logon'')]"

definition ApiKeyRoutes :: "route list" where
  "ApiKeyRoutes =
     [(''POST'', ''/api/apikeys'', ''Create''), (''POST'', ''/api/apikeys/list'', ''List''),
      (''PUT'', ''/api/apikeys/delete'', ''Revoke'')]"

definition ClientRoutes :: "route list" where
  "ClientRoutes =
     [(''POST'', ''/api/oidc/clients'', ''Create''), (''PUT'', ''/api/oidc/clients/delete'', ''Delete'')]"

definition JwksRoutes :: "route list" where
  "JwksRoutes = [(''GET'', ''/.well-known/jwks.json'', ''Keys'')]"

definition HealthRoutes :: "route list" where
  "HealthRoutes = [(''GET'', ''/health'', ''Health'')]"

definition OidcRoutes :: "route list" where
  "OidcRoutes =
     (let tenant = TenantPathPrefix @ '':tenantId'' in
      [(''GET'', tenant @ DiscoveryPath, ''Discovery''), (''GET'', tenant @ LoginPath, ''Login''),
       (''POST'', tenant @ LoginPath, ''Submit''), (''GET'', tenant @ EndSessionPath, ''Logout''),
       (''POST'', tenant @ EndSessionPath, ''Logout''), (''GET'', tenant @ LogoutPath, ''Logout''),
       (''*'', tenant @ ''/*'', ''provider'')])"

definition providerPaths :: "string list" where
  "providerPaths =
     [DiscoveryPath, ''/authorize'', ''/authorize/callback'', ''/oauth/token'', ''/oauth/introspect'', ''/userinfo'',
      ''/revoke'', EndSessionPath, ''/keys'', LoginPath, LogoutPath]"

definition IsProviderPath :: "string \<Rightarrow> bool" where
  "IsProviderPath path =
     (case splitTenantPath path of (tenantID, rest) \<Rightarrow>
        if tenantID = [] then False else rest \<in> set providerPaths)"

text \<open>The routes that take a key.\<close>

definition api_routes :: "route list" where
  "api_routes = AccountRoutes @ AuthenticateRoutes @ LogonCodeRoutes @ SocialRoutes @ ApiKeyRoutes @ ClientRoutes"

definition health_Health :: "int \<times> string" where
  "health_Health = (200, ''OK'')"

section \<open>Facts\<close>

lemma TenantPathPrefix_Cons: "TenantPathPrefix = [CHR ''/'', CHR ''t'', CHR ''/'']"
  by (simp add: TenantPathPrefix_def)

text \<open>The tenant of a path is its second segment; every path below a tenant splits back.\<close>

lemma splitTenantPath_below [simp]:
  "t \<noteq> [] \<Longrightarrow> CHR ''/'' \<notin> set t \<Longrightarrow> splitTenantPath (TenantPathPrefix @ t @ CHR ''/'' # rest) = (t, CHR ''/'' # rest)"
  by (simp add: splitTenantPath_def)

lemma splitTenantPath_bare [simp]:
  "t \<noteq> [] \<Longrightarrow> CHR ''/'' \<notin> set t \<Longrightarrow> splitTenantPath (TenantPathPrefix @ t) = (t, ''/'')"
  by (simp add: splitTenantPath_def)

lemma splitTenantPath_eq:
  assumes "splitTenantPath path = (t, rest)" and "t \<noteq> []"
  shows "CHR ''/'' \<notin> set t \<and> (path = TenantPathPrefix @ t @ rest \<or> path = TenantPathPrefix @ t \<and> rest = ''/'')"
proof -
  from assms obtain u where path: "path = TenantPathPrefix @ u"
    by (auto simp: splitTenantPath_def HasPrefix_iff split: if_splits)
  obtain a b f where cut: "Cut u (CHR ''/'') = (a, b, f)" by (cases "Cut u (CHR ''/'')") auto
  with assms path have "t = a" and rest: "rest = (if f then CHR ''/'' # b else ''/'')"
    by (auto simp: splitTenantPath_def split: if_splits)
  with cut path show ?thesis by (cases f) (auto simp: Cut_True Cut_False)
qed

lemma providerPaths_slash: "rest \<in> set providerPaths \<Longrightarrow> \<exists>r. rest = CHR ''/'' # r \<and> r \<noteq> []"
  by (auto simp: providerPaths_def DiscoveryPath_def EndSessionPath_def LoginPath_def LogoutPath_def)

lemma IsProviderPath_iff:
  "IsProviderPath path \<longleftrightarrow>
   (\<exists>t rest. t \<noteq> [] \<and> CHR ''/'' \<notin> set t \<and> rest \<in> set providerPaths \<and> path = TenantPathPrefix @ t @ rest)"
proof
  assume prov: "IsProviderPath path"
  obtain t rest where split: "splitTenantPath path = (t, rest)" by fastforce
  with prov have "t \<noteq> []" and rest: "rest \<in> set providerPaths" by (auto simp: IsProviderPath_def split: if_splits)
  with splitTenantPath_eq [OF split] providerPaths_slash [OF rest]
  show "\<exists>t rest. t \<noteq> [] \<and> CHR ''/'' \<notin> set t \<and> rest \<in> set providerPaths \<and> path = TenantPathPrefix @ t @ rest"
    by blast
next
  assume "\<exists>t rest. t \<noteq> [] \<and> CHR ''/'' \<notin> set t \<and> rest \<in> set providerPaths \<and> path = TenantPathPrefix @ t @ rest"
  then obtain t rest where t: "t \<noteq> []" "CHR ''/'' \<notin> set t" and rest: "rest \<in> set providerPaths"
    and path: "path = TenantPathPrefix @ t @ rest" by blast
  from providerPaths_slash [OF rest] obtain r where "rest = CHR ''/'' # r" by blast
  with t path have "splitTenantPath path = (t, rest)" by simp
  with t rest show "IsProviderPath path" by (simp add: IsProviderPath_def)
qed

lemma api_route_guarded:
  "(m, p, h) \<in> set api_routes \<Longrightarrow> p \<noteq> ''/health'' \<and> take 13 p \<noteq> ''/.well-known/'' \<and> \<not> IsProviderPath p"
  by (auto simp: api_routes_def AccountRoutes_def AuthenticateRoutes_def LogonCodeRoutes_def SocialRoutes_def
      ApiKeyRoutes_def ClientRoutes_def IsProviderPath_iff TenantPathPrefix_Cons)

end
