(* ===== verification/Config.thy ===== *)
theory Config
  imports GoStrings
begin

text \<open>
  \<open>src/cmd/an/config.go\<close>: the configuration, read from the environment. An environment is a map
  from names to values; an integer is 64 bits wide, as \<open>strconv.Atoi\<close> leaves it.
\<close>

type_synonym environment = "string \<Rightarrow> string option"

record AppConfig =
  AccessTokenExpireInSeconds :: int
  AllowedOrigins :: "string list"
  Audience :: string
  BootstrapApiKey :: string
  CORSEnabled :: bool
  DbConnection :: string
  DefaultTenant :: string
  Domain :: string
  GoogleClientID :: string
  TokenIssuer :: string
  LockoutDurationInSeconds :: int
  MagicCodeExpireInSeconds :: int
  MaxFailedAttempts :: int
  OidcAuthCodeExpireInSeconds :: int
  OidcClientID :: string
  OidcClientSecret :: string
  OidcCryptoKey :: string
  OidcEnabled :: bool
  OidcInsecure :: bool
  OidcPostLogoutRedirectURIs :: "string list"
  OidcRedirectURIs :: "string list"
  OidcSessionExpireInSeconds :: int
  PasswordCost :: int
  Port :: int
  BaseURL :: string
  RefreshTokenExpireInSeconds :: int
  RequestsPerSecond :: int
  ResetTokenExpireInSeconds :: int

definition minCryptoKeyLength :: nat where "minCryptoKeyLength = 32"

definition getEnv :: "environment \<Rightarrow> string \<Rightarrow> string \<Rightarrow> string" where
  "getEnv env key defaultValue = (case env key of None \<Rightarrow> defaultValue | Some v \<Rightarrow> v)"

definition getEnvAsInt :: "environment \<Rightarrow> string \<Rightarrow> int \<Rightarrow> int" where
  "getEnvAsInt env key defaultValue =
     (let valueStr = getEnv env key [] in
      if valueStr = [] then defaultValue
      else case Atoi valueStr of None \<Rightarrow> defaultValue | Some v \<Rightarrow> v)"

definition getEnvAsStringSlice :: "environment \<Rightarrow> string \<Rightarrow> string list \<Rightarrow> string list" where
  "getEnvAsStringSlice env key defaultValue =
     (let valueStr = getEnv env key [] in
      if valueStr = [] then defaultValue
      else filter (\<lambda>v. v \<noteq> []) (map TrimSpace (Split (CHR '','') valueStr)))"

text \<open>The predicate that mounts the provider.\<close>

definition oidc_configured :: "string \<Rightarrow> string \<Rightarrow> string \<Rightarrow> string \<Rightarrow> string list \<Rightarrow> bool" where
  "oidc_configured baseURL clientID secret cryptoKey redirectURIs \<longleftrightarrow>
     baseURL \<noteq> [] \<and> clientID \<noteq> [] \<and> secret \<noteq> [] \<and> cryptoKey \<noteq> [] \<and> 0 < length redirectURIs"

definition crypto_key_error :: string where
  "crypto_key_error = ''OIDC_CRYPTO_KEY must be at least 32 characters of random data; it encrypts '' @
     ''authorization codes and bearer tokens, and hashing does not rescue a guessable '' @
     ''value (generate one with: openssl rand -hex 32)''"

definition read_config :: "environment \<Rightarrow> AppConfig" where
  "read_config env =
     (let str = getEnv env; num = getEnvAsInt env; strs = getEnvAsStringSlice env;
          baseURL = TrimSuffix (str ''PUBLIC_BASE_URL'' []) ''/'';
          clientID = str ''OIDC_CLIENT_ID'' []; secret = str ''OIDC_CLIENT_SECRET'' [];
          cryptoKey = str ''OIDC_CRYPTO_KEY'' []; redirectURIs = strs ''OIDC_REDIRECT_URIS'' [] in
      \<lparr>AccessTokenExpireInSeconds = num ''ACCESS_TOKEN_EXPIRE_IN_SECONDS'' 3600,
       AllowedOrigins = strs ''ALLOWED_WEB_ORIGINS'' [],
       Audience = str ''AUDIENCE'' ''an'',
       BootstrapApiKey = str ''BOOTSTRAP_API_KEY'' [],
       CORSEnabled = (str ''CORS_ENABLED'' ''false'' = ''true''),
       DbConnection = str ''DB_CONNECTION'' ''postgres://an:an@localhost:5432/an?sslmode=disable'',
       DefaultTenant = str ''DEFAULT_TENANT_ID'' ''default'',
       Domain = str ''DOMAIN'' [],
       GoogleClientID = str ''GOOGLE_CLIENT_ID'' [],
       TokenIssuer = str ''ISSUER'' ''an'',
       LockoutDurationInSeconds = num ''LOCKOUT_DURATION_IN_SEC'' 900,
       MagicCodeExpireInSeconds = num ''MAGIC_CODE_EXPIRE_IN_SECONDS'' 600,
       MaxFailedAttempts = num ''MAX_FAILED_ATTEMPTS'' 5,
       OidcAuthCodeExpireInSeconds = num ''OIDC_AUTH_CODE_EXPIRE_IN_SECONDS'' 300,
       OidcClientID = clientID,
       OidcClientSecret = secret,
       OidcCryptoKey = cryptoKey,
       OidcEnabled = oidc_configured baseURL clientID secret cryptoKey redirectURIs,
       OidcInsecure = (str ''OIDC_INSECURE'' ''false'' = ''true''),
       OidcPostLogoutRedirectURIs = strs ''OIDC_POST_LOGOUT_REDIRECT_URIS'' [],
       OidcRedirectURIs = redirectURIs,
       OidcSessionExpireInSeconds = num ''OIDC_SESSION_EXPIRE_IN_SECONDS'' 43200,
       PasswordCost = num ''PASSWORD_COST'' 12,
       Port = num ''PORT'' 8080,
       BaseURL = baseURL,
       RefreshTokenExpireInSeconds = num ''REFRESH_TOKEN_EXPIRE_IN_SECONDS'' 86400,
       RequestsPerSecond = num ''REQUESTS_PER_SECOND'' 20,
       ResetTokenExpireInSeconds = num ''RESET_TOKEN_EXPIRE_IN_SECONDS'' 3600\<rparr>)"

definition NewAppConfig :: "environment \<Rightarrow> string + AppConfig" where
  "NewAppConfig env =
     (let config = read_config env in
      if OidcEnabled config \<and> length (OidcCryptoKey config) < minCryptoKeyLength then Inl crypto_key_error
      else Inr config)"

section \<open>Facts\<close>

lemma getEnvAsInt_range:
  "- (2 ^ 63) \<le> d \<Longrightarrow> d < 2 ^ 63 \<Longrightarrow> - (2 ^ 63) \<le> getEnvAsInt env key d \<and> getEnvAsInt env key d < 2 ^ 63"
  by (auto simp: getEnvAsInt_def Let_def split: option.split dest: Atoi_range)

text \<open>A configured list has no blank entry, no white space around one and no comma in one.\<close>

lemma getEnvAsStringSlice_entries:
  assumes "v \<in> set (getEnvAsStringSlice env key [])"
  shows "v \<noteq> []" and "TrimSpace v = v" and "CHR '','' \<notin> set v"
proof -
  from assms obtain p where p: "p \<in> set (Split (CHR '','') (getEnv env key []))" "v = TrimSpace p" and "v \<noteq> []"
    by (auto simp: getEnvAsStringSlice_def Let_def split: if_splits)
  then show "v \<noteq> []" "TrimSpace v = v" by simp_all
  obtain u w where "p = u @ v @ w" using TrimSpace_part [of p] p(2) by blast
  with Split_pieces [OF p(1)] show "CHR '','' \<notin> set v" by simp
qed

lemma NewAppConfig_Inr:
  "NewAppConfig env = Inr config \<longleftrightarrow>
   config = read_config env \<and> (OidcEnabled config \<longrightarrow> 32 \<le> length (OidcCryptoKey config))"
  by (auto simp: NewAppConfig_def Let_def minCryptoKeyLength_def)

lemma read_config_oidc:
  "OidcEnabled (read_config env) \<longleftrightarrow>
     BaseURL (read_config env) \<noteq> [] \<and> OidcClientID (read_config env) \<noteq> [] \<and>
     OidcClientSecret (read_config env) \<noteq> [] \<and> OidcCryptoKey (read_config env) \<noteq> [] \<and>
     OidcRedirectURIs (read_config env) \<noteq> []"
  by (simp add: read_config_def Let_def oidc_configured_def)

text \<open>The variables of \<open>src/.env.example\<close> that hold a number, with the value it documents for each.\<close>

definition numeric_settings :: "(string \<times> int \<times> (AppConfig \<Rightarrow> int)) list" where
  "numeric_settings =
     [(''PORT'', 8080, Port), (''REQUESTS_PER_SECOND'', 20, RequestsPerSecond),
      (''ACCESS_TOKEN_EXPIRE_IN_SECONDS'', 3600, AccessTokenExpireInSeconds),
      (''REFRESH_TOKEN_EXPIRE_IN_SECONDS'', 86400, RefreshTokenExpireInSeconds),
      (''PASSWORD_COST'', 12, PasswordCost), (''MAX_FAILED_ATTEMPTS'', 5, MaxFailedAttempts),
      (''LOCKOUT_DURATION_IN_SEC'', 900, LockoutDurationInSeconds),
      (''MAGIC_CODE_EXPIRE_IN_SECONDS'', 600, MagicCodeExpireInSeconds),
      (''RESET_TOKEN_EXPIRE_IN_SECONDS'', 3600, ResetTokenExpireInSeconds),
      (''OIDC_AUTH_CODE_EXPIRE_IN_SECONDS'', 300, OidcAuthCodeExpireInSeconds),
      (''OIDC_SESSION_EXPIRE_IN_SECONDS'', 43200, OidcSessionExpireInSeconds)]"

lemma getEnvAsInt_eq:
  "getEnvAsInt env var dflt = (case env var of None \<Rightarrow> dflt | Some s \<Rightarrow> (case Atoi s of None \<Rightarrow> dflt | Some n \<Rightarrow> n))"
proof -
  have "Atoi [] = None" by (simp add: Atoi_def)
  then show ?thesis by (auto simp: getEnvAsInt_def getEnv_def Let_def split: option.split)
qed

lemma read_config_numbers:
  "\<forall>(var, dflt, field) \<in> set numeric_settings. field (read_config env) = getEnvAsInt env var dflt \<and> - (2 ^ 63) \<le> dflt \<and> dflt < 2 ^ 63"
  by (simp add: numeric_settings_def read_config_def Let_def)

section \<open>Properties\<close>

text \<open>
  C39: the configuration. An accepted one mounts the provider exactly when its base URL, client,
  secret, crypto key and at least one redirect URI are set, and then the crypto key has at least 32
  bytes; a redirect URI is never blank, padded or two in one; and every number is what its variable
  says where that parses, the value \<open>src/.env.example\<close> documents otherwise, and fits 64 bits.
\<close>

theorem accepted_config_is_complete:
  assumes "NewAppConfig env = Inr config"
  shows "(OidcEnabled config \<longleftrightarrow>
      BaseURL config \<noteq> [] \<and> OidcClientID config \<noteq> [] \<and> OidcClientSecret config \<noteq> [] \<and>
      OidcCryptoKey config \<noteq> [] \<and> OidcRedirectURIs config \<noteq> []) \<and>
    (OidcEnabled config \<longrightarrow> 32 \<le> length (OidcCryptoKey config)) \<and>
    (\<forall>uri \<in> set (OidcRedirectURIs config) \<union> set (OidcPostLogoutRedirectURIs config).
       uri \<noteq> [] \<and> TrimSpace uri = uri \<and> CHR '','' \<notin> set uri) \<and>
    (\<forall>(var, dflt, field) \<in> set numeric_settings.
       field config = (case env var of None \<Rightarrow> dflt | Some s \<Rightarrow> (case Atoi s of None \<Rightarrow> dflt | Some n \<Rightarrow> n)) \<and>
       - (2 ^ 63) \<le> field config \<and> field config < 2 ^ 63)"
proof (intro conjI)
  from assms have config: "config = read_config env" and key: "OidcEnabled config \<longrightarrow> 32 \<le> length (OidcCryptoKey config)"
    by (auto simp: NewAppConfig_Inr)
  show "OidcEnabled config \<longleftrightarrow>
      BaseURL config \<noteq> [] \<and> OidcClientID config \<noteq> [] \<and> OidcClientSecret config \<noteq> [] \<and>
      OidcCryptoKey config \<noteq> [] \<and> OidcRedirectURIs config \<noteq> []"
    unfolding config by (rule read_config_oidc)
  show "OidcEnabled config \<longrightarrow> 32 \<le> length (OidcCryptoKey config)" by (rule key)
  have "OidcRedirectURIs config = getEnvAsStringSlice env ''OIDC_REDIRECT_URIS'' []"
    "OidcPostLogoutRedirectURIs config = getEnvAsStringSlice env ''OIDC_POST_LOGOUT_REDIRECT_URIS'' []"
    unfolding config by (simp_all add: read_config_def Let_def)
  then show "\<forall>uri \<in> set (OidcRedirectURIs config) \<union> set (OidcPostLogoutRedirectURIs config).
       uri \<noteq> [] \<and> TrimSpace uri = uri \<and> CHR '','' \<notin> set uri"
    by (metis Un_iff getEnvAsStringSlice_entries)
  show "\<forall>(var, dflt, field) \<in> set numeric_settings.
       field config = (case env var of None \<Rightarrow> dflt | Some s \<Rightarrow> (case Atoi s of None \<Rightarrow> dflt | Some n \<Rightarrow> n)) \<and>
       - (2 ^ 63) \<le> field config \<and> field config < 2 ^ 63"
    using read_config_numbers [of env] getEnvAsInt_range unfolding config getEnvAsInt_eq [symmetric] by fastforce
qed

definition sample_environment :: environment where
  "sample_environment =
     [''PUBLIC_BASE_URL'' \<mapsto> ''https://id.example/'', ''OIDC_CLIENT_ID'' \<mapsto> ''console'', ''OIDC_CLIENT_SECRET'' \<mapsto> ''s'',
      ''OIDC_CRYPTO_KEY'' \<mapsto> replicate 32 (CHR ''k''), ''OIDC_REDIRECT_URIS'' \<mapsto> ''https://a, https://b,'',
      ''MAX_FAILED_ATTEMPTS'' \<mapsto> ''3x'']"

theorem accepted_config_is_complete_witness:
  "\<exists>config. NewAppConfig sample_environment = Inr config \<and> OidcEnabled config \<and> MaxFailedAttempts config = 5 \<and>
     OidcRedirectURIs config = [''https://a'', ''https://b''] \<and>
     NewAppConfig (sample_environment(''OIDC_CRYPTO_KEY'' \<mapsto> ''short'')) = Inl crypto_key_error"
proof -
  have env: "getEnv sample_environment ''OIDC_CRYPTO_KEY'' [] = replicate 32 (CHR ''k'')"
    "getEnvAsStringSlice sample_environment ''OIDC_REDIRECT_URIS'' [] = [''https://a'', ''https://b'']"
    "TrimSuffix (getEnv sample_environment ''PUBLIC_BASE_URL'' []) ''/'' \<noteq> []"
    "getEnv sample_environment ''OIDC_CLIENT_ID'' [] \<noteq> []" "getEnv sample_environment ''OIDC_CLIENT_SECRET'' [] \<noteq> []"
    by code_simp+
  have "case NewAppConfig sample_environment of Inl _ \<Rightarrow> False
      | Inr config \<Rightarrow> OidcEnabled config \<and> OidcRedirectURIs config = [''https://a'', ''https://b'']"
    using env by (simp add: NewAppConfig_def read_config_def oidc_configured_def minCryptoKeyLength_def Let_def)
  then obtain config where run: "NewAppConfig sample_environment = Inr config"
    and "OidcEnabled config" "OidcRedirectURIs config = [''https://a'', ''https://b'']"
    by (auto split: sum.splits)
  moreover have "MaxFailedAttempts config = 5"
  proof -
    have "sample_environment ''MAX_FAILED_ATTEMPTS'' = Some ''3x''" "Atoi ''3x'' = None" by code_simp+
    with accepted_config_is_complete [OF run] show ?thesis by (simp add: numeric_settings_def)
  qed
  moreover have "NewAppConfig (sample_environment(''OIDC_CRYPTO_KEY'' \<mapsto> ''short'')) = Inl crypto_key_error"
    using env by (simp add: NewAppConfig_def read_config_def oidc_configured_def minCryptoKeyLength_def Let_def
        getEnv_def getEnvAsStringSlice_def)
  ultimately show ?thesis by blast
qed

end
