(* ===== verification/Credentials.thy ===== *)
theory Credentials
  imports AccountService OidcTokens Authn
begin

text \<open>
  The account service as \<open>src/cmd/an/main.go\<close> wires it: the revokers of every surface an
  account can be signed in on, and the failed attempts as the lockout. The properties of the
  credential operations on that wiring.
\<close>

section \<open>The operations, opened\<close>

text \<open>A successful run of each operation, opened into its guards and its statements.\<close>

lemma Reset_InrE:
  assumes "Reset C s t e token pw w = (Inr u, w')"
  obtains r x h salt w1 w2 w3 w4 w5 where
    "account_update (set_password_hash h) t e w1 = (Inr (), w2)" "reset_Delete t e w2 = (Inr (), w3)"
    "revokeSessions (sessions s) t e w3 = (Inr (), w4)" "lockouts s t e w4 = (Inr (), w5)"
    "bcrypt_generate C pw (passwordCost s) salt = Inr h" "db w' = db w5" "db w1 = db w" "pg_now w1 = pg_now w"
    "reset_stored (db w) t e = Some (Sha256Hex C token, x)" "\<not> x < wall w"
    "account_at (db w) t e = Some r" "\<not> ac_deleted r" "ValidatePassword pw = Inr ()"
proof -
  show thesis
    using assms
    by (clarsimp simp: Reset_def UpdatePasswordHash_def bindE_Inr check_account_Inr readLive_Inr reset_Read_Inr
        BcryptHash_Inr if_throw_Inr with_transaction_Inr)
      (rule that, assumption+, simp_all)
qed

lemma UpdatePassword_InrE:
  assumes "UpdatePassword C s t e cur pw w = (Inr u, w')"
  obtains r h salt w1 w2 w3 where
    "account_update (set_password_hash h) t e w1 = (Inr (), w2)" "revokeSessions (sessions s) t e w2 = (Inr (), w3)"
    "bcrypt_generate C pw (passwordCost s) salt = Inr h" "db w' = db w3" "db w1 = db w" "pg_now w1 = pg_now w"
    "account_at (db w) t e = Some r" "\<not> ac_deleted r" "bcrypt_compare C (ac_password_hash r) cur = BcryptMatch"
    "ValidatePassword pw = Inr ()"
proof -
  show thesis
    using assms
    by (clarsimp simp: UpdatePassword_def UpdatePasswordHash_def bindE_Inr check_account_Inr readLive_Inr
        lift_result_Inr BcryptVerify_True BcryptHash_Inr if_throw_Inr with_transaction_Inr)
      (rule that, assumption+, simp_all add: BcryptVerify_True)
qed


section \<open>The wiring\<close>

definition session_revokers :: "bool \<Rightarrow> revoker list" where
  "session_revokers oidcEnabled = session_DeleteAll # (if oidcEnabled then [oidc_DeleteAll] else [])"

definition wired_accounts :: "bool \<Rightarrow> int \<Rightarrow> duration \<Rightarrow> account_service" where
  "wired_accounts oidcEnabled cost expiry =
     NewDefaultAccountService (session_revokers oidcEnabled) attempt_Clear cost expiry"

lemma wired_accounts_sel [simp]:
  "sessions (wired_accounts b n x) = session_revokers b" "lockouts (wired_accounts b n x) = attempt_Clear"
  "passwordCost (wired_accounts b n x) = n" "resetExpiry (wired_accounts b n x) = x"
  by (simp_all add: wired_accounts_def)

lemma revokers_close: "\<forall>r\<in>set (session_revokers b). steps closes (r t e)"
  by (simp add: session_revokers_def session_DeleteAll_closes oidc_DeleteAll_closes)

text \<open>What the revocation leaves of an account: no session of any surface, no provider grant.\<close>

definition signed_in :: "bool \<Rightarrow> database \<Rightarrow> string \<Rightarrow> string \<Rightarrow> bool" where
  "signed_in oidcEnabled d t e \<longleftrightarrow> session_open d t e \<or> (oidcEnabled \<and> oidc_open d t e)"

lemma revokeSessions_signs_out:
  assumes "revokeSessions (session_revokers b) t e w = (Inr u, w')"
  shows "\<not> signed_in b (db w') t e" and "closes (db w) (db w')"
proof -
  have "\<not> session_open (db w') t e"
    by (rule authn_sessions.revokes [OF _ revokers_close assms]) (simp add: session_revokers_def)
  moreover have "\<not> oidc_open (db w') t e" if b
    by (rule oidc_sessions.revokes [OF _ revokers_close assms]) (simp add: session_revokers_def that)
  ultimately show "\<not> signed_in b (db w') t e" by (auto simp: signed_in_def)
  show "closes (db w) (db w')" by (rule revoke_frame [OF revokers_close assms])
qed

text \<open>The sessions and grants of a database decide whether an account is signed in, with its accounts.\<close>

lemma signed_in_frame:
  assumes "t_accounts d' = t_accounts d" "t_sessions d' = t_sessions d" "t_auth_requests d' = t_auth_requests d"
    "t_refresh_tokens d' = t_refresh_tokens d" "t_access_tokens d' = t_access_tokens d"
    "t_browser_sessions d' = t_browser_sessions d"
  shows "signed_in b d' t e = signed_in b d t e"
  using assms by (simp add: signed_in_def session_open_def oidc_open_def holds_grant_def subjects_def)

section \<open>Changing and resetting a password\<close>

text \<open>
  C7: a password reset. It succeeds only for a live account with an unexpired reset token that
  matches, and then, in one transaction: the password is the new one, the token is spent, the
  account is signed out of every surface, and the failed attempts of the address are forgotten;
  no other account changes. If it fails, nothing changes. A second reset with any token is
  refused.
\<close>

theorem reset_changes_the_password_once:
  assumes "Reset C (wired_accounts b n x) t e token pw w = (r, w')"
  shows "case r of
      Inl err \<Rightarrow> db w' = db w
    | Inr u \<Rightarrow>
        (\<exists>a h salt y. account_at (db w) t e = Some a \<and> \<not> ac_deleted a \<and>
           reset_stored (db w) t e = Some (Sha256Hex C token, y) \<and> \<not> y < wall w \<and>
           bcrypt_generate C pw n salt = Inr h \<and>
           account_at (db w') t e = Some (set_password_hash h (pg_now w) a)) \<and>
        \<not> signed_in b (db w') t e \<and> attempts (db w') t e = (0, None) \<and>
        (\<forall>t' e'. (t', e') \<noteq> (t, e) \<longrightarrow> account_at (db w') t' e' = account_at (db w) t' e') \<and>
        (\<forall>token' pw' w2. db w2 = db w' \<longrightarrow> (\<exists>err. fst (Reset C (wired_accounts b n x) t e token' pw' w2) = Inl err))"
proof (cases r)
  case (Inl err)
  then show ?thesis using atomicD [OF atomic_Reset] assms by simp
next
  case (Inr u)
  with assms have "Reset C (wired_accounts b n x) t e token pw w = (Inr u, w')" by simp
  then obtain a y h salt w1 w2 w3 w4 w5 where
    a: "account_at (db w) t e = Some a" "\<not> ac_deleted a"
    and token: "reset_stored (db w) t e = Some (Sha256Hex C token, y)" "\<not> y < wall w"
    and h: "bcrypt_generate C pw n salt = Inr h"
    and w1: "db w1 = db w" "pg_now w1 = pg_now w" "account_update (set_password_hash h) t e w1 = (Inr (), w2)"
    and del: "reset_Delete t e w2 = (Inr (), w3)" and rev: "revokeSessions (session_revokers b) t e w3 = (Inr (), w4)"
    and clear: "attempt_Clear t e w4 = (Inr (), w5)" and w': "db w' = db w5"
    by (elim Reset_InrE) simp
  have acc: "t_accounts (db w') = t_accounts (db w2)"
    using del clear w' closes_frame(4) [OF revokeSessions_signs_out(2) [OF rev]] by (simp add: op_inr)
  have "account_at (db w2) t' e' = (if t' = t \<and> e' = e then Some (set_password_hash h (pg_now w) a)
      else account_at (db w) t' e')" for t' e'
    using w1 a(1) by (simp add: account_update_Inr account_at_update account_setters)
  then have at: "account_at (db w') t' e' = (if t' = t \<and> e' = e then Some (set_password_hash h (pg_now w) a)
      else account_at (db w) t' e')" for t' e'
    using acc by (simp add: account_at_def)
  have "signed_in b (db w') t e = signed_in b (db w4) t e"
    using clear w' by (intro signed_in_frame) (simp_all add: attempt_Clear_Inr)
  then have out: "\<not> signed_in b (db w') t e" using revokeSessions_signs_out(1) [OF rev] by simp
  have att: "attempts (db w') t e = (0, None)"
    using clear w' by (simp add: attempt_Clear_Inr attempts_def)
  have "reset_stored (db w3) t e = None" using reset_Delete_at [OF del, of t e] by simp
  moreover have "t_password_resets (db w') = t_password_resets (db w3)"
    using clear w' closes_frame(6) [OF revokeSessions_signs_out(2) [OF rev]] by (simp add: attempt_Clear_Inr)
  ultimately have spent: "reset_stored (db w') t e = None" by (simp add: reset_stored_def reset_at_def)
  have again: "\<exists>err. fst (Reset C (wired_accounts b n x) t e token' pw' v) = Inl err" if "db v = db w'" for token' pw' v
  proof (cases "Reset C (wired_accounts b n x) t e token' pw' v")
    case (Pair z v')
    then show ?thesis using that spent by (cases z) (auto elim!: Reset_InrE)
  qed
  from Inr a token h at out att again show ?thesis by auto
qed

text \<open>A database with an account signed in on both surfaces and a pending reset.\<close>

definition sample_full_db :: database where
  "sample_full_db = sample_open_db
     \<lparr>t_password_resets := [\<lparr>pr_tenant = ''default'', pr_email = ''a@b.co'',
        pr_token_hash = Sha256Hex sample_crypto ''reset-me'', pr_expires = Instant 9000000000, pr_created = Instant 0\<rparr>],
      t_browser_sessions := [\<lparr>bs_id = ''b1'', bs_token_hash = ''h'', bs_tenant = ''default'', bs_account = ''u0'',
        bs_auth_time = Instant 0, bs_expires = Instant 9000000000, bs_created = Instant 0\<rparr>]\<rparr>"

lemma sample_signed_in: "signed_in True sample_full_db ''default'' ''a@b.co''"
  by (simp add: sample_full_db_def signed_in_def session_open_def sample_open_db_def sample_session_def)

lemma sample_reset:
  "fst (Reset sample_crypto (wired_accounts True 12 3600) ''default'' ''a@b.co'' ''reset-me'' ''correct horse''
     (sample_world sample_full_db 8000000000 [])) = Inr ()"
  by code_simp

theorem reset_changes_the_password_once_witness:
  "\<exists>w'. Reset sample_crypto (wired_accounts True 12 3600) ''default'' ''a@b.co'' ''reset-me'' ''correct horse''
      (sample_world sample_full_db 8000000000 []) = (Inr (), w') \<and>
    signed_in True sample_full_db ''default'' ''a@b.co'' \<and> \<not> signed_in True (db w') ''default'' ''a@b.co'' \<and>
    (\<exists>err. fst (Reset sample_crypto (wired_accounts True 12 3600) ''default'' ''a@b.co'' ''reset-me'' ''another one!'' w') = Inl err)"
proof -
  obtain w' where run: "Reset sample_crypto (wired_accounts True 12 3600) ''default'' ''a@b.co'' ''reset-me'' ''correct horse''
      (sample_world sample_full_db 8000000000 []) = (Inr (), w')"
    using sample_reset by (metis prod.collapse)
  show ?thesis
    using reset_changes_the_password_once [OF run] run sample_signed_in by (intro exI [of _ w']) simp
qed

text \<open>
  C28: a password change. It succeeds only with the current password of a live account; then the
  password is the new one and the account is signed out of every surface, in one transaction; no
  other account changes, the failed attempts stay counted and a pending reset stays valid. If it
  fails, nothing changes.
\<close>

theorem password_change_signs_out:
  assumes "UpdatePassword C (wired_accounts b n x) t e cur pw w = (r, w')"
  shows "case r of
      Inl err \<Rightarrow> db w' = db w
    | Inr u \<Rightarrow>
        (\<exists>a h salt. account_at (db w) t e = Some a \<and> \<not> ac_deleted a \<and>
           bcrypt_compare C (ac_password_hash a) cur = BcryptMatch \<and> bcrypt_generate C pw n salt = Inr h \<and>
           account_at (db w') t e = Some (set_password_hash h (pg_now w) a)) \<and>
        \<not> signed_in b (db w') t e \<and> attempts (db w') t e = attempts (db w) t e \<and>
        reset_stored (db w') t e = reset_stored (db w) t e \<and>
        (\<forall>t' e'. (t', e') \<noteq> (t, e) \<longrightarrow> account_at (db w') t' e' = account_at (db w) t' e')"
proof (cases r)
  case (Inl err)
  then show ?thesis using atomicD [OF atomic_UpdatePassword] assms by simp
next
  case (Inr u)
  with assms have "UpdatePassword C (wired_accounts b n x) t e cur pw w = (Inr u, w')" by simp
  then obtain a h salt w1 w2 w3 where
    w1: "account_update (set_password_hash h) t e w1 = (Inr (), w2)" "db w1 = db w" "pg_now w1 = pg_now w"
    and rev: "revokeSessions (session_revokers b) t e w2 = (Inr (), w3)" and w': "db w' = db w3"
    and h: "bcrypt_generate C pw n salt = Inr h" and a: "account_at (db w) t e = Some a" "\<not> ac_deleted a"
    and match: "bcrypt_compare C (ac_password_hash a) cur = BcryptMatch"
    by (elim UpdatePassword_InrE) simp
  note frame = closes_frame [OF revokeSessions_signs_out(2) [OF rev]]
  have "account_at (db w2) t' e' = (if t' = t \<and> e' = e then Some (set_password_hash h (pg_now w) a)
      else account_at (db w) t' e')" for t' e'
    using w1 a(1) by (simp add: account_update_Inr account_at_update account_setters)
  then have at: "account_at (db w') t' e' = (if t' = t \<and> e' = e then Some (set_password_hash h (pg_now w) a)
      else account_at (db w) t' e')" for t' e'
    using frame(4) w' by (simp add: account_at_def)
  have "attempts (db w') t e = attempts (db w) t e" "reset_stored (db w') t e = reset_stored (db w) t e"
    using w1 w' frame(6,7) by (simp_all add: account_update_Inr attempts_def attempt_at_def reset_stored_def reset_at_def)
  with Inr a h match at w' revokeSessions_signs_out(1) [OF rev] show ?thesis by auto
qed

lemma sample_change:
  "fst (UpdatePassword sample_crypto (wired_accounts True 12 3600) ''default'' ''a@b.co'' ''hunter22'' ''correct horse''
     (sample_world sample_full_db 8000000000 [])) = Inr ()"
  by code_simp

theorem password_change_signs_out_witness:
  "\<exists>w'. UpdatePassword sample_crypto (wired_accounts True 12 3600) ''default'' ''a@b.co'' ''hunter22'' ''correct horse''
      (sample_world sample_full_db 8000000000 []) = (Inr (), w') \<and>
    signed_in True sample_full_db ''default'' ''a@b.co'' \<and> \<not> signed_in True (db w') ''default'' ''a@b.co''"
proof -
  obtain w' where run: "UpdatePassword sample_crypto (wired_accounts True 12 3600) ''default'' ''a@b.co'' ''hunter22'' ''correct horse''
      (sample_world sample_full_db 8000000000 []) = (Inr (), w')"
    using sample_change by (metis prod.collapse)
  show ?thesis
    using password_change_signs_out [OF run] run sample_signed_in by (intro exI [of _ w']) simp
qed

section \<open>Deleting an account\<close>










end
