(* ===== verification/Wiring.thy ===== *)
theory Wiring
  imports Tenants LogonCode Social OidcStorage Provider Config Credentials
begin

text \<open>
  \<open>src/cmd/an/main.go\<close>: how the service is put together from its configuration, what it does when
  it starts, and the janitor that sweeps the tables every hour.
\<close>

section \<open>The services\<close>

definition wired_authentication :: "AppConfig \<Rightarrow> tokenizer \<Rightarrow> authn_service" where
  "wired_authentication config tok =
     NewDefaultAuthenticationService tok (MaxFailedAttempts config) (seconds (LockoutDurationInSeconds config))"

definition wired_logon_codes :: "AppConfig \<Rightarrow> tokenizer \<Rightarrow> logon_code_service" where
  "wired_logon_codes config tok =
     NewDefaultLogonCodeService (wired_authentication config tok) (seconds (MagicCodeExpireInSeconds config)) (PasswordCost config)"

text \<open>\<open>google\<close> is the validator of the configured Google client.\<close>

definition wired_social :: "AppConfig \<Rightarrow> tokenizer \<Rightarrow> (string \<Rightarrow> string \<Rightarrow> go_error + Identity) \<Rightarrow> social_service" where
  "wired_social config tok google =
     (let s = NewDefaultSocialService tok (PasswordCost config) in
      if GoogleClientID config \<noteq> [] then AddValidator s google_Name (google (GoogleClientID config)) else s)"

definition configured_accounts :: "AppConfig \<Rightarrow> account_service" where
  "configured_accounts config =
     wired_accounts (OidcEnabled config) (PasswordCost config) (seconds (ResetTokenExpireInSeconds config))"

section \<open>The provider\<close>

definition configured_client :: "crypto \<Rightarrow> AppConfig \<Rightarrow> StaticClient" where
  "configured_client C config =
     \<lparr>sc_ID = OidcClientID config, sc_SecretHash = Sha256Hex C (OidcClientSecret config),
      sc_RedirectURIs = OidcRedirectURIs config, sc_PostLogoutRedirectURIs = OidcPostLogoutRedirectURIs config,
      sc_FirstParty = True, sc_IDTokenLifetime = seconds (AccessTokenExpireInSeconds config),
      sc_ClockSkewTolerance = 0\<rparr>"

definition new_storage :: "crypto \<Rightarrow> AppConfig \<Rightarrow> storage" where
  "new_storage C config =
     NewStorage (NewRegistryClientRegistry (NewStaticClientRegistry (Some (configured_client C config))))
       (\<lambda>tenantID authRequestID. LoginURL (BaseURL config) tenantID authRequestID)
       (seconds (OidcAuthCodeExpireInSeconds config))
       (seconds (AccessTokenExpireInSeconds config))
       (seconds (RefreshTokenExpireInSeconds config))"

text \<open>Nothing where the provider is off; otherwise the storage with its keys loaded.\<close>

definition oidcSetting :: "crypto \<Rightarrow> pki \<Rightarrow> AppConfig \<Rightarrow> storage option op" where
  "oidcSetting C K config =
     (if \<not> OidcEnabled config then ret None
      else bindE (storage_ReloadKeys K (new_storage C config)) (\<lambda>s. ret (Some s)))"

section \<open>Starting\<close>

definition createDefaultTenantID :: "unit op" where
  "createDefaultTenantID =
     bindE ListTenants (\<lambda>existingTenants.
     if length existingTenants = 0 then CreateDefault else ret ())"

text \<open>The steps of \<open>main\<close> that work on the database, up to serving; an error is a panic.\<close>

definition startup :: "crypto \<Rightarrow> pki \<Rightarrow> AppConfig \<Rightarrow> (tokenizer \<times> storage option) op" where
  "startup C K config =
     bindE createDefaultTenantID (\<lambda>_.
     bindE (Initialize K) (\<lambda>_.
     bindE (NewDefaultTokenizer K (TokenIssuer config) (Audience config)
              (AccessTokenExpireInSeconds config) (RefreshTokenExpireInSeconds config)) (\<lambda>tok.
     bindE (oidcSetting C K config) (\<lambda>oidc.
     ret (tok, oidc)))))"

text \<open>The origins and headers of cross-origin requests, where they are allowed at all.\<close>

definition corsSetting :: "AppConfig \<Rightarrow> (string list \<times> string list) option" where
  "corsSetting config =
     (if \<not> CORSEnabled config then None
      else Some
        (if Domain config \<noteq> [] then AllowedOrigins config @ [''https://'' @ Domain config] else AllowedOrigins config,
         [''Origin'', ''Content-Type'', ''Accept'']))"

text \<open>The middleware in front of every handler; without a bootstrap key there is none.\<close>

definition apiKeySetting :: "crypto \<Rightarrow> AppConfig \<Rightarrow> 'a op \<Rightarrow> (auth_context \<Rightarrow> 'a op) \<Rightarrow> string \<Rightarrow> string \<Rightarrow> 'a op" where
  "apiKeySetting C config unauthorized nxt path key_header =
     (if BootstrapApiKey config = [] then nxt no_context
      else Middleware C (BootstrapApiKey config) (if OidcEnabled config then [IsProviderPath] else [])
             unauthorized nxt path key_header)"

section \<open>The janitor\<close>

text \<open>
  An error is logged and the sweep goes on with the zero that comes with it; the tokens report what
  they removed before their error.
\<close>

definition logged :: "'a \<Rightarrow> 'a op \<Rightarrow> 'a op" where
  "logged otherwise m = attempt m (\<lambda>r. case r of Inl err \<Rightarrow> ret otherwise | Inr x \<Rightarrow> ret x)"

definition reloadKeys :: "pki \<Rightarrow> storage option \<Rightarrow> storage option op" where
  "reloadKeys K r =
     (case r of None \<Rightarrow> ret None
      | Some s \<Rightarrow> logged (Some s) (bindE (storage_ReloadKeys K s) (\<lambda>s'. ret (Some s'))))"

definition deleteExpired :: "storage option \<Rightarrow> nat op" where
  "deleteExpired r =
     (case r of None \<Rightarrow> ret 0
      | Some s \<Rightarrow>
          bindE (logged 0 auth_request_DeleteExpired) (\<lambda>expiredRequests.
          bindE token_DeleteExpired (\<lambda>(expiredTokens, err).
          bindE (logged 0 browser_DeleteExpired) (\<lambda>expiredSessions.
          ret (expiredRequests + expiredTokens + expiredSessions)))))"

record swept =
  sw_sessions :: nat
  sw_logonCodes :: nat
  sw_passwordResets :: nat
  sw_failedAttempts :: nat
  sw_oidc :: nat

text \<open>One turn of the loop of \<open>janitor\<close>: the keys and the storage it goes on with, and the counts.\<close>

definition janitor :: "pki \<Rightarrow> tokenizer \<Rightarrow> storage option \<Rightarrow> (tokenizer \<times> storage option \<times> swept) op" where
  "janitor K tok oidc =
     bindE (logged tok (ReloadKeys K tok)) (\<lambda>tok.
     bindE (reloadKeys K oidc) (\<lambda>oidc.
     bindE (logged 0 session_DeleteExpired) (\<lambda>expiredSessions.
     bindE (logged 0 code_DeleteExpired) (\<lambda>expiredCodes.
     bindE (logged 0 reset_DeleteExpired) (\<lambda>expiredResets.
     bindE (logged 0 (DeleteStale 86400000000000)) (\<lambda>staleAttempts.
     bindE (deleteExpired oidc) (\<lambda>expiredOidc.
     ret (tok, oidc, \<lparr>sw_sessions = expiredSessions, sw_logonCodes = expiredCodes,
       sw_passwordResets = expiredResets, sw_failedAttempts = staleAttempts, sw_oidc = expiredOidc\<rparr>))))))))"

end
