(* ===== verification/Effects.thy ===== *)
theory Effects
  imports AccountHandlers ApiKeyHandlers AuthenticateHandlers ClientHandlers Wiring
begin

text \<open>
  What a service call can do to the database. A call runs statements on the rows of one tenant,
  so a relation that those statements keep is kept by the call. The statements are the
  assumptions of a locale and the calls its lemmas; tenant isolation and the integrity of the
  tables are its instances.
\<close>

section \<open>The statements of a tenant\<close>

text \<open>
  \<open>manage\<close>: api keys and clients may be managed. A linked identity is of an account of the tenant.
\<close>

locale tenant_effects = db_relation R for R :: "database \<Rightarrow> database \<Rightarrow> bool" +
  fixes manage :: bool and t :: string
  assumes account_set: "(\<And>now r. ac_tenant (f now r) = ac_tenant r) \<Longrightarrow> (\<And>now r. ac_id (f now r) = ac_id r) \<Longrightarrow>
      (\<And>now r. ac_email (f now r) = ac_email r) \<Longrightarrow> steps R (exec (account_update_stmt f t e))"
    and account_insert: "Account_TenantID a = t \<Longrightarrow> steps R (exec (account_insert_stmt a v))"
    and reset_upsert: "steps R (reset_Upsert t e h x)"
    and reset_delete: "steps R (reset_Delete t e)"
    and attempt_clear: "steps R (attempt_Clear t e)"
    and attempt_count: "steps R (IncrementAndLock t e m l)"
    and code_upsert: "steps R (code_Upsert t e h x)"
    and code_delete: "steps R (code_Delete t e)"
    and session_upsert: "se_tenant s = t \<Longrightarrow> steps R (exec (session_Upsert_stmt s))"
    and session_rotate: "steps R (exec (session_Rotate_stmt t e c j j' x))"
    and session_delete: "steps R (exec (session_Delete_stmt t e c))"
    and session_delete_all: "steps R (session_DeleteAll t e)"
    and key_insert: "manage \<Longrightarrow> ApiKey_TenantID k = t \<Longrightarrow> steps R (exec (api_key_insert_stmt k h))"
    and key_delete: "manage \<Longrightarrow> steps R (exec (api_key_Delete_stmt C t i))"
    and client_insert: "manage \<Longrightarrow> cl_tenant cl = t \<Longrightarrow> steps R (exec (client_insert_stmt cl))"
    and client_delete: "manage \<Longrightarrow> steps R (exec (client_Delete_stmt t i))"
    and browser_deleted: "(\<And>r. B r \<Longrightarrow> bs_tenant r = t) \<Longrightarrow> R d (snd (delete_browser B d))"
    and refresh_deleted: "(\<And>r. G r \<Longrightarrow> rt_tenant r = t) \<Longrightarrow> R d (snd (delete_refresh G d))"
    and access_deleted: "(\<And>r. A r \<Longrightarrow> at_tenant r = t) \<Longrightarrow> R d (snd (delete_access A d))"
    and request_deleted: "(\<And>r. Q r \<Longrightarrow> rq_tenant r = t) \<Longrightarrow>
      R d (d\<lparr>t_auth_requests := snd (delete_where Q (t_auth_requests d))\<rparr>)"
    and identity_linked: "row \<in> set (t_accounts (db w)) \<Longrightarrow> ac_tenant row = t \<Longrightarrow>
      R (db w) (db (snd (Link (ac_id row) p sub w)))"
begin

lemmas rules = steps_ret steps_throw steps_bindE steps_attempt steps_map_err steps_lift_result steps_time_now
  steps_new_uuid steps_rand_read steps_query steps_with_transaction steps_If steps_option steps_sum steps_prod

subsection \<open>The repositories\<close>

lemma account_set_steps:
  "steps R (SetVerified t e)" "steps R (UpdateVerificationHash t e h)" "steps R (UpdatePasswordHash t e h)"
  "steps R (account_UpdateName t e n)" "steps R (SoftDelete t e)"
  unfolding SetVerified_def UpdateVerificationHash_def UpdatePasswordHash_def account_UpdateName_def SoftDelete_def
    account_update_def
  by (intro rules account_set; simp add: account_setters)+

lemma account_create_steps: "Account_TenantID a = t \<Longrightarrow> steps R (account_create a v)"
  unfolding account_create_def Let_def by (intro rules account_insert) simp

lemma read_steps:
  "steps R (reset_Read t e)" "steps R (attempt_Get t e)" "steps R (code_Read t e)" "steps R (session_Read t e c)"
  "steps R (api_key_ReadAll t)" "steps R (account_read P t n)" "steps R (account_Read t e)" "steps R (readLive t e)"
  "steps R (check_account r)"
  unfolding reset_Read_def attempt_Get_def code_Read_def session_Read_def api_key_ReadAll_def account_Read_def
    account_read_def readLive_def check_account_def
  by (intro rules)+

lemma draw_steps: "steps R (BcryptHash C pw n)" "steps R RandomToken" "steps R (RandomDigits k)"
proof -
  show "steps R (BcryptHash C pw n)" "steps R RandomToken"
    unfolding BcryptHash_def RandomToken_def by (intro rules)+
  have digit: "steps R rand_digit" by (auto simp: steps_def rand_digit_def R_refl split: option.splits)
  show "steps R (RandomDigits k)" by (induction k) (auto intro!: rules digit)
qed

lemma session_steps:
  "se_tenant s = t \<Longrightarrow> steps R (session_Upsert s)" "steps R (session_Rotate t e c j j' x)"
  "steps R (session_Delete t e c)"
  unfolding session_Upsert_def session_Rotate_def session_Delete_def
  by (intro rules session_upsert session_rotate session_delete; simp)+

lemma managed_steps:
  "manage \<Longrightarrow> ApiKey_TenantID k = t \<Longrightarrow> steps R (api_key_Create k h)" "manage \<Longrightarrow> steps R (api_key_Delete C t i)"
  "manage \<Longrightarrow> cl_tenant cl = t \<Longrightarrow> steps R (client_repo_Create C cl)" "manage \<Longrightarrow> steps R (client_repo_Delete t i)"
  unfolding api_key_Create_def api_key_Delete_def client_repo_Create_def client_repo_Delete_def Let_def
  by (intro rules draw_steps key_insert key_delete client_insert client_delete; simp)+

lemma unit_steps: "(\<And>d. R d (snd (f d))) \<Longrightarrow> steps R (exec (\<lambda>now d. unit_stmt (f d)))"
  by (rule steps_exec) (auto simp: unit_stmt_def)

lemma delete_steps:
  "steps R (oidc_DeleteAll t e)" "steps R (DeleteGrants t sub c)" "steps R (browser_Delete C t tok)"
proof -
  have requests: "steps R (exec (\<lambda>now d. Inr ((), d\<lparr>t_auth_requests := snd (delete_where
      (\<lambda>r. rq_tenant r = t \<and> rq_subject r \<in> set (subjects t e d)) (t_auth_requests d))\<rparr>)))"
    by (rule steps_exec) (auto simp del: delete_where_snd intro!: request_deleted)
  show "steps R (oidc_DeleteAll t e)" "steps R (DeleteGrants t sub c)"
    unfolding oidc_DeleteAll_def DeleteAllForEmail_def DeleteGrantsForEmail_def DeleteGrants_def
    by (intro rules requests unit_steps browser_deleted refresh_deleted access_deleted; simp)+
  have "steps R (exec (\<lambda>now d. Inr (delete_browser (\<lambda>r. bs_tenant r = t \<and> bs_token_hash r = Sha256Hex C tok) d)))"
    using browser_deleted [of "\<lambda>r. bs_tenant r = t \<and> bs_token_hash r = Sha256Hex C tok"]
    by (intro steps_exec) (metis snd_conv sum.inject(2))
  then show "steps R (browser_Delete C t tok)"
    unfolding browser_Delete_def repo_exec_def by (intro rules)
qed

lemma revoke_steps: "steps R (revokeSessions (session_revokers b) t e)"
  by (auto simp: session_revokers_def intro!: rules session_delete_all delete_steps)

lemmas op_steps = account_set_steps account_create_steps read_steps draw_steps session_steps managed_steps revoke_steps
  reset_upsert reset_delete attempt_clear attempt_count code_upsert code_delete session_delete_all

subsection \<open>The services\<close>

lemma account_service_steps:
  "steps R (Register C (wired_accounts b n x) t e pw nm)" "steps R (Verify C t e tok)"
  "steps R (ResendVerification C t e)" "steps R (Forgot C (wired_accounts b n x) t e)" "steps R (UpdateName t e nm)"
  "steps R (Reset C (wired_accounts b n x) t e tok pw)" "steps R (UpdatePassword C (wired_accounts b n x) t e cur pw)"
  "steps R (Delete (wired_accounts b n x) t e)"
  unfolding Register_def Verify_def ResendVerification_def Forgot_def UpdateName_def Reset_def UpdatePassword_def Delete_def
    account_Create_def Let_def wired_accounts_sel
  by (intro rules op_steps; simp)+

lemma token_steps:
  "steps R (CreateAccessToken J k a e c)" "steps R (CreateRefreshToken J k a e c)" "steps R (issue J s a e c)"
  "steps R (ValidateAccessToken J k tok)" "steps R (ValidateRefreshToken J k tok)" "steps R (expires_at cl)"
  unfolding issue_def CreateAccessToken_def CreateRefreshToken_def registeredClaims_def ValidateAccessToken_def
    ValidateRefreshToken_def expires_at_def Let_def
  by (intro rules)+

lemma gate_steps:
  "steps R (checkLockout t e)" "steps R (gateLogon t e)" "steps R (countFailure s t e)" "steps R (liveAccount t e)"
  "steps R (readSession t e c)" "steps R (VerifyPassword C s t e pw)"
  unfolding VerifyPassword_def gateLogon_def checkLockout_def countFailure_def liveAccount_def readSession_def
  by (intro rules op_steps)+

lemma authn_steps:
  "steps R (Authenticate C J s t e c pw)" "steps R (Acknowledge J s t pair)" "steps R (Renew J s t tok)"
  "steps R (Revoke t e c)" "steps R (Validate J s t tok)" "steps R (code_Request C l t e)"
  "steps R (code_Authenticate C J l t e c code)"
  unfolding Authenticate_def Acknowledge_def Renew_def Revoke_def Validate_def code_Request_def code_Authenticate_def Let_def
  by (intro rules op_steps gate_steps token_steps; simp)+

lemma apikey_service_steps:
  "manage \<Longrightarrow> steps R (apikeys_Create C t n)" "steps R (apikeys_List t)" "manage \<Longrightarrow> steps R (apikeys_Revoke C t i)"
  unfolding apikeys_Create_def apikeys_List_def apikeys_Revoke_def Let_def
  by (intro rules op_steps; simp)+

subsection \<open>Sign-in with a provider\<close>

lemma findOrCreate_steps: "steps R (findOrCreate C s t e)"
proof -
  have "steps R (case r of Inl err \<Rightarrow> throw err | Inr a \<Rightarrow> ret a)" for r :: "go_error + Account"
    by (intro rules)
  then show ?thesis
    unfolding findOrCreate_def account_CreateVerified_def
    by (intro rules op_steps)
      (auto split: sum.split go_error.split account_error.split intro!: rules op_steps simp: account_template_def)
qed

lemma link_of_found:
  assumes "account_at (db w) t e = Some x"
    and "(if b then SetVerified t e else ret ()) w = (Inr u, w')"
  shows "R (db w') (db (snd (Link (ac_id x) p sub w')))"
proof -
  have "\<exists>y. account_at (db w') t e = Some y \<and> ac_id y = ac_id x"
  proof (cases b)
    case True
    with assms(2) have "SetVerified t e w = (Inr u, w')" by simp
    from SetVerified_Inr(1) [OF this] assms(1) show ?thesis by (simp add: account_setters)
  next
    case False
    with assms show ?thesis by (simp add: ret_def)
  qed
  then obtain y where "y \<in> set (t_accounts (db w'))" "ac_tenant y = t" "ac_id y = ac_id x"
    by (auto simp: account_at_def dest!: select_row_SomeD)
  from identity_linked [OF this(1,2), of p sub] this(3) show ?thesis by simp
qed

lemma social_signin_steps: "steps R (social_signin C s t i)"
proof -
  have "R (db w) (db (snd (social_signin C s t i w)))" for w
  proof -
    obtain r w1 where find: "findOrCreate C s t (id_Email i) w = (r, w1)" by fastforce
    then have one: "R (db w) (db w1)" by (rule stepsD [OF findOrCreate_steps])
    show ?thesis
    proof (cases r)
      case (Inl err)
      with find one show ?thesis by (simp add: social_signin_def bindE_def attempt_def throw_def)
    next
      case (Inr a)
      from findOrCreate_Inr(1) [OF find [unfolded Inr]] obtain x where
        x: "account_at (db w1) t (id_Email i) = Some x" "Account_ID a = ac_id x" by blast
      let ?mark = "if \<not> Account_Verified a then SetVerified t (id_Email i) else ret ()"
      let ?rest = "bindE ?mark (\<lambda>_. Link (Account_ID a) (id_Provider i) (id_Subject i))"
      have run: "social_signin C s t i w = (if Account_Deleted a then throw (AuthnErr AuthenticationError)
         else if \<not> Account_Enabled a then throw (AccountErr (AccountDisabledError (id_Email i))) else ?rest) w1"
        using find Inr by (simp add: social_signin_def bindE_def attempt_def)
      obtain q w2 where mark: "?mark w1 = (q, w2)" by fastforce
      have "steps R ?mark" by (intro rules op_steps)
      then have two: "R (db w1) (db w2)" using mark by (rule stepsD)
      have "R (db w1) (db (snd (?rest w1)))"
      proof (cases q)
        case (Inl err)
        with mark two show ?thesis by (simp add: throw_def bindE_def attempt_def)
      next
        case (Inr u)
        from link_of_found [OF x(1) mark [unfolded Inr]] two
        have "R (db w1) (db (snd (Link (Account_ID a) (id_Provider i) (id_Subject i) w2)))"
          by (metis x(2) R_trans)
        with mark Inr show ?thesis by (simp add: bindE_def attempt_def)
      qed
      with one run R_refl show ?thesis by (auto simp: throw_def intro: R_trans)
    qed
  qed
  then show ?thesis by (simp add: steps_def)
qed

lemma social_steps: "steps R (social_Authenticate C J s t p tok c)"
  unfolding social_Authenticate_def by (intro rules token_steps social_signin_steps)

end

end
