(* ===== verification/Api.thy ===== *)
theory Api
  imports Effects
begin

text \<open>
  The REST api as one function: a call is a route with its decoded request, and is served by its
  handler behind the gate of \<open>src/cmd/an/main.go\<close>. What the whole api keeps is stated here.
\<close>

section \<open>The calls\<close>

text \<open>What the handlers work on: the outside libraries, the configuration, the loaded keys.\<close>

record 'tok api_env =
  env_texts :: error_texts
  env_crypto :: crypto
  env_jwt :: "'tok jwt_lib"
  env_net :: net_lib
  env_pki :: pki
  env_google :: "string \<Rightarrow> string \<Rightarrow> go_error + Identity"
  env_config :: AppConfig
  env_tokenizer :: tokenizer

datatype 'tok api_call =
    PostRegister "string + RegisterAccountRequest"
  | PostVerify "string + VerifyAccountRequest"
  | PostResendVerification "string + ResendVerificationRequest"
  | PostForgot "string + ForgotPasswordRequest"
  | PostReset "string + ResetPasswordRequest"
  | PutPassword "string + UpdatePasswordRequest"
  | PutName "string + UpdateNameRequest"
  | PutDelete "string + DeleteAccountRequest"
  | PostAuthenticate "string + AuthenticateRequest"
  | PostAcknowledge "string + 'tok AcknowledgeRequest"
  | PostRenew "string + 'tok RenewRequest"
  | PutRevoke "string + RevokeRequest"
  | PostValidate "string + 'tok ValidateRequest"
  | PostCodeRequest "string + RequestCodeRequest"
  | PostCodeLogon "string + CodeLogonRequest"
  | PostSocialLogon "string + SocialLogonRequest"
  | PostApiKey "string + CreateApiKeyRequest"
  | PostListApiKeys "string + ListApiKeysRequest"
  | PutRevokeApiKey "string + RevokeApiKeyRequest"
  | PostClient "string + CreateClientRequest"
  | PutDeleteClient "string + DeleteClientRequest"

datatype 'tok body =
    Registered RegisteredAccount
  | VerificationToken ResendVerificationResponse
  | ResetBody ResetToken
  | Pair "'tok Authenticated"
  | Claims ValidateResponse
  | Code IssuedCode
  | Key CreatedApiKey
  | KeyList "ApiKey list"
  | Client CreateClientResponse
  | Empty unit

definition responds :: "('a \<Rightarrow> 'b) \<Rightarrow> 'a response op \<Rightarrow> 'b response op" where
  "responds f m = bindE m (\<lambda>r. ret (map_response f r))"

text \<open>The handler of a call, on the context the gate left.\<close>

definition env_accounts :: "'tok api_env \<Rightarrow> account_service" where
  "env_accounts E = configured_accounts (env_config E)"

definition env_authentication :: "'tok api_env \<Rightarrow> authn_service" where
  "env_authentication E = wired_authentication (env_config E) (env_tokenizer E)"

text \<open>\<open>oidcSetting\<close> mounts the routes of the clients, and returns before it does where the provider is off.\<close>

definition provider_route :: "'tok api_env \<Rightarrow> 'tok body response op \<Rightarrow> 'tok body response op" where
  "provider_route E handler = (if OidcEnabled (env_config E) then handler else ret (RouterAnswer 404))"

fun serve :: "'tok api_env \<Rightarrow> 'tok api_call \<Rightarrow> auth_context \<Rightarrow> 'tok body response op" where
  "serve E (PostRegister b) c = responds Registered (AccountHandler_Register (env_texts E) (env_crypto E) (env_accounts E) c b)"
| "serve E (PostVerify b) c = responds Empty (AccountHandler_Verify (env_texts E) (env_crypto E) c b)"
| "serve E (PostResendVerification b) c = responds VerificationToken (AccountHandler_ResendVerification (env_texts E) (env_crypto E) c b)"
| "serve E (PostForgot b) c = responds ResetBody (AccountHandler_Forgot (env_texts E) (env_crypto E) (env_accounts E) c b)"
| "serve E (PostReset b) c = responds Empty (AccountHandler_Reset (env_texts E) (env_crypto E) (env_accounts E) c b)"
| "serve E (PutPassword b) c = responds Empty (AccountHandler_UpdatePassword (env_texts E) (env_crypto E) (env_accounts E) c b)"
| "serve E (PutName b) c = responds Empty (AccountHandler_UpdateName (env_texts E) c b)"
| "serve E (PutDelete b) c = responds Empty (AccountHandler_Delete (env_texts E) (env_accounts E) c b)"
| "serve E (PostAuthenticate b) c = responds Pair (AuthenticateHandler_Authenticate (env_texts E) (env_crypto E) (env_jwt E) (env_authentication E) c b)"
| "serve E (PostAcknowledge b) c = responds Empty (AuthenticateHandler_Acknowledge (env_texts E) (env_jwt E) (env_authentication E) c b)"
| "serve E (PostRenew b) c = responds Pair (AuthenticateHandler_Renew (env_texts E) (env_jwt E) (env_authentication E) c b)"
| "serve E (PutRevoke b) c = responds Empty (AuthenticateHandler_Revoke (env_texts E) c b)"
| "serve E (PostValidate b) c = responds Claims (AuthenticateHandler_Validate (env_texts E) (env_jwt E) (env_authentication E) c b)"
| "serve E (PostCodeRequest b) c = responds Code (LogonCodeHandler_Request (env_texts E) (env_crypto E) (wired_logon_codes (env_config E) (env_tokenizer E)) c b)"
| "serve E (PostCodeLogon b) c = responds Pair (LogonCodeHandler_Logon (env_texts E) (env_crypto E) (env_jwt E) (wired_logon_codes (env_config E) (env_tokenizer E)) c b)"
| "serve E (PostSocialLogon b) c = responds Pair (SocialHandler_Logon (env_texts E) (env_crypto E) (env_jwt E) (wired_social (env_config E) (env_tokenizer E) (env_google E)) c b)"
| "serve E (PostApiKey b) c = responds Key (ApiKeyHandler_Create (env_texts E) (env_crypto E) c b)"
| "serve E (PostListApiKeys b) c = responds KeyList (ApiKeyHandler_List (env_texts E) c b)"
| "serve E (PutRevokeApiKey b) c = responds Empty (ApiKeyHandler_Revoke (env_texts E) (env_crypto E) c b)"
| "serve E (PostClient b) c = provider_route E (responds Client (ClientHandler_Create (env_texts E) (env_crypto E) (env_net E) (OidcClientID (env_config E)) c b))"
| "serve E (PutDeleteClient b) c = provider_route E (responds Empty (ClientHandler_Delete (env_texts E) c b))"

text \<open>The route of a call.\<close>

fun call_route :: "'tok api_call \<Rightarrow> route" where
  "call_route (PostRegister b) = AccountRoutes ! 0"
| "call_route (PostVerify b) = AccountRoutes ! 1"
| "call_route (PostResendVerification b) = AccountRoutes ! 2"
| "call_route (PostForgot b) = AccountRoutes ! 3"
| "call_route (PostReset b) = AccountRoutes ! 4"
| "call_route (PutPassword b) = AccountRoutes ! 5"
| "call_route (PutName b) = AccountRoutes ! 6"
| "call_route (PutDelete b) = AccountRoutes ! 7"
| "call_route (PostAuthenticate b) = AuthenticateRoutes ! 0"
| "call_route (PostAcknowledge b) = AuthenticateRoutes ! 1"
| "call_route (PostRenew b) = AuthenticateRoutes ! 2"
| "call_route (PutRevoke b) = AuthenticateRoutes ! 3"
| "call_route (PostValidate b) = AuthenticateRoutes ! 4"
| "call_route (PostCodeRequest b) = LogonCodeRoutes ! 0"
| "call_route (PostCodeLogon b) = LogonCodeRoutes ! 1"
| "call_route (PostSocialLogon b) = SocialRoutes ! 0"
| "call_route (PostApiKey b) = ApiKeyRoutes ! 0"
| "call_route (PostListApiKeys b) = ApiKeyRoutes ! 1"
| "call_route (PutRevokeApiKey b) = ApiKeyRoutes ! 2"
| "call_route (PostClient b) = ClientRoutes ! 0"
| "call_route (PutDeleteClient b) = ClientRoutes ! 1"

definition call_path :: "'tok api_call \<Rightarrow> string" where
  "call_path call = fst (snd (call_route call))"

text \<open>The tenant a call names in its request.\<close>

definition named :: "('r \<Rightarrow> string) \<Rightarrow> string + 'r \<Rightarrow> string" where
  "named tenantID b = (case b of Inl _ \<Rightarrow> [] | Inr rq \<Rightarrow> tenantID rq)"

fun call_tenant :: "'tok api_call \<Rightarrow> string" where
  "call_tenant (PostRegister b) = named RegisterAccount_TenantID b"
| "call_tenant (PostVerify b) = named VerifyAccount_TenantID b"
| "call_tenant (PostResendVerification b) = named ResendVerification_TenantID b"
| "call_tenant (PostForgot b) = named ForgotPassword_TenantID b"
| "call_tenant (PostReset b) = named ResetPassword_TenantID b"
| "call_tenant (PutPassword b) = named UpdatePassword_TenantID b"
| "call_tenant (PutName b) = named UpdateName_TenantID b"
| "call_tenant (PutDelete b) = named DeleteAccount_TenantID b"
| "call_tenant (PostAuthenticate b) = named Authenticate_TenantID b"
| "call_tenant (PostAcknowledge b) = named Acknowledge_TenantID b"
| "call_tenant (PostRenew b) = named Renew_TenantID b"
| "call_tenant (PutRevoke b) = named Revoke_TenantID b"
| "call_tenant (PostValidate b) = named Validate_TenantID b"
| "call_tenant (PostCodeRequest b) = named RequestCode_TenantID b"
| "call_tenant (PostCodeLogon b) = named CodeLogon_TenantID b"
| "call_tenant (PostSocialLogon b) = named SocialLogon_TenantID b"
| "call_tenant (PostApiKey b) = named CreateApiKey_TenantID b"
| "call_tenant (PostListApiKeys b) = named ListApiKeys_TenantID b"
| "call_tenant (PutRevokeApiKey b) = named RevokeApiKey_TenantID b"
| "call_tenant (PostClient b) = named CreateClient_TenantID b"
| "call_tenant (PutDeleteClient b) = named DeleteClient_TenantID b"

text \<open>A request: the call, and the key it carries.\<close>

definition request :: "'tok api_env \<Rightarrow> 'tok api_call \<Rightarrow> string \<Rightarrow> 'tok body response op" where
  "request E call key =
     apiKeySetting (env_crypto E) (env_config E) unauthorized (serve E call) (call_path call) key"

section \<open>Facts\<close>

lemma call_route_api: "call_route call \<in> set api_routes"
  by (cases call) (simp_all add: api_routes_def AccountRoutes_def AuthenticateRoutes_def LogonCodeRoutes_def
      SocialRoutes_def ApiKeyRoutes_def ClientRoutes_def)

lemma call_path_guarded:
  "call_path call \<noteq> ''/health'' \<and> take 13 (call_path call) \<noteq> ''/.well-known/'' \<and> \<not> IsProviderPath (call_path call)"
proof -
  obtain m p h where "call_route call = (m, p, h)" by (cases "call_route call") auto
  with api_route_guarded [of m p h] call_route_api [of call] show ?thesis by (simp add: call_path_def)
qed

text \<open>What becomes of a request: refused, or served on the context its key gives.\<close>

lemma request_cases:
  assumes "request E call key w = (r, w')"
  obtains (refused) w1 where "BootstrapApiKey (env_config E) \<noteq> []" "key \<noteq> BootstrapApiKey (env_config E)"
      "db w1 = db w" "unauthorized w1 = (r, w')"
  | (ungated) "BootstrapApiKey (env_config E) = []" "serve E call no_context w = (r, w')"
  | (root) "BootstrapApiKey (env_config E) \<noteq> []" "key = BootstrapApiKey (env_config E)"
      "serve E call \<lparr>contextTenant = None, contextRoot = True\<rparr> w = (r, w')"
  | (tenant) t w1 where "BootstrapApiKey (env_config E) \<noteq> []" "key \<noteq> BootstrapApiKey (env_config E)"
      "apikeys_Authenticate (env_crypto E) key w = (Inr t, w1)" "db w1 = db w"
      "serve E call \<lparr>contextTenant = Some t, contextRoot = False\<rparr> w1 = (r, w')"
proof (cases "BootstrapApiKey (env_config E) = []")
  case True
  with assms ungated show ?thesis by (simp add: request_def apiKeySetting_def)
next
  case False
  let ?public = "if OidcEnabled (env_config E) then [IsProviderPath] else []"
  have gate: "request E call key = Middleware (env_crypto E) (BootstrapApiKey (env_config E)) ?public unauthorized
      (serve E call) (call_path call) key"
    using False by (simp add: request_def apiKeySetting_def)
  have guarded: "\<not> list_ex (\<lambda>f. f (call_path call)) ?public" using call_path_guarded [of call] by simp
  note cases = Middleware_cases [OF _ _ guarded, of key "BootstrapApiKey (env_config E)" "env_crypto E" unauthorized
      "serve E call" w, folded gate]
  show ?thesis
  proof (cases "key = BootstrapApiKey (env_config E)")
    case True
    with cases call_path_guarded [of call] False assms root show ?thesis by simp
  next
    case other: False
    with cases call_path_guarded [of call] assms refused [OF False other] tenant [OF False other] show ?thesis by auto
  qed
qed

subsection \<open>What a request can do\<close>

context tenant_effects
begin

lemma responds_steps: "steps R m \<Longrightarrow> steps R (responds f m)"
  unfolding responds_def by (intro rules)

lemma provider_route_steps: "steps R m \<Longrightarrow> steps R (provider_route E m)"
  unfolding provider_route_def by (intro rules)

lemma answer_steps: "steps R m \<Longrightarrow> steps R (answer p s m)"
  unfolding answer_def by (intro rules)

lemma bound_steps: "(\<And>rq. b = Inr rq \<Longrightarrow> steps R (k rq)) \<Longrightarrow> steps R (bound b k)"
  unfolding bound_def by (cases b) (auto intro: rules)

lemma forbidden_steps: "steps R forbidden" "steps R clientForbidden"
  unfolding forbidden_def clientForbidden_def by (intro rules)+

lemma serve_steps:
  assumes "EffectiveTenant c (call_tenant call) = t" and "IsRoot c \<Longrightarrow> manage"
  shows "steps R (serve E call c)"
  using assms
  by (cases call; simp add: env_accounts_def env_authentication_def configured_accounts_def
      AccountHandler_Register_def AccountHandler_Verify_def AccountHandler_ResendVerification_def
      AccountHandler_Forgot_def AccountHandler_Reset_def AccountHandler_UpdatePassword_def
      AccountHandler_UpdateName_def AccountHandler_Delete_def AuthenticateHandler_Authenticate_def
      AuthenticateHandler_Acknowledge_def AuthenticateHandler_Renew_def AuthenticateHandler_Revoke_def
      AuthenticateHandler_Validate_def LogonCodeHandler_Request_def LogonCodeHandler_Logon_def
      SocialHandler_Logon_def ApiKeyHandler_Create_def ApiKeyHandler_List_def ApiKeyHandler_Revoke_def
      ClientHandler_Create_def ClientHandler_Delete_def;
    intro conjI impI provider_route_steps responds_steps bound_steps forbidden_steps; simp add: named_def;
    intro conjI impI answer_steps account_service_steps authn_steps social_steps apikey_service_steps managed_steps rules; simp add: new_client_def)

end

section \<open>Samples\<close>

text \<open>Two tenants, an account of one address in each, and an api key of one of them.\<close>

definition sample_env :: "sample_token api_env" where
  "sample_env =
     \<lparr>env_texts = \<lparr>rfc3339 = (\<lambda>t. ''now''), driver_text = (\<lambda>e. ''ERROR'')\<rparr>, env_crypto = sample_crypto,
      env_jwt = sample_jwt,
      env_net = \<lparr>url_Parse = (\<lambda>u. Inr \<lparr>url_Scheme = ''https'', url_Host = ''h'', url_Hostname = ''h'', url_Query = []\<rparr>),
        ParseIP_IsLoopback = (\<lambda>h. None), query_Set = (\<lambda>u k v. u), url_String = (\<lambda>u. [])\<rparr>,
      env_pki = sample_pki, env_google = (\<lambda>i tok. Inl (PlainErr ''off'')),
      env_config = read_config [''BOOTSTRAP_API_KEY'' \<mapsto> ''root''], env_tokenizer = sample_tokenizer\<rparr>"

definition sample_api_key :: string where "sample_api_key = ''ank_0123456789ab''"

definition sample_tenants_db :: database where
  "sample_tenants_db = empty_db
     \<lparr>t_accounts := [sample_account, sample_account\<lparr>ac_id := ''u9'', ac_tenant := ''acme''\<rparr>],
      t_api_keys := [\<lparr>ak_id = ''k1'', ak_tenant = ''acme'', ak_name = ''ci'', ak_prefix = ''ank_01234567'',
        ak_hash = hashToken sample_crypto sample_api_key, ak_created = Instant 0\<rparr>]\<rparr>"

definition sample_delete_call :: "sample_token api_call" where
  "sample_delete_call = PutDelete (Inr \<lparr>DeleteAccount_TenantID = ''default'', DeleteAccount_Email = ''a@b.co''\<rparr>)"

end
