(* ===== verification/OidcGrants.thy ===== *)
theory OidcGrants
  imports OidcStorage
begin

text \<open>
  The properties of the OIDC storage: the invariant of its tables, single-use codes, rotation
  and revocation of grants, claims, and the tenant check of every lookup.
\<close>

section \<open>The invariant of the OIDC tables\<close>

text \<open>
  An authorization code stands for one request, ids are unique, an access token minted with a
  grant lives no longer than the grant, and a browser session has an account.
\<close>

definition codes_unique :: "auth_request_row list \<Rightarrow> bool" where
  "codes_unique t \<longleftrightarrow> (\<forall>x\<in>set t. \<forall>y\<in>set t. rq_code_hash x \<noteq> None \<and> rq_code_hash x = rq_code_hash y \<longrightarrow> x = y)"

definition grants_ok :: "database \<Rightarrow> bool" where
  "grants_ok d \<longleftrightarrow>
     distinct (map rq_id (t_auth_requests d)) \<and> codes_unique (t_auth_requests d) \<and>
     distinct (map rt_token_hash (t_refresh_tokens d)) \<and> distinct (map rt_id (t_refresh_tokens d)) \<and>
     (\<forall>a\<in>set (t_access_tokens d). \<forall>u. at_refresh_token a = Some u \<longrightarrow> u \<in> rt_id ` set (t_refresh_tokens d)) \<and>
     (\<forall>b\<in>set (t_browser_sessions d). bs_account b \<in> ac_id ` set (t_accounts d))"

interpretation granting: db_relation "\<lambda>d d'. grants_ok d \<longrightarrow> grants_ok d'"
  by unfold_locales auto

lemma codes_unique_subset: "codes_unique t \<Longrightarrow> set t' \<subseteq> set t \<Longrightarrow> codes_unique t'"
  unfolding codes_unique_def by blast

text \<open>Rows inserted under the constraints, and rows removed with what hangs on them.\<close>

lemma grants_ok_insert_request:
  "grants_ok d \<Longrightarrow> insert_row auth_request_conflict r (t_auth_requests d) = Inr t \<Longrightarrow>
   grants_ok (d\<lparr>t_auth_requests := t\<rparr>)"
  by (auto simp: grants_ok_def codes_unique_def insert_row_Inr auth_request_conflict_def)

lemma update_checked_keys:
  assumes "distinct (map rq_id t)" and "codes_unique t" and "\<And>r. rq_id (f r) = rq_id r"
    and up: "update_checked auth_request_conflict (\<lambda>r. rq_tenant r = tenant \<and> rq_id r = u) f t = Inr (n, t')"
  shows "distinct (map rq_id t') \<and> codes_unique t'"
proof -
  let ?P = "\<lambda>r. rq_tenant r = tenant \<and> rq_id r = u"
  have t': "t' = map (\<lambda>r. if ?P r then f r else r) t" and ok: "\<And>x y. x \<in> set t \<Longrightarrow> y \<in> set t \<Longrightarrow> ?P x \<Longrightarrow> \<not> ?P y \<Longrightarrow>
      \<not> auth_request_conflict y (f x)" using up by (auto simp: update_checked_Inr update_where_def)
  have one: "x = y" if "x \<in> set t" "y \<in> set t" "?P x" "?P y" for x y
    using assms(1) that by (auto simp: distinct_map dest: inj_onD)
  have "codes_unique t'"
    unfolding codes_unique_def
  proof (intro ballI impI)
    fix x' y' assume "x' \<in> set t'" "y' \<in> set t'" and same: "rq_code_hash x' \<noteq> None \<and> rq_code_hash x' = rq_code_hash y'"
    then obtain x y where x: "x \<in> set t" "x' = (if ?P x then f x else x)" and y: "y \<in> set t" "y' = (if ?P y then f y else y)"
      by (auto simp: t')
    have clash: "auth_request_conflict y' x'" "auth_request_conflict x' y'"
      using same by (auto simp: auth_request_conflict_def)
    show "x' = y'"
    proof (cases "?P x \<longleftrightarrow> ?P y")
      case True
      then show ?thesis
      proof (cases "?P x")
        case True
        with \<open>?P x \<longleftrightarrow> ?P y\<close> have "?P y" by simp
        with True one [OF x(1) y(1)] x(2) y(2) show ?thesis by simp
      next
        case False
        with \<open>?P x \<longleftrightarrow> ?P y\<close> have "\<not> ?P y" by simp
        then have "y' = y" using y(2) by auto
        moreover have "x' = x" using False x(2) by auto
        ultimately show ?thesis using same assms(2) x(1) y(1) unfolding codes_unique_def by blast
      qed
    next
      case False
      with ok [OF x(1) y(1)] ok [OF y(1) x(1)] clash x(2) y(2) show ?thesis by (auto split: if_splits)
    qed
  qed
  moreover have "distinct (map rq_id t')"
    using auth_request_pk.update_distinct [OF assms(1), of f ?P] assms(3) by (simp add: t')
  ultimately show ?thesis by simp
qed

lemma grants_ok_delete_request: "grants_ok d \<Longrightarrow> grants_ok (d\<lparr>t_auth_requests := filter Q (t_auth_requests d)\<rparr>)"
  by (auto simp: grants_ok_def distinct_map_filter_key elim!: codes_unique_subset)

lemma grants_ok_delete_access: "grants_ok d \<Longrightarrow> grants_ok (d\<lparr>t_access_tokens := filter Q (t_access_tokens d)\<rparr>)"
  by (auto simp: grants_ok_def)

lemma grants_ok_delete_browser: "grants_ok d \<Longrightarrow> grants_ok (d\<lparr>t_browser_sessions := filter Q (t_browser_sessions d)\<rparr>)"
  by (auto simp: grants_ok_def)

lemma grants_ok_delete_refresh: "grants_ok d \<Longrightarrow> grants_ok (snd (delete_refresh P d))"
  unfolding grants_ok_def delete_refresh_simps
  by (simp add: distinct_map_filter_key) (auto simp: cascaded_def, blast)

lemma grants_ok_insert_refresh:
  "grants_ok d \<Longrightarrow> insert_row refresh_token_conflict r (t_refresh_tokens d) = Inr t \<Longrightarrow>
   grants_ok (d\<lparr>t_refresh_tokens := t\<rparr>)"
  by (fastforce simp: grants_ok_def insert_row_Inr refresh_token_conflict_def)

lemma preserves_request_insert: "preserves grants_ok (exec (auth_request_insert_stmt r))"
  by (rule granting.steps_exec) (auto simp: stmt_defs intro: grants_ok_insert_request)

lemma preserves_request_set:
  "(\<And>now r. rq_id (f now r) = rq_id r) \<Longrightarrow>
   preserves grants_ok (exec (auth_request_set_stmt C t i f))"
proof (rule granting.steps_exec)
  fix now d x d'
  assume key: "\<And>now r. rq_id (f now r) = rq_id r" and "auth_request_set_stmt C t i f now d = Inr (x, d')"
  then obtain u n t' where up: "update_checked auth_request_conflict (\<lambda>r. rq_tenant r = t \<and> rq_id r = u) (f now) (t_auth_requests d) = Inr (n, t')"
    and d': "d' = d\<lparr>t_auth_requests := t'\<rparr>"
    unfolding auth_request_set_stmt_def by auto
  show "grants_ok d \<longrightarrow> grants_ok d'"
    using update_checked_keys [OF _ _ key up] by (simp add: grants_ok_def d')
qed

lemma grants_ok_insert_access:
  "grants_ok d \<Longrightarrow> insert_row access_token_conflict a (t_access_tokens d) = Inr t \<Longrightarrow>
   refresh_exists (at_refresh_token a) d \<Longrightarrow> grants_ok (d\<lparr>t_access_tokens := t\<rparr>)"
  by (auto simp: grants_ok_def insert_row_Inr refresh_exists_def list_ex_iff)

lemma preserves_access_insert: "preserves grants_ok (exec (access_insert_stmt C a))"
  by (rule granting.steps_exec) (auto simp: access_insert_Inr intro: grants_ok_insert_access)

lemma preserves_refresh_insert: "preserves grants_ok (exec (refresh_insert_stmt g h))"
  by (rule granting.steps_exec) (auto simp: stmt_defs intro: grants_ok_insert_refresh)

lemma grants_ok_insert_browser:
  "grants_ok d \<Longrightarrow> insert_row browser_session_conflict b (t_browser_sessions d) = Inr t \<Longrightarrow>
   list_ex (\<lambda>a. ac_id a = bs_account b) (t_accounts d) \<Longrightarrow> grants_ok (d\<lparr>t_browser_sessions := t\<rparr>)"
  by (auto simp: grants_ok_def insert_row_Inr list_ex_iff intro: rev_image_eqI)

lemma preserves_browser_insert: "preserves grants_ok (exec (browser_insert_stmt C b h))"
  by (rule granting.steps_exec) (auto simp: browser_insert_Inr intro: grants_ok_insert_browser)

lemma preserves_delete:
  assumes "\<And>now d. grants_ok d \<Longrightarrow> grants_ok (snd (f now d))"
  shows "preserves grants_ok (exec (\<lambda>now d. Inr (f now d)))"
    and "preserves grants_ok (exec (\<lambda>now d. unit_stmt (f now d)))"
proof -
  show "preserves grants_ok (exec (\<lambda>now d. Inr (f now d)))"
    using assms by (intro granting.steps_exec) (metis snd_conv sum.inject(2))
  show "preserves grants_ok (exec (\<lambda>now d. unit_stmt (f now d)))"
    using assms by (intro granting.steps_exec) (simp only: unit_stmt_Inr, auto)
qed

section \<open>Every call keeps the invariant\<close>

text \<open>
  The calls that write: the library's through the storage, the login handler's and the
  janitor's on the stores, the account service's through the revoker.
\<close>

datatype oidc_call =
    CallAuthorize authorize_request
  | CallAuthenticate string string instant "string list"
  | CallSaveCode string string
  | CallDeleteRequest string
  | CallAccessToken token_request
  | CallTokens token_request string
  | CallTerminate string string
  | CallRevoke string string string
  | CallBrowserCreate BrowserSession
  | CallBrowserDelete string string
  | CallBrowserDeleteAll string string
  | CallRevokeAccount string string
  | CallExpireRequests
  | CallExpireTokens
  | CallExpireBrowsers

definition done_with :: "'a op \<Rightarrow> unit op" where
  "done_with m = bindE m (\<lambda>_. ret ())"

fun oidc_run :: "crypto \<Rightarrow> op_lib \<Rightarrow> storage \<Rightarrow> oidc_context \<Rightarrow> oidc_call \<Rightarrow> unit op" where
  "oidc_run C L s ctx (CallAuthorize rq) = done_with (CreateAuthRequest s ctx rq)"
| "oidc_run C L s ctx (CallAuthenticate i subject authTime amr) = AuthenticateRequest C ctx i subject authTime amr"
| "oidc_run C L s ctx (CallSaveCode i code) = SaveAuthCode C ctx i code"
| "oidc_run C L s ctx (CallDeleteRequest i) = DeleteAuthRequest C ctx i"
| "oidc_run C L s ctx (CallAccessToken rq) = done_with (storage_CreateAccessToken C s ctx rq)"
| "oidc_run C L s ctx (CallTokens rq cur) = done_with (CreateAccessAndRefreshTokens C s ctx rq cur)"
| "oidc_run C L s ctx (CallTerminate subject clientID) = TerminateSession ctx subject clientID"
| "oidc_run C L s ctx (CallRevoke i subject clientID) = RevokeToken C L ctx i subject clientID"
| "oidc_run C L s ctx (CallBrowserCreate b) = done_with (browser_Create C b)"
| "oidc_run C L s ctx (CallBrowserDelete t token) = browser_Delete C t token"
| "oidc_run C L s ctx (CallBrowserDeleteAll t i) = browser_DeleteAll C t i"
| "oidc_run C L s ctx (CallRevokeAccount t e) = oidc_DeleteAll t e"
| "oidc_run C L s ctx CallExpireRequests = done_with auth_request_DeleteExpired"
| "oidc_run C L s ctx CallExpireTokens = done_with token_DeleteExpired"
| "oidc_run C L s ctx CallExpireBrowsers = done_with browser_DeleteExpired"

lemma reads_TenantFrom: "reads (TenantFrom ctx)"
  unfolding TenantFrom_def by (intro reading.steps_option reading.steps_If reading.steps_throw reading.steps_ret)

lemma reads_live_row: "reads (live_row t nf tenant expires row)"
  unfolding live_row_def
  by (intro reading.steps_option reading.steps_If reading.steps_throw reading.steps_ret reading.steps_bindE
      reading.steps_time_now)

lemma reads_lookup: "reads (exec (\<lambda>now d. at_uuid C i (\<lambda>u. Inr (f u d, d))))"
  by (rule reading.steps_exec) auto

lemma reads_readRefreshToken:
  "reads (repo_ReadRefreshToken C t token)" "reads (repo_ReadRefreshTokenByID C t i)"
  unfolding repo_ReadRefreshToken_def repo_ReadRefreshTokenByID_def readRefreshToken_def
  by (intro reading.steps_If reading.steps_throw reading.steps_bindE reading.steps_query reads_lookup reads_live_row
      reading.steps_ret)+

lemma reads_grants: "reads m \<Longrightarrow> preserves grants_ok m"
  by (simp add: steps_def)

lemma preserves_uuid_delete:
  "(\<And>u d. grants_ok d \<Longrightarrow> grants_ok (snd (f u d))) \<Longrightarrow>
   preserves grants_ok (exec (\<lambda>now d. at_uuid C i (\<lambda>u. Inr (f u d))))"
  "(\<And>u d. grants_ok d \<Longrightarrow> grants_ok (snd (f u d))) \<Longrightarrow>
   preserves grants_ok (exec (\<lambda>now d. at_uuid C i (\<lambda>u. unit_stmt (f u d))))"
  by (rule granting.steps_exec; auto; metis snd_conv)+

lemma grants_ok_snd:
  "grants_ok d \<Longrightarrow> grants_ok (snd (delete_access P d))"
  "grants_ok d \<Longrightarrow> grants_ok (snd (delete_browser B d))"
  by (simp_all add: grants_ok_delete_access grants_ok_delete_browser)

lemma preserves_request_delete:
  "preserves grants_ok (exec (auth_request_Delete_stmt C t i))"
  "preserves grants_ok (exec auth_request_DeleteExpired_stmt)"
  "preserves grants_ok (exec (\<lambda>now d. Inr ((), d\<lparr>t_auth_requests := snd (delete_where (Q d) (t_auth_requests d))\<rparr>)))"
  by (rule granting.steps_exec; auto simp: stmt_defs delete_where_def intro: grants_ok_delete_request)+

lemmas grant_statements = preserves_request_insert preserves_request_set preserves_access_insert
  preserves_refresh_insert preserves_browser_insert preserves_request_delete
  preserves_delete [OF grants_ok_snd(1)] preserves_delete [OF grants_ok_snd(2)]
  preserves_delete [OF grants_ok_delete_refresh]
  preserves_uuid_delete [OF grants_ok_snd(1)] preserves_uuid_delete [OF grants_ok_snd(2)]
  preserves_uuid_delete [OF grants_ok_delete_refresh]

lemmas grant_reads = reads_grants [OF reads_TenantFrom] reads_grants [OF reads_readRefreshToken(1)]
  reads_grants [OF reads_readRefreshToken(2)]

lemmas granting_rules = granting.steps_bindE granting.steps_attempt granting.steps_map_err granting.steps_If
  granting.steps_option granting.steps_sum granting.steps_prod granting.steps_ret granting.steps_throw
  granting.steps_time_now granting.steps_new_uuid granting.steps_rand_read grant_statements grant_reads

lemma keeps_update: "preserves grants_ok (exec stmt) \<Longrightarrow> preserves grants_ok (auth_request_update stmt i)"
  unfolding auth_request_update_def by (intro granting_rules)

lemma keeps_DeleteRefreshToken: "preserves grants_ok (repo_DeleteRefreshToken C t i)"
  unfolding repo_DeleteRefreshToken_def repo_exec_def by (intro granting_rules)

lemma keeps_DeleteAccessToken: "preserves grants_ok (repo_DeleteAccessToken C t i)"
  unfolding repo_DeleteAccessToken_def repo_exec_def by (intro granting_rules)

lemma keeps_createAccessToken: "preserves grants_ok (createAccessToken C s t rq i)"
  unfolding createAccessToken_def repo_CreateAccessToken_def Let_def by (intro granting_rules)

lemma keeps_createRefreshToken: "preserves grants_ok (createRefreshToken C s t rq)"
  unfolding createRefreshToken_def repo_CreateRefreshToken_def Let_def RandomToken_def by (intro granting_rules)

lemma keeps_request_gone: "preserves grants_ok (request_gone r)"
  unfolding request_gone_def
  by (auto intro!: granting_rules split: sum.splits go_error.splits oidc_error.splits)

lemma keeps_access_revoked: "preserves grants_ok (access_revoked L r)"
  unfolding access_revoked_def
  by (auto intro!: granting_rules split: sum.splits go_error.splits oidc_error.splits)

lemma keeps_spent_grant: "preserves grants_ok (spent_grant C t rq cur)"
  unfolding spent_grant_def by (cases rq) (auto intro: granting_rules)

lemmas simple_call_defs = done_with_def CreateAuthRequest_def auth_request_Create_def Let_def
  storage_CreateAccessToken_def TerminateSession_def DeleteGrants_def browser_Delete_def repo_exec_def
  browser_DeleteAll_def oidc_DeleteAll_def DeleteAllForEmail_def DeleteGrantsForEmail_def
  auth_request_DeleteExpired_def token_DeleteExpired_def browser_DeleteExpired_def

lemma oidc_run_keeps: "preserves grants_ok (oidc_run C L s ctx call)"
proof (cases call)
  case (CallBrowserCreate b)
  then show ?thesis
    by (simp only: oidc_run.simps done_with_def browser_Create_def RandomToken_def Let_def) (intro granting_rules)
next
  case (CallRevoke i subject clientID)
  then show ?thesis
    by (simp only: oidc_run.simps RevokeToken_def)
      (intro granting_rules keeps_DeleteRefreshToken keeps_DeleteAccessToken keeps_access_revoked)
next
  case (CallTokens rq cur)
  then show ?thesis
    by (simp only: oidc_run.simps done_with_def CreateAccessAndRefreshTokens_def)
      (intro granting_rules keeps_DeleteRefreshToken keeps_createAccessToken keeps_createRefreshToken keeps_spent_grant)
next
  case (CallAuthenticate i subject authTime amr)
  then show ?thesis
    by (simp only: oidc_run.simps AuthenticateRequest_def auth_request_Authenticate_def auth_request_update_def)
      (intro granting_rules, simp add: set_authenticated_def)
next
  case (CallSaveCode i code)
  then show ?thesis
    by (simp only: oidc_run.simps SaveAuthCode_def auth_request_SaveCode_def auth_request_update_def)
      (intro granting_rules, simp add: set_code_def)
next
  case (CallDeleteRequest i)
  then show ?thesis
    by (simp only: oidc_run.simps DeleteAuthRequest_def auth_request_Delete_def)
      (intro granting_rules keeps_update keeps_request_gone)
next
  case (CallAuthorize rq)
  then show ?thesis by (simp only: oidc_run.simps simple_call_defs) (intro granting_rules keeps_createAccessToken)
next
  case (CallAccessToken rq)
  then show ?thesis by (simp only: oidc_run.simps simple_call_defs) (intro granting_rules keeps_createAccessToken)
next
  case (CallTerminate subject clientID)
  then show ?thesis by (simp only: oidc_run.simps simple_call_defs) (intro granting_rules keeps_createAccessToken)
next
  case (CallBrowserDelete t token)
  then show ?thesis by (simp only: oidc_run.simps simple_call_defs) (intro granting_rules keeps_createAccessToken)
next
  case (CallBrowserDeleteAll t i)
  then show ?thesis by (simp only: oidc_run.simps simple_call_defs) (intro granting_rules keeps_createAccessToken)
next
  case (CallRevokeAccount t e)
  then show ?thesis by (simp only: oidc_run.simps simple_call_defs) (intro granting_rules keeps_createAccessToken)
next
  case CallExpireRequests
  then show ?thesis by (simp only: oidc_run.simps simple_call_defs) (intro granting_rules keeps_createAccessToken)
next
  case CallExpireTokens
  then show ?thesis by (simp only: oidc_run.simps simple_call_defs) (intro granting_rules keeps_createAccessToken)
next
  case CallExpireBrowsers
  then show ?thesis by (simp only: oidc_run.simps simple_call_defs) (intro granting_rules keeps_createAccessToken)
qed

text \<open>
  The databases the calls can reach from an empty provider, each call in whatever world it is
  made (clocks, random bytes, failures), while accounts are registered beside them.
\<close>

inductive oidc_reach :: "crypto \<Rightarrow> op_lib \<Rightarrow> storage \<Rightarrow> database \<Rightarrow> bool" for C L s where
  reach_empty: "oidc_reach C L s empty_db"
| reach_account: "oidc_reach C L s d \<Longrightarrow> oidc_reach C L s (d\<lparr>t_accounts := t_accounts d @ [a]\<rparr>)"
| reach_call: "oidc_reach C L s (db w) \<Longrightarrow> oidc_reach C L s (db (snd (oidc_run C L s ctx call w)))"

lemma grants_ok_empty: "grants_ok empty_db"
  by (simp add: grants_ok_def empty_db_def codes_unique_def)

lemma grants_ok_account: "grants_ok d \<Longrightarrow> grants_ok (d\<lparr>t_accounts := t_accounts d @ [a]\<rparr>)"
  by (auto simp: grants_ok_def)

lemma reach_grants_ok: "oidc_reach C L s d \<Longrightarrow> grants_ok d"
proof (induction rule: oidc_reach.induct)
  case reach_empty
  show ?case by (rule grants_ok_empty)
next
  case (reach_account d a)
  then show ?case by (simp add: grants_ok_account)
next
  case (reach_call w ctx call)
  then show ?case using oidc_run_keeps [of C L s ctx call] by (simp add: steps_def)
qed

text \<open>
  The tables of the provider stay consistent under every sequence of calls, failed ones
  included: a code or a refresh token never stands for two rows, an access token minted with a
  grant is gone when the grant is (deletes cascade), and a browser session has its account.
\<close>

theorem oidc_tables_stay_consistent: "oidc_reach C L s d \<Longrightarrow> grants_ok d"
  by (rule reach_grants_ok)

section \<open>A provider to evaluate\<close>

definition sample_storage :: storage where
  "sample_storage = \<lparr>clients = StaticClientRegistry None, loginURL = (\<lambda>t i. ''/t/'' @ t @ ''/login?id='' @ i),
     authCodeExpiry = 600, accessExpiry = 300, refreshExpiry = 900, signingKey = None, keySet = None\<rparr>"

definition sample_lib :: op_lib where
  "sample_lib = \<lparr>ErrInvalidRefreshToken = PlainErr ''invalid refresh token'', ErrServerError = PlainErr\<rparr>"

definition sample_authorize :: authorize_request where
  "sample_authorize = \<lparr>az_ClientID = ''shop'', az_RedirectURI = ''https://shop/cb'', az_ResponseType = ''code'',
     az_ResponseMode = [], az_Scopes = [''openid'', ''email''], az_State = ''s'', az_Nonce = ''n'',
     az_CodeChallenge = [], az_CodeChallengeMethod = []\<rparr>"

definition sample_user :: account_row where
  "sample_user = \<lparr>ac_id = ''u1'', ac_tenant = ''acme'', ac_email = ''a@b.co'', ac_password_hash = ''hunter22'',
     ac_verified = True, ac_verification_hash = None, ac_enabled = True, ac_deleted = False,
     ac_created = Instant 0, ac_modified = Instant 0, ac_name = Some ''Ann''\<rparr>"

text \<open>Signed in with a code issued, not yet exchanged.\<close>

definition sample_authorized :: "world \<Rightarrow> world" where
  "sample_authorized w =
     snd (SaveAuthCode sample_crypto (Some ''acme'') ''q1'' ''code''
       (snd (AuthenticateRequest sample_crypto (Some ''acme'') ''q1'' ''u1'' (Instant 7) [''pwd'']
         (snd (CreateAuthRequest sample_storage (Some ''acme'') sample_authorize w)))))"

definition sample_login_world :: world where
  "sample_login_world = sample_world (empty_db\<lparr>t_accounts := [sample_user]\<rparr>) 7 [''q1'', ''g1'', ''a1'', ''g2'', ''a2'']"

lemma reach_sample_account: "oidc_reach C L s (empty_db\<lparr>t_accounts := [a]\<rparr>)"
  using reach_account [OF reach_empty, of C L s a] by (simp add: empty_db_def)

lemma reach_authorized:
  assumes "oidc_reach sample_crypto L sample_storage (db w0)"
  shows "oidc_reach sample_crypto L sample_storage (db (sample_authorized w0))"
proof -
  let ?w0 = "w0"
  let ?w1 = "snd (CreateAuthRequest sample_storage (Some ''acme'') sample_authorize ?w0)"
  let ?w2 = "snd (AuthenticateRequest sample_crypto (Some ''acme'') ''q1'' ''u1'' (Instant 7) [''pwd''] ?w1)"
  from reach_call [OF assms, of "Some ''acme''" "CallAuthorize sample_authorize"]
  have "oidc_reach sample_crypto L sample_storage (db ?w1)"
    by (simp add: done_with_def bindE_def attempt_def ret_def throw_def split: prod.splits sum.splits)
  from reach_call [OF this, of "Some ''acme''" "CallAuthenticate ''q1'' ''u1'' (Instant 7) [''pwd'']"]
  have "oidc_reach sample_crypto L sample_storage (db ?w2)" by simp
  from reach_call [OF this, of "Some ''acme''" "CallSaveCode ''q1'' ''code''"]
  show ?thesis by (simp add: sample_authorized_def)
qed

lemma reach_sample_authorized: "oidc_reach sample_crypto L sample_storage (db (sample_authorized sample_login_world))"
  by (rule reach_authorized) (simp add: sample_login_world_def reach_sample_account)

theorem oidc_tables_stay_consistent_witness:
  "grants_ok (db (sample_authorized sample_login_world)) \<and>
   map rq_id (t_auth_requests (db (sample_authorized sample_login_world))) = [''q1'']"
proof
  show "grants_ok (db (sample_authorized sample_login_world))"
    by (rule oidc_tables_stay_consistent [OF reach_sample_authorized])
  show "map rq_id (t_auth_requests (db (sample_authorized sample_login_world))) = [''q1'']" by code_simp
qed

section \<open>Codes\<close>

text \<open>A stored id is in the form its column prints: it parses and casts to itself.\<close>

definition canonical_id :: "crypto \<Rightarrow> string \<Rightarrow> bool" where
  "canonical_id C i \<longleftrightarrow> uuid_parse C i \<and> pg_uuid C i = Some i"

lemma AuthRequestByCode_Inr [op_inr]:
  "AuthRequestByCode C ctx c w = (Inr a, w') \<longleftrightarrow> (\<exists>t. ctx = Some t \<and> t \<noteq> [] \<and> auth_request_ReadByCode C t c w = (Inr a, w'))"
  by (auto simp: AuthRequestByCode_def op_inr)

lemma auth_request_Delete_eq:
  assumes "canonical_id C i"
  shows "auth_request_Delete C t i w =
    (if failing w then (Inl (PgErr ConnectionFailure), tick w)
     else (if filter (\<lambda>r. rq_tenant r = t \<and> rq_id r = i) (t_auth_requests (db w)) = []
           then Inl (OidcErr (AuthRequestNotFoundError i)) else Inr (),
       (tick w)\<lparr>db := (db w)\<lparr>t_auth_requests := filter (\<lambda>r. \<not> (rq_tenant r = t \<and> rq_id r = i)) (t_auth_requests (db w))\<rparr>\<rparr>))"
  using assms
  by (simp add: auth_request_Delete_def canonical_id_def auth_request_update_def bindE_def attempt_def map_err_def
      exec_def auth_request_Delete_stmt_def at_uuid_def delete_where_def auth_request_error_def throw_def ret_def)

lemma request_gone_world: "snd (request_gone r w) = w"
  by (simp add: request_gone_def throw_def ret_def split: sum.split go_error.split oidc_error.split)

lemma DeleteAuthRequest_Inr:
  assumes del: "DeleteAuthRequest C (Some t) i w = (Inr u, w')" and "canonical_id C i"
  shows "t_auth_requests (db w') = filter (\<lambda>r. \<not> (rq_tenant r = t \<and> rq_id r = i)) (t_auth_requests (db w))"
proof -
  obtain r w1 where d: "auth_request_Delete C t i w = (r, w1)" by fastforce
  with del have g: "request_gone r w1 = (Inr u, w')"
    by (simp add: DeleteAuthRequest_def bindE_Inr TenantFrom_Inr attempt_def)
  then have "w' = w1" using request_gone_world [of r w1] by simp
  moreover have "r \<noteq> Inl (PgErr ConnectionFailure)" using g by (auto simp: request_gone_def throw_def)
  ultimately show ?thesis using d unfolding auth_request_Delete_eq [OF assms(2)] by (auto split: if_splits)
qed

text \<open>
  C23: an authorization code is good for one exchange, in the tenant it was issued in. A code that
  resolves names an unexpired request of the tenant; once the exchange has deleted that request
  (\<open>DeleteAuthRequest\<close>, reached with the request untouched by what the exchange did in between),
  the code resolves to nothing, in any tenant. Before that it is refused in every other tenant
  as a mismatch.
\<close>

theorem authorization_code_exchanges_once:
  assumes "grants_ok (db w)" and code: "AuthRequestByCode C (Some t) code w = (Inr a, wa)"
    and "canonical_id C (AuthRequest_ID a)"
    and "t_auth_requests (db wb) = t_auth_requests (db w)"
    and del: "DeleteAuthRequest C (Some t) (AuthRequest_ID a) wb = (Inr (), wc)"
    and live: "\<not> failing w" "\<not> failing wc" and other: "t' \<noteq> []"
  shows "AuthRequest_TenantID a = t \<and> \<not> AuthRequest_Expires a < wall w \<and>
    fst (AuthRequestByCode C (Some t') code wc) = Inl (OidcErr (AuthRequestNotFoundError ''code'')) \<and>
    (t' \<noteq> t \<longrightarrow> fst (AuthRequestByCode C (Some t') code w) = Inl (OidcErr TenantMismatchError))"
proof -
  let ?h = "Sha256Hex C code"
  from code obtain r where r: "request_of_code (db w) ?h = Some r" "rq_tenant r = t" "\<not> rq_expires r < wall w"
    and a: "a = auth_request_of_row r" by (auto simp: op_inr)
  have rs: "r \<in> set (t_auth_requests (db w))" "rq_code_hash r = Some ?h"
    using r(1) by (auto simp: request_of_code_def dest: select_row_SomeD)
  have id: "AuthRequest_ID a = rq_id r" by (simp add: a auth_request_of_row_def)
  have "request_of_code (db wc) ?h = None"
    unfolding request_of_code_def DeleteAuthRequest_Inr [OF del assms(3)] assms(4) id
  proof (rule select_row_filter_none)
    fix x assume "x \<in> set (t_auth_requests (db w))" "rq_code_hash x = Some ?h"
    with rs assms(1) have "x = r" unfolding grants_ok_def codes_unique_def by auto
    with r(2) show "\<not> \<not> (rq_tenant x = t \<and> rq_id x = rq_id r)" by simp
  qed
  moreover have read: "fst (AuthRequestByCode C (Some t') code v) = (case request_of_code (db v) ?h of
      None \<Rightarrow> Inl (OidcErr (AuthRequestNotFoundError ''code''))
    | Some r \<Rightarrow> if rq_tenant r \<noteq> t' then Inl (OidcErr TenantMismatchError)
        else if rq_expires r < wall v then Inl (OidcErr (AuthRequestNotFoundError ''code''))
        else Inr (auth_request_of_row r))" if "\<not> failing v" for v
    using that other
    by (auto simp: AuthRequestByCode_def TenantFrom_def auth_request_ReadByCode_def auth_request_read_def live_row_def
        request_of_code_def bindE_def attempt_def query_def exec_def throw_def ret_def time_now_def split: option.splits)
  ultimately show ?thesis
    using r a live by (simp add: auth_request_of_row_def)
qed

text \<open>The request of the code, as it is read back.\<close>

definition sample_request :: AuthRequest where
  "sample_request = \<lparr>AuthRequest_ID = ''q1'', AuthRequest_TenantID = ''acme'', AuthRequest_ClientID = ''shop'',
     AuthRequest_Subject = ''u1'', AuthRequest_RedirectURI = ''https://shop/cb'', AuthRequest_ResponseType = ''code'',
     AuthRequest_ResponseMode = [], AuthRequest_Scopes = [''openid'', ''email''], AuthRequest_State = ''s'',
     AuthRequest_Nonce = ''n'', AuthRequest_CodeChallenge = [], AuthRequest_CodeChallengeMethod = [],
     AuthRequest_AMR = [''pwd''], AuthRequest_AuthTime = Instant 7, AuthRequest_Complete = True,
     AuthRequest_Expires = Instant 607, AuthRequest_Created = Instant 7, AuthRequest_Modified = Instant 7\<rparr>"

lemma sample_code_read:
  "fst (AuthRequestByCode sample_crypto (Some ''acme'') ''code'' (sample_authorized sample_login_world)) = Inr sample_request"
  by code_simp

lemma sample_code_deleted:
  "fst (DeleteAuthRequest sample_crypto (Some ''acme'') ''q1'' (sample_authorized sample_login_world)) = Inr ()"
  "failing (sample_authorized sample_login_world) = False"
  "failing (snd (DeleteAuthRequest sample_crypto (Some ''acme'') ''q1'' (sample_authorized sample_login_world))) = False"
  by code_simp+

theorem authorization_code_exchanges_once_witness:
  "fst (AuthRequestByCode sample_crypto (Some ''acme'') ''code''
     (snd (DeleteAuthRequest sample_crypto (Some ''acme'') ''q1'' (sample_authorized sample_login_world)))) =
     Inl (OidcErr (AuthRequestNotFoundError ''code'')) \<and>
   fst (AuthRequestByCode sample_crypto (Some ''other'') ''code'' (sample_authorized sample_login_world)) =
     Inl (OidcErr TenantMismatchError)"
proof -
  let ?w = "sample_authorized sample_login_world"
  obtain wa where read: "AuthRequestByCode sample_crypto (Some ''acme'') ''code'' ?w = (Inr sample_request, wa)"
    using sample_code_read by (metis prod.collapse)
  have ok: "grants_ok (db ?w)"
    by (rule reach_grants_ok [OF reach_sample_authorized])
  have id: "AuthRequest_ID sample_request = ''q1''" by (simp add: sample_request_def)
  have del: "DeleteAuthRequest sample_crypto (Some ''acme'') (AuthRequest_ID sample_request) ?w =
      (Inr (), snd (DeleteAuthRequest sample_crypto (Some ''acme'') ''q1'' ?w))"
    using sample_code_deleted(1) by (simp add: id prod_eq_iff)
  show ?thesis
    using authorization_code_exchanges_once [OF ok read _ refl del, of "''acme''"]
      authorization_code_exchanges_once [OF ok read _ refl del, of "''other''"] sample_code_deleted(2,3)
    by (simp add: canonical_id_def id)
qed

end
