(* ===== verification/LoginHandlers.thy ===== *)
theory LoginHandlers
  imports Provider OidcGrants ClientHandlers Authn
begin

text \<open>
  \<open>src/api/oidc/oidc_handlers.go\<close>: the login page of the provider. A request is its path
  parameter, its query, its form and its cookies; a reply is the cookies it sets and a page.
\<close>

section \<open>Requests and replies\<close>

definition SessionCookieName :: string where "SessionCookieName = ''an_session''"
definition CSRFCookieName :: string where "CSRFCookieName = ''an_login_csrf''"
definition amrPassword :: "string list" where "amrPassword = [''pwd'']"

text \<open>\<open>QueryParam\<close> and \<open>FormValue\<close> are empty where there is no such parameter; \<open>Cookie\<close> may fail.\<close>

record page_request =
  Param_tenantId :: string
  QueryParam :: "string \<Rightarrow> string"
  FormValue :: "string \<Rightarrow> string"
  Cookie :: "string \<Rightarrow> string option"

record loginPage =
  Action :: string
  AuthRequestID :: string
  CSRF :: string
  Email :: string
  Error :: string

datatype page =
    Text int string
  | LoginForm int "(string \<times> string) list" loginPage
  | Redirect int string

record reply =
  SetCookies :: "cookie list"
  Page :: page

definition reply_with :: "cookie list \<Rightarrow> page \<Rightarrow> reply op" where
  "reply_with cookies p = ret \<lparr>SetCookies = cookies, Page = p\<rparr>"

text \<open>\<open>authCallbackURL\<close> is the library's, on an issuer and a request id.\<close>

record login_handler =
  lh_authentication :: authn_service
  lh_clients :: client_registry
  lh_authCallbackURL :: "string \<Rightarrow> string \<Rightarrow> string"
  lh_publicBaseURL :: string
  lh_secureCookies :: bool
  lh_sessionExpiry :: duration

definition time_Hour :: duration where "time_Hour = 3600000000000"

section \<open>Helpers\<close>

definition render :: "login_handler \<Rightarrow> int \<Rightarrow> string \<Rightarrow> string \<Rightarrow> string \<Rightarrow> string \<Rightarrow> string \<Rightarrow> page" where
  "render h code tenantID authRequestID csrf email message =
     LoginForm code
       [(''Content-Security-Policy'',
         ''default-src '' @ [CHR 0x27] @ ''none'' @ [CHR 0x27] @ ''; style-src '' @ [CHR 0x27] @ ''unsafe-inline'' @ [CHR 0x27] @
         ''; form-action '' @ [CHR 0x27] @ ''self'' @ [CHR 0x27] @ ''; frame-ancestors '' @ [CHR 0x27] @ ''none'' @ [CHR 0x27]),
        (''Content-Type'', ''text/html; charset=UTF-8'')]
       \<lparr>Action = Issuer (lh_publicBaseURL h) tenantID @ LoginPath, AuthRequestID = authRequestID,
        CSRF = csrf, Email = email, Error = message\<rparr>"

definition loginErrorMessage :: "go_error \<Rightarrow> string" where
  "loginErrorMessage err =
     (case err of
        AuthnErr (AccountLockedError _ _) \<Rightarrow> ''Too many failed attempts. Try again later.''
      | _ \<Rightarrow> ''Incorrect email or password.'')"

definition complete :: "crypto \<Rightarrow> login_handler \<Rightarrow> oidc_context \<Rightarrow> string \<Rightarrow> string \<Rightarrow> string \<Rightarrow> instant \<Rightarrow> cookie list \<Rightarrow> reply op" where
  "complete C h ctx tenantID authRequestID accountID authTime cookies =
     attempt (AuthenticateRequest C ctx authRequestID accountID authTime amrPassword) (\<lambda>r. case r of
       Inl err \<Rightarrow> reply_with cookies (Text 400 ''unknown or expired authorization request'')
     | Inr _ \<Rightarrow> reply_with cookies
         (Redirect 302 (lh_authCallbackURL h (Issuer (lh_publicBaseURL h) tenantID) authRequestID)))"

definition liveSession :: "crypto \<Rightarrow> page_request \<Rightarrow> string \<Rightarrow> BrowserSession option op" where
  "liveSession C c tenantID =
     (case Cookie c SessionCookieName of
        None \<Rightarrow> ret None
      | Some token \<Rightarrow>
          if token = [] then ret None
          else attempt (browser_Read C tenantID token) (\<lambda>r. case r of
                 Inl err \<Rightarrow> ret None
               | Inr session \<Rightarrow>
                   attempt (account_ReadByID C tenantID (BrowserSession_AccountID session)) (\<lambda>r. case r of
                     Inl err \<Rightarrow> ret None
                   | Inr account \<Rightarrow>
                       if Account_Deleted account \<or> \<not> Account_Enabled account then ret None
                       else ret (Some session))))"

section \<open>Handlers\<close>

definition Login :: "crypto \<Rightarrow> login_handler \<Rightarrow> page_request \<Rightarrow> reply op" where
  "Login C h c =
     (let tenantID = Param_tenantId c; authRequestID = QueryParam c ''authRequestId'' in
      if tenantID = [] \<or> authRequestID = []
      then reply_with [] (Text 400 ''missing tenant or authorization request'')
      else (let ctx = WithTenant None tenantID in
            bindE (liveSession C c tenantID) (\<lambda>session.
            case session of
              Some s \<Rightarrow> complete C h ctx tenantID authRequestID (BrowserSession_AccountID s) (BrowserSession_AuthTime s) []
            | None \<Rightarrow>
                attempt RandomToken (\<lambda>r. case r of
                  Inl err \<Rightarrow> reply_with [] (Text 500 ''could not start login'')
                | Inr csrf \<Rightarrow>
                    bindE time_now (\<lambda>now.
                    reply_with [sessionCookie CSRFCookieName csrf (lh_secureCookies h) (instant_add now time_Hour)]
                      (render h 200 tenantID authRequestID csrf [] []))))))"

definition csrf_valid :: "page_request \<Rightarrow> string option" where
  "csrf_valid c =
     (case Cookie c CSRFCookieName of
        None \<Rightarrow> None
      | Some csrf \<Rightarrow> if csrf = [] \<or> \<not> SafeCompare csrf (FormValue c ''csrf'') then None else Some csrf)"

text \<open>The failure of the double-submit check: the form again, with a fresh token.\<close>

definition reissue :: "login_handler \<Rightarrow> string \<Rightarrow> string \<Rightarrow> string \<Rightarrow> reply op" where
  "reissue h tenantID authRequestID email =
     attempt RandomToken (\<lambda>r. case r of
       Inl err \<Rightarrow> reply_with [] (Text 500 ''could not start login'')
     | Inr fresh \<Rightarrow>
         bindE time_now (\<lambda>now.
         reply_with [sessionCookie CSRFCookieName fresh (lh_secureCookies h) (instant_add now time_Hour)]
           (render h 400 tenantID authRequestID fresh email ''Your sign-in session expired. Try again.'')))"

definition start_session :: "crypto \<Rightarrow> login_handler \<Rightarrow> oidc_context \<Rightarrow> string \<Rightarrow> string \<Rightarrow> Account \<Rightarrow> reply op" where
  "start_session C h ctx tenantID authRequestID account =
     bindE time_now (\<lambda>authTime.
     attempt (browser_Create C
        \<lparr>BrowserSession_ID = [], BrowserSession_TenantID = tenantID, BrowserSession_AccountID = Account_ID account,
         BrowserSession_AuthTime = authTime, BrowserSession_Expires = instant_add authTime (lh_sessionExpiry h),
         BrowserSession_Created = zero_instant\<rparr>) (\<lambda>r. case r of
       Inl err \<Rightarrow> reply_with [] (Text 500 ''could not start session'')
     | Inr (session, plaintext) \<Rightarrow>
         complete C h ctx tenantID authRequestID (Account_ID account) authTime
           [sessionCookie SessionCookieName plaintext (lh_secureCookies h) (BrowserSession_Expires session),
            sessionCookie CSRFCookieName [] (lh_secureCookies h) (Instant 0)]))"

definition Submit :: "crypto \<Rightarrow> login_handler \<Rightarrow> page_request \<Rightarrow> reply op" where
  "Submit C h c =
     (let tenantID = Param_tenantId c; authRequestID = FormValue c ''authRequestId'';
          email = FormValue c ''email''; password = FormValue c ''password'';
          ctx = WithTenant None tenantID in
      case csrf_valid c of
        None \<Rightarrow> reissue h tenantID authRequestID email
      | Some csrf \<Rightarrow>
          attempt (VerifyPassword C (lh_authentication h) tenantID email password) (\<lambda>r. case r of
            Inl err \<Rightarrow> reply_with [] (render h 401 tenantID authRequestID csrf email (loginErrorMessage err))
          | Inr account \<Rightarrow> start_session C h ctx tenantID authRequestID account))"

text \<open>
  \<open>Logout\<close>. The first part ends the session and its grants, and gives whether that failed; the
  second is where the browser goes.
\<close>

definition end_session :: "crypto \<Rightarrow> page_request \<Rightarrow> oidc_context \<Rightarrow> string \<Rightarrow> unit op" where
  "end_session C c ctx tenantID =
     (case Cookie c SessionCookieName of
        None \<Rightarrow> ret ()
      | Some token \<Rightarrow>
          if token = [] then ret ()
          else attempt (browser_Read C tenantID token) (\<lambda>readSession.
               bindE (attempt (browser_Delete C tenantID token) (\<lambda>r. case r of
                        Inl (OidcErr BrowserSessionNotFoundError) \<Rightarrow> ret ()
                      | Inl err \<Rightarrow> throw err
                      | Inr _ \<Rightarrow> ret ())) (\<lambda>_.
               case readSession of
                 Inl _ \<Rightarrow> ret ()
               | Inr session \<Rightarrow> TerminateSession ctx (BrowserSession_AccountID session) (QueryParam c ''client_id''))))"

definition signed_out :: "net_lib \<Rightarrow> login_handler \<Rightarrow> page_request \<Rightarrow> oidc_context \<Rightarrow> string \<Rightarrow> cookie list \<Rightarrow> reply op" where
  "signed_out U h c ctx tenantID cookies =
     (let redirect = QueryParam c ''post_logout_redirect_uri'' in
      if redirect = [] then reply_with cookies (Text 200 ''Signed out.'')
      else attempt (PostLogoutRedirect (lh_clients h) tenantID (QueryParam c ''client_id'') redirect) (\<lambda>r. case r of
             Inl err \<Rightarrow> reply_with cookies (Text 400 ''redirect uri not allowed'')
           | Inr _ \<Rightarrow>
               (case url_Parse U redirect of
                  Inl err \<Rightarrow> reply_with cookies (Text 400 ''invalid redirect'')
                | Inr target \<Rightarrow>
                    (let state = QueryParam c ''state'';
                         target = (if state \<noteq> [] then query_Set U target ''state'' state else target) in
                     reply_with cookies (Redirect 302 (url_String U target))))))"

definition Logout :: "crypto \<Rightarrow> net_lib \<Rightarrow> login_handler \<Rightarrow> page_request \<Rightarrow> reply op" where
  "Logout C U h c =
     (let tenantID = Param_tenantId c; ctx = WithTenant None tenantID in
      attempt (end_session C c ctx tenantID) (\<lambda>r. case r of
        Inl err \<Rightarrow> reply_with [] (Text 500 ''could not end session'')
      | Inr _ \<Rightarrow> signed_out U h c ctx tenantID
          [sessionCookie SessionCookieName [] (lh_secureCookies h) (Instant 0)]))"

end
