(* ===== verification/LoginPages.thy ===== *)
theory LoginPages
  imports LoginHandlers
begin

text \<open>
  What the login page of \<open>src/api/oidc/oidc_handlers.go\<close> guarantees: a session is started for a
  checked password only, it completes silently only for a live account, the form reveals a lock
  and nothing else, and signing out ends the session with the grants of its client.
\<close>

section \<open>Opening a run\<close>

lemma reply_with_Inr [op_inr]:
  "reply_with cookies p w = (r, w') \<longleftrightarrow> r = Inr \<lparr>SetCookies = cookies, Page = p\<rparr> \<and> w' = w"
  by (simp add: reply_with_def ret_eq)

lemma account_ReadByID_Inr [op_inr]:
  "account_ReadByID C t i w = (Inr a, w') \<longleftrightarrow> \<not> failing w \<and> uuid_parse C i \<and>
   (\<exists>u r. pg_uuid C i = Some u \<and> select_row (\<lambda>r. ac_tenant r = t \<and> ac_id r = u) (t_accounts (db w)) = Some r \<and>
      a = account_of_row r) \<and> w' = tick w"
  by (auto simp: account_ReadByID_def account_read_def op_inr tick_def split: option.splits)

lemma browser_Read_Inr [op_inr]:
  "browser_Read C t token w = (Inr s, w') \<longleftrightarrow> \<not> failing w \<and>
   (\<exists>b. select_row (\<lambda>r. bs_token_hash r = Sha256Hex C token) (t_browser_sessions (db w)) = Some b \<and>
      bs_tenant b = t \<and> \<not> bs_expires b < wall w \<and> s = browser_of_row b) \<and> w' = tick w"
  by (auto simp: browser_Read_def op_inr)

lemma browser_Create_Inr:
  assumes "browser_Create C b w = (Inr (s, plain), w')"
  obtains u i where "pg_uuid C (BrowserSession_AccountID b) = Some u"
    and "db w' = (db w)\<lparr>t_browser_sessions := t_browser_sessions (db w) @
           [browser_row (b\<lparr>BrowserSession_ID := i\<rparr>) (Sha256Hex C plain) u (pg_now w)]\<rparr>"
    and "BrowserSession_Expires s = BrowserSession_Expires b" and "wall w' = wall w"
proof -
  from assms obtain i w1 w2 now where i: "new_uuid w = (Inr i, w1)" and p: "RandomToken w1 = (Inr plain, w2)"
    and ins: "exec (browser_insert_stmt C (b\<lparr>BrowserSession_ID := i\<rparr>) (Sha256Hex C plain)) w2 = (Inr now, w')"
    and s: "s = b\<lparr>BrowserSession_ID := i, BrowserSession_Created := now\<rparr>"
    by (auto simp: browser_Create_def bindE_Inr Let_def map_err_Inr ret_eq)
  have same: "db w2 = db w" "wall w2 = wall w" "pg_now w2 = pg_now w"
    using i p by (auto simp: new_uuid_Inr RandomToken_Inr)
  from ins obtain u t where u: "pg_uuid C (BrowserSession_AccountID b) = Some u"
    and t: "insert_row browser_session_conflict
        (browser_row (b\<lparr>BrowserSession_ID := i\<rparr>) (Sha256Hex C plain) u (pg_now w2)) (t_browser_sessions (db w2)) = Inr t"
      "w' = (tick w2)\<lparr>db := (db w2)\<lparr>t_browser_sessions := t\<rparr>\<rparr>"
    by (auto simp: exec_Inr browser_insert_Inr)
  show ?thesis
    using t same s by (intro that [OF u, of i]) (simp_all add: insert_row_Inr)
qed

section \<open>Completing an authorization request\<close>

definition redirected :: "reply \<Rightarrow> bool" where
  "redirected rep \<longleftrightarrow> (case Page rep of Redirect _ _ \<Rightarrow> True | _ \<Rightarrow> False)"

text \<open>The authorization request of an id is answered for a subject who gave a password at a time.\<close>

definition authorized :: "crypto \<Rightarrow> database \<Rightarrow> string \<Rightarrow> string \<Rightarrow> string \<Rightarrow> instant \<Rightarrow> bool" where
  "authorized C d t i subject authTime \<longleftrightarrow>
     (\<exists>q\<in>set (t_auth_requests d). pg_uuid C i = Some (rq_id q) \<and> rq_tenant q = t \<and> rq_done q \<and>
        rq_subject q = subject \<and> rq_auth_time q = Some authTime \<and> rq_amr q = amrPassword)"

lemma map_sum_Inr: "map_sum id f z = Inr y \<longleftrightarrow> (\<exists>x. z = Inr x \<and> y = f x)"
  by (cases z) auto

lemma auth_request_set_Inr:
  "auth_request_set_stmt C t i f now d = Inr (n, d') \<longleftrightarrow>
   (\<exists>v ts. pg_uuid C i = Some v \<and>
      update_checked auth_request_conflict (\<lambda>r. rq_tenant r = t \<and> rq_id r = v) (f now) (t_auth_requests d) = Inr (n, ts) \<and>
      d' = d\<lparr>t_auth_requests := ts\<rparr>)"
  by (auto simp: auth_request_set_stmt_def map_sum_Inr split: prod.splits)

lemma auth_request_set_none: "auth_request_set_stmt C t i f now d = Inr (0, d') \<Longrightarrow> d' = d"
proof -
  assume "auth_request_set_stmt C t i f now d = Inr (0, d')"
  then obtain v where none: "\<forall>r\<in>set (t_auth_requests d). \<not> (rq_tenant r = t \<and> rq_id r = v)"
    and d': "d' = d\<lparr>t_auth_requests := map (\<lambda>r. if rq_tenant r = t \<and> rq_id r = v then f now r else r) (t_auth_requests d)\<rparr>"
    by (auto simp: auth_request_set_Inr update_checked_Inr update_where_def filter_empty_conv)
  from none have "map (\<lambda>r. if rq_tenant r = t \<and> rq_id r = v then f now r else r) (t_auth_requests d) = t_auth_requests d"
    by (intro map_idI) auto
  with d' show "d' = d" by simp
qed

lemma AuthenticateRequest_Inr:
  assumes "AuthenticateRequest C (Some t) i subject authTime amrPassword w = (Inr u, w')"
  shows "authorized C (db w') t i subject authTime" and "db w' = (db w)\<lparr>t_auth_requests := t_auth_requests (db w')\<rparr>"
proof -
  from assms obtain n d where stmt: "auth_request_set_stmt C t i (set_authenticated subject authTime amrPassword) (pg_now w) (db w) =
      Inr (n, d)" and n: "n \<noteq> 0" and w': "db w' = d"
    by (auto simp: AuthenticateRequest_def bindE_Inr TenantFrom_Inr auth_request_Authenticate_def auth_request_update_Inr)
  from stmt obtain v where v: "pg_uuid C i = Some v"
    and upd: "update_checked auth_request_conflict (\<lambda>r. rq_tenant r = t \<and> rq_id r = v)
        (set_authenticated subject authTime amrPassword (pg_now w)) (t_auth_requests (db w)) = Inr (n, t_auth_requests d)"
    and d: "d = (db w)\<lparr>t_auth_requests := t_auth_requests d\<rparr>"
    by (auto simp: auth_request_set_Inr)
  show "db w' = (db w)\<lparr>t_auth_requests := t_auth_requests (db w')\<rparr>" using d w' by simp
  from upd n obtain q where q: "q \<in> set (t_auth_requests (db w))" "rq_tenant q = t" "rq_id q = v"
    by (auto simp: update_checked_Inr update_where_def filter_empty_conv)
  with upd have "set_authenticated subject authTime amrPassword (pg_now w) q \<in> set (t_auth_requests d)"
    by (auto simp: update_checked_Inr update_where_def)
  with q v w' show "authorized C (db w') t i subject authTime"
    unfolding authorized_def by (intro bexI) (auto simp: set_authenticated_def)
qed

lemma atomic_AuthenticateRequest: "atomic (AuthenticateRequest C ctx i subject authTime amr)"
  unfolding AuthenticateRequest_def auth_request_Authenticate_def auth_request_update_def
  by (rule atomic_bindE [OF reads_TenantFrom])
    (auto simp: atomic_def bindE_Inl map_err_Inl map_err_Inr exec_Inr throw_def ret_def dest: auth_request_set_none
      atomicD [OF atomic_exec] split: if_splits)

lemma complete_run:
  assumes "complete C h (Some t) t i subject authTime cookies w = (Inr rep, w')"
  shows "SetCookies rep = cookies" and "db w' = (db w)\<lparr>t_auth_requests := t_auth_requests (db w')\<rparr>"
    and "redirected rep \<Longrightarrow> authorized C (db w') t i subject authTime \<and>
      Page rep = Redirect 302 (lh_authCallbackURL h (Issuer (lh_publicBaseURL h) t) i)"
    and "\<not> redirected rep \<Longrightarrow> db w' = db w"
proof -
  obtain r w1 where run: "AuthenticateRequest C (Some t) i subject authTime amrPassword w = (r, w1)" by fastforce
  have same: "w' = w1" "SetCookies rep = cookies"
    "Page rep = (case r of Inl _ \<Rightarrow> Text 400 ''unknown or expired authorization request''
       | Inr _ \<Rightarrow> Redirect 302 (lh_authCallbackURL h (Issuer (lh_publicBaseURL h) t) i))"
    using assms run by (auto simp: complete_def attempt_eq reply_with_Inr split: sum.splits)
  show "SetCookies rep = cookies" by (fact same)
  show "db w' = (db w)\<lparr>t_auth_requests := t_auth_requests (db w')\<rparr>"
    using AuthenticateRequest_Inr(2) [of C t i subject authTime w] atomicD [OF atomic_AuthenticateRequest] run same(1)
    by (cases r) fastforce+
  show "authorized C (db w') t i subject authTime \<and>
      Page rep = Redirect 302 (lh_authCallbackURL h (Issuer (lh_publicBaseURL h) t) i)" if "redirected rep"
    using that AuthenticateRequest_Inr(1) [of C t i subject authTime w] run same
    by (cases r) (auto simp: redirected_def)
  show "db w' = db w" if "\<not> redirected rep"
    using that atomicD [OF atomic_AuthenticateRequest] run same
    by (cases r) (auto simp: redirected_def)
qed

section \<open>What the steps of the page leave alone\<close>

lemma reads_browser_Read: "reads (browser_Read C t token)"
  unfolding browser_Read_def
  by (intro reading.steps_bindE reading.steps_query reads_live_row reading.steps_ret)

lemma reads_account_ReadByID: "reads (account_ReadByID C t i)"
  unfolding account_ReadByID_def
  by (intro reading.steps_If reading.steps_bindE reading.steps_throw reading.steps_exec reading.steps_option reading.steps_ret)
    (auto split: option.splits)

lemma reads_liveSession: "reads (liveSession C c t)"
  unfolding liveSession_def
  by (intro reading.steps_option reading.steps_If reading.steps_attempt reading.steps_sum reading.steps_ret
      reads_browser_Read reads_account_ReadByID)

lemma reads_new_form: "reads (reissue h t i e)"
  unfolding reissue_def reply_with_def RandomToken_def
  by (intro reading.steps_attempt reading.steps_sum reading.steps_bindE reading.steps_rand_read reading.steps_time_now
      reading.steps_ret)

text \<open>Checking a password writes the failed attempts only.\<close>

definition counts :: "database \<Rightarrow> database \<Rightarrow> bool" where
  "counts d d' \<longleftrightarrow> d' = d\<lparr>t_failed_attempts := t_failed_attempts d'\<rparr>"

interpretation counting: db_relation counts
proof unfold_locales
  show "counts d d" for d by (simp add: counts_def)
  show "counts d1 d3" if "counts d1 d2" "counts d2 d3" for d1 d2 d3
    using that unfolding counts_def by (cases d1; cases d2; cases d3) simp
qed

lemma counts_frame:
  "counts d d' \<Longrightarrow> t_browser_sessions d' = t_browser_sessions d"
  "counts d d' \<Longrightarrow> t_accounts d' = t_accounts d"
  by (cases d; cases d'; simp add: counts_def)+

lemma counts_reads: "reads m \<Longrightarrow> steps counts m"
  by (auto simp: steps_def counts_def)

lemma counts_attempts: "steps counts (attempt_Clear t e)" "steps counts (IncrementAndLock t e n l)"
  unfolding attempt_Clear_def IncrementAndLock_def
  by (rule counting.steps_exec, auto simp: counts_def stmt_defs Let_def map_sum_Inr split: if_split_asm)+

lemma counts_VerifyPassword: "steps counts (VerifyPassword C s t e p)"
  unfolding VerifyPassword_def gateLogon_def checkLockout_def countFailure_def attempt_Get_def account_Read_def account_read_def
  by (intro counting.steps_bindE counting.steps_query counting.steps_option counting.steps_If counting.steps_time_now
      counting.steps_throw counting.steps_ret counting.steps_map_err counting.steps_lift_result counts_attempts)

section \<open>Signing in\<close>

text \<open>The cookies of a page that starts a session, and the session a cookie stands for.\<close>

definition starts_session :: "reply \<Rightarrow> bool" where
  "starts_session rep \<longleftrightarrow> list_ex (\<lambda>k. Cookie_Name k = SessionCookieName) (SetCookies rep)"

lemma a_form_starts_nothing [simp]:
  "\<not> redirected \<lparr>SetCookies = cookies, Page = render h n t i k e m\<rparr>"
  "\<not> redirected \<lparr>SetCookies = cookies, Page = Text n m\<rparr>"
  "\<not> starts_session \<lparr>SetCookies = [], Page = p\<rparr>"
  "\<not> starts_session \<lparr>SetCookies = [sessionCookie CSRFCookieName k s x], Page = p\<rparr>"
  by (simp_all add: redirected_def render_def starts_session_def sessionCookie_def CSRFCookieName_def SessionCookieName_def)

lemma csrf_valid_None:
  "csrf_valid c = None \<longleftrightarrow> (\<nexists>k. Cookie c CSRFCookieName = Some k \<and> k \<noteq> [] \<and> FormValue c ''csrf'' = k)"
  by (auto simp: csrf_valid_def split: option.split)

lemma reissue_run:
  assumes "reissue h t i e w = (Inr rep, w')"
  shows "db w' = db w" and "\<not> starts_session rep" and "\<not> redirected rep"
proof -
  show "db w' = db w" using assms by (rule reads_keeps [OF reads_new_form])
  obtain r w1 where "RandomToken w = (r, w1)" by fastforce
  with assms have "\<not> starts_session rep \<and> \<not> redirected rep"
    by (cases r) (auto simp: reissue_def attempt_def bindE_def time_now_def reply_with_def ret_def)
  then show "\<not> starts_session rep" "\<not> redirected rep" by simp_all
qed

lemma start_session_run:
  assumes "start_session C h (Some t) t i a w = (Inr rep, w')"
  shows "(\<not> starts_session rep \<and> \<not> redirected rep \<and> db w' = db w) \<or>
    (\<exists>b plain. starts_session rep \<and> t_browser_sessions (db w') = t_browser_sessions (db w) @ [b] \<and> bs_token_hash b = Sha256Hex C plain \<and>
      bs_tenant b = t \<and> pg_uuid C (Account_ID a) = Some (bs_account b) \<and> bs_auth_time b = wall w \<and>
      bs_expires b = instant_add (wall w) (lh_sessionExpiry h) \<and>
      SetCookies rep = [sessionCookie SessionCookieName plain (lh_secureCookies h) (bs_expires b),
        sessionCookie CSRFCookieName [] (lh_secureCookies h) (Instant 0)] \<and>
      (redirected rep \<longrightarrow> authorized C (db w') t i (Account_ID a) (wall w) \<and>
        Page rep = Redirect 302 (lh_authCallbackURL h (Issuer (lh_publicBaseURL h) t) i)))"
proof -
  let ?b = "\<lparr>BrowserSession_ID = [], BrowserSession_TenantID = t, BrowserSession_AccountID = Account_ID a,
       BrowserSession_AuthTime = wall w, BrowserSession_Expires = instant_add (wall w) (lh_sessionExpiry h),
       BrowserSession_Created = zero_instant\<rparr>"
  obtain z w1 where create: "browser_Create C ?b w = (z, w1)" by fastforce
  show ?thesis
  proof (cases z)
    case (Inl err)
    have "atomic (browser_Create C ?b)"
      unfolding browser_Create_def Let_def RandomToken_def
      by (intro atomic_bindE atomic_then_ret atomic_map_err atomic_exec reading.steps_bindE reading.steps_rand_read
          reading.steps_ret reading.steps_new_uuid)
    from atomicD [OF this create [unfolded Inl]] have "db w1 = db w" .
    moreover from assms create Inl have "w' = w1" "rep = \<lparr>SetCookies = [], Page = Text 500 ''could not start session''\<rparr>"
      by (simp_all add: start_session_def bindE_def time_now_def attempt_def reply_with_def ret_def)
    ultimately show ?thesis by simp
  next
    case made: (Inr q)
    obtain s plain where q: "q = (s, plain)" by (cases q)
    from create [unfolded made q] obtain u j where u: "pg_uuid C (BrowserSession_AccountID ?b) = Some u"
      and stored: "db w1 = (db w)\<lparr>t_browser_sessions := t_browser_sessions (db w) @
         [browser_row (?b\<lparr>BrowserSession_ID := j\<rparr>) (Sha256Hex C plain) u (pg_now w)]\<rparr>"
      and exp: "BrowserSession_Expires s = BrowserSession_Expires ?b"
      by (rule browser_Create_Inr)
    from assms create made q have final: "complete C h (Some t) t i (Account_ID a) (wall w)
        [sessionCookie SessionCookieName plain (lh_secureCookies h) (BrowserSession_Expires s),
         sessionCookie CSRFCookieName [] (lh_secureCookies h) (Instant 0)] w1 = (Inr rep, w')"
      by (simp add: start_session_def bindE_def time_now_def attempt_def)
    note result = complete_run [OF final]
    let ?row = "browser_row (?b\<lparr>BrowserSession_ID := j\<rparr>) (Sha256Hex C plain) u (pg_now w)"
    have "t_browser_sessions (db w') = t_browser_sessions (db w) @ [?row]"
      using arg_cong [OF result(2), of t_browser_sessions] stored by simp
    moreover have "starts_session rep" using result(1) by (simp add: starts_session_def sessionCookie_def)
    ultimately show ?thesis using u exp result(1,3)
      by (intro disjI2 exI [of _ ?row] exI [of _ plain]) (simp add: browser_row_def)
  qed
qed

text \<open>
  C12: the form starts a session for a checked password only. Where the submitted csrf token is
  not the one of the cookie, the database stays as it was. Where no session cookie is set, no
  session is stored and no authorization request is answered. Where one is set, the address was
  not locked, it is that of a live verified account, the password is that of the account, and one
  session is stored: for that account and tenant, under the hash of the cookie, to end when the
  cookie ends. The cookie is HttpOnly and Lax, and the token of the form is spent. A redirect goes
  to the callback of the issuer of the tenant, for a request answered with that account.
\<close>

theorem form_starts_checked_sessions_only:
  assumes "Submit C h c w = (Inr rep, w')" and "t = Param_tenantId c" and "i = FormValue c ''authRequestId''"
  shows "((\<nexists>k. Cookie c CSRFCookieName = Some k \<and> k \<noteq> [] \<and> FormValue c ''csrf'' = k) \<longrightarrow>
      \<not> starts_session rep \<and> db w' = db w) \<and>
    (\<not> starts_session rep \<longrightarrow> \<not> redirected rep \<and> counts (db w) (db w')) \<and>
    (starts_session rep \<longrightarrow>
      (\<exists>r b plain. \<not> locked (db w) (wall w) t (FormValue c ''email'') \<and> may_log_on (db w) t (FormValue c ''email'') r \<and>
        bcrypt_compare C (ac_password_hash r) (FormValue c ''password'') = BcryptMatch \<and>
        t_browser_sessions (db w') = t_browser_sessions (db w) @ [b] \<and> bs_token_hash b = Sha256Hex C plain \<and>
        bs_tenant b = t \<and> pg_uuid C (ac_id r) = Some (bs_account b) \<and> bs_auth_time b = wall w \<and>
        bs_expires b = instant_add (wall w) (lh_sessionExpiry h) \<and>
        SetCookies rep = [\<lparr>Cookie_Name = SessionCookieName, Cookie_Value = plain, Cookie_Path = ''/'',
            Cookie_Expires = bs_expires b, Cookie_HttpOnly = True, Cookie_Secure = lh_secureCookies h, Cookie_SameSite = ''Lax''\<rparr>,
          sessionCookie CSRFCookieName [] (lh_secureCookies h) (Instant 0)] \<and>
        (redirected rep \<longrightarrow> authorized C (db w') t i (ac_id r) (wall w) \<and>
          Page rep = Redirect 302 (lh_authCallbackURL h (Issuer (lh_publicBaseURL h) t) i))))"
proof (cases "csrf_valid c")
  case None
  with assms have run: "reissue h t i (FormValue c ''email'') w = (Inr rep, w')"
    by (simp add: Submit_def Let_def)
  from reissue_run [OF run] show ?thesis by (simp add: counts_def)
next
  case valid: (Some k)
  then have token: "\<exists>k. Cookie c CSRFCookieName = Some k \<and> k \<noteq> [] \<and> FormValue c ''csrf'' = k"
    using csrf_valid_None [of c] by simp
  let ?e = "FormValue c ''email''" and ?p = "FormValue c ''password''"
  obtain v w1 where check: "VerifyPassword C (lh_authentication h) t ?e ?p w = (v, w1)" by fastforce
  have c1: "counts (db w) (db w1)" by (rule stepsD [OF counts_VerifyPassword check])
  show ?thesis
  proof (cases v)
    case (Inl err)
    with valid assms check have "w' = w1" "rep = \<lparr>SetCookies = [], Page = render h 401 t i k ?e (loginErrorMessage err)\<rparr>"
      by (simp_all add: Submit_def Let_def attempt_def reply_with_def ret_def)
    with token c1 show ?thesis by simp
  next
    case (Inr a)
    with valid assms check have start: "start_session C h (Some t) t i a w1 = (Inr rep, w')"
      by (simp add: Submit_def Let_def attempt_def WithTenant_def)
    from check [unfolded Inr] obtain r where r: "may_log_on (db w) t ?e r" "a = account_of_row r"
        "\<not> locked (db w) (wall w) t ?e" "bcrypt_compare C (ac_password_hash r) ?p = BcryptMatch" and wall: "wall w1 = wall w"
      by (rule VerifyPassword_Inr)
    from start_session_run [OF start] show ?thesis
    proof (elim disjE exE conjE)
      assume "\<not> starts_session rep" "\<not> redirected rep" "db w' = db w1"
      with token c1 show ?thesis by simp
    next
      fix b plain
      assume made: "starts_session rep" "t_browser_sessions (db w') = t_browser_sessions (db w1) @ [b]" "bs_token_hash b = Sha256Hex C plain"
        "bs_tenant b = t" "pg_uuid C (Account_ID a) = Some (bs_account b)" "bs_auth_time b = wall w1"
        "bs_expires b = instant_add (wall w1) (lh_sessionExpiry h)"
        "SetCookies rep = [sessionCookie SessionCookieName plain (lh_secureCookies h) (bs_expires b),
           sessionCookie CSRFCookieName [] (lh_secureCookies h) (Instant 0)]"
        "redirected rep \<longrightarrow> authorized C (db w') t i (Account_ID a) (wall w1) \<and>
           Page rep = Redirect 302 (lh_authCallbackURL h (Issuer (lh_publicBaseURL h) t) i)"
      with token r wall counts_frame(1) [OF c1] show ?thesis
        by (intro conjI impI exI [of _ r] exI [of _ b] exI [of _ plain]) (simp_all add: sessionCookie_def account_of_row_def)
    qed
  qed
qed

section \<open>The silent login\<close>

lemma attempt_Some:
  "attempt m (\<lambda>r. case r of Inl err \<Rightarrow> ret None | Inr y \<Rightarrow> k y) w = (Inr (Some x), w') \<longleftrightarrow>
   (\<exists>y w1. m w = (Inr y, w1) \<and> k y w1 = (Inr (Some x), w'))"
  by (auto simp: attempt_def ret_def split: prod.splits sum.splits)

lemma liveSession_Some:
  assumes "liveSession C c t w = (Inr (Some s), w')"
  obtains token b r where "Cookie c SessionCookieName = Some token" and "token \<noteq> []"
    and "select_row (\<lambda>r. bs_token_hash r = Sha256Hex C token) (t_browser_sessions (db w)) = Some b"
    and "bs_tenant b = t" and "\<not> bs_expires b < wall w" and "s = browser_of_row b"
    and "r \<in> set (t_accounts (db w))" and "ac_tenant r = t" and "pg_uuid C (bs_account b) = Some (ac_id r)"
    and "\<not> ac_deleted r" and "ac_enabled r"
proof -
  from assms obtain token q w1 p w2 where token: "Cookie c SessionCookieName = Some token" "token \<noteq> []"
    and read: "browser_Read C t token w = (Inr q, w1)" "account_ReadByID C t (BrowserSession_AccountID q) w1 = (Inr p, w2)"
    and live: "\<not> Account_Deleted p" "Account_Enabled p" "s = q"
    by (auto simp: liveSession_def attempt_Some ret_eq split: option.splits if_splits)
  from read(1) obtain b where b: "select_row (\<lambda>r. bs_token_hash r = Sha256Hex C token) (t_browser_sessions (db w)) = Some b"
    "bs_tenant b = t" "\<not> bs_expires b < wall w" "q = browser_of_row b" "w1 = tick w"
    by (auto simp: browser_Read_Inr)
  from read(2) b obtain u r where u: "pg_uuid C (bs_account b) = Some u"
    and r: "select_row (\<lambda>r. ac_tenant r = t \<and> ac_id r = u) (t_accounts (db w)) = Some r" "p = account_of_row r"
    by (auto simp: account_ReadByID_Inr browser_of_row_def)
  from select_row_SomeD [OF r(1)] u r(2) live token b show ?thesis
    by (intro that [of token b r]) (simp_all add: account_of_row_def)
qed

lemma liveSession_Inr: "\<exists>s w'. liveSession C c t w = (Inr s, w') \<and> wall w' = wall w"
  by (auto simp: liveSession_def browser_Read_def account_ReadByID_def live_row_def attempt_def bindE_def query_def exec_def
      throw_def ret_def time_now_def split: option.splits sum.splits prod.splits)

text \<open>
  C24: a login completes without the form only for a browser with a live session: the request
  carries the cookie of a stored session of the tenant that has not expired, whose account is of
  the tenant, enabled and not deleted, and the authorization request is answered with that account
  and the time its password was given. Otherwise the database stays as it was. No session is started.
\<close>

theorem silent_login_needs_a_live_session:
  assumes "Login C h c w = (Inr rep, w')" and "t = Param_tenantId c" and "i = QueryParam c ''authRequestId''"
  shows "t_browser_sessions (db w') = t_browser_sessions (db w) \<and> \<not> starts_session rep \<and>
    (\<not> redirected rep \<longrightarrow> db w' = db w) \<and>
    (redirected rep \<longrightarrow>
      (\<exists>token b r. Cookie c SessionCookieName = Some token \<and> token \<noteq> [] \<and> b \<in> set (t_browser_sessions (db w)) \<and>
        bs_token_hash b = Sha256Hex C token \<and> bs_tenant b = t \<and> \<not> bs_expires b < wall w \<and>
        r \<in> set (t_accounts (db w)) \<and> ac_tenant r = t \<and> pg_uuid C (bs_account b) = Some (ac_id r) \<and>
        \<not> ac_deleted r \<and> ac_enabled r \<and> authorized C (db w') t i (bs_account b) (bs_auth_time b) \<and>
        Page rep = Redirect 302 (lh_authCallbackURL h (Issuer (lh_publicBaseURL h) t) i)))"
proof (cases "t = [] \<or> i = []")
  case True
  with assms have "w' = w" "rep = \<lparr>SetCookies = [], Page = Text 400 ''missing tenant or authorization request''\<rparr>"
    by (auto simp: Login_def Let_def reply_with_def ret_def)
  then show ?thesis by simp
next
  case given: False
  obtain s w1 where live: "liveSession C c t w = (Inr s, w1)" using liveSession_Inr by blast
  then have same: "db w1 = db w" by (rule reads_keeps [OF reads_liveSession])
  show ?thesis
  proof (cases s)
    case None
    obtain r w2 where token: "RandomToken w1 = (r, w2)" by fastforce
    then have "db w2 = db w1" by (auto simp: RandomToken_def rand_read_def bindE_def attempt_def throw_def ret_def split: if_splits)
    with assms given live None token same show ?thesis
      by (cases r) (auto simp: Login_def Let_def attempt_def bindE_def time_now_def reply_with_def ret_def)
  next
    case (Some q)
    with assms given live have run: "complete C h (Some t) t i (BrowserSession_AccountID q) (BrowserSession_AuthTime q) [] w1 = (Inr rep, w')"
      by (simp add: Login_def Let_def bindE_def attempt_def WithTenant_def)
    note result = complete_run [OF run]
    have kept: "t_browser_sessions (db w') = t_browser_sessions (db w)"
      using arg_cong [OF result(2), of t_browser_sessions] same by simp
    from live [unfolded Some] obtain token b r where "Cookie c SessionCookieName = Some token" "token \<noteq> []"
      "select_row (\<lambda>r. bs_token_hash r = Sha256Hex C token) (t_browser_sessions (db w)) = Some b"
      "bs_tenant b = t" "\<not> bs_expires b < wall w" "q = browser_of_row b" "r \<in> set (t_accounts (db w))" "ac_tenant r = t"
      "pg_uuid C (bs_account b) = Some (ac_id r)" "\<not> ac_deleted r" "ac_enabled r"
      by (rule liveSession_Some)
    with result(3) same kept result(4) show ?thesis
      using result(1) select_row_SomeD [of "\<lambda>r. bs_token_hash r = Sha256Hex C token"]
      by (intro conjI impI exI [of _ token] exI [of _ b] exI [of _ r])
        (auto simp: browser_of_row_def starts_session_def)
  qed
qed

section \<open>What the form reveals\<close>

definition is_lock :: "go_error \<Rightarrow> bool" where
  "is_lock err \<longleftrightarrow> (\<exists>e u. err = AuthnErr (AccountLockedError e u))"

lemma loginErrorMessage_lock:
  "loginErrorMessage err = (if is_lock err then ''Too many failed attempts. Try again later.'' else ''Incorrect email or password.'')"
  by (auto simp: loginErrorMessage_def is_lock_def split: go_error.split authn_error.split)

lemma checkLockout_Inl:
  assumes "checkLockout t e w = (Inl err, w')" and "quiet w"
  shows "is_lock err" and "locked (db w') (wall w') t e"
proof -
  have locked: "locked (db w) (wall w) t e" using checkLockout_open [OF _ assms(2)] assms(1) by fastforce
  from checkLockout_locked [OF this] assms show "is_lock err" and "locked (db w') (wall w') t e"
    using locked by (auto simp: is_lock_def)
qed

lemma unlock_unlocks: "\<not> locked d now t e \<Longrightarrow> \<not> locked (unlock d t e) now t e"
  by (simp add: locked_def attempts_unlock)

lemma account_Read_run:
  assumes "account_Read t e w = (r, w')"
  shows "db w' = db w" and "wall w' = wall w" and "quiet w \<Longrightarrow> quiet w'" and "r = Inl err \<Longrightarrow> \<not> is_lock (not_found_fails err)"
  using assms
  by (auto simp: account_Read_def account_read_def bindE_def attempt_def query_def exec_def throw_def ret_def is_lock_def
      not_found_fails_def split: if_splits option.splits)

lemma checkLockout_quiet: "checkLockout t e w = (Inr u, w') \<Longrightarrow> quiet w \<Longrightarrow> quiet w'"
  by (auto simp: checkLockout_def op_inr split: option.splits)

lemma gateLogon_Inl:
  assumes "gateLogon t e w = (Inl err, w')" and "quiet w"
  shows "is_lock err \<longleftrightarrow> locked (db w') (wall w') t e"
proof (cases "checkLockout t e w")
  case (Pair r w1)
  show ?thesis
  proof (cases r)
    case (Inl e1)
    with Pair assms(1) have "checkLockout t e w = (Inl err, w')" by (simp add: gateLogon_def bindE_def attempt_def throw_def)
    from checkLockout_Inl [OF this assms(2)] show ?thesis by simp
  next
    case (Inr u)
    with Pair have check: "checkLockout t e w = (Inr u, w1)" by simp
    have free: "\<not> locked (db w1) (wall w1) t e" using checkLockout_Inr [OF check] unlock_unlocks by metis
    obtain v w2 where read: "account_Read t e w1 = (v, w2)" by fastforce
    from assms(1) check read have "w' = w2" "\<not> is_lock err"
      using account_Read_run(4) [OF read]
      by (auto simp: gateLogon_def bindE_def attempt_def map_err_def throw_def ret_def is_lock_def split: sum.splits if_splits)
    with free account_Read_run(1,2) [OF read] show ?thesis by simp
  qed
qed

lemma countFailure_lock:
  assumes "countFailure s t e w = (Inl err, w')" and "quiet w" and "\<not> locked (db w) (wall w) t e"
  shows "is_lock err \<longleftrightarrow> locked (db w') (wall w') t e"
proof (cases "IncrementAndLock t e (maxAttempts s) (lockoutDuration s) w")
  case (Pair r w1)
  show ?thesis
  proof (cases r)
    case (Inl e1)
    with Pair have "db w1 = db w" by (auto simp: IncrementAndLock_def dest: atomicD [OF atomic_exec])
    moreover have "wall w1 = wall w" "\<not> is_lock e1"
      using Pair Inl by (auto simp: IncrementAndLock_def exec_def is_lock_def split: sum.splits prod.splits if_splits)
    moreover from Pair Inl assms(1) have "w' = w1" "err = e1" by (simp_all add: countFailure_def bindE_def attempt_def throw_def)
    ultimately show ?thesis using assms(3) by simp
  next
    case (Inr l)
    with Pair have run: "IncrementAndLock t e (maxAttempts s) (lockoutDuration s) w = (Inr l, w1)" by simp
    from assms(1) run have "w' = w1" "is_lock err \<longleftrightarrow> (case l of None \<Rightarrow> False | Some u \<Rightarrow> wall w1 < u)"
      by (auto simp: countFailure_def bindE_def attempt_def time_now_def throw_def is_lock_def split: option.splits if_splits)
    with IncrementAndLock_at(1) [OF run] show ?thesis by (auto simp: locked_def split: option.splits)
  qed
qed

lemma VerifyPassword_lock:
  assumes "VerifyPassword C s t e p w = (Inl err, w')" and "quiet w"
  shows "is_lock err \<longleftrightarrow> locked (db w') (wall w') t e"
proof (cases "gateLogon t e w")
  case (Pair r w1)
  show ?thesis
  proof (cases r)
    case (Inl e1)
    with Pair assms(1) have "gateLogon t e w = (Inl err, w')" by (simp add: VerifyPassword_def bindE_def attempt_def throw_def)
    from gateLogon_Inl [OF this assms(2)] show ?thesis .
  next
    case (Inr a)
    with Pair have gate: "gateLogon t e w = (Inr a, w1)" by simp
    then obtain w0 u where check: "checkLockout t e w = (Inr u, w0)" and read: "account_Read t e w0 = (Inr a, w1)"
      by (auto simp: gateLogon_def op_inr)
    have quiet: "quiet w1"
      using checkLockout_quiet [OF check assms(2)] account_Read_run(3) [OF read] by simp
    have free: "\<not> locked (db w1) (wall w1) t e"
      using checkLockout_Inr [OF check] unlock_unlocks account_Read_run(1,2) [OF read] by metis
    show ?thesis
    proof (cases "BcryptVerify C (Account_PasswordHash a) p")
      case (Inl e1)
      with gate assms(1) have "w' = w1" "err = e1"
        by (simp_all add: VerifyPassword_def bindE_def attempt_def lift_result_def throw_def)
      moreover from Inl have "\<not> is_lock e1" by (auto simp: BcryptVerify_def is_lock_def split: bcrypt_result.splits)
      ultimately show ?thesis using free by simp
    next
      case (Inr b)
      have "attempt_Clear t e w1 \<noteq> (Inl err', w')" for err' using quiet
        by (auto simp: attempt_Clear_def exec_def attempt_Clear_stmt_def)
      then have "(countFailure s t e :: Account op) w1 = (Inl err, w')"
        using gate assms(1) Inr
        by (auto simp: VerifyPassword_def bindE_Inl bindE_Inr lift_result_def ret_def throw_def split: if_splits)
      from countFailure_lock [OF this quiet free] show ?thesis .
    qed
  qed
qed

text \<open>
  C37: the form reveals whether the address is locked, and nothing else. A submission with a wrong
  password, or for an address without a live verified account, or for a locked one, gets the form
  again with status 401 and the submitted address; the message depends only on whether the address
  is locked after the submission.
\<close>

theorem form_reveals_only_the_lock:
  assumes "Submit C h c w = (Inr rep, w')" and "quiet w" and "csrf_valid c = Some k"
    and "t = Param_tenantId c" and "e = FormValue c ''email''"
    and "locked (db w) (wall w) t e \<or>
      (\<forall>r. may_log_on (db w) t e r \<longrightarrow> bcrypt_compare C (ac_password_hash r) (FormValue c ''password'') \<noteq> BcryptMatch)"
  shows "rep = \<lparr>SetCookies = [], Page = render h 401 t (FormValue c ''authRequestId'') k e
    (if locked (db w') (wall w') t e then ''Too many failed attempts. Try again later.''
     else ''Incorrect email or password.'')\<rparr>"
proof -
  let ?p = "FormValue c ''password''"
  obtain v w1 where check: "VerifyPassword C (lh_authentication h) t e ?p w = (v, w1)" by fastforce
  obtain err where err: "v = Inl err"
  proof (cases v)
    case (Inr a)
    with check assms(6) show ?thesis by (auto elim!: VerifyPassword_Inr)
  qed (rule that)
  with assms check have "w' = w1"
    "rep = \<lparr>SetCookies = [], Page = render h 401 t (FormValue c ''authRequestId'') k e (loginErrorMessage err)\<rparr>"
    by (simp_all add: Submit_def Let_def attempt_def reply_with_def ret_def)
  with VerifyPassword_lock [OF check [unfolded err] assms(2)] show ?thesis
    by (simp add: loginErrorMessage_lock)
qed

section \<open>Signing out\<close>

lemma browser_Delete_run:
  assumes "browser_Delete C t token w = (r, w')" and "\<forall>e. r = Inl e \<longrightarrow> e = OidcErr BrowserSessionNotFoundError"
  shows "db w' = (db w)\<lparr>t_browser_sessions :=
      filter (\<lambda>b. \<not> (bs_tenant b = t \<and> bs_token_hash b = Sha256Hex C token)) (t_browser_sessions (db w))\<rparr>"
proof -
  let ?P = "\<lambda>b. bs_tenant b = t \<and> bs_token_hash b = Sha256Hex C token"
  obtain n d where del: "delete_browser ?P (db w) = (n, d)" by fastforce
  have "db w' = d"
    using assms del
    by (cases "failing w"; cases "n = 0") (auto simp: browser_Delete_def repo_exec_def bindE_def attempt_def exec_def throw_def ret_def)
  with arg_cong [OF del, of snd] show ?thesis by simp
qed

text \<open>The client that answers where a logout names none.\<close>

fun configured_of :: "client_registry \<Rightarrow> StaticClient option" where
  "configured_of (StaticClientRegistry client) = client"
| "configured_of (RegistryClientRegistry configured) = configured_of configured"

lemma unnamed_exit:
  "PostLogoutRedirect reg t [] uri w = (Inr u, w') \<Longrightarrow>
   \<exists>k. configured_of reg = Some k \<and> uri \<in> set (sc_PostLogoutRedirectURIs k)"
  by (induction reg) (auto simp: op_inr bindE_Inr admit_redirect_def static_PostLogoutRedirect_def split: option.splits)

lemma reads_PostLogoutRedirect: "reads (PostLogoutRedirect reg t i uri)"
  unfolding admit_redirect_def
proof (induction reg)
  case (StaticClientRegistry client)
  then show ?case unfolding PostLogoutRedirect.simps static_PostLogoutRedirect_def admit_redirect_def
    by (intro reading.steps_bindE reading.steps_If reading.steps_option reading.steps_throw reading.steps_ret reads_static_Client)
next
  case (RegistryClientRegistry configured)
  then show ?case unfolding PostLogoutRedirect.simps admit_redirect_def
    by (intro reading.steps_bindE reading.steps_If reading.steps_throw reading.steps_ret reads_registry_Client)
qed

lemma TerminateSession_Inr:
  assumes "TerminateSession (Some t) subject i w = (Inr u, w')"
  shows "\<forall>r\<in>set (t_refresh_tokens (db w')). \<not> (rt_tenant r = t \<and> rt_subject r = subject \<and> rt_client r = i)"
    and "\<forall>a\<in>set (t_access_tokens (db w')). \<not> (at_tenant a = t \<and> at_subject a = subject \<and> at_client a = i)"
    and "t_browser_sessions (db w') = t_browser_sessions (db w)"
  using assms by (auto simp: TerminateSession_def DeleteGrants_def bindE_Inr TenantFrom_Inr exec_Inr)

lemma forgiven:
  assumes "attempt m (\<lambda>r. case r of Inl (OidcErr BrowserSessionNotFoundError) \<Rightarrow> ret () | Inl err \<Rightarrow> throw err | Inr _ \<Rightarrow> ret ()) w
    = (Inr u, w')"
  obtains r where "m w = (r, w')" and "\<forall>e. r = Inl e \<longrightarrow> e = OidcErr BrowserSessionNotFoundError"
proof -
  let ?k = "\<lambda>r. case r of Inl (OidcErr BrowserSessionNotFoundError) \<Rightarrow> ret () | Inl err \<Rightarrow> throw err | Inr _ \<Rightarrow> ret ()"
  obtain r w1 where m: "m w = (r, w1)" by fastforce
  with assms have k: "?k r w1 = (Inr u, w')" by (simp only: attempt_def prod.case)
  have other: "?k (Inl e) = throw e" if "e \<noteq> OidcErr BrowserSessionNotFoundError" for e
    using that by (cases e) (simp_all split: oidc_error.split)
  show ?thesis
  proof (cases r)
    case (Inl e)
    have e: "e = OidcErr BrowserSessionNotFoundError"
    proof (rule ccontr)
      assume "e \<noteq> OidcErr BrowserSessionNotFoundError"
      from k [unfolded Inl other [OF this]] show False by (simp add: throw_def)
    qed
    with k Inl m show ?thesis by (simp add: ret_def that)
  next
    case (Inr v)
    with k m show ?thesis by (simp add: ret_def that)
  qed
qed

lemma end_session_Inr:
  assumes "end_session C c (Some t) t w = (Inr u, w')" and "Cookie c SessionCookieName = Some token" and "token \<noteq> []"
  shows "\<forall>b\<in>set (t_browser_sessions (db w')). \<not> (bs_tenant b = t \<and> bs_token_hash b = Sha256Hex C token)"
    and "browser_Read C t token w = (Inr s, wa) \<Longrightarrow>
      \<forall>r\<in>set (t_refresh_tokens (db w')). \<not> (rt_tenant r = t \<and> rt_subject r = BrowserSession_AccountID s \<and> rt_client r = QueryParam c ''client_id'')"
    and "browser_Read C t token w = (Inr s, wa) \<Longrightarrow>
      \<forall>a\<in>set (t_access_tokens (db w')). \<not> (at_tenant a = t \<and> at_subject a = BrowserSession_AccountID s \<and> at_client a = QueryParam c ''client_id'')"
proof -
  obtain read w1 where read: "browser_Read C t token w = (read, w1)" by fastforce
  from assms read obtain v w2 where
    forget: "attempt (browser_Delete C t token) (\<lambda>r. case r of Inl (OidcErr BrowserSessionNotFoundError) \<Rightarrow> ret ()
        | Inl err \<Rightarrow> throw err | Inr _ \<Rightarrow> ret ()) w1 = (Inr v, w2)"
    and rest: "(case read of Inl _ \<Rightarrow> ret () | Inr session \<Rightarrow>
        TerminateSession (Some t) (BrowserSession_AccountID session) (QueryParam c ''client_id'')) w2 = (Inr u, w')"
    unfolding end_session_def by (auto simp: attempt_def [of "browser_Read C t token"] bindE_Inr)
  from forget obtain r where "browser_Delete C t token w1 = (r, w2)" "\<forall>e. r = Inl e \<longrightarrow> e = OidcErr BrowserSessionNotFoundError"
    by (rule forgiven)
  then have deleted: "db w2 = (db w1)\<lparr>t_browser_sessions :=
      filter (\<lambda>b. \<not> (bs_tenant b = t \<and> bs_token_hash b = Sha256Hex C token)) (t_browser_sessions (db w1))\<rparr>"
    by (rule browser_Delete_run)
  have "t_browser_sessions (db w') = t_browser_sessions (db w2)"
    using rest TerminateSession_Inr(3) by (cases read) (auto simp: ret_eq)
  with deleted show "\<forall>b\<in>set (t_browser_sessions (db w')). \<not> (bs_tenant b = t \<and> bs_token_hash b = Sha256Hex C token)" by auto
  show "\<forall>r\<in>set (t_refresh_tokens (db w')). \<not> (rt_tenant r = t \<and> rt_subject r = BrowserSession_AccountID s \<and> rt_client r = QueryParam c ''client_id'')"
    and "\<forall>a\<in>set (t_access_tokens (db w')). \<not> (at_tenant a = t \<and> at_subject a = BrowserSession_AccountID s \<and> at_client a = QueryParam c ''client_id'')"
    if "browser_Read C t token w = (Inr s, wa)"
    using that read rest TerminateSession_Inr(1,2) [of t "BrowserSession_AccountID s" "QueryParam c ''client_id''" w2] by simp_all
qed

text \<open>Where the browser is sent after signing out.\<close>

definition allowed_exit :: "net_lib \<Rightarrow> client_registry \<Rightarrow> page_request \<Rightarrow> string \<Rightarrow> world \<Rightarrow> string \<Rightarrow> bool" where
  "allowed_exit U reg c t w' target \<longleftrightarrow>
     (let i = QueryParam c ''client_id''; uri = QueryParam c ''post_logout_redirect_uri''; state = QueryParam c ''state'' in
      (if i = [] then \<exists>k. configured_of reg = Some k \<and> uri \<in> set (sc_PostLogoutRedirectURIs k)
       else \<exists>k w2. registry_Client reg t i w2 = (Inr k, w') \<and> sc_ID k = i \<and> sc_FirstParty k \<and>
          uri \<in> set (sc_PostLogoutRedirectURIs k)) \<and>
      (\<exists>p. url_Parse U uri = Inr p \<and> target = url_String U (if state \<noteq> [] then query_Set U p ''state'' state else p)))"

lemma signed_out_run:
  assumes "signed_out U h c (Some t) t cookies w = (Inr rep, w')"
  shows "SetCookies rep = cookies" and "db w' = db w"
    and "Page rep = Redirect n u \<Longrightarrow> n = 302 \<and> allowed_exit U (lh_clients h) c t w' u"
    and "Page rep \<noteq> Text 500 ''could not end session''"
proof -
  let ?uri = "QueryParam c ''post_logout_redirect_uri''" and ?i = "QueryParam c ''client_id''"
  have "reads (signed_out U h c (Some t) t cookies)"
    unfolding signed_out_def Let_def reply_with_def
    by (intro reading.steps_If reading.steps_attempt reading.steps_sum reading.steps_ret reads_PostLogoutRedirect)
  from reads_keeps [OF this assms] show "db w' = db w" .
  obtain r w1 where exit: "PostLogoutRedirect (lh_clients h) t ?i ?uri w = (r, w1)" by fastforce
  have "SetCookies rep = cookies \<and> Page rep \<noteq> Text 500 ''could not end session''"
    using assms exit by (cases r) (auto simp: signed_out_def Let_def attempt_def reply_with_def ret_def split: if_splits sum.splits)
  then show "SetCookies rep = cookies" "Page rep \<noteq> Text 500 ''could not end session''" by simp_all
  show "n = 302 \<and> allowed_exit U (lh_clients h) c t w' u" if page: "Page rep = Redirect n u"
  proof -
    obtain v where r: "r = Inr v" and w': "w' = w1" and p: "\<exists>p. url_Parse U ?uri = Inr p \<and> n = 302 \<and>
        u = url_String U (if QueryParam c ''state'' \<noteq> [] then query_Set U p ''state'' (QueryParam c ''state'') else p)"
      using assms exit page
      by (cases r) (auto simp: signed_out_def Let_def attempt_def reply_with_def ret_def split: if_splits sum.splits)
    have "if ?i = [] then \<exists>k. configured_of (lh_clients h) = Some k \<and> ?uri \<in> set (sc_PostLogoutRedirectURIs k)
       else \<exists>k w2. registry_Client (lh_clients h) t ?i w2 = (Inr k, w') \<and> sc_ID k = ?i \<and> sc_FirstParty k \<and>
          ?uri \<in> set (sc_PostLogoutRedirectURIs k)"
      using unnamed_exit [of "lh_clients h" t ?uri w v w1] registry.redirect_registered [of ?i "lh_clients h" t ?uri w v w1]
        exit r w' by auto
    with p show ?thesis by (auto simp: allowed_exit_def Let_def)
  qed
qed

text \<open>
  C25: signing out ends the session. Unless it failed with a 500, the browser is told to drop the
  cookie; the cookie it sent opens no session of the tenant from then on; where it was that of a
  live session, no access token and no refresh token of its account for the client named by
  \<open>client_id\<close> is left. The browser is sent on only to a URI that is registered for the client, or
  for the configured client where none is named.
\<close>

theorem signing_out_ends_the_session:
  assumes "Logout C U h c w = (Inr rep, w')" and "t = Param_tenantId c"
    and "Cookie c SessionCookieName = Some token" and "token \<noteq> []"
  shows "if Page rep = Text 500 ''could not end session'' then SetCookies rep = []
    else SetCookies rep = [sessionCookie SessionCookieName [] (lh_secureCookies h) (Instant 0)] \<and>
      (db wb = db w' \<longrightarrow> browser_Read C t token wb \<noteq> (Inr s', wc)) \<and>
      (browser_Read C t token w = (Inr s, wa) \<longrightarrow>
        (\<forall>r\<in>set (t_refresh_tokens (db w')). \<not> (rt_tenant r = t \<and> rt_subject r = BrowserSession_AccountID s \<and> rt_client r = QueryParam c ''client_id'')) \<and>
        (\<forall>a\<in>set (t_access_tokens (db w')). \<not> (at_tenant a = t \<and> at_subject a = BrowserSession_AccountID s \<and> at_client a = QueryParam c ''client_id''))) \<and>
      (Page rep = Redirect n u \<longrightarrow> n = 302 \<and> allowed_exit U (lh_clients h) c t w' u)"
proof -
  obtain v w1 where first: "end_session C c (Some t) t w = (v, w1)" by fastforce
  show ?thesis
  proof (cases v)
    case (Inl err)
    with assms first have "rep = \<lparr>SetCookies = [], Page = Text 500 ''could not end session''\<rparr>"
      by (simp add: Logout_def Let_def WithTenant_def attempt_def reply_with_def ret_def)
    then show ?thesis by simp
  next
    case (Inr x)
    with assms first have rest: "signed_out U h c (Some t) t
        [sessionCookie SessionCookieName [] (lh_secureCookies h) (Instant 0)] w1 = (Inr rep, w')"
      by (simp add: Logout_def Let_def WithTenant_def attempt_def)
    note ended = end_session_Inr [OF first [unfolded Inr] assms(3,4)] and out = signed_out_run [OF rest]
    have "browser_Read C t token wb \<noteq> (Inr s', wc)" if "db wb = db w'"
      using ended(1) that out(2) by (auto simp: browser_Read_Inr dest: select_row_SomeD)
    with ended(2,3) out show ?thesis by auto
  qed
qed

section \<open>A browser that signs in, comes back and signs out\<close>

definition sample_handler :: login_handler where
  "sample_handler = \<lparr>lh_authentication = sample_service,
     lh_clients = RegistryClientRegistry (StaticClientRegistry (Some \<lparr>sc_ID = ''shop'', sc_SecretHash = [], sc_RedirectURIs = [],
       sc_PostLogoutRedirectURIs = [''https://shop/bye''], sc_FirstParty = True, sc_IDTokenLifetime = 0, sc_ClockSkewTolerance = 0\<rparr>)),
     lh_authCallbackURL = (\<lambda>issuer i. issuer @ ''/authorize/callback?id='' @ i), lh_publicBaseURL = ''https://an'',
     lh_secureCookies = True, lh_sessionExpiry = 1000\<rparr>"

definition sample_page :: "(string \<times> string) list \<Rightarrow> (string \<times> string) list \<Rightarrow> (string \<times> string) list \<Rightarrow> page_request" where
  "sample_page params form cookies = \<lparr>Param_tenantId = ''acme'',
     QueryParam = (\<lambda>k. case map_of params k of None \<Rightarrow> [] | Some v \<Rightarrow> v),
     FormValue = (\<lambda>k. case map_of form k of None \<Rightarrow> [] | Some v \<Rightarrow> v), Cookie = map_of cookies\<rparr>"

definition sample_submit :: "string \<Rightarrow> page_request" where
  "sample_submit password = sample_page []
     [(''authRequestId'', ''q1''), (''email'', ''a@b.co''), (''password'', password), (''csrf'', ''k'')] [(CSRFCookieName, ''k'')]"

definition sample_signed_in_db :: database where
  "sample_signed_in_db = empty_db\<lparr>t_accounts := [sample_user],
     t_auth_requests := [\<lparr>rq_id = ''q1'', rq_tenant = ''acme'', rq_client = ''shop'', rq_subject = [], rq_redirect_uri = ''https://shop/cb'',
       rq_response_type = ''code'', rq_response_mode = [], rq_scopes = [], rq_state = [], rq_nonce = [], rq_code_challenge = [],
       rq_code_challenge_method = [], rq_code_hash = None, rq_amr = [], rq_auth_time = None, rq_done = False,
       rq_expires = Instant 100, rq_created = Instant 0, rq_modified = Instant 0\<rparr>],
     t_browser_sessions := [\<lparr>bs_id = ''b0'', bs_token_hash = Sha256Hex sample_crypto ''tok'', bs_tenant = ''acme'', bs_account = ''u1'',
       bs_auth_time = Instant 3, bs_expires = Instant 100, bs_created = Instant 3\<rparr>]\<rparr>"

definition sample_visit :: world where
  "sample_visit = sample_world sample_signed_in_db 7 [''b1'']"

theorem form_starts_checked_sessions_only_witness:
  "\<exists>rep w'. Submit sample_crypto sample_handler (sample_submit ''hunter22'') sample_visit = (Inr rep, w') \<and>
     starts_session rep \<and> authorized sample_crypto (db w') ''acme'' ''q1'' ''u1'' (Instant 7)"
proof -
  obtain r w' where run: "Submit sample_crypto sample_handler (sample_submit ''hunter22'') sample_visit = (r, w')" by fastforce
  have "case Submit sample_crypto sample_handler (sample_submit ''hunter22'') sample_visit of (r, w') \<Rightarrow>
      (case r of Inl e \<Rightarrow> False | Inr rep \<Rightarrow> starts_session rep \<and> redirected rep)" by code_simp
  with run obtain rep where rep: "r = Inr rep" "starts_session rep" "redirected rep" by (auto split: sum.splits)
  have id: "FormValue (sample_submit ''hunter22'') ''authRequestId'' = ''q1''" "Param_tenantId (sample_submit ''hunter22'') = ''acme''"
    "wall sample_visit = Instant 7" by code_simp+
  from form_starts_checked_sessions_only [OF run [unfolded rep(1)] refl refl] rep(2,3)
  obtain r where r: "may_log_on (db sample_visit) ''acme'' (FormValue (sample_submit ''hunter22'') ''email'') r"
    "authorized sample_crypto (db w') ''acme'' ''q1'' (ac_id r) (Instant 7)"
    unfolding id by blast
  from r(1) have "r \<in> set (t_accounts (db sample_visit))"
    by (auto simp: may_log_on_def account_at_def dest: select_row_SomeD)
  then have "ac_id r = ''u1''" by (simp add: sample_visit_def sample_signed_in_db_def sample_user_def)
  with run rep r(2) show ?thesis by auto
qed

theorem silent_login_needs_a_live_session_witness:
  "\<exists>rep w'. Login sample_crypto sample_handler (sample_page [(''authRequestId'', ''q1'')] [] [(SessionCookieName, ''tok'')]) sample_visit =
     (Inr rep, w') \<and> redirected rep \<and> authorized sample_crypto (db w') ''acme'' ''q1'' ''u1'' (Instant 3)"
proof -
  let ?c = "sample_page [(''authRequestId'', ''q1'')] [] [(SessionCookieName, ''tok'')]"
  obtain r w' where run: "Login sample_crypto sample_handler ?c sample_visit = (r, w')" by fastforce
  have "case Login sample_crypto sample_handler ?c sample_visit of (r, w') \<Rightarrow>
      (case r of Inl e \<Rightarrow> False | Inr rep \<Rightarrow> redirected rep)" by code_simp
  with run obtain rep where rep: "r = Inr rep" "redirected rep" by (auto split: sum.splits)
  have id: "QueryParam ?c ''authRequestId'' = ''q1''" "Param_tenantId ?c = ''acme''" by code_simp+
  from silent_login_needs_a_live_session [OF run [unfolded rep(1)] refl refl] rep(2)
  obtain b where b: "b \<in> set (t_browser_sessions (db sample_visit))"
    "authorized sample_crypto (db w') ''acme'' ''q1'' (bs_account b) (bs_auth_time b)"
    unfolding id by blast
  from b(1) have "bs_account b = ''u1''" "bs_auth_time b = Instant 3" by (simp_all add: sample_visit_def sample_signed_in_db_def)
  with run rep b(2) show ?thesis by auto
qed

theorem form_reveals_only_the_lock_witness:
  "\<exists>rep w'. Submit sample_crypto sample_handler (sample_submit ''guess'') sample_visit = (Inr rep, w') \<and> SetCookies rep = []"
proof -
  obtain r w' where run: "Submit sample_crypto sample_handler (sample_submit ''guess'') sample_visit = (r, w')" by fastforce
  have "case Submit sample_crypto sample_handler (sample_submit ''guess'') sample_visit of (r, w') \<Rightarrow> (case r of Inl e \<Rightarrow> False | Inr rep \<Rightarrow> True)"
    by code_simp
  with run obtain rep where rep: "r = Inr rep" by (auto split: sum.splits)
  have ok: "csrf_valid (sample_submit ''guess'') = Some ''k''" "FormValue (sample_submit ''guess'') ''password'' = ''guess''"
    "quiet sample_visit" by (code_simp, code_simp, simp add: sample_visit_def)
  have wrong: "bcrypt_compare sample_crypto (ac_password_hash r) ''guess'' \<noteq> BcryptMatch"
    if "may_log_on (db sample_visit) t e r" for t e r
  proof -
    from that have "r \<in> set (t_accounts (db sample_visit))" by (auto simp: may_log_on_def account_at_def dest: select_row_SomeD)
    then show ?thesis by (simp add: sample_visit_def sample_signed_in_db_def sample_user_def)
  qed
  from form_reveals_only_the_lock [OF run [unfolded rep] ok(3,1) refl refl] wrong ok(2) have "SetCookies rep = []" by simp
  with run rep show ?thesis by auto
qed

theorem signing_out_ends_the_session_witness:
  "\<exists>rep w'. Logout sample_crypto
       \<lparr>url_Parse = (\<lambda>u. Inr \<lparr>url_Scheme = ''https'', url_Host = ''shop'', url_Hostname = ''shop'', url_Query = []\<rparr>),
        ParseIP_IsLoopback = (\<lambda>h. None), query_Set = (\<lambda>u k v. u), url_String = (\<lambda>u. ''https://shop/bye'')\<rparr> sample_handler
       (sample_page [(''client_id'', ''shop''), (''post_logout_redirect_uri'', ''https://shop/bye'')] [] [(SessionCookieName, ''tok'')])
       sample_visit = (Inr rep, w') \<and>
     Page rep = Redirect 302 ''https://shop/bye'' \<and> (\<forall>s wc. browser_Read sample_crypto ''acme'' ''tok'' w' \<noteq> (Inr s, wc))"
proof -
  let ?c = "sample_page [(''client_id'', ''shop''), (''post_logout_redirect_uri'', ''https://shop/bye'')] [] [(SessionCookieName, ''tok'')]"
  let ?U = "\<lparr>url_Parse = (\<lambda>u. Inr \<lparr>url_Scheme = ''https'', url_Host = ''shop'', url_Hostname = ''shop'', url_Query = []\<rparr>),
        ParseIP_IsLoopback = (\<lambda>h. None), query_Set = (\<lambda>u k v. u), url_String = (\<lambda>u. ''https://shop/bye'')\<rparr>"
  obtain r w' where run: "Logout sample_crypto ?U sample_handler ?c sample_visit = (r, w')" by fastforce
  have "case Logout sample_crypto ?U sample_handler ?c sample_visit of (r, w') \<Rightarrow>
      (case r of Inl e \<Rightarrow> False | Inr rep \<Rightarrow> Page rep = Redirect 302 ''https://shop/bye'')" by code_simp
  with run obtain rep where rep: "r = Inr rep" "Page rep = Redirect 302 ''https://shop/bye''" by (auto split: sum.splits)
  have c: "Cookie ?c SessionCookieName = Some ''tok''" "Param_tenantId ?c = ''acme''" by code_simp+
  have "browser_Read sample_crypto ''acme'' ''tok'' w' \<noteq> (Inr s, wc)" for s wc
    using signing_out_ends_the_session [OF run [unfolded rep(1)] refl c(1), of w' s wc] rep(2) c(2) by simp
  with run rep show ?thesis by auto
qed

end
