(* ===== verification/OidcRotation.thy ===== *)
theory OidcRotation
  imports OidcGrants
begin

text \<open>
  What the grants of the provider are worth: rotation of refresh tokens, revocation and
  logout, and the claims a token gives access to.
\<close>

section \<open>Facts on the token store\<close>

definition refresh_of_hash :: "database \<Rightarrow> string \<Rightarrow> refresh_token_row option" where
  "refresh_of_hash d h = select_row (\<lambda>r. rt_token_hash r = h) (t_refresh_tokens d)"

lemma repo_ReadRefreshToken_eq:
  "\<not> failing w \<Longrightarrow> repo_ReadRefreshToken C t tok w =
    (case refresh_of_hash (db w) (Sha256Hex C tok) of
       None \<Rightarrow> Inl (OidcErr (TokenNotFoundError ''refresh token''))
     | Some r \<Rightarrow> if rt_tenant r \<noteq> t then Inl (OidcErr TenantMismatchError)
         else if rt_expires r < wall w then Inl (OidcErr (TokenNotFoundError ''refresh token''))
         else Inr (refresh_of_row r), tick w)"
  by (simp add: repo_ReadRefreshToken_def readRefreshToken_def live_row_def refresh_of_hash_def bindE_def attempt_def
      query_def exec_def throw_def ret_def time_now_def tick_def split: option.splits)

lemma repo_ReadRefreshToken_Inr [op_inr]:
  "repo_ReadRefreshToken C t tok w = (Inr g, w') \<longleftrightarrow> \<not> failing w \<and>
   (\<exists>r. refresh_of_hash (db w) (Sha256Hex C tok) = Some r \<and> rt_tenant r = t \<and> \<not> rt_expires r < wall w \<and>
     g = refresh_of_row r) \<and> w' = tick w"
  by (auto simp: repo_ReadRefreshToken_def readRefreshToken_def refresh_of_hash_def op_inr)

lemma repo_DeleteRefreshToken_eq:
  assumes "canonical_id C i" and "\<not> failing w"
  shows "repo_DeleteRefreshToken C t i w =
    (if filter (\<lambda>r. rt_tenant r = t \<and> rt_id r = i) (t_refresh_tokens (db w)) = []
     then Inl (OidcErr (TokenNotFoundError i)) else Inr (),
     (tick w)\<lparr>db := snd (delete_refresh (\<lambda>r. rt_tenant r = t \<and> rt_id r = i) (db w))\<rparr>)"
proof -
  let ?P = "\<lambda>r. rt_tenant r = t \<and> rt_id r = i"
  have "exec (\<lambda>now d. at_uuid C i (\<lambda>u. Inr (delete_refresh (\<lambda>r. rt_tenant r = t \<and> rt_id r = u) d))) w =
      (Inr (length (filter ?P (t_refresh_tokens (db w)))), (tick w)\<lparr>db := snd (delete_refresh ?P (db w))\<rparr>)"
    using assms by (simp add: exec_def at_uuid_def canonical_id_def case_prod_beta)
  then show ?thesis
    using assms(1)
    by (simp add: repo_DeleteRefreshToken_def canonical_id_def repo_exec_def bindE_def attempt_def throw_def ret_def
        del: delete_refresh_simps)
qed

lemma repo_CreateRefreshToken_InrE:
  assumes "repo_CreateRefreshToken C g w = (Inr (g', pt), w')"
  obtains u us where "uuids w = u # us" "g' = g\<lparr>RefreshToken_ID := u, RefreshToken_Created := pg_now w\<rparr>"
    "\<forall>r\<in>set (t_refresh_tokens (db w)). rt_id r \<noteq> u \<and> rt_token_hash r \<noteq> Sha256Hex C pt"
    "db w' = (db w)\<lparr>t_refresh_tokens := t_refresh_tokens (db w) @
        [refresh_row (g\<lparr>RefreshToken_ID := u\<rparr>) (Sha256Hex C pt) (pg_now w)]\<rparr>"
    "wall w' = wall w" "uuids w' = us"
  using assms
  by (auto simp: repo_CreateRefreshToken_def Let_def op_inr RandomToken_def stmt_defs insert_row_Inr
      refresh_token_conflict_def split: prod.splits)

lemma repo_CreateAccessToken_InrE:
  assumes "repo_CreateAccessToken C a w = (Inr a', w')"
  obtains u us ref where "uuids w = u # us" "a' = a\<lparr>AccessToken_ID := u, AccessToken_Created := pg_now w\<rparr>"
    "refresh_reference C (AccessToken_RefreshTokenID a) = Inr ref" "refresh_exists ref (db w)"
    "db w' = (db w)\<lparr>t_access_tokens := t_access_tokens (db w) @ [access_row (a\<lparr>AccessToken_ID := u\<rparr>) ref (pg_now w)]\<rparr>"
  using assms
  by (auto simp: repo_CreateAccessToken_def Let_def op_inr access_insert_Inr insert_row_Inr)

lemma TokenRequestByRefreshToken_eq:
  "t \<noteq> [] \<Longrightarrow> TokenRequestByRefreshToken C (Some t) tok = repo_ReadRefreshToken C t tok"
  by (simp add: TokenRequestByRefreshToken_def TenantFrom_def bindE_ret)

lemma CreateAccessAndRefreshTokens_renew:
  "t \<noteq> [] \<Longrightarrow> tok \<noteq> [] \<Longrightarrow>
   CreateAccessAndRefreshTokens C s (Some t) (FromRefreshToken g) tok =
     bindE (repo_DeleteRefreshToken C t (RefreshToken_ID g)) (\<lambda>_.
     bindE (createRefreshToken C s t (FromRefreshToken g)) (\<lambda>(refreshToken, plaintext).
     bindE (createAccessToken C s t (FromRefreshToken g) (RefreshToken_ID refreshToken)) (\<lambda>accessToken.
     ret (AccessToken_ID accessToken, plaintext, AccessToken_Expires accessToken))))"
  by (simp add: CreateAccessAndRefreshTokens_def TenantFrom_def bindE_ret spent_grant_def)

lemma createRefreshToken_renew:
  "createRefreshToken C s t (FromRefreshToken g) w = repo_CreateRefreshToken C
     (g\<lparr>RefreshToken_ID := [], RefreshToken_TenantID := t,
        RefreshToken_Expires := instant_add (wall w) (refreshExpiry s), RefreshToken_Created := zero_instant\<rparr>) w"
  by (cases g) (simp add: createRefreshToken_def bindE_def attempt_def time_now_def Let_def)

text \<open>What a renewal leaves: the spent grant and what was minted with it gone, its successor stored.\<close>

lemma renewal_effect:
  assumes "t \<noteq> []" "tok \<noteq> []" "canonical_id C (RefreshToken_ID g)"
    and renew: "CreateAccessAndRefreshTokens C s (Some t) (FromRefreshToken g) tok w = (Inr (aid, tok', x), w')"
  obtains u us ref where "uuids w = u # us" "refresh_reference C u = Inr ref"
    "t_refresh_tokens (db w') = filter (\<lambda>r. \<not> (rt_tenant r = t \<and> rt_id r = RefreshToken_ID g)) (t_refresh_tokens (db w)) @
       [refresh_row (g\<lparr>RefreshToken_TenantID := t, RefreshToken_Expires := instant_add (wall w) (refreshExpiry s),
          RefreshToken_Created := zero_instant, RefreshToken_ID := u\<rparr>)
          (Sha256Hex C tok') (pg_now w)]"
    "\<forall>r\<in>set (t_refresh_tokens (db w)). rt_tenant r = t \<and> rt_id r = RefreshToken_ID g \<or> rt_token_hash r \<noteq> Sha256Hex C tok'"
    "\<forall>a\<in>set (t_access_tokens (db w')). at_refresh_token a = ref \<or>
       \<not> cascaded (\<lambda>r. rt_tenant r = t \<and> rt_id r = RefreshToken_ID g) (db w) a"
proof -
  let ?P = "\<lambda>r. rt_tenant r = t \<and> rt_id r = RefreshToken_ID g"
  from renew obtain w1 w2 g' a where del: "repo_DeleteRefreshToken C t (RefreshToken_ID g) w = (Inr (), w1)"
    and cr: "createRefreshToken C s t (FromRefreshToken g) w1 = (Inr (g', tok'), w2)"
    and ca: "createAccessToken C s t (FromRefreshToken g) (RefreshToken_ID g') w2 = (Inr a, w')"
    unfolding CreateAccessAndRefreshTokens_renew [OF assms(1,2)]
    by (auto simp: bindE_Inr ret_eq split: prod.splits)
  have live: "\<not> failing w" using del assms(3)
    by (auto simp: repo_DeleteRefreshToken_def canonical_id_def repo_exec_Inr)
  have w1: "w1 = (tick w)\<lparr>db := snd (delete_refresh ?P (db w))\<rparr>"
    using del unfolding repo_DeleteRefreshToken_eq [OF assms(3) live] by simp
  let ?g = "g\<lparr>RefreshToken_ID := [], RefreshToken_TenantID := t,
      RefreshToken_Expires := instant_add (wall w) (refreshExpiry s), RefreshToken_Created := zero_instant\<rparr>"
  have "repo_CreateRefreshToken C ?g w1 = (Inr (g', tok'), w2)"
    using cr unfolding createRefreshToken_renew by (simp add: w1)
  then obtain u us where u: "uuids w1 = u # us" "RefreshToken_ID g' = u"
    and new: "\<forall>r\<in>set (t_refresh_tokens (db w1)). rt_id r \<noteq> u \<and> rt_token_hash r \<noteq> Sha256Hex C tok'"
    and d2: "db w2 = (db w1)\<lparr>t_refresh_tokens := t_refresh_tokens (db w1) @
        [refresh_row (?g\<lparr>RefreshToken_ID := u\<rparr>) (Sha256Hex C tok') (pg_now w1)]\<rparr>"
    by (elim repo_CreateRefreshToken_InrE) simp
  from ca obtain ref v where ref: "refresh_reference C u = Inr ref"
    and d': "db w' = (db w2)\<lparr>t_access_tokens := t_access_tokens (db w2) @ [v]\<rparr>" and v: "at_refresh_token v = ref"
    by (auto simp: createAccessToken_def bindE_Inr time_now_eq u(2) elim!: repo_CreateAccessToken_InrE)
  show ?thesis
  proof (rule that [of u us ref])
    show "uuids w = u # us" using u w1 by simp
    show "refresh_reference C u = Inr ref" by (fact ref)
    show "t_refresh_tokens (db w') = filter (\<lambda>r. \<not> ?P r) (t_refresh_tokens (db w)) @
       [refresh_row (g\<lparr>RefreshToken_TenantID := t, RefreshToken_Expires := instant_add (wall w) (refreshExpiry s),
          RefreshToken_Created := zero_instant, RefreshToken_ID := u\<rparr>)
          (Sha256Hex C tok') (pg_now w)]"
      using d' d2 w1 by simp
    show "\<forall>r\<in>set (t_refresh_tokens (db w)). ?P r \<or> rt_token_hash r \<noteq> Sha256Hex C tok'"
      using new w1 by auto
    show "\<forall>a\<in>set (t_access_tokens (db w')). at_refresh_token a = ref \<or> \<not> cascaded ?P (db w) a"
      using d' d2 w1 v by auto
  qed
qed

section \<open>Rotation\<close>

lemma refresh_of_hash_member:
  "distinct (map rt_token_hash (t_refresh_tokens d)) \<Longrightarrow> r \<in> set (t_refresh_tokens d) \<Longrightarrow>
   refresh_of_hash d (rt_token_hash r) = Some r"
  unfolding refresh_of_hash_def by (rule select_row_unique)

text \<open>The grant inserted last is found by its token, while it lasts.\<close>

lemma grant_readable:
  assumes "t \<noteq> []" and "\<not> failing w" and "t_refresh_tokens (db w) = ts @ [refresh_row g (Sha256Hex C plain) now]"
    and "\<forall>y\<in>set ts. rt_token_hash y \<noteq> Sha256Hex C plain" and "RefreshToken_TenantID g = t" and "wall w \<le> RefreshToken_Expires g"
  shows "fst (TokenRequestByRefreshToken C (Some t) plain w) = Inr (refresh_of_row (refresh_row g (Sha256Hex C plain) now))"
  using assms by (simp add: TokenRequestByRefreshToken_eq repo_ReadRefreshToken_eq refresh_of_hash_def select_row_last refresh_row_def not_less)

text \<open>A grant that is gone is neither loaded nor renewed.\<close>

lemma spent_grant_refused:
  assumes "t \<noteq> []" and "tok \<noteq> []" and "\<not> failing w" and "canonical_id C (RefreshToken_ID g)"
    and "\<forall>y\<in>set (t_refresh_tokens (db w)). rt_token_hash y \<noteq> Sha256Hex C tok \<and> rt_id y \<noteq> RefreshToken_ID g"
  shows "fst (TokenRequestByRefreshToken C (Some t) tok w) = Inl (OidcErr (TokenNotFoundError ''refresh token''))"
    and "fst (CreateAccessAndRefreshTokens C s (Some t) (FromRefreshToken g) tok w) =
      Inl (OidcErr (TokenNotFoundError (RefreshToken_ID g)))"
proof -
  have "refresh_of_hash (db w) (Sha256Hex C tok) = None"
    using assms(5) by (auto simp: refresh_of_hash_def select_row_def find_None_iff)
  then show "fst (TokenRequestByRefreshToken C (Some t) tok w) = Inl (OidcErr (TokenNotFoundError ''refresh token''))"
    by (simp add: TokenRequestByRefreshToken_eq [OF assms(1)] repo_ReadRefreshToken_eq [OF assms(3)])
  have none: "filter (\<lambda>r. rt_tenant r = t \<and> rt_id r = RefreshToken_ID g) (t_refresh_tokens (db w)) = []"
    using assms(5) by (auto simp: filter_empty_conv)
  show "fst (CreateAccessAndRefreshTokens C s (Some t) (FromRefreshToken g) tok w) = Inl (OidcErr (TokenNotFoundError (RefreshToken_ID g)))"
    unfolding CreateAccessAndRefreshTokens_renew [OF assms(1,2)] bindE_def attempt_def
      repo_DeleteRefreshToken_eq [OF assms(4,3)] none
    by (simp add: throw_def)
qed

text \<open>
  C8: a refresh token of the provider renews once. After a renewal with the token, the same token
  is unknown to the token endpoint, a renewal racing on the grant that was loaded before fails
  without minting anything, and no access token minted with the spent grant is left; the new
  token stands for a grant of the same subject, client, audience, scopes and authentication,
  in the same tenant, until it expires. (The new id and the new token are fresh.)
\<close>

theorem refresh_token_renews_once:
  assumes "grants_ok (db w)" and "canonical_id C (RefreshToken_ID g)" and "tok \<noteq> []"
    and read: "TokenRequestByRefreshToken C (Some t) tok w = (Inr g, wa)"
    and renew: "CreateAccessAndRefreshTokens C s (Some t) (FromRefreshToken g) tok wa = (Inr (aid, tok', x), wb)"
    and fresh: "Sha256Hex C tok' \<noteq> Sha256Hex C tok" "RefreshToken_ID g \<notin> set (uuids wa)"
    and canonical: "\<And>u. u \<in> set (uuids wa) \<Longrightarrow> refresh_reference C u = Inr (Some u)"
    and later: "db wc = db wb" "\<not> failing wc" "wall wc \<le> instant_add (wall wa) (storage.refreshExpiry s)"
  shows "fst (TokenRequestByRefreshToken C (Some t) tok wc) = Inl (OidcErr (TokenNotFoundError ''refresh token'')) \<and>
    fst (CreateAccessAndRefreshTokens C s (Some t) (FromRefreshToken g) tok wc) =
      Inl (OidcErr (TokenNotFoundError (RefreshToken_ID g))) \<and>
    (\<forall>a\<in>set (t_access_tokens (db wb)). at_refresh_token a \<noteq> Some (RefreshToken_ID g)) \<and>
    (\<exists>g'. fst (TokenRequestByRefreshToken C (Some t) tok' wc) = Inr g' \<and>
       g' = g\<lparr>RefreshToken_ID := RefreshToken_ID g', RefreshToken_Expires := RefreshToken_Expires g',
             RefreshToken_Created := RefreshToken_Created g'\<rparr>)"
proof -
  let ?P = "\<lambda>r. rt_tenant r = t \<and> rt_id r = RefreshToken_ID g"
  have t: "t \<noteq> []" using read by (auto simp: TokenRequestByRefreshToken_def op_inr)
  from read t obtain r where r: "refresh_of_hash (db w) (Sha256Hex C tok) = Some r" "rt_tenant r = t"
    and g: "g = refresh_of_row r" and wa: "wa = tick w"
    by (auto simp: TokenRequestByRefreshToken_eq op_inr)
  have mem: "r \<in> set (t_refresh_tokens (db w))" and h: "rt_token_hash r = Sha256Hex C tok"
    using r(1) by (auto simp: refresh_of_hash_def dest: select_row_SomeD)
  have keys: "inj_on rt_token_hash (set (t_refresh_tokens (db w)))" "inj_on rt_id (set (t_refresh_tokens (db w)))"
    using assms(1) by (simp_all add: grants_ok_def distinct_map)
  have id: "RefreshToken_ID g = rt_id r" by (simp add: g refresh_of_row_def)
  let ?g = "\<lambda>u. g\<lparr>RefreshToken_TenantID := t, RefreshToken_Expires := instant_add (wall wa) (storage.refreshExpiry s),
      RefreshToken_Created := zero_instant, RefreshToken_ID := u\<rparr>"
  obtain u us ref where u: "uuids wa = u # us" and ref: "refresh_reference C u = Inr ref"
    and rts: "t_refresh_tokens (db wb) = filter (\<lambda>r. \<not> ?P r) (t_refresh_tokens (db wa)) @ [refresh_row (?g u) (Sha256Hex C tok') (pg_now wa)]"
    and new: "\<forall>r\<in>set (t_refresh_tokens (db wa)). ?P r \<or> rt_token_hash r \<noteq> Sha256Hex C tok'"
    and ats: "\<forall>a\<in>set (t_access_tokens (db wb)). at_refresh_token a = ref \<or> \<not> cascaded ?P (db wa) a"
    by (rule renewal_effect [OF t assms(3,2) renew]) blast
  have u_id: "u \<noteq> RefreshToken_ID g" using fresh(2) u by auto
  have same: "y = r" if "y \<in> set (t_refresh_tokens (db w))" "rt_token_hash y = Sha256Hex C tok \<or> rt_id y = rt_id r" for y
    using that mem keys unfolding h [symmetric] by (blast dest: inj_onD)
  have "\<forall>y\<in>set (t_refresh_tokens (db wc)). rt_token_hash y \<noteq> Sha256Hex C tok \<and> rt_id y \<noteq> RefreshToken_ID g"
    using same r(2) id fresh(1) u_id by (auto simp: rts wa later(1))
  note gone = spent_grant_refused [OF t assms(3) later(2) assms(2) this]
  have "\<forall>a\<in>set (t_access_tokens (db wb)). at_refresh_token a \<noteq> Some (RefreshToken_ID g)"
    using ats ref canonical [of u] u u_id mem r(2) id by (auto simp: cascaded_def wa)
  moreover have "fst (TokenRequestByRefreshToken C (Some t) tok' wc) = Inr (refresh_of_row (refresh_row (?g u) (Sha256Hex C tok') (pg_now wa)))"
    by (rule grant_readable [OF t later(2)]) (use new later(1,3) in \<open>auto simp: rts\<close>)
  moreover have "refresh_of_row (refresh_row (?g u) h n) = g\<lparr>RefreshToken_ID := u,
      RefreshToken_Expires := instant_add (wall wa) (storage.refreshExpiry s), RefreshToken_Created := n\<rparr>" for h n
    using r(2) by (simp add: g refresh_of_row_def refresh_row_def)
  ultimately show ?thesis using gone by simp
qed

text \<open>The sample code exchanged, and the refresh token it gave used once.\<close>

definition sample_exchange :: "(go_error + string \<times> string \<times> instant) \<times> world" where
  "sample_exchange = CreateAccessAndRefreshTokens sample_crypto sample_storage (Some ''acme'') (FromAuthRequest sample_request) []
     (sample_authorized (sample_login_world\<lparr>rng := replicate 32 1 @ replicate 32 2\<rparr>))"

definition sample_refresh :: string where
  "sample_refresh = (case fst sample_exchange of Inr (a, tok, x) \<Rightarrow> tok | Inl e \<Rightarrow> [])"

definition sample_grant_read :: "(go_error + RefreshGrant) \<times> world" where
  "sample_grant_read = TokenRequestByRefreshToken sample_crypto (Some ''acme'') sample_refresh (snd sample_exchange)"

definition sample_grant :: RefreshGrant where
  "sample_grant = \<lparr>RefreshToken_ID = ''g1'', RefreshToken_TenantID = ''acme'', RefreshToken_ClientID = ''shop'',
     RefreshToken_Subject = ''u1'', RefreshToken_Audience = [''shop''], RefreshToken_Scopes = [''openid'', ''email''],
     RefreshToken_AMR = [''pwd''], RefreshToken_AuthTime = Instant 7, RefreshToken_Expires = Instant 907,
     RefreshToken_Created = Instant 7\<rparr>"

definition sample_renewal :: "(go_error + string \<times> string \<times> instant) \<times> world" where
  "sample_renewal = CreateAccessAndRefreshTokens sample_crypto sample_storage (Some ''acme'') (FromRefreshToken sample_grant)
     sample_refresh (snd sample_grant_read)"

definition sample_successor :: string where
  "sample_successor = (case fst sample_renewal of Inr (a, tok, x) \<Rightarrow> tok | Inl e \<Rightarrow> [])"

lemma sample_runs:
  "fst sample_grant_read = Inr sample_grant"
  "fst sample_renewal = Inr (''a2'', sample_successor, Instant 307)"
  "Sha256Hex sample_crypto sample_successor \<noteq> Sha256Hex sample_crypto sample_refresh"
  "sample_refresh \<noteq> []" "uuids (snd sample_grant_read) = [''g2'', ''a2'']" "failing (snd sample_renewal) = False"
  "wall (snd sample_renewal) = Instant 7" "wall (snd sample_grant_read) = Instant 7"
proof -
  obtain g1 w1 r1 w2 where runs: "sample_grant_read = (g1, w1)" "sample_renewal = (r1, w2)" by fastforce
  have "case sample_grant_read of (g, w) \<Rightarrow> (case sample_renewal of (r, w') \<Rightarrow>
      g = Inr sample_grant \<and> uuids w = [''g2'', ''a2''] \<and> wall w = Instant 7 \<and>
      (case r of Inl e \<Rightarrow> False | Inr (a, tok, x) \<Rightarrow> a = ''a2'' \<and> x = Instant 307 \<and>
         Sha256Hex sample_crypto tok \<noteq> Sha256Hex sample_crypto sample_refresh \<and> sample_refresh \<noteq> []) \<and>
      failing w' = False \<and> wall w' = Instant 7)"
    by code_simp
  then show "fst sample_grant_read = Inr sample_grant"
    "fst sample_renewal = Inr (''a2'', sample_successor, Instant 307)"
    "Sha256Hex sample_crypto sample_successor \<noteq> Sha256Hex sample_crypto sample_refresh"
    "sample_refresh \<noteq> []" "uuids (snd sample_grant_read) = [''g2'', ''a2'']" "failing (snd sample_renewal) = False"
    "wall (snd sample_renewal) = Instant 7" "wall (snd sample_grant_read) = Instant 7"
    by (auto simp: runs sample_successor_def split: sum.splits prod.splits)
qed

lemma grants_ok_exchange: "grants_ok (db (snd sample_exchange))"
proof -
  have "oidc_reach sample_crypto sample_lib sample_storage (db (sample_authorized (sample_login_world\<lparr>rng := replicate 32 1 @ replicate 32 2\<rparr>)))"
    by (rule reach_authorized) (simp add: sample_login_world_def reach_sample_account)
  from reach_grants_ok [OF reach_call [OF this, of "Some ''acme''" "CallTokens (FromAuthRequest sample_request) []"]]
  show ?thesis
    by (simp add: sample_exchange_def done_with_def bindE_def attempt_def ret_def throw_def split: prod.splits sum.splits)
qed

theorem refresh_token_renews_once_witness:
  "fst (TokenRequestByRefreshToken sample_crypto (Some ''acme'') sample_refresh (snd sample_renewal)) =
     Inl (OidcErr (TokenNotFoundError ''refresh token'')) \<and>
   (\<exists>g'. fst (TokenRequestByRefreshToken sample_crypto (Some ''acme'') sample_successor (snd sample_renewal)) = Inr g' \<and>
      RefreshToken_Subject g' = ''u1'')"
proof -
  have read: "TokenRequestByRefreshToken sample_crypto (Some ''acme'') sample_refresh (snd sample_exchange) =
      (Inr sample_grant, snd sample_grant_read)"
    using sample_runs(1) by (simp add: sample_grant_read_def prod_eq_iff)
  have renew: "CreateAccessAndRefreshTokens sample_crypto sample_storage (Some ''acme'') (FromRefreshToken sample_grant)
     sample_refresh (snd sample_grant_read) = (Inr (''a2'', sample_successor, Instant 307), snd sample_renewal)"
    using sample_runs(2) by (simp add: sample_renewal_def prod_eq_iff)
  have later: "wall (snd sample_renewal) \<le> instant_add (wall (snd sample_grant_read)) (refreshExpiry sample_storage)"
    by (simp add: sample_runs sample_storage_def)
  have ids: "canonical_id sample_crypto (RefreshToken_ID sample_grant)" "RefreshToken_ID sample_grant \<notin> set (uuids (snd sample_grant_read))"
    "\<And>u. u \<in> set (uuids (snd sample_grant_read)) \<Longrightarrow> refresh_reference sample_crypto u = Inr (Some u)"
    by (auto simp: sample_runs sample_grant_def canonical_id_def refresh_reference_def nullableID_def at_uuid_def)
  note facts = refresh_token_renews_once [OF grants_ok_exchange ids(1) sample_runs(4) read renew sample_runs(3) ids(2,3) refl _ later]
  from facts obtain g' where
    "fst (TokenRequestByRefreshToken sample_crypto (Some ''acme'') sample_successor (snd sample_renewal)) = Inr g'"
    and "g' = sample_grant\<lparr>RefreshToken_ID := RefreshToken_ID g', RefreshToken_Expires := RefreshToken_Expires g',
             RefreshToken_Created := RefreshToken_Created g'\<rparr>"
    using sample_runs(6) by auto
  then have "RefreshToken_Subject g' = RefreshToken_Subject sample_grant" by (metis RefreshGrant.select_convs(4) RefreshGrant.surjective RefreshGrant.update_convs(1,9,10))
  with facts sample_runs(6) \<open>fst _ = Inr g'\<close> show ?thesis by (simp add: sample_grant_def)
qed

end
