(* ===== verification/ProviderEffects.thy ===== *)
theory ProviderEffects
  imports Effects LoginPages OidcRotation
begin

text \<open>
  What a call of the provider library and a page of the login can do to the database: the calls
  of the locale of \<open>Effects\<close>, extended by the statements that write the provider's tables.
\<close>

section \<open>The calls of a tenant\<close>

text \<open>The calls on the stores that name a tenant of their own; the janitor's are of no tenant.\<close>

fun call_in :: "string \<Rightarrow> oidc_call \<Rightarrow> bool" where
  "call_in t (CallBrowserCreate b) = (BrowserSession_TenantID b = t)"
| "call_in t (CallBrowserDelete t' token) = (t' = t)"
| "call_in t (CallBrowserDeleteAll t' i) = (t' = t)"
| "call_in t (CallRevokeAccount t' e) = (t' = t)"
| "call_in t CallExpireRequests = False"
| "call_in t CallExpireTokens = False"
| "call_in t CallExpireBrowsers = False"
| "call_in t call = True"

text \<open>The ids \<open>uuid.NewV7\<close> will return are in the form the column prints.\<close>

definition canonical_ids :: "crypto \<Rightarrow> world \<Rightarrow> bool" where
  "canonical_ids C w \<longleftrightarrow> list_all (\<lambda>i. pg_uuid C i = Some i) (uuids w)"

lemma done_with_snd: "snd (done_with m w) = snd (m w)"
  by (simp add: done_with_def bindE_def attempt_def throw_def ret_def split: prod.split sum.split)

section \<open>The statements of the provider\<close>

text \<open>
  An access token is minted alone or with a grant of its tenant.
\<close>

locale provider_effects = tenant_effects R manage t
  for R :: "database \<Rightarrow> database \<Rightarrow> bool" and manage :: bool and t :: string +
  assumes request_insert: "AuthRequest_TenantID q = t \<Longrightarrow> steps R (exec (auth_request_insert_stmt q))"
    and request_set: "(\<And>now r. rq_tenant (g now r) = rq_tenant r) \<Longrightarrow> (\<And>now r. rq_id (g now r) = rq_id r) \<Longrightarrow>
      steps R (exec (auth_request_set_stmt C t i g))"
    and refresh_insert: "RefreshToken_TenantID rt = t \<Longrightarrow> steps R (exec (refresh_insert_stmt rt h))"
    and access_insert: "AccessToken_TenantID at = t \<Longrightarrow> AccessToken_RefreshTokenID at = [] \<or>
        (\<exists>row\<in>set (t_refresh_tokens d). pg_uuid C (AccessToken_RefreshTokenID at) = Some (rt_id row) \<and> rt_tenant row = t) \<Longrightarrow>
      access_insert_stmt C at now d = Inr (x, d') \<Longrightarrow> R d d'"
    and browser_insert: "BrowserSession_TenantID b = t \<Longrightarrow> steps R (exec (browser_insert_stmt C b h))"
begin

lemma reads_steps: "reads m \<Longrightarrow> steps R m"
  by (simp add: steps_def R_refl)

lemma in_tenant_bind: "steps R (k t) \<Longrightarrow> steps R (bindE (TenantFrom (Some t)) k)"
  by (cases "t = []") (auto simp: steps_def bindE_def attempt_def TenantFrom_def throw_def ret_def R_refl)

lemma in_tenant_attempt:
  "steps R (k (Inr t)) \<Longrightarrow> (\<And>e. steps R (k (Inl e))) \<Longrightarrow> steps R (attempt (TenantFrom (Some t)) k)"
  by (cases "t = []") (auto simp: steps_def attempt_def TenantFrom_def throw_def ret_def)

subsection \<open>The repositories\<close>

lemma uuid_delete_steps:
  assumes "\<And>u d. R d (snd (f u d))"
  shows "steps R (exec (\<lambda>now d. at_uuid C i (\<lambda>u. Inr (f u d))))"
    and "steps R (exec (\<lambda>now d. at_uuid C i (\<lambda>u. unit_stmt (f u d))))"
  using assms by (intro steps_exec; auto; metis snd_conv)+

lemma store_delete_steps:
  "steps R (repo_DeleteRefreshToken C t i)" "steps R (repo_DeleteAccessToken C t i)" "steps R (browser_DeleteAll C t i)"
  unfolding repo_DeleteRefreshToken_def repo_DeleteAccessToken_def browser_DeleteAll_def repo_exec_def
  by (intro rules uuid_delete_steps refresh_deleted access_deleted browser_deleted; simp)+

lemma request_update_steps: "steps R (exec s) \<Longrightarrow> steps R (auth_request_update s i)"
  unfolding auth_request_update_def by (intro rules)

lemma request_steps:
  "AuthRequest_TenantID q = t \<Longrightarrow> steps R (auth_request_Create q)"
  "steps R (auth_request_Authenticate C t i sub time amr)" "steps R (auth_request_SaveCode C t i code)"
  "steps R (auth_request_Delete C t i)"
proof -
  show "AuthRequest_TenantID q = t \<Longrightarrow> steps R (auth_request_Create q)"
    unfolding auth_request_Create_def Let_def by (intro rules request_insert) simp
  show "steps R (auth_request_Authenticate C t i sub time amr)" "steps R (auth_request_SaveCode C t i code)"
    unfolding auth_request_Authenticate_def auth_request_SaveCode_def
    by (intro request_update_steps request_set; simp add: set_authenticated_def set_code_def)+
  have "steps R (exec (auth_request_Delete_stmt C t i))"
  proof (rule steps_exec)
    fix now d x d'
    assume "auth_request_Delete_stmt C t i now d = Inr (x, d')"
    then obtain u where "d' = d\<lparr>t_auth_requests := snd (delete_where (\<lambda>r. rq_tenant r = t \<and> rq_id r = u) (t_auth_requests d))\<rparr>"
      by (auto simp: stmt_defs delete_where_def)
    then show "R d d'" using request_deleted [of "\<lambda>r. rq_tenant r = t \<and> rq_id r = u" d] by simp
  qed
  then show "steps R (auth_request_Delete C t i)"
    unfolding auth_request_Delete_def by (intro rules request_update_steps)
qed

lemma browser_create_steps: "BrowserSession_TenantID b = t \<Longrightarrow> steps R (browser_Create C b)"
  unfolding browser_Create_def Let_def by (intro rules draw_steps browser_insert) simp

lemma create_refresh_steps: "steps R (createRefreshToken C s t rq)"
  unfolding createRefreshToken_def repo_CreateRefreshToken_def Let_def
  by (intro rules draw_steps refresh_insert) (auto split: option.split)

lemma lone_access_steps: "steps R (createAccessToken C s t rq [])"
  unfolding createAccessToken_def repo_CreateAccessToken_def Let_def
  by (intro rules steps_exec, erule access_insert [rotated 2]) simp_all

text \<open>The pair of an exchange: the access token is of the grant just stored.\<close>

lemma pair_keeps:
  assumes "createRefreshToken C s t rq w = (Inr (g, plain), w1)" and "canonical_ids C w"
  shows "R (db w1) (db (snd (createAccessToken C s t rq (RefreshToken_ID g) w1)))"
proof -
  obtain r where r: "r \<in> set (t_refresh_tokens (db w1))" "rt_id r = RefreshToken_ID g" "rt_tenant r = t"
    and canon: "pg_uuid C (RefreshToken_ID g) = Some (RefreshToken_ID g)"
  proof -
    from assms(1) obtain g0 w0 where "repo_CreateRefreshToken C g0 w0 = (Inr (g, plain), w1)"
      and g0: "RefreshToken_TenantID g0 = t" and w0: "uuids w0 = uuids w"
      by (cases "source_of rq") (auto simp: createRefreshToken_def Let_def bindE_Inr time_now_eq)
    from this(1) obtain u us where u: "uuids w0 = u # us" "RefreshToken_ID g = u"
      and d: "refresh_row (g0\<lparr>RefreshToken_ID := u\<rparr>) (Sha256Hex C plain) (pg_now w0) \<in> set (t_refresh_tokens (db w1))"
    proof (rule repo_CreateRefreshToken_InrE)
      fix u us
      assume new: "uuids w0 = u # us" "g = g0\<lparr>RefreshToken_ID := u, RefreshToken_Created := pg_now w0\<rparr>"
        "db w1 = (db w0)\<lparr>t_refresh_tokens := t_refresh_tokens (db w0) @
          [refresh_row (g0\<lparr>RefreshToken_ID := u\<rparr>) (Sha256Hex C plain) (pg_now w0)]\<rparr>"
      show thesis by (rule that [OF new(1)]) (simp_all add: new(2,3))
    qed
    show ?thesis by (rule that [OF d]) (use u w0 g0 assms(2) in \<open>simp_all add: canonical_ids_def\<close>)
  qed
  have "R (db w2) (db (snd (createAccessToken C s t rq (RefreshToken_ID g) w2)))" if "db w2 = db w1" for w2
  proof -
    have mint: "R d d'" if "access_insert_stmt C at now d = Inr (x, d')" "AccessToken_TenantID at = t"
      "AccessToken_RefreshTokenID at = RefreshToken_ID g" "d = db w1" for at now d x d'
    proof -
      have "\<exists>row\<in>set (t_refresh_tokens d). pg_uuid C (AccessToken_RefreshTokenID at) = Some (rt_id row) \<and> rt_tenant row = t"
        by (rule bexI [OF _ r(1) [folded that(4)]]) (simp add: r canon that(3))
      with access_insert [OF that(2) _ that(1)] show ?thesis by blast
    qed
    show ?thesis
      by (auto simp: createAccessToken_def repo_CreateAccessToken_def Let_def bindE_def attempt_def time_now_def
          new_uuid_def map_err_def exec_def throw_def ret_def R_refl that
          split: list.split sum.split prod.split intro: mint)
  qed
  then show ?thesis by simp
qed

subsection \<open>The calls of the library\<close>

lemma request_gone_steps: "steps R (request_gone r)"
  unfolding request_gone_def by (auto intro!: rules split: sum.splits go_error.splits oidc_error.splits)

lemma access_revoked_steps: "steps R (access_revoked L r)"
  unfolding access_revoked_def by (auto intro!: rules split: sum.splits go_error.splits oidc_error.splits)

lemma exchange_keeps:
  assumes "canonical_ids C w"
  shows "R (db w) (db (snd (CreateAccessAndRefreshTokens C s (Some t) rq cur w)))"
proof (cases "t = []")
  case True
  then show ?thesis
    by (simp add: CreateAccessAndRefreshTokens_def bindE_def attempt_def TenantFrom_def throw_def R_refl)
next
  case False
  let ?spend = "if cur \<noteq> [] then bindE (spent_grant C t rq cur) (\<lambda>spent. repo_DeleteRefreshToken C t (RefreshToken_ID spent))
    else ret ()"
  obtain r w1 where spend: "?spend w = (r, w1)" by fastforce
  obtain q w2 where mint: "createRefreshToken C s t rq w1 = (q, w2)" by fastforce
  have "steps R ?spend"
    unfolding spent_grant_def by (intro rules store_delete_steps; cases rq; simp; intro rules reads_steps reads_readRefreshToken)
  then have one: "R (db w) (db w1)" using spend by (rule stepsD)
  from create_refresh_steps mint have two: "R (db w1) (db w2)" by (rule stepsD)
  show ?thesis
  proof (cases r)
    case (Inl e)
    with spend one False show ?thesis
      by (simp add: CreateAccessAndRefreshTokens_def bindE_def attempt_def TenantFrom_def throw_def ret_def)
  next
    case (Inr u)
    have "uuids w1 = uuids w"
      using spend unfolding Inr
      by (cases rq) (auto simp: spent_grant_def repo_ReadRefreshToken_def readRefreshToken_def repo_DeleteRefreshToken_def
          op_inr split: if_splits)
    with assms have ids: "canonical_ids C w1" by (simp add: canonical_ids_def)
    show ?thesis
    proof (cases q)
      case (Inl e)
      with spend mint one two \<open>r = Inr u\<close> False R_trans show ?thesis
        by (simp add: CreateAccessAndRefreshTokens_def bindE_def attempt_def TenantFrom_def throw_def ret_def)
    next
      case (Inr p)
      obtain g plain where p: "p = (g, plain)" by (cases p)
      have "R (db w2) (db (snd (createAccessToken C s t rq (RefreshToken_ID g) w2)))"
        using pair_keeps mint ids Inr p by blast
      with one two have "R (db w) (db (snd (createAccessToken C s t rq (RefreshToken_ID g) w2)))"
        by (blast intro: R_trans)
      with spend mint \<open>r = Inr u\<close> Inr p False show ?thesis
        by (auto simp: CreateAccessAndRefreshTokens_def bindE_def attempt_def TenantFrom_def throw_def ret_def
            split: prod.split sum.split)
    qed
  qed
qed

lemma storage_steps:
  "steps R (CreateAuthRequest s (Some t) q)" "steps R (AuthenticateRequest C (Some t) i sub time amr)"
  "steps R (SaveAuthCode C (Some t) i code)" "steps R (DeleteAuthRequest C (Some t) i)"
  "steps R (storage_CreateAccessToken C s (Some t) rq)" "steps R (TerminateSession (Some t) sub c)"
  unfolding CreateAuthRequest_def AuthenticateRequest_def SaveAuthCode_def DeleteAuthRequest_def
    storage_CreateAccessToken_def TerminateSession_def
  by (intro rules in_tenant_bind request_steps request_gone_steps lone_access_steps delete_steps; simp)+

lemma revoke_token_steps: "steps R (RevokeToken C L (Some t) i sub c)"
  unfolding RevokeToken_def
  by (rule in_tenant_attempt; simp; intro rules access_revoked_steps store_delete_steps reads_steps [OF reads_readRefreshToken(2)])

lemma done_with_steps: "steps R m \<Longrightarrow> steps R (done_with m)"
  unfolding done_with_def by (intro rules)

lemma run_steps:
  assumes "call_in t call" and "\<And>rq cur. call \<noteq> CallTokens rq cur"
  shows "steps R (oidc_run C L s (Some t) call)"
  using assms
  by (cases call) (auto intro: storage_steps revoke_token_steps done_with_steps browser_create_steps delete_steps store_delete_steps)

lemma run_keeps:
  assumes "call_in t call" and "canonical_ids C w"
  shows "R (db w) (db (snd (oidc_run C L s (Some t) call w)))"
proof (cases "\<exists>rq cur. call = CallTokens rq cur")
  case True
  then obtain rq cur where "call = CallTokens rq cur" by blast
  then show ?thesis using exchange_keeps [OF assms(2)] by (simp add: done_with_snd)
next
  case False
  with run_steps [OF assms(1)] show ?thesis by (simp add: steps_def)
qed

subsection \<open>The pages of the login\<close>

lemma complete_steps: "steps R (complete C h (Some t) tenantID i a time cookies)"
  unfolding complete_def AuthenticateRequest_def reply_with_def by (intro rules in_tenant_bind request_steps)

lemma start_session_steps: "steps R (start_session C h (Some t) t i account)"
  unfolding start_session_def reply_with_def by (intro rules browser_create_steps complete_steps) simp

lemma page_steps:
  assumes "Param_tenantId c = t"
  shows "steps R (Login C h c)" "steps R (Submit C h c)" "steps R (Logout C U h c)"
proof -
  have "steps R (reply_with cookies page)" for cookies page unfolding reply_with_def by (intro rules)
  note page = rules this complete_steps start_session_steps reads_steps [OF reads_liveSession] draw_steps gate_steps
  show "steps R (Login C h c)"
    unfolding Login_def Let_def assms WithTenant_def by (intro page)
  have "steps R (reissue h t i e)" for i e unfolding reissue_def by (intro page)
  then show "steps R (Submit C h c)"
    unfolding Submit_def Let_def assms WithTenant_def by (intro page)
  have drop: "steps R (case r of Inl (OidcErr BrowserSessionNotFoundError) \<Rightarrow> ret () | Inl err \<Rightarrow> throw err | Inr _ \<Rightarrow> ret ())"
    for r :: "go_error + unit"
    by (auto intro!: rules split: sum.split go_error.split oidc_error.split)
  have "steps R (end_session C c (Some t) t)"
    unfolding end_session_def
    by (intro rules drop delete_steps storage_steps reads_steps [OF reads_browser_Read])
  moreover have "steps R (signed_out U h c (Some t) t cookies)" for cookies
    unfolding signed_out_def Let_def by (intro page reads_steps [OF reads_PostLogoutRedirect])
  ultimately show "steps R (Logout C U h c)"
    unfolding Logout_def Let_def assms WithTenant_def by (intro page)
qed

end

end
