(* ===== verification/Isolation.thy ===== *)
theory Isolation
  imports Api ProviderEffects
begin

text \<open>
  Tenants are isolated: what a REST request writes, it writes into the rows of the tenant it
  operates on. The relation is stated once, holds of every statement, and so of every service
  call; the api is the sum of its handlers, and the gate fixes the tenant.
\<close>

section \<open>The rows of the other tenants\<close>

text \<open>
  The database without the rows of a tenant. Tenants and signing keys belong to none; a linked
  identity is of the tenant of its account.
\<close>

definition foreign_account :: "string \<Rightarrow> account_row list \<Rightarrow> string \<Rightarrow> bool" where
  "foreign_account t accounts i \<longleftrightarrow> i \<in> set (map ac_id (filter (\<lambda>r. ac_tenant r \<noteq> t) accounts))"

definition foreign :: "string \<Rightarrow> database \<Rightarrow> database" where
  "foreign t d =
     \<lparr>t_tenants = t_tenants d,
      t_api_keys = filter (\<lambda>r. ak_tenant r \<noteq> t) (t_api_keys d),
      t_signing_keys = t_signing_keys d,
      t_accounts = filter (\<lambda>r. ac_tenant r \<noteq> t) (t_accounts d),
      t_social_logins = filter (\<lambda>r. foreign_account t (t_accounts d) (sl_account r)) (t_social_logins d),
      t_password_resets = filter (\<lambda>r. pr_tenant r \<noteq> t) (t_password_resets d),
      t_sessions = filter (\<lambda>r. se_tenant r \<noteq> t) (t_sessions d),
      t_failed_attempts = filter (\<lambda>r. fa_tenant r \<noteq> t) (t_failed_attempts d),
      t_logon_codes = filter (\<lambda>r. lc_tenant r \<noteq> t) (t_logon_codes d),
      t_auth_requests = filter (\<lambda>r. rq_tenant r \<noteq> t) (t_auth_requests d),
      t_refresh_tokens = filter (\<lambda>r. rt_tenant r \<noteq> t) (t_refresh_tokens d),
      t_access_tokens = filter (\<lambda>r. at_tenant r \<noteq> t) (t_access_tokens d),
      t_browser_sessions = filter (\<lambda>r. bs_tenant r \<noteq> t) (t_browser_sessions d),
      t_clients = filter (\<lambda>r. cl_tenant r \<noteq> t) (t_clients d)\<rparr>"

text \<open>
  What the isolation rests on: an access token is of the tenant of its grant, so the cascade stays
  within the tenant, and an id names one account or one grant.
\<close>

definition of_grant :: "refresh_token_row list \<Rightarrow> access_token_row \<Rightarrow> bool" where
  "of_grant grants a \<longleftrightarrow> (case at_refresh_token a of None \<Rightarrow> True
     | Some u \<Rightarrow> \<exists>g\<in>set grants. rt_id g = u \<and> rt_tenant g = at_tenant a)"

lemma of_grant_iff: "of_grant grants a \<longleftrightarrow>
    (\<forall>u. at_refresh_token a = Some u \<longrightarrow> (\<exists>g\<in>set grants. rt_id g = u \<and> rt_tenant g = at_tenant a))"
  by (simp add: of_grant_def split: option.split)

definition grants_match :: "database \<Rightarrow> bool" where
  "grants_match d \<longleftrightarrow>
     distinct (map ac_id (t_accounts d)) \<and> distinct (map rt_id (t_refresh_tokens d)) \<and>
     (\<forall>a\<in>set (t_access_tokens d). of_grant (t_refresh_tokens d) a)"

lemma grants_match_tenant:
  assumes "grants_match d" "a \<in> set (t_access_tokens d)" "g \<in> set (t_refresh_tokens d)" "at_refresh_token a = Some (rt_id g)"
  shows "rt_tenant g = at_tenant a"
proof -
  from assms obtain g' where g': "g' \<in> set (t_refresh_tokens d)" "rt_id g' = rt_id g" "rt_tenant g' = at_tenant a"
    by (fastforce simp: grants_match_def of_grant_iff)
  with assms(1,3) have "g' = g" by (auto simp: grants_match_def distinct_map dest: inj_onD)
  with g'(3) show ?thesis by simp
qed

text \<open>\<open>root\<close>: api keys and clients may be managed, which takes the bootstrap key.\<close>

definition isolated :: "bool \<Rightarrow> string \<Rightarrow> database \<Rightarrow> database \<Rightarrow> bool" where
  "isolated root t d d' \<longleftrightarrow>
     (grants_match d \<longrightarrow> grants_match d' \<and> foreign t d' = foreign t d \<and>
        (\<not> root \<longrightarrow> t_api_keys d' = t_api_keys d \<and> t_clients d' = t_clients d))"

lemma isolated_refl: "isolated root t d d"
  by (simp add: isolated_def)

lemma isolated_trans: "isolated root t d1 d2 \<Longrightarrow> isolated root t d2 d3 \<Longrightarrow> isolated root t d1 d3"
  by (auto simp: isolated_def)

section \<open>Statements\<close>

lemma filter_update: "(\<And>r. P r \<Longrightarrow> ten r = t) \<Longrightarrow> (\<And>r. ten (f r) = ten r) \<Longrightarrow>
    filter (\<lambda>r. ten r \<noteq> t) (map (\<lambda>r. if P r then f r else r) xs) = filter (\<lambda>r. ten r \<noteq> t) xs"
  by (induction xs) auto

lemma filter_keep: "(\<And>r. ten r \<noteq> t \<Longrightarrow> K r) \<Longrightarrow>
    filter (\<lambda>r. ten r \<noteq> t) (filter K xs) = filter (\<lambda>r. ten r \<noteq> t) xs"
  by (induction xs) auto

lemma filter_upsert:
  assumes "upsert_row target confl upd r xs = Inr ys" and "\<And>x. target x r \<Longrightarrow> ten x = t"
    and "\<And>x. ten (upd x) = ten x" and "ten r = t"
  shows "filter (\<lambda>r. ten r \<noteq> t) ys = filter (\<lambda>r. ten r \<noteq> t) xs"
  using assms by (auto simp: upsert_row_def insert_row_def filter_update split: if_splits)

lemma filter_insert: "insert_row confl r xs = Inr ys \<Longrightarrow> ten r = t \<Longrightarrow>
    filter (\<lambda>r. ten r \<noteq> t) ys = filter (\<lambda>r. ten r \<noteq> t) xs"
  by (auto simp: insert_row_def split: if_splits)

text \<open>The tables whose statements can be of a REST request.\<close>

lemma isolated_table:
  "filter (\<lambda>r. ak_tenant r \<noteq> t) k = filter (\<lambda>r. ak_tenant r \<noteq> t) (t_api_keys d) \<Longrightarrow> isolated True t d (d\<lparr>t_api_keys := k\<rparr>)"
  "filter (\<lambda>r. ac_tenant r \<noteq> t) a = filter (\<lambda>r. ac_tenant r \<noteq> t) (t_accounts d) \<Longrightarrow>
     (distinct (map ac_id (t_accounts d)) \<Longrightarrow> distinct (map ac_id a)) \<Longrightarrow> isolated root t d (d\<lparr>t_accounts := a\<rparr>)"
  "filter (\<lambda>r. pr_tenant r \<noteq> t) p = filter (\<lambda>r. pr_tenant r \<noteq> t) (t_password_resets d) \<Longrightarrow> isolated root t d (d\<lparr>t_password_resets := p\<rparr>)"
  "filter (\<lambda>r. se_tenant r \<noteq> t) s = filter (\<lambda>r. se_tenant r \<noteq> t) (t_sessions d) \<Longrightarrow> isolated root t d (d\<lparr>t_sessions := s\<rparr>)"
  "filter (\<lambda>r. fa_tenant r \<noteq> t) f = filter (\<lambda>r. fa_tenant r \<noteq> t) (t_failed_attempts d) \<Longrightarrow> isolated root t d (d\<lparr>t_failed_attempts := f\<rparr>)"
  "filter (\<lambda>r. lc_tenant r \<noteq> t) c = filter (\<lambda>r. lc_tenant r \<noteq> t) (t_logon_codes d) \<Longrightarrow> isolated root t d (d\<lparr>t_logon_codes := c\<rparr>)"
  "filter (\<lambda>r. rq_tenant r \<noteq> t) q = filter (\<lambda>r. rq_tenant r \<noteq> t) (t_auth_requests d) \<Longrightarrow> isolated root t d (d\<lparr>t_auth_requests := q\<rparr>)"
  "filter (\<lambda>r. bs_tenant r \<noteq> t) b = filter (\<lambda>r. bs_tenant r \<noteq> t) (t_browser_sessions d) \<Longrightarrow> isolated root t d (d\<lparr>t_browser_sessions := b\<rparr>)"
  "filter (\<lambda>r. cl_tenant r \<noteq> t) l = filter (\<lambda>r. cl_tenant r \<noteq> t) (t_clients d) \<Longrightarrow> isolated True t d (d\<lparr>t_clients := l\<rparr>)"
  by (auto simp: isolated_def foreign_def foreign_account_def grants_match_def)

lemma isolated_links:
  "filter (\<lambda>r. foreign_account t (t_accounts d) (sl_account r)) l =
     filter (\<lambda>r. foreign_account t (t_accounts d) (sl_account r)) (t_social_logins d) \<Longrightarrow>
   isolated root t d (d\<lparr>t_social_logins := l\<rparr>)"
  by (auto simp: isolated_def foreign_def grants_match_def)

lemma isolated_delete_access:
  "(\<And>r. P r \<Longrightarrow> at_tenant r = t) \<Longrightarrow> isolated root t d (snd (delete_access P d))"
  by (auto simp: isolated_def foreign_def grants_match_def intro!: filter_cong)

lemma isolated_delete_refresh:
  assumes "\<And>r. P r \<Longrightarrow> rt_tenant r = t"
  shows "isolated root t d (snd (delete_refresh P d))"
proof -
  have "filter (\<lambda>r. at_tenant r \<noteq> t) (filter (\<lambda>a. \<not> cascaded P d a) (t_access_tokens d)) =
      filter (\<lambda>r. at_tenant r \<noteq> t) (t_access_tokens d)" if "grants_match d"
  proof -
    have "at_tenant a = t" if "a \<in> set (t_access_tokens d)" "cascaded P d a" for a
    proof -
      from that(2) obtain g where g: "g \<in> set (t_refresh_tokens d)" "P g" "at_refresh_token a = Some (rt_id g)"
        by (auto simp: cascaded_def)
      with \<open>grants_match d\<close> that(1) have "rt_tenant g = at_tenant a" by (blast intro: grants_match_tenant)
      with assms [OF g(2)] show ?thesis by simp
    qed
    then show ?thesis by (auto intro!: filter_cong)
  qed
  moreover have "grants_match (snd (delete_refresh P d))" if "grants_match d"
    using that by (auto simp: grants_match_def distinct_map_filter_key cascaded_def of_grant_iff) blast
  moreover have "filter (\<lambda>x. \<not> P x \<and> rt_tenant x \<noteq> t) (t_refresh_tokens d) = filter (\<lambda>r. rt_tenant r \<noteq> t) (t_refresh_tokens d)"
    using assms by (auto intro!: filter_cong)
  ultimately show ?thesis by (simp add: isolated_def foreign_def)
qed

lemma isolated_requests: "(\<And>r. Q r \<Longrightarrow> rq_tenant r = t) \<Longrightarrow>
    isolated root t d (d\<lparr>t_auth_requests := snd (delete_where Q (t_auth_requests d))\<rparr>)"
  by (auto intro!: isolated_table filter_keep)

lemma isolated_browser: "(\<And>r. B r \<Longrightarrow> bs_tenant r = t) \<Longrightarrow> isolated root t d (snd (delete_browser B d))"
  by (auto intro!: isolated_table filter_keep)

lemma isolated_insert_refresh:
  assumes "rt_tenant r = t" and "\<forall>x\<in>set (t_refresh_tokens d). rt_id x \<noteq> rt_id r"
  shows "isolated root t d (d\<lparr>t_refresh_tokens := t_refresh_tokens d @ [r]\<rparr>)"
proof -
  have "grants_match (d\<lparr>t_refresh_tokens := t_refresh_tokens d @ [r]\<rparr>)" if "grants_match d"
    using that assms(2) by (auto simp: grants_match_def of_grant_iff)
  with assms(1) show ?thesis by (auto simp: isolated_def foreign_def)
qed

lemma isolated_insert_access:
  assumes at: "AccessToken_TenantID at = t" "AccessToken_RefreshTokenID at = [] \<or>
        (\<exists>row\<in>set (t_refresh_tokens d). pg_uuid C (AccessToken_RefreshTokenID at) = Some (rt_id row) \<and> rt_tenant row = t)"
    and "access_insert_stmt C at now d = Inr (x, d')"
  shows "isolated root t d d'"
proof -
  from assms(3) obtain ref where ref: "refresh_reference C (AccessToken_RefreshTokenID at) = Inr ref"
    and d': "d' = d\<lparr>t_access_tokens := t_access_tokens d @ [access_row at ref now]\<rparr>"
    by (auto simp: access_insert_Inr insert_row_Inr)
  from ref at have "of_grant (t_refresh_tokens d) (access_row at ref now)"
    by (auto simp: refresh_reference_def nullableID_def at_uuid_def of_grant_iff split: if_splits option.splits)
  then have "grants_match d'" if "grants_match d"
    using that at(1) by (auto simp: grants_match_def d')
  with at(1) show ?thesis by (auto simp: isolated_def foreign_def d')
qed

text \<open>A linked identity is of an account of the tenant, and of no other.\<close>

lemma isolated_Link:
  assumes "a \<in> set (t_accounts (db w))" "ac_tenant a = t"
  shows "isolated root t (db w) (db (snd (Link (ac_id a) p s w)))"
proof -
  have one: "x = a" if "grants_match (db w)" "x \<in> set (t_accounts (db w))" "ac_id x = ac_id a" for x
    using that assms(1) by (auto simp: grants_match_def distinct_map dest: inj_onD)
  then have own: "grants_match (db w) \<Longrightarrow> \<not> foreign_account t (t_accounts (db w)) (ac_id a)"
    using assms(2) by (auto simp: foreign_account_def)
  have "isolated root t (db w) d'" if "Link_stmt (ac_id a) p s now (db w) = Inr (x, d')" for now x d'
  proof -
    let ?r = "\<lparr>sl_account = ac_id a, sl_provider = p, sl_subject = s, sl_created = now\<rparr>"
    let ?F = "\<lambda>r. foreign_account t (t_accounts (db w)) (sl_account r)"
    from that obtain l where up: "upsert_checked social_login_same social_login_conflict (\<lambda>r. r\<lparr>sl_subject := s\<rparr>) ?r
        (t_social_logins (db w)) = Inr l" and d': "d' = (db w)\<lparr>t_social_logins := l\<rparr>"
      by (auto simp: stmt_defs split: if_splits)
    have "filter ?F l = filter ?F (t_social_logins (db w))" if ok: "grants_match (db w)"
    proof -
      have keep: "filter ?F (map (\<lambda>x. if social_login_same x ?r then x\<lparr>sl_subject := s\<rparr> else x) xs) = filter ?F xs" for xs
        using own [OF ok] by (induction xs) (auto simp: social_login_same_def)
      show ?thesis using up own [OF ok]
        by (auto simp: upsert_checked_def insert_row_def update_checked_def update_where_def keep split: if_splits)
    qed
    then show ?thesis using isolated_links [of t "db w" l] by (auto simp: isolated_def d')
  qed
  then show ?thesis
    by (auto simp: Link_def map_err_def attempt_def throw_def ret_def exec_def isolated_refl split: sum.split prod.split)
qed

section \<open>The calls\<close>

text \<open>A statement that changes one table in the rows of the tenant.\<close>

lemma isolated_stmt:
  "(\<And>now d x d'. s now d = Inr (x, d') \<Longrightarrow> isolated root t d d') \<Longrightarrow> steps (isolated root t) (exec s)"
  by (auto simp: steps_def exec_def isolated_refl split: sum.splits prod.splits)

interpretation tenancy: provider_effects "isolated root t" root t for root t
proof unfold_locales
  show "isolated root t d d" for d by (rule isolated_refl)
  show "isolated root t d1 d3" if "isolated root t d1 d2" "isolated root t d2 d3" for d1 d2 d3
    using that by (rule isolated_trans)
  show "steps (isolated root t) (exec (account_update_stmt f t e))"
    if "\<And>now r. ac_tenant (f now r) = ac_tenant r" "\<And>now r. ac_id (f now r) = ac_id r" for f e
  proof (rule isolated_stmt)
    fix now d x d'
    assume "account_update_stmt f t e now d = Inr (x, d')"
    moreover have "map ac_id (map (\<lambda>r. if ac_tenant r = t \<and> ac_email r = e then f now r else r) (t_accounts d)) =
        map ac_id (t_accounts d)" using that(2) by auto
    ultimately show "isolated root t d d'"
      by (auto simp: account_update_stmt_def update_where_def that(1) simp del: map_map intro!: isolated_table filter_update)
  qed
  show "steps (isolated root t) (exec (account_insert_stmt a v))" if "Account_TenantID a = t" for a v
    by (rule isolated_stmt)
      (auto simp: account_insert_stmt_def new_account_row_def that Let_def insert_row_def account_conflict_def
        intro!: isolated_table split: if_splits, blast+)
  show "steps (isolated root t) (reset_Upsert t e h x)" for e h x
    unfolding reset_Upsert_def by (rule isolated_stmt)
      (auto simp: stmt_defs password_reset_conflict_def intro!: isolated_table elim!: filter_upsert)
  show "steps (isolated root t) (reset_Delete t e)" for e
    unfolding reset_Delete_def by (rule isolated_stmt) (auto simp: stmt_defs delete_where_def intro!: isolated_table filter_keep)
  show "steps (isolated root t) (attempt_Clear t e)" for e
    unfolding attempt_Clear_def by (rule isolated_stmt) (auto simp: stmt_defs delete_where_def intro!: isolated_table filter_keep)
  show "steps (isolated root t) (IncrementAndLock t e m l)" for e m l
    unfolding IncrementAndLock_def by (rule isolated_stmt)
      (auto simp: stmt_defs Let_def failed_attempt_conflict_def intro!: isolated_table elim!: filter_upsert split: if_splits)
  show "steps (isolated root t) (code_Upsert t e h x)" for e h x
    unfolding code_Upsert_def by (rule isolated_stmt)
      (auto simp: stmt_defs logon_code_conflict_def intro!: isolated_table elim!: filter_upsert)
  show "steps (isolated root t) (code_Delete t e)" for e
    unfolding code_Delete_def by (rule isolated_stmt) (auto simp: stmt_defs delete_where_def intro!: isolated_table filter_keep)
  show "steps (isolated root t) (exec (session_Upsert_stmt s))" if "se_tenant s = t" for s
    by (rule isolated_stmt) (auto simp: stmt_defs session_same_def that intro!: isolated_table elim!: filter_upsert)
  show "steps (isolated root t) (exec (session_Rotate_stmt t e c j j' x))" for e c j j' x
    by (rule isolated_stmt) (auto simp: stmt_defs update_where_def session_key_def intro!: isolated_table filter_update)
  show "steps (isolated root t) (exec (session_Delete_stmt t e c))" for e c
    by (rule isolated_stmt) (auto simp: stmt_defs delete_where_def session_key_def intro!: isolated_table filter_keep)
  show "steps (isolated root t) (session_DeleteAll t e)" for e
    unfolding session_DeleteAll_def by (rule isolated_stmt) (auto simp: stmt_defs delete_where_def intro!: isolated_table filter_keep)
  show "steps (isolated root t) (exec (api_key_insert_stmt k h))" if root "ApiKey_TenantID k = t" for k h
    by (rule isolated_stmt) (use that in \<open>auto simp: stmt_defs intro!: isolated_table elim!: filter_insert\<close>)
  show "steps (isolated root t) (exec (api_key_Delete_stmt C t i))" if root for C i
    by (rule isolated_stmt)
      (use that in \<open>auto simp: stmt_defs delete_where_def intro!: isolated_table filter_keep split: option.splits\<close>)
  show "steps (isolated root t) (exec (client_insert_stmt cl))" if root "cl_tenant cl = t" for cl
    by (rule isolated_stmt) (use that in \<open>auto simp: stmt_defs intro!: isolated_table elim!: filter_insert\<close>)
  show "steps (isolated root t) (exec (client_Delete_stmt t i))" if root for i
    by (rule isolated_stmt) (use that in \<open>auto simp: stmt_defs delete_where_def intro!: isolated_table filter_keep\<close>)
  show "isolated root t d (snd (delete_browser B d))" if "\<And>r. B r \<Longrightarrow> bs_tenant r = t" for B d
    using that by (rule isolated_browser)
  show "isolated root t d (snd (delete_refresh G d))" if "\<And>r. G r \<Longrightarrow> rt_tenant r = t" for G d
    using that by (rule isolated_delete_refresh)
  show "isolated root t d (snd (delete_access A d))" if "\<And>r. A r \<Longrightarrow> at_tenant r = t" for A d
    using that by (rule isolated_delete_access)
  show "isolated root t d (d\<lparr>t_auth_requests := snd (delete_where Q (t_auth_requests d))\<rparr>)"
    if "\<And>r. Q r \<Longrightarrow> rq_tenant r = t" for Q d
    using that by (rule isolated_requests)
  show "isolated root t (db w) (db (snd (Link (ac_id row) p sub w)))"
    if "row \<in> set (t_accounts (db w))" "ac_tenant row = t" for row w p sub
    using that by (rule isolated_Link)
  show "steps (isolated root t) (exec (auth_request_insert_stmt q))" if "AuthRequest_TenantID q = t" for q
    by (rule isolated_stmt) (auto simp: stmt_defs that intro!: isolated_table elim!: filter_insert)
  show "steps (isolated root t) (exec (auth_request_set_stmt C t i g))"
    if "\<And>now r. rq_tenant (g now r) = rq_tenant r" for C i g
    by (rule isolated_stmt)
      (auto simp: stmt_defs update_checked_Inr update_where_def that intro!: isolated_table filter_update)
  show "steps (isolated root t) (exec (refresh_insert_stmt rt h))" if "RefreshToken_TenantID rt = t" for rt h
    by (rule isolated_stmt)
      (use that in \<open>auto simp: stmt_defs insert_row_Inr refresh_token_conflict_def intro!: isolated_insert_refresh\<close>)
  show "isolated root t d d'"
    if "AccessToken_TenantID at = t" "AccessToken_RefreshTokenID at = [] \<or>
        (\<exists>row\<in>set (t_refresh_tokens d). pg_uuid C (AccessToken_RefreshTokenID at) = Some (rt_id row) \<and> rt_tenant row = t)"
      "access_insert_stmt C at now d = Inr (x, d')" for at C now d x d'
    using that by (rule isolated_insert_access)
  show "steps (isolated root t) (exec (browser_insert_stmt C b h))" if "BrowserSession_TenantID b = t" for b C h
    by (rule isolated_stmt) (auto simp: browser_insert_Inr that intro!: isolated_table elim!: filter_insert)
qed

section \<open>Properties\<close>

text \<open>A context that fixes the tenant: what a tenant key leaves.\<close>

lemma EffectiveTenant_key: "contextTenant c = Some t \<Longrightarrow> t \<noteq> [] \<Longrightarrow> EffectiveTenant c requested = t"
  by (simp add: EffectiveTenant_def)

lemma EffectiveTenant_none: "contextTenant c = None \<Longrightarrow> EffectiveTenant c requested = TenantOrDefault requested"
  by (simp add: EffectiveTenant_def)

text \<open>
  C1: tenants are isolated. Where a bootstrap key is set, a request to the api with any other key
  either is refused with the database as it was, or is served as the one tenant the key is stored
  for: no row of another tenant is touched, whatever tenant the request names, and neither an api
  key nor a client is made or removed. A request with the bootstrap key, or where there is none,
  touches no row outside the tenant it names.
\<close>

theorem tenant_key_reaches_one_tenant:
  assumes "grants_match (db w)" and "request E call key w = (r, w')"
  shows "if BootstrapApiKey (env_config E) = [] \<or> key = BootstrapApiKey (env_config E)
    then foreign (TenantOrDefault (call_tenant call)) (db w') = foreign (TenantOrDefault (call_tenant call)) (db w) \<and>
      grants_match (db w')
    else (db w' = db w \<and> r = Inr (problem_response (NewUnauthorized ''a valid api key is required''))) \<or>
      (\<exists>t w1. apikeys_Authenticate (env_crypto E) key w = (Inr t, w1) \<and>
         (t \<noteq> [] \<longrightarrow> foreign t (db w') = foreign t (db w) \<and> t_api_keys (db w') = t_api_keys (db w) \<and>
            t_clients (db w') = t_clients (db w) \<and> grants_match (db w')))"
  using assms(2)
proof (cases rule: request_cases)
  case (refused w1)
  then show ?thesis by (simp add: unauthorized_def ret_def)
next
  case ungated
  have "isolated True (TenantOrDefault (call_tenant call)) (db w) (db w')"
    by (rule stepsD [OF tenancy.serve_steps ungated(2)]) (simp_all add: EffectiveTenant_none no_context_def)
  with ungated(1) assms(1) show ?thesis by (simp add: isolated_def)
next
  case root
  have "isolated True (TenantOrDefault (call_tenant call)) (db w) (db w')"
    by (rule stepsD [OF tenancy.serve_steps root(3)]) (simp_all add: EffectiveTenant_none)
  with root(2) assms(1) show ?thesis by (simp add: isolated_def)
next
  case (tenant t w1)
  have "isolated False t (db w1) (db w')" if "t \<noteq> []"
    by (rule stepsD [OF tenancy.serve_steps tenant(5)]) (simp_all add: EffectiveTenant_key that IsRoot_def)
  with tenant(1-4) assms(1) show ?thesis by (auto simp: isolated_def)
qed

theorem tenant_key_reaches_one_tenant_witness:
  "\<exists>w'. request sample_env sample_delete_call sample_api_key (sample_world sample_tenants_db 5 []) = (Inr (NoContent 204), w') \<and>
     map ac_deleted (t_accounts (db w')) = [False, True] \<and>
     foreign ''acme'' (db w') = foreign ''acme'' sample_tenants_db"
proof -
  let ?w = "sample_world sample_tenants_db 5 []"
  obtain r w' where run: "request sample_env sample_delete_call sample_api_key ?w = (r, w')" by fastforce
  have "(case request sample_env sample_delete_call sample_api_key ?w of (r, w') \<Rightarrow>
      (case r of Inr (NoContent n) \<Rightarrow> n = 204 | _ \<Rightarrow> False) \<and> map ac_deleted (t_accounts (db w')) = [False, True])"
    by code_simp
  with run have r: "r = Inr (NoContent 204)" and acc: "map ac_deleted (t_accounts (db w')) = [False, True]"
    by (auto split: sum.splits response.splits)
  have boot: "BootstrapApiKey (env_config sample_env) = ''root''" by code_simp
  have ok: "grants_match (db ?w)" "sample_api_key \<noteq> ''root''" "fst (apikeys_Authenticate sample_crypto sample_api_key ?w) = Inr ''acme''"
    by code_simp+
  have crypto: "env_crypto sample_env = sample_crypto" by (simp add: sample_env_def)
  from tenant_key_reaches_one_tenant [OF ok(1) run] boot ok(2,3) crypto r
  have "foreign ''acme'' (db w') = foreign ''acme'' (db ?w)" by (auto simp: problem_response_def)
  with run r acc show ?thesis by auto
qed

definition within :: "string \<Rightarrow> database \<Rightarrow> database \<Rightarrow> bool" where
  "within t d d' \<longleftrightarrow> foreign t d' = foreign t d \<and> t_api_keys d' = t_api_keys d \<and> t_clients d' = t_clients d"

text \<open>
  C10: the provider is isolated as well. A page of the login of a tenant, and a call of the provider
  library made for a tenant on the stores of that tenant, touch no row of another one, and make and
  remove neither an api key nor a client. Ids are canonical.
\<close>

theorem provider_stays_in_its_tenant:
  assumes "grants_match (db w)" and "canonical_ids C w" and "Param_tenantId c = t" and "call_in t call"
  shows "within t (db w) (db (snd (Login C h c w))) \<and> within t (db w) (db (snd (Submit C h c w))) \<and>
    within t (db w) (db (snd (Logout C U h c w))) \<and>
    within t (db w) (db (snd (oidc_run C L s (Some t) call w))) \<and>
    grants_match (db (snd (oidc_run C L s (Some t) call w)))"
proof -
  have "isolated False t (db w) (db (snd (Login C h c w)))" "isolated False t (db w) (db (snd (Submit C h c w)))"
    "isolated False t (db w) (db (snd (Logout C U h c w)))"
    using tenancy.page_steps [OF assms(3)] by (auto simp: steps_def)
  moreover have "isolated False t (db w) (db (snd (oidc_run C L s (Some t) call w)))"
    by (rule tenancy.run_keeps [OF assms(4,2)])
  ultimately show ?thesis using assms(1) by (simp add: isolated_def within_def)
qed

definition sample_shared_visit :: world where
  "sample_shared_visit = sample_visit\<lparr>db := sample_signed_in_db
     \<lparr>t_accounts := [sample_user, sample_user\<lparr>ac_id := ''u9'', ac_tenant := ''other''\<rparr>]\<rparr>\<rparr>"

theorem provider_stays_in_its_tenant_witness:
  "\<exists>w'. snd (Submit sample_crypto sample_handler (sample_submit ''hunter22'') sample_shared_visit) = w' \<and>
     length (t_browser_sessions (db w')) = 2 \<and> foreign ''acme'' (db w') = foreign ''acme'' (db sample_shared_visit) \<and>
     map ac_id (t_accounts (foreign ''acme'' (db w'))) = [''u9'']"
proof -
  have ok: "grants_match (db sample_shared_visit)" "canonical_ids sample_crypto sample_shared_visit"
    "Param_tenantId (sample_submit ''hunter22'') = ''acme''" "call_in ''acme'' (CallDeleteRequest ''q1'')"
    "length (t_browser_sessions (db (snd (Submit sample_crypto sample_handler (sample_submit ''hunter22'') sample_shared_visit)))) = 2"
    "map ac_id (t_accounts (foreign ''acme'' (db sample_shared_visit))) = [''u9'']"
    by code_simp+
  from provider_stays_in_its_tenant [OF ok(1-4), where h = sample_handler and U = sample_net and L = sample_lib and s = sample_storage]
  show ?thesis using ok(5,6) by (simp add: within_def)
qed

end
