(* ===== verification/Startup.thy ===== *)
theory Startup
  imports Wiring
begin

text \<open>
  What \<open>src/cmd/an/main.go\<close> guarantees: a start leaves a tenant and a key both surfaces sign with,
  a restart changes nothing, and the janitor removes what has expired and nothing else.
\<close>

section \<open>Starting\<close>

lemma createDefaultTenantID_Inr:
  assumes "createDefaultTenantID w = (Inr u, w')"
  shows "t_tenants (db w') \<noteq> []" and "t_tenants (db w) \<noteq> [] \<Longrightarrow> db w' = db w"
    and "db w' = (db w)\<lparr>t_tenants := t_tenants (db w')\<rparr>"
  using assms
  by (auto simp: createDefaultTenantID_def ListTenants_def tenant_ReadAll_def CreateDefault_def bindE_Inr query_Inr
      tenant_Create_Inr ret_eq split: if_splits)

lemma ReloadKeys_latest:
  assumes "ReloadKeys K t w = (Inr t', w')"
  shows "db w' = db w" and "tz_issuer t' = tz_issuer t" and "tz_audience t' = tz_audience t"
    and "latest_key (t_signing_keys (db w)) = Some r \<Longrightarrow>
      signingKid t' = sk_id r \<and> ParsePrivateKey K (sk_private_pem r) = Inr (tokenizer.signingKey t')"
    and "ReloadKeys K t wa = (Inr ta, wb) \<Longrightarrow> db wa = db w \<Longrightarrow> ta = t'"
proof -
  let ?keys = "by_created (t_signing_keys (db w))"
  from assms obtain m k where keys: "?keys \<noteq> []" "loadPublicKeys K Map.empty ?keys = Inr m"
      "ParsePrivateKey K (sk_private_pem (last ?keys)) = Inr k"
    and t': "t' = t\<lparr>signingKid := sk_id (last ?keys), tokenizer.signingKey := k, publicKeys := m\<rparr>" and w': "db w' = db w"
    by (auto simp: ReloadKeys_def Keys_def signing_key_ReadAll_def op_inr Let_def)
  show "db w' = db w" "tz_issuer t' = tz_issuer t" "tz_audience t' = tz_audience t" using t' w' by simp_all
  show "signingKid t' = sk_id r \<and> ParsePrivateKey K (sk_private_pem r) = Inr (tokenizer.signingKey t')"
    if "latest_key (t_signing_keys (db w)) = Some r"
    using that keys(1,3) t' by (cases ?keys) (auto simp: latest_key_def)
  show "ta = t'" if "ReloadKeys K t wa = (Inr ta, wb)" "db wa = db w"
    using that keys t' by (auto simp: ReloadKeys_def Keys_def signing_key_ReadAll_def op_inr Let_def)
qed

lemma storage_ReloadKeys_latest:
  assumes "storage_ReloadKeys K s w = (Inr s', w')"
  shows "db w' = db w"
    and "latest_key (t_signing_keys (db w)) = Some r \<Longrightarrow>
      \<exists>k. ParsePrivateKey K (sk_private_pem r) = Inr k \<and> storage.signingKey s' = Some (sk_id r, k)"
    and "storage_ReloadKeys K s wa = (Inr sa, wb) \<Longrightarrow> db wa = db w \<Longrightarrow> sa = s'"
proof -
  let ?keys = "by_created (t_signing_keys (db w))"
  from assms obtain m k where keys: "?keys \<noteq> []" "parse_keys K ?keys = Inr m"
      "ParsePrivateKey K (sk_private_pem (last ?keys)) = Inr k"
    and s': "s' = s\<lparr>storage.signingKey := Some (sk_id (last ?keys), k), keySet := Some m\<rparr>" and w': "db w' = db w"
    by (auto simp: storage_ReloadKeys_def Keys_def signing_key_ReadAll_def op_inr Let_def)
  show "db w' = db w" by (fact w')
  show "\<exists>k. ParsePrivateKey K (sk_private_pem r) = Inr k \<and> storage.signingKey s' = Some (sk_id r, k)"
    if "latest_key (t_signing_keys (db w)) = Some r"
    using that keys(1,3) s' by (cases ?keys) (auto simp: latest_key_def)
  show "sa = s'" if "storage_ReloadKeys K s wa = (Inr sa, wb)" "db wa = db w"
    using that keys s' by (auto simp: storage_ReloadKeys_def Keys_def signing_key_ReadAll_def op_inr Let_def)
qed

text \<open>Writing a first key touches the keys only.\<close>

definition keys_only :: "database \<Rightarrow> database \<Rightarrow> bool" where
  "keys_only d d' \<longleftrightarrow> d' = d\<lparr>t_signing_keys := t_signing_keys d'\<rparr>"

interpretation keying: db_relation keys_only
proof unfold_locales
  show "keys_only d d" for d by (simp add: keys_only_def)
  show "keys_only d1 d3" if "keys_only d1 d2" "keys_only d2 d3" for d1 d2 d3
    using that unfolding keys_only_def by (cases d1; cases d2; cases d3) simp
qed

lemma Initialize_keys_only: "steps keys_only (Initialize K)"
proof -
  have gen: "steps keys_only (rsa_GenerateKey_op K n)" for n
    by (auto simp: steps_def rsa_GenerateKey_op_def keys_only_def split: sum.split)
  have create: "steps keys_only (signing_key_Create key)" for key
    unfolding signing_key_Create_def
    by (rule keying.steps_exec) (auto simp: keys_only_def signing_key_Create_stmt_def insert_row_def split: if_splits)
  show ?thesis
    unfolding Initialize_def signing_key_ReadLatest_def generateSigningKey_def Let_def
    by (intro keying.steps_attempt keying.steps_sum keying.steps_If keying.steps_bindE keying.steps_query keying.steps_option
        keying.steps_throw keying.steps_ret keying.steps_new_uuid gen create)
qed

text \<open>The keys both surfaces work with are those of the newest row of the table.\<close>

definition signs_with_newest :: "pki \<Rightarrow> database \<Rightarrow> tokenizer \<Rightarrow> storage option \<Rightarrow> bool" where
  "signs_with_newest K d tok oidc \<longleftrightarrow>
     (\<exists>r. latest_key (t_signing_keys d) = Some r \<and> signingKid tok = sk_id r \<and>
        ParsePrivateKey K (sk_private_pem r) = Inr (tokenizer.signingKey tok) \<and>
        (\<forall>s. oidc = Some s \<longrightarrow> storage.signingKey s = Some (sk_id r, tokenizer.signingKey tok)))"

lemma latest_key_some: "ks \<noteq> [] \<Longrightarrow> \<exists>r. latest_key ks = Some r"
proof -
  assume "ks \<noteq> []"
  moreover have "set (by_created ks) = set ks" by (simp add: by_created_def)
  ultimately show ?thesis by (cases "by_created ks") (simp_all add: latest_key_def)
qed

lemma startup_Inr:
  assumes "pki_ok K" and "startup C K config w = (Inr (tok, oidc), w')"
  obtains wa wb where "createDefaultTenantID w = (Inr (), wa)" and "Initialize K wa = (Inr (), wb)" and "db w' = db wb"
    and "signs_with_newest K (db w') tok oidc" and "oidc = None \<longleftrightarrow> \<not> OidcEnabled config"
    and "tz_issuer tok = TokenIssuer config" and "tz_audience tok = Audience config"
proof -
  from assms(2) obtain u wa v wb wc where a: "createDefaultTenantID w = (Inr u, wa)" and b: "Initialize K wa = (Inr v, wb)"
    and c: "NewDefaultTokenizer K (TokenIssuer config) (Audience config) (AccessTokenExpireInSeconds config)
        (RefreshTokenExpireInSeconds config) wb = (Inr tok, wc)"
    and d: "oidcSetting C K config wc = (Inr oidc, w')"
    by (auto simp: startup_def bindE_Inr ret_eq)
  note tok = ReloadKeys_latest [OF c [unfolded NewDefaultTokenizer_def]]
  have keys: "t_signing_keys (db wb) \<noteq> []" using Initialize_effect [OF assms(1) b] by blast
  obtain r where r: "latest_key (t_signing_keys (db wb)) = Some r" using latest_key_some [OF keys] by blast
  have same: "db w' = db wb" "oidc = None \<longleftrightarrow> \<not> OidcEnabled config"
    "\<forall>s. oidc = Some s \<longrightarrow> (\<exists>k. ParsePrivateKey K (sk_private_pem r) = Inr k \<and> storage.signingKey s = Some (sk_id r, k))"
  proof -
    have "db w' = db wc \<and> (oidc = None \<longleftrightarrow> \<not> OidcEnabled config) \<and>
      (\<forall>s. oidc = Some s \<longrightarrow> (\<exists>k. ParsePrivateKey K (sk_private_pem r) = Inr k \<and> storage.signingKey s = Some (sk_id r, k)))"
    proof (cases "OidcEnabled config")
      case False
      with d show ?thesis by (simp add: oidcSetting_def ret_eq)
    next
      case True
      with d obtain s where s: "storage_ReloadKeys K (new_storage C config) wc = (Inr s, w')" "oidc = Some s"
        by (auto simp: oidcSetting_def bindE_Inr ret_eq)
      note loaded = storage_ReloadKeys_latest(1,2) [OF s(1)]
      from True s(2) loaded(1) loaded(2) [of r] r tok(1) show ?thesis by simp
    qed
    then show "db w' = db wb" "oidc = None \<longleftrightarrow> \<not> OidcEnabled config"
      "\<forall>s. oidc = Some s \<longrightarrow> (\<exists>k. ParsePrivateKey K (sk_private_pem r) = Inr k \<and> storage.signingKey s = Some (sk_id r, k))"
      using tok(1) by simp_all
  qed
  show ?thesis
  proof (rule that)
    show "createDefaultTenantID w = (Inr (), wa)" "Initialize K wa = (Inr (), wb)" using a b by simp_all
    show "signs_with_newest K (db w') tok oidc"
      unfolding signs_with_newest_def using r same tok(4) [OF r] by (intro exI [of _ r]) auto
  qed (use same tok(2,3) in simp_all)
qed

text \<open>
  C14: a start that succeeds leaves a tenant and a signing key; the tokenizer, and the provider
  where it is on, sign with the newest key of the table, under its id. What was there stays: tenants
  are added only where there was none, and so are keys, and no other table is written. A restart on
  the database of a start that succeeded changes nothing and works with the same keys.
\<close>

theorem a_restart_changes_nothing:
  assumes "pki_ok K" and "startup C K config w = (Inr (tok, oidc), w')"
  shows "t_tenants (db w') \<noteq> [] \<and> t_signing_keys (db w') \<noteq> [] \<and> signs_with_newest K (db w') tok oidc \<and>
    (oidc = None \<longleftrightarrow> \<not> OidcEnabled config) \<and> tz_issuer tok = TokenIssuer config \<and>
    db w' = (db w)\<lparr>t_tenants := t_tenants (db w'), t_signing_keys := t_signing_keys (db w')\<rparr> \<and>
    (t_tenants (db w) \<noteq> [] \<longrightarrow> t_tenants (db w') = t_tenants (db w)) \<and>
    (t_signing_keys (db w) \<noteq> [] \<longrightarrow> t_signing_keys (db w') = t_signing_keys (db w)) \<and>
    (startup C K config wa = (Inr (tok', oidc'), wb) \<and> db wa = db w' \<longrightarrow>
       db wb = db w' \<and> signingKid tok' = signingKid tok \<and> tokenizer.signingKey tok' = tokenizer.signingKey tok)"
proof -
  from startup_Inr [OF assms] obtain w1 w2 where one: "createDefaultTenantID w = (Inr (), w1)" "Initialize K w1 = (Inr (), w2)"
      "db w' = db w2" "signs_with_newest K (db w') tok oidc" "oidc = None \<longleftrightarrow> \<not> OidcEnabled config" "tz_issuer tok = TokenIssuer config"
    by blast
  note tenants = createDefaultTenantID_Inr [OF one(1)] and keys = Initialize_effect [OF assms(1) one(2)]
  have frame: "db w2 = (db w1)\<lparr>t_signing_keys := t_signing_keys (db w2)\<rparr>"
    using stepsD [OF Initialize_keys_only one(2)] by (simp add: keys_only_def)
  then have init: "t_tenants (db w2) = t_tenants (db w1)" by (rule arg_cong [THEN trans]) simp
  have only: "db w' = (db w)\<lparr>t_tenants := t_tenants (db w'), t_signing_keys := t_signing_keys (db w')\<rparr>"
    using frame tenants(3) init one(3) by (cases "db w"; cases "db w1"; cases "db w2") simp
  have left: "t_tenants (db w') \<noteq> []" "t_signing_keys (db w') \<noteq> []" using tenants(1) keys one(3) init by simp_all
  have kept: "t_tenants (db w') = t_tenants (db w)" if "t_tenants (db w) \<noteq> []"
    using tenants(2) [OF that] init one(3) by simp
  have keys_kept: "t_signing_keys (db w') = t_signing_keys (db w)" if "t_signing_keys (db w) \<noteq> []"
    using that keys one(3) arg_cong [OF tenants(3), of t_signing_keys] by auto
  have again: "db wb = db w' \<and> signingKid tok' = signingKid tok \<and> tokenizer.signingKey tok' = tokenizer.signingKey tok"
    if run: "startup C K config wa = (Inr (tok', oidc'), wb)" and start: "db wa = db w'"
  proof -
    from startup_Inr [OF assms(1) run] obtain w3 w4 where two: "createDefaultTenantID wa = (Inr (), w3)" "Initialize K w3 = (Inr (), w4)"
      "db wb = db w4" "signs_with_newest K (db wb) tok' oidc'" by blast
    have "db w3 = db w'" using createDefaultTenantID_Inr(2) [OF two(1)] start left(1) by simp
    with Initialize_effect [OF assms(1) two(2)] left(2) two(3) have "db wb = db w'" by simp
    with one(4) two(4) show ?thesis by (auto simp: signs_with_newest_def)
  qed
  show ?thesis using left one(4-6) only kept keys_kept again by blast
qed

definition sample_config :: AppConfig where
  "sample_config = read_config
     [''PUBLIC_BASE_URL'' \<mapsto> ''https://an'', ''OIDC_CLIENT_ID'' \<mapsto> ''shop'', ''OIDC_CLIENT_SECRET'' \<mapsto> ''s'',
      ''OIDC_CRYPTO_KEY'' \<mapsto> ''k'', ''OIDC_REDIRECT_URIS'' \<mapsto> ''https://shop/cb'']"

theorem a_restart_changes_nothing_witness:
  "\<exists>tok oidc w'. startup sample_crypto sample_pki sample_config (sample_world empty_db 9 [''k1'']) = (Inr (tok, oidc), w') \<and>
     signingKid tok = ''k1'' \<and> oidc \<noteq> None \<and> map tn_name (t_tenants (db w')) = [''default''] \<and>
     signs_with_newest sample_pki (db w') tok oidc"
proof -
  let ?w = "sample_world empty_db 9 [''k1'']"
  have "case startup sample_crypto sample_pki sample_config ?w of
      (Inl e, w') \<Rightarrow> False
    | (Inr (tok, oidc), w') \<Rightarrow> signingKid tok = ''k1'' \<and> (case oidc of None \<Rightarrow> False | Some s \<Rightarrow> True) \<and>
        map tn_name (t_tenants (db w')) = [''default'']" by code_simp
  moreover obtain q w' where run: "startup sample_crypto sample_pki sample_config ?w = (q, w')" by fastforce
  ultimately have q: "case q of Inl e \<Rightarrow> False | Inr (tok, oidc) \<Rightarrow> signingKid tok = ''k1'' \<and>
      (case oidc of None \<Rightarrow> False | Some s \<Rightarrow> True) \<and> map tn_name (t_tenants (db w')) = [''default'']"
    by (cases q) auto
  then obtain tok oidc where "q = Inr (tok, oidc)" by (cases q) auto
  with run q have run: "startup sample_crypto sample_pki sample_config ?w = (Inr (tok, oidc), w')"
    and "signingKid tok = ''k1''" "oidc \<noteq> None" "map tn_name (t_tenants (db w')) = [''default'']"
    by (simp_all split: option.splits)
  moreover have "signs_with_newest sample_pki (db w') tok oidc"
    by (rule a_restart_changes_nothing [OF pki_ok_sample run, THEN conjunct2, THEN conjunct2, THEN conjunct1])
  ultimately show ?thesis by (intro exI conjI)
qed

section \<open>The janitor\<close>

text \<open>What a sweep leaves, stated of the tables: the rows that have not expired, and the counters touched within a day.\<close>

definition sweep :: "bool \<Rightarrow> instant \<Rightarrow> database \<Rightarrow> database" where
  "sweep provider now d =
     (let d = d\<lparr>t_sessions := filter (\<lambda>r. now \<le> se_expires r) (t_sessions d),
            t_logon_codes := filter (\<lambda>r. now \<le> lc_expires r) (t_logon_codes d),
            t_password_resets := filter (\<lambda>r. now \<le> pr_expires r) (t_password_resets d),
            t_failed_attempts := filter (\<lambda>r. instant_add now (- 86400000000000) \<le> fa_modified r) (t_failed_attempts d)\<rparr> in
      if \<not> provider then d
      else d\<lparr>t_auth_requests := filter (\<lambda>r. now \<le> rq_expires r) (t_auth_requests d),
             t_access_tokens := filter (\<lambda>a. now \<le> at_expires a \<and> \<not> cascaded (\<lambda>r. rt_expires r < now) d a) (t_access_tokens d),
             t_refresh_tokens := filter (\<lambda>r. now \<le> rt_expires r) (t_refresh_tokens d),
             t_browser_sessions := filter (\<lambda>r. now \<le> bs_expires r) (t_browser_sessions d)\<rparr>)"

definition swept_rows :: "bool \<Rightarrow> instant \<Rightarrow> database \<Rightarrow> swept" where
  "swept_rows provider now d =
     \<lparr>sw_sessions = length (filter (\<lambda>r. se_expires r < now) (t_sessions d)),
      sw_logonCodes = length (filter (\<lambda>r. lc_expires r < now) (t_logon_codes d)),
      sw_passwordResets = length (filter (\<lambda>r. pr_expires r < now) (t_password_resets d)),
      sw_failedAttempts = length (filter (\<lambda>r. fa_modified r < instant_add now (- 86400000000000)) (t_failed_attempts d)),
      sw_oidc = (if \<not> provider then 0
        else length (filter (\<lambda>r. rq_expires r < now) (t_auth_requests d)) +
          (length (filter (\<lambda>a. at_expires a < now) (t_access_tokens d)) +
           length (filter (\<lambda>r. rt_expires r < now) (t_refresh_tokens d))) +
          length (filter (\<lambda>r. bs_expires r < now) (t_browser_sessions d)))\<rparr>"

text \<open>A logged step always returns; in a quiet world it returns what the step does.\<close>

lemma logged_returns: "\<exists>x w'. logged y m w = (Inr x, w')"
  by (auto simp: logged_def attempt_def ret_def split: prod.splits sum.splits)

lemma logged_exec:
  "quiet w \<Longrightarrow> s (pg_now w) (db w) = Inr (x, d) \<Longrightarrow> logged y (exec s) w = (Inr x, (tick w)\<lparr>db := d\<rparr>)"
  by (simp add: logged_def attempt_def exec_def ret_def)

lemma bindE_run: "m w = (Inr x, w') \<Longrightarrow> bindE m k w = k x w'"
  by (simp add: bindE_def attempt_def)

lemma not_less_filter: "filter (\<lambda>r. \<not> f r < now) xs = filter (\<lambda>r. now \<le> f r) xs" for f :: "'a \<Rightarrow> instant"
  by (simp add: not_less)

definition returns :: "'a op \<Rightarrow> bool" where
  "returns m \<longleftrightarrow> (\<forall>w. \<exists>x w'. m w = (Inr x, w'))"

lemma returns_bindE: "returns m \<Longrightarrow> (\<And>x. returns (k x)) \<Longrightarrow> returns (bindE m k)"
  unfolding returns_def by (metis bindE_run)

lemma returns_basic: "returns (ret x)" "returns (logged y m)"
  by (simp_all add: returns_def ret_def logged_returns)

lemma returns_option: "returns m \<Longrightarrow> (\<And>x. returns (k x)) \<Longrightarrow> returns (case z of None \<Rightarrow> m | Some x \<Rightarrow> k x)"
  by (cases z) simp_all

lemma returns_token_DeleteExpired: "returns token_DeleteExpired"
  by (auto simp: returns_def token_DeleteExpired_def attempt_def ret_def split: prod.splits sum.splits)

lemma returns_prod: "(\<And>x y. returns (k x y)) \<Longrightarrow> returns (case p of (x, y) \<Rightarrow> k x y)"
  by (cases p) simp

lemma janitor_returns: "returns (janitor K tok oidc)"
  unfolding janitor_def reloadKeys_def deleteExpired_def
  by (intro returns_bindE returns_option returns_prod returns_token_DeleteExpired returns_basic)

lemma ReloadKeys_tick: "quiet w \<Longrightarrow> \<exists>x. logged tok (ReloadKeys K tok) w = (Inr x, tick w)"
  by (auto simp: logged_def ReloadKeys_def Keys_def signing_key_ReadAll_def query_def exec_def bindE_def attempt_def
      lift_result_def throw_def ret_def Let_def split: sum.split)

lemma reloadKeys_tick:
  "quiet w \<Longrightarrow> \<exists>s wa. reloadKeys K oidc w = (Inr s, wa) \<and> (s = None \<longleftrightarrow> oidc = None) \<and> quiet wa \<and>
     db wa = db w \<and> pg_now wa = pg_now w"
  by (cases oidc) (auto simp: reloadKeys_def logged_def storage_ReloadKeys_def Keys_def signing_key_ReadAll_def query_def
      exec_def bindE_def attempt_def lift_result_def throw_def ret_def Let_def split: sum.split)

lemma delete_pairs:
  "delete_access P d = (length (filter P (t_access_tokens d)),
     d\<lparr>t_access_tokens := filter (\<lambda>r. \<not> P r) (t_access_tokens d)\<rparr>)"
  "delete_refresh Q d = (length (filter Q (t_refresh_tokens d)),
     d\<lparr>t_refresh_tokens := filter (\<lambda>r. \<not> Q r) (t_refresh_tokens d),
       t_access_tokens := filter (\<lambda>a. \<not> cascaded Q d a) (t_access_tokens d)\<rparr>)"
  "delete_browser S d = (length (filter S (t_browser_sessions d)),
     d\<lparr>t_browser_sessions := filter (\<lambda>r. \<not> S r) (t_browser_sessions d)\<rparr>)"
  by (simp_all add: prod_eq_iff)

lemma cascaded_access [simp]: "cascaded Q (d\<lparr>t_access_tokens := ts\<rparr>) = cascaded Q d"
  by (simp add: cascaded_def fun_eq_iff)

lemma tick_db: "tick (w\<lparr>db := d\<rparr>) = (tick w)\<lparr>db := d\<rparr>"
  by (simp add: tick_def)

lemma token_DeleteExpired_run:
  "quiet w \<Longrightarrow> token_DeleteExpired w =
     (Inr (length (filter (\<lambda>a. at_expires a < pg_now w) (t_access_tokens (db w))) +
           length (filter (\<lambda>r. rt_expires r < pg_now w) (t_refresh_tokens (db w))), None),
      (tick (tick w))\<lparr>db := (db w)\<lparr>
         t_access_tokens := filter (\<lambda>a. pg_now w \<le> at_expires a \<and> \<not> cascaded (\<lambda>r. rt_expires r < pg_now w) (db w) a) (t_access_tokens (db w)),
         t_refresh_tokens := filter (\<lambda>r. pg_now w \<le> rt_expires r) (t_refresh_tokens (db w))\<rparr>\<rparr>)"
  by (simp add: token_DeleteExpired_def exec_def bindE_def attempt_def ret_def not_less delete_pairs tick_db conj_commute)

lemmas sweep_statements = session_DeleteExpired_def session_DeleteExpired_stmt_def code_DeleteExpired_def
  code_DeleteExpired_stmt_def reset_DeleteExpired_def reset_DeleteExpired_stmt_def DeleteStale_def
  attempt_DeleteStale_stmt_def auth_request_DeleteExpired_def auth_request_DeleteExpired_stmt_def
  browser_DeleteExpired_def delete_where_def delete_pairs

lemma sweep_api:
  assumes "quiet w"
  shows "logged 0 session_DeleteExpired w = (Inr (length (filter (\<lambda>r. se_expires r < pg_now w) (t_sessions (db w)))),
      (tick w)\<lparr>db := (db w)\<lparr>t_sessions := filter (\<lambda>r. pg_now w \<le> se_expires r) (t_sessions (db w))\<rparr>\<rparr>)"
    and "logged 0 code_DeleteExpired w = (Inr (length (filter (\<lambda>r. lc_expires r < pg_now w) (t_logon_codes (db w)))),
      (tick w)\<lparr>db := (db w)\<lparr>t_logon_codes := filter (\<lambda>r. pg_now w \<le> lc_expires r) (t_logon_codes (db w))\<rparr>\<rparr>)"
    and "logged 0 reset_DeleteExpired w = (Inr (length (filter (\<lambda>r. pr_expires r < pg_now w) (t_password_resets (db w)))),
      (tick w)\<lparr>db := (db w)\<lparr>t_password_resets := filter (\<lambda>r. pg_now w \<le> pr_expires r) (t_password_resets (db w))\<rparr>\<rparr>)"
    and "logged 0 (DeleteStale n) w = (Inr (length (filter (\<lambda>r. fa_modified r < instant_add (pg_now w) (- n)) (t_failed_attempts (db w)))),
      (tick w)\<lparr>db := (db w)\<lparr>t_failed_attempts := filter (\<lambda>r. instant_add (pg_now w) (- n) \<le> fa_modified r) (t_failed_attempts (db w))\<rparr>\<rparr>)"
    and "logged 0 auth_request_DeleteExpired w = (Inr (length (filter (\<lambda>r. rq_expires r < pg_now w) (t_auth_requests (db w)))),
      (tick w)\<lparr>db := (db w)\<lparr>t_auth_requests := filter (\<lambda>r. pg_now w \<le> rq_expires r) (t_auth_requests (db w))\<rparr>\<rparr>)"
    and "logged 0 browser_DeleteExpired w = (Inr (length (filter (\<lambda>r. bs_expires r < pg_now w) (t_browser_sessions (db w)))),
      (tick w)\<lparr>db := (db w)\<lparr>t_browser_sessions := filter (\<lambda>r. pg_now w \<le> bs_expires r) (t_browser_sessions (db w))\<rparr>\<rparr>)"
  using assms by (simp_all add: sweep_statements logged_exec Let_def not_less)

lemma deleteExpired_run:
  "quiet w \<Longrightarrow> \<exists>wa. deleteExpired oidc w = (Inr (sw_oidc (swept_rows (oidc \<noteq> None) (pg_now w) (db w))), wa) \<and>
     db wa = (if oidc = None then db w
       else (db w)\<lparr>t_auth_requests := filter (\<lambda>r. pg_now w \<le> rq_expires r) (t_auth_requests (db w)),
         t_access_tokens := filter (\<lambda>a. pg_now w \<le> at_expires a \<and> \<not> cascaded (\<lambda>r. rt_expires r < pg_now w) (db w) a) (t_access_tokens (db w)),
         t_refresh_tokens := filter (\<lambda>r. pg_now w \<le> rt_expires r) (t_refresh_tokens (db w)),
         t_browser_sessions := filter (\<lambda>r. pg_now w \<le> bs_expires r) (t_browser_sessions (db w))\<rparr>)"
  by (cases oidc)
    (simp_all add: deleteExpired_def ret_def swept_rows_def bindE_run [OF sweep_api(5)] bindE_run [OF token_DeleteExpired_run]
      bindE_run [OF sweep_api(6)] tick_db cascaded_def)

text \<open>
  C15: the janitor removes the dead rows and nothing else. A sweep returns whatever fails, an error
  only skipping its step. Where nothing fails, it leaves exactly the rows that have not expired by
  the clock of the server, the counters of the last day and, where the provider is on, the access
  tokens whose refresh token has not expired either; and it reports how many rows expired.
\<close>

theorem janitor_removes_the_dead_rows:
  "\<exists>tok' oidc' n w'. janitor K tok oidc w = (Inr (tok', oidc', n), w') \<and>
     (quiet w \<longrightarrow> db w' = sweep (oidc \<noteq> None) (pg_now w) (db w) \<and> n = swept_rows (oidc \<noteq> None) (pg_now w) (db w))"
proof (cases "quiet w")
  case False
  with janitor_returns [of K tok oidc] show ?thesis unfolding returns_def by (metis prod.exhaust)
next
  case True
  from ReloadKeys_tick [OF True] obtain tok' where t: "logged tok (ReloadKeys K tok) w = (Inr tok', tick w)" by blast
  from reloadKeys_tick [of "tick w" K oidc] True obtain o' wa where o: "reloadKeys K oidc (tick w) = (Inr o', wa)"
    "o' = None \<longleftrightarrow> oidc = None" "quiet wa" "db wa = db w" "pg_now wa = pg_now w" by auto
  define wb where "wb = (tick (tick (tick (tick wa))))\<lparr>db := (db w)\<lparr>
      t_sessions := filter (\<lambda>r. pg_now w \<le> se_expires r) (t_sessions (db w)),
      t_logon_codes := filter (\<lambda>r. pg_now w \<le> lc_expires r) (t_logon_codes (db w)),
      t_password_resets := filter (\<lambda>r. pg_now w \<le> pr_expires r) (t_password_resets (db w)),
      t_failed_attempts := filter (\<lambda>r. instant_add (pg_now w) (- 86400000000000) \<le> fa_modified r) (t_failed_attempts (db w))\<rparr>\<rparr>"
  have wb: "quiet wb" "pg_now wb = pg_now w" using o(3,5) by (simp_all add: wb_def)
  from deleteExpired_run [OF wb(1), of o'] obtain wc where d: "deleteExpired o' wb =
      (Inr (sw_oidc (swept_rows (o' \<noteq> None) (pg_now wb) (db wb))), wc)"
    and dbc: "db wc = (if o' = None then db wb
       else (db wb)\<lparr>t_auth_requests := filter (\<lambda>r. pg_now wb \<le> rq_expires r) (t_auth_requests (db wb)),
         t_access_tokens := filter (\<lambda>a. pg_now wb \<le> at_expires a \<and> \<not> cascaded (\<lambda>r. rt_expires r < pg_now wb) (db wb) a) (t_access_tokens (db wb)),
         t_refresh_tokens := filter (\<lambda>r. pg_now wb \<le> rt_expires r) (t_refresh_tokens (db wb)),
         t_browser_sessions := filter (\<lambda>r. pg_now wb \<le> bs_expires r) (t_browser_sessions (db wb))\<rparr>)" by blast
  let ?n = "swept_rows (oidc \<noteq> None) (pg_now w) (db w)"
  have "janitor K tok oidc w = bindE (deleteExpired o') (\<lambda>expiredOidc. ret (tok', o', ?n\<lparr>sw_oidc := expiredOidc\<rparr>)) wb"
    using o(3-5) unfolding wb_def
    by (simp add: janitor_def bindE_run [where m = "logged tok (ReloadKeys K tok)", OF t] bindE_run [where m = "reloadKeys K oidc", OF o(1)]
        bindE_run sweep_api tick_db swept_rows_def)
  moreover have "sw_oidc (swept_rows (o' \<noteq> None) (pg_now wb) (db wb)) = sw_oidc ?n"
    using o(2) wb(2) by (simp add: swept_rows_def wb_def)
  ultimately have "janitor K tok oidc w = (Inr (tok', o', ?n), wc)"
    using d by (simp add: bindE_def attempt_def ret_def)
  moreover have "db wc = sweep (oidc \<noteq> None) (pg_now w) (db w)"
    unfolding dbc wb(2) using o(2) by (simp add: sweep_def Let_def wb_def)
  ultimately show ?thesis by blast
qed

definition sample_hour :: world where
  "sample_hour = sample_world (empty_db\<lparr>t_sessions := [sample_session\<lparr>se_expires := Instant 3\<rparr>,
       sample_session\<lparr>se_client := ''app'', se_expires := Instant 100\<rparr>]\<rparr>) 50 []"

theorem janitor_removes_the_dead_rows_witness:
  "\<exists>tok' oidc' n w'. janitor sample_pki sample_tokenizer None sample_hour = (Inr (tok', oidc', n), w') \<and>
     map se_expires (t_sessions (db w')) = [Instant 100] \<and> sw_sessions n = 1"
proof -
  have "quiet sample_hour" by (simp add: sample_hour_def)
  with janitor_removes_the_dead_rows [of sample_pki sample_tokenizer None sample_hour] obtain tok' oidc' n w'
    where run: "janitor sample_pki sample_tokenizer None sample_hour = (Inr (tok', oidc', n), w')"
      "db w' = sweep False (pg_now sample_hour) (db sample_hour)" "n = swept_rows False (pg_now sample_hour) (db sample_hour)"
    by auto
  moreover have "map se_expires (t_sessions (sweep False (pg_now sample_hour) (db sample_hour))) = [Instant 100]"
    "sw_sessions (swept_rows False (pg_now sample_hour) (db sample_hour)) = 1" by code_simp+
  ultimately show ?thesis by auto
qed

section \<open>Durations\<close>






end
