(* ===== verification/Integrity.thy ===== *)
theory Integrity
  imports Isolation Startup
begin

text \<open>
  The integrity of the database: the keys of every table are unique, a reference has its row, an
  access token is of the tenant of its grant, an api key has a tenant and a counter of failed
  attempts is positive and fits its column. Whatever the service does, in whatever order and with
  whatever failures, it keeps the integrity of the database.
\<close>

section \<open>The tables\<close>

definition api_keys_ok :: "api_key_row list \<Rightarrow> bool" where
  "api_keys_ok t \<longleftrightarrow> distinct (map ak_id t) \<and> distinct (map ak_prefix t) \<and>
     distinct (map (\<lambda>r. (ak_tenant r, ak_name r)) t) \<and> (\<forall>r\<in>set t. ak_tenant r \<noteq> [])"

text \<open>The two texts of a signing key hold one key pair.\<close>

definition signing_keys_ok :: "pki \<Rightarrow> signing_key_row list \<Rightarrow> bool" where
  "signing_keys_ok K t \<longleftrightarrow> distinct (map sk_id t) \<and> (\<forall>r\<in>set t. key_pair_of K r \<noteq> None)"

definition accounts_ok :: "account_row list \<Rightarrow> bool" where
  "accounts_ok t \<longleftrightarrow> distinct (map ac_id t) \<and> distinct (map (\<lambda>r. (ac_tenant r, ac_email r)) t)"

text \<open>An account has one identity at a provider, and an identity one account.\<close>

definition links_ok :: "string set \<Rightarrow> social_login_row list \<Rightarrow> bool" where
  "links_ok accounts t \<longleftrightarrow> distinct (map (\<lambda>r. (sl_account r, sl_provider r)) t) \<and>
     distinct (map (\<lambda>r. (sl_provider r, sl_subject r)) t) \<and> (\<forall>r\<in>set t. sl_account r \<in> accounts)"

definition sessions_ok :: "session_row list \<Rightarrow> bool" where
  "sessions_ok t \<longleftrightarrow> distinct (map se_id t) \<and> distinct (map (\<lambda>r. (se_tenant r, se_email r, se_client r)) t)"

definition attempts_ok :: "failed_attempt_row list \<Rightarrow> bool" where
  "attempts_ok t \<longleftrightarrow> distinct (map (\<lambda>r. (fa_tenant r, fa_email r)) t) \<and> (\<forall>r\<in>set t. 1 \<le> fa_count r \<and> int4 (fa_count r))"

definition requests_ok :: "auth_request_row list \<Rightarrow> bool" where
  "requests_ok t \<longleftrightarrow> distinct (map rq_id t) \<and> codes_unique t"

definition tokens_ok :: "refresh_token_row list \<Rightarrow> access_token_row list \<Rightarrow> bool" where
  "tokens_ok grants t \<longleftrightarrow> distinct (map rt_id grants) \<and> distinct (map rt_token_hash grants) \<and>
     distinct (map at_id t) \<and> (\<forall>a\<in>set t. of_grant grants a)"

definition browsers_ok :: "string set \<Rightarrow> browser_session_row list \<Rightarrow> bool" where
  "browsers_ok accounts t \<longleftrightarrow> distinct (map bs_id t) \<and> distinct (map bs_token_hash t) \<and>
     (\<forall>r\<in>set t. bs_account r \<in> accounts)"

definition integrity :: "pki \<Rightarrow> database \<Rightarrow> bool" where
  "integrity K d \<longleftrightarrow>
     distinct (map tn_id (t_tenants d)) \<and> api_keys_ok (t_api_keys d) \<and> signing_keys_ok K (t_signing_keys d) \<and>
     accounts_ok (t_accounts d) \<and> links_ok (ac_id ` set (t_accounts d)) (t_social_logins d) \<and>
     distinct (map (\<lambda>r. (pr_tenant r, pr_email r)) (t_password_resets d)) \<and> sessions_ok (t_sessions d) \<and>
     attempts_ok (t_failed_attempts d) \<and> distinct (map (\<lambda>r. (lc_tenant r, lc_email r)) (t_logon_codes d)) \<and>
     requests_ok (t_auth_requests d) \<and> tokens_ok (t_refresh_tokens d) (t_access_tokens d) \<and>
     browsers_ok (ac_id ` set (t_accounts d)) (t_browser_sessions d) \<and>
     distinct (map (\<lambda>r. (cl_tenant r, cl_id r)) (t_clients d))"

lemma integrity_empty: "integrity K empty_db"
  by (simp add: integrity_def empty_db_def api_keys_ok_def signing_keys_ok_def accounts_ok_def links_ok_def sessions_ok_def attempts_ok_def
      requests_ok_def codes_unique_def tokens_ok_def browsers_ok_def)

text \<open>What the other theories assume of a database.\<close>

lemma integrity_grants: "integrity K d \<Longrightarrow> grants_match d" "integrity K d \<Longrightarrow> grants_ok d"
proof -
  assume ok: "integrity K d"
  then show "grants_match d" by (simp add: integrity_def grants_match_def accounts_ok_def tokens_ok_def)
  from ok have "\<forall>a\<in>set (t_access_tokens d). \<forall>u. at_refresh_token a = Some u \<longrightarrow> u \<in> rt_id ` set (t_refresh_tokens d)"
    by (fastforce simp: integrity_def tokens_ok_def of_grant_iff)
  with ok show "grants_ok d" by (simp add: integrity_def grants_ok_def requests_ok_def tokens_ok_def browsers_ok_def)
qed

text \<open>A statement on one table keeps the integrity when it keeps that of the table.\<close>

lemma integrity_table:
  "integrity K d \<Longrightarrow> distinct (map tn_id tn) \<Longrightarrow> integrity K (d\<lparr>t_tenants := tn\<rparr>)"
  "integrity K d \<Longrightarrow> api_keys_ok ak \<Longrightarrow> integrity K (d\<lparr>t_api_keys := ak\<rparr>)"
  "integrity K d \<Longrightarrow> signing_keys_ok K sk \<Longrightarrow> integrity K (d\<lparr>t_signing_keys := sk\<rparr>)"
  "integrity K d \<Longrightarrow> accounts_ok ac \<Longrightarrow> ac_id ` set (t_accounts d) \<subseteq> ac_id ` set ac \<Longrightarrow> integrity K (d\<lparr>t_accounts := ac\<rparr>)"
  "integrity K d \<Longrightarrow> links_ok (ac_id ` set (t_accounts d)) sl \<Longrightarrow> integrity K (d\<lparr>t_social_logins := sl\<rparr>)"
  "integrity K d \<Longrightarrow> distinct (map (\<lambda>r. (pr_tenant r, pr_email r)) pr) \<Longrightarrow> integrity K (d\<lparr>t_password_resets := pr\<rparr>)"
  "integrity K d \<Longrightarrow> sessions_ok se \<Longrightarrow> integrity K (d\<lparr>t_sessions := se\<rparr>)"
  "integrity K d \<Longrightarrow> attempts_ok fa \<Longrightarrow> integrity K (d\<lparr>t_failed_attempts := fa\<rparr>)"
  "integrity K d \<Longrightarrow> distinct (map (\<lambda>r. (lc_tenant r, lc_email r)) lc) \<Longrightarrow> integrity K (d\<lparr>t_logon_codes := lc\<rparr>)"
  "integrity K d \<Longrightarrow> requests_ok rq \<Longrightarrow> integrity K (d\<lparr>t_auth_requests := rq\<rparr>)"
  "integrity K d \<Longrightarrow> tokens_ok rt at \<Longrightarrow> integrity K (d\<lparr>t_refresh_tokens := rt, t_access_tokens := at\<rparr>)"
  "integrity K d \<Longrightarrow> tokens_ok rt (t_access_tokens d) \<Longrightarrow> integrity K (d\<lparr>t_refresh_tokens := rt\<rparr>)"
  "integrity K d \<Longrightarrow> tokens_ok (t_refresh_tokens d) at \<Longrightarrow> integrity K (d\<lparr>t_access_tokens := at\<rparr>)"
  "integrity K d \<Longrightarrow> browsers_ok (ac_id ` set (t_accounts d)) bs \<Longrightarrow> integrity K (d\<lparr>t_browser_sessions := bs\<rparr>)"
  "integrity K d \<Longrightarrow> distinct (map (\<lambda>r. (cl_tenant r, cl_id r)) cl) \<Longrightarrow> integrity K (d\<lparr>t_clients := cl\<rparr>)"
  by (auto simp: integrity_def links_ok_def browsers_ok_def)

lemma integrity_parts:
  assumes "integrity K d"
  shows "distinct (map tn_id (t_tenants d))" "api_keys_ok (t_api_keys d)" "signing_keys_ok K (t_signing_keys d)"
    "accounts_ok (t_accounts d)" "links_ok (ac_id ` set (t_accounts d)) (t_social_logins d)"
    "distinct (map (\<lambda>r. (pr_tenant r, pr_email r)) (t_password_resets d))" "sessions_ok (t_sessions d)"
    "attempts_ok (t_failed_attempts d)" "distinct (map (\<lambda>r. (lc_tenant r, lc_email r)) (t_logon_codes d))"
    "requests_ok (t_auth_requests d)" "tokens_ok (t_refresh_tokens d) (t_access_tokens d)"
    "browsers_ok (ac_id ` set (t_accounts d)) (t_browser_sessions d)" "distinct (map (\<lambda>r. (cl_tenant r, cl_id r)) (t_clients d))"
  using assms by (simp_all add: integrity_def)

section \<open>Rows inserted, updated and removed\<close>

lemma ok_insert:
  "api_keys_ok k \<Longrightarrow> insert_row api_key_conflict kr k = Inr k' \<Longrightarrow> ak_tenant kr \<noteq> [] \<Longrightarrow> api_keys_ok k'"
  "accounts_ok a \<Longrightarrow> insert_row account_conflict ar a = Inr a' \<Longrightarrow> accounts_ok a'"
  "browsers_ok A b \<Longrightarrow> insert_row browser_session_conflict br b = Inr b' \<Longrightarrow> bs_account br \<in> A \<Longrightarrow> browsers_ok A b'"
  "requests_ok q \<Longrightarrow> insert_row auth_request_conflict qr q = Inr q' \<Longrightarrow> requests_ok q'"
  unfolding api_keys_ok_def accounts_ok_def browsers_ok_def requests_ok_def
  by (auto simp: insert_row_Inr api_key_conflict_def account_conflict_def browser_session_conflict_def
      auth_request_conflict_def codes_unique_def)

lemma ok_filter:
  "api_keys_ok k \<Longrightarrow> api_keys_ok (filter P1 k)" "sessions_ok s \<Longrightarrow> sessions_ok (filter P2 s)"
  "attempts_ok f \<Longrightarrow> attempts_ok (filter P3 f)" "requests_ok q \<Longrightarrow> requests_ok (filter P4 q)"
  "browsers_ok A b \<Longrightarrow> browsers_ok A (filter P5 b)" "tokens_ok g t \<Longrightarrow> tokens_ok g (filter P6 t)"
  by (auto simp: api_keys_ok_def sessions_ok_def attempts_ok_def requests_ok_def browsers_ok_def tokens_ok_def
      distinct_map_filter_key codes_unique_def)

lemma ok_sessions:
  "sessions_ok s \<Longrightarrow> upsert_row session_same session_conflict f r s = Inr s' \<Longrightarrow>
     (\<And>x. se_id (f x) = se_id x) \<Longrightarrow> (\<And>x. (se_tenant (f x), se_email (f x), se_client (f x)) = (se_tenant x, se_email x, se_client x)) \<Longrightarrow>
     sessions_ok s'"
  unfolding sessions_ok_def
  using session_pk.upsert_distinct [of s f session_same r s'] session_client.upsert_distinct [of s f session_same r s'] by auto

lemma ok_session_update:
  assumes "sessions_ok s" and "\<And>x. se_id (f x) = se_id x" "\<And>x. se_tenant (f x) = se_tenant x"
    "\<And>x. se_email (f x) = se_email x" "\<And>x. se_client (f x) = se_client x"
  shows "sessions_ok (map (\<lambda>r. if P r then f r else r) s)"
  using assms session_pk.update_distinct [of s f P] session_client.update_distinct [of s f P]
  by (simp add: sessions_ok_def del: map_map)

lemma ok_accounts_update:
  assumes "accounts_ok a" and "\<And>x. ac_id (f x) = ac_id x" "\<And>x. ac_tenant (f x) = ac_tenant x" "\<And>x. ac_email (f x) = ac_email x"
  shows "accounts_ok (map (\<lambda>r. if P r then f r else r) a)"
    and "ac_id ` set a \<subseteq> ac_id ` set (map (\<lambda>r. if P r then f r else r) a)"
proof -
  show "accounts_ok (map (\<lambda>r. if P r then f r else r) a)"
    using assms account_pk.update_distinct [of a f P] account_email.update_distinct [of a f P]
    by (simp add: accounts_ok_def del: map_map)
  show "ac_id ` set a \<subseteq> ac_id ` set (map (\<lambda>r. if P r then f r else r) a)"
  proof -
    have "map ac_id (map (\<lambda>r. if P r then f r else r) a) = map ac_id a"
      using assms(2) by (induction a) auto
    then have "set (map ac_id (map (\<lambda>r. if P r then f r else r) a)) = set (map ac_id a)" by (rule arg_cong)
    then show ?thesis by (simp only: set_map)
  qed
qed

text \<open>A link moves an account to another identity, which must be free.\<close>

lemma ok_links:
  assumes ok: "links_ok A t" and up: "upsert_checked social_login_same social_login_conflict (\<lambda>r. r\<lparr>sl_subject := s\<rparr>) row t = Inr t'"
    and row: "sl_account row \<in> A" "sl_subject row = s"
  shows "links_ok A t'"
proof (cases "\<exists>x\<in>set t. social_login_same x row")
  case False
  then have ins: "insert_row social_login_conflict row t = Inr t'" using up by (auto simp: upsert_checked_def)
  then have "distinct (map (\<lambda>r. (sl_account r, sl_provider r)) t')" "distinct (map (\<lambda>r. (sl_provider r, sl_subject r)) t')"
    using ok social_login_pk.insert_distinct social_identity.insert_distinct by (auto simp: links_ok_def)
  with ok row ins show ?thesis by (auto simp: links_ok_def insert_row_Inr)
next
  case True
  let ?P = "\<lambda>x. social_login_same x row" and ?f = "\<lambda>r. r\<lparr>sl_subject := s\<rparr>"
  from True up have t': "t' = map (\<lambda>r. if ?P r then ?f r else r) t"
    and free: "\<And>x y. x \<in> set t \<Longrightarrow> ?P x \<Longrightarrow> y \<in> set t \<Longrightarrow> \<not> ?P y \<Longrightarrow> \<not> social_login_conflict y (?f x)"
    by (auto simp: upsert_checked_def update_checked_Inr update_where_def)
  have one: "x = y" if "x \<in> set t" "y \<in> set t" "?P x" "?P y" for x y
  proof -
    have "inj_on (\<lambda>r. (sl_account r, sl_provider r)) (set t)" using ok by (simp add: links_ok_def distinct_map)
    then show ?thesis by (rule inj_onD) (use that in \<open>simp_all add: social_login_same_def\<close>)
  qed
  have "distinct (map (\<lambda>r. (sl_account r, sl_provider r)) t')"
    using ok social_login_pk.update_distinct [of t ?f ?P] by (simp add: links_ok_def t' del: map_map)
  moreover have "distinct t" using ok by (simp add: links_ok_def distinct_map)
  then have "distinct (map (\<lambda>r. (sl_provider r, sl_subject r)) t')"
    unfolding t' map_map distinct_map
  proof
    show "inj_on ((\<lambda>r. (sl_provider r, sl_subject r)) \<circ> (\<lambda>r. if ?P r then ?f r else r)) (set t)"
    proof (rule inj_onI)
      fix x y assume x: "x \<in> set t" and y: "y \<in> set t"
        and same: "((\<lambda>r. (sl_provider r, sl_subject r)) \<circ> (\<lambda>r. if ?P r then ?f r else r)) x =
          ((\<lambda>r. (sl_provider r, sl_subject r)) \<circ> (\<lambda>r. if ?P r then ?f r else r)) y"
      have old: "x = y" if "sl_provider x = sl_provider y" "sl_subject x = sl_subject y"
        using ok x y that by (auto simp: links_ok_def distinct_map dest: inj_onD)
      show "x = y"
        using same one [OF x y] old free [OF x _ y] free [OF y _ x]
        by (auto simp: social_login_conflict_def split: if_splits)
    qed
  qed
  ultimately show ?thesis using ok row by (auto simp: links_ok_def t')
qed

lemma ok_attempts:
  assumes "attempts_ok t" and "upsert_row failed_attempt_conflict failed_attempt_conflict f row t = Inr t'"
    and "\<And>x. fa_tenant (f x) = fa_tenant x" "\<And>x. fa_email (f x) = fa_email x" and "1 \<le> fa_count row" "int4 (fa_count row)"
    and "\<And>x. x \<in> set t \<Longrightarrow> failed_attempt_conflict x row \<Longrightarrow> 1 \<le> fa_count (f x) \<and> int4 (fa_count (f x))"
  shows "attempts_ok t'"
proof -
  have "distinct (map (\<lambda>r. (fa_tenant r, fa_email r)) t')"
    using assms(1-4) failed_attempt_pk.upsert_distinct [of t f failed_attempt_conflict row t'] by (simp add: attempts_ok_def)
  with assms show ?thesis
    by (auto simp: attempts_ok_def upsert_row_def insert_row_def split: if_splits)
qed

lemma ok_tokens:
  "tokens_ok g t \<Longrightarrow> insert_row refresh_token_conflict r g = Inr g' \<Longrightarrow> tokens_ok g' t"
  "tokens_ok g t \<Longrightarrow> insert_row access_token_conflict a t = Inr t' \<Longrightarrow> of_grant g a \<Longrightarrow> tokens_ok g t'"
  by (auto simp: tokens_ok_def insert_row_Inr refresh_token_conflict_def access_token_conflict_def of_grant_iff)

lemma integrity_delete_refresh: "integrity K d \<Longrightarrow> integrity K (snd (delete_refresh P d))"
  unfolding delete_refresh_simps
  by (rule integrity_table, assumption, drule integrity_parts(11))
    (auto simp: tokens_ok_def distinct_map_filter_key cascaded_def of_grant_iff, blast)

lemma integrity_delete:
  "integrity K d \<Longrightarrow> integrity K (snd (delete_access A d))" "integrity K d \<Longrightarrow> integrity K (snd (delete_browser B d))"
  "integrity K d \<Longrightarrow> integrity K (d\<lparr>t_auth_requests := filter Q (t_auth_requests d)\<rparr>)"
  by (auto intro!: integrity_table ok_filter dest: integrity_parts)

section \<open>The calls\<close>

lemma integrity_stmt:
  "(\<And>now d x d'. s now d = Inr (x, d') \<Longrightarrow> integrity K d \<Longrightarrow> integrity K d') \<Longrightarrow> preserves (integrity K) (exec s)"
  by (auto simp: steps_def exec_def split: sum.splits prod.splits)

lemma integrity_count:
  "integrity K d \<Longrightarrow> attempt_Increment_stmt t e m l now d = Inr (x, d') \<Longrightarrow> integrity K d'"
proof -
  assume ok: "integrity K d" and run: "attempt_Increment_stmt t e m l now d = Inr (x, d')"
  let ?row = "\<lparr>fa_tenant = t, fa_email = e, fa_count = 1, fa_locked_until = lock_if (m \<le> 1) now l None, fa_modified = now\<rparr>"
  let ?upd = "\<lambda>r. r\<lparr>fa_count := fa_count r + 1, fa_locked_until := lock_if (m \<le> fa_count r + 1) now l (fa_locked_until r),
      fa_modified := now\<rparr>"
  let ?old = "select_row (\<lambda>r. failed_attempt_conflict r ?row) (t_failed_attempts d)"
  from run obtain fa where up: "upsert_row failed_attempt_conflict failed_attempt_conflict ?upd ?row (t_failed_attempts d) = Inr fa"
    and d': "d' = d\<lparr>t_failed_attempts := fa\<rparr>" and small: "\<And>r. ?old = Some r \<Longrightarrow> int4 (fa_count r + 1)"
    by (auto simp: attempt_Increment_stmt_def Let_def split: if_splits option.splits)
  have distinct: "distinct (map (\<lambda>r. (fa_tenant r, fa_email r)) (t_failed_attempts d))"
    and pos: "\<forall>r\<in>set (t_failed_attempts d). 1 \<le> fa_count r"
    using integrity_parts(8) [OF ok] by (simp_all add: attempts_ok_def)
  have "1 \<le> fa_count (?upd y) \<and> int4 (fa_count (?upd y))"
    if "y \<in> set (t_failed_attempts d)" "failed_attempt_conflict y ?row" for y
  proof -
    have "?old = Some y"
      using failed_attempt_pk.select_member [OF distinct that(1)] that(2) by (simp add: failed_attempt_conflict_def)
    with small pos that(1) show ?thesis by fastforce
  qed
  then have "attempts_ok fa"
    by (intro ok_attempts [OF integrity_parts(8) [OF ok] up]) (simp_all add: int4_def)
  with ok show ?thesis by (simp add: d' integrity_table)
qed

interpretation integral: provider_effects "\<lambda>d d'. integrity K d \<longrightarrow> integrity K d'" "t \<noteq> []" t for K t
proof unfold_locales
  show "integrity K d \<longrightarrow> integrity K d" for d by simp
  show "integrity K d1 \<longrightarrow> integrity K d3" if "integrity K d1 \<longrightarrow> integrity K d2" "integrity K d2 \<longrightarrow> integrity K d3" for d1 d2 d3
    using that by blast
  show "preserves (integrity K) (exec (account_update_stmt f t e))"
    if "\<And>now r. ac_tenant (f now r) = ac_tenant r" "\<And>now r. ac_id (f now r) = ac_id r" "\<And>now r. ac_email (f now r) = ac_email r" for f e
  proof (rule integrity_stmt)
    fix now d x d'
    assume "account_update_stmt f t e now d = Inr (x, d')" and ok: "integrity K d"
    then have d': "d' = d\<lparr>t_accounts := map (\<lambda>r. if ac_tenant r = t \<and> ac_email r = e then f now r else r) (t_accounts d)\<rparr>"
      by (auto simp: account_update_stmt_def update_where_def)
    show "integrity K d'"
      unfolding d' by (intro integrity_table ok ok_accounts_update that integrity_parts(4) [OF ok])
  qed
  show "preserves (integrity K) (exec (account_insert_stmt a v))" for a v
  proof (rule integrity_stmt)
    fix now d x d'
    assume "account_insert_stmt a v now d = Inr (x, d')" and ok: "integrity K d"
    then obtain r ac where ins: "insert_row account_conflict r (t_accounts d) = Inr ac" and d': "d' = d\<lparr>t_accounts := ac\<rparr>"
      by (auto simp: account_insert_stmt_def Let_def)
    have "ac_id ` set (t_accounts d) \<subseteq> ac_id ` set ac" using ins by (auto simp: insert_row_Inr)
    then show "integrity K d'"
      unfolding d' by (intro integrity_table ok ok_insert(2) [OF integrity_parts(4) [OF ok] ins])
  qed
  show "preserves (integrity K) (reset_Upsert t e h x)" for e h x
    unfolding reset_Upsert_def by (rule integrity_stmt)
      (auto simp: stmt_defs intro!: integrity_table dest: integrity_parts elim!: password_reset_pk.upsert_distinct [rotated 2])
  show "preserves (integrity K) (reset_Delete t e)" for e
    unfolding reset_Delete_def by (rule integrity_stmt)
      (auto simp: stmt_defs intro!: integrity_table distinct_map_filter_key dest: integrity_parts)
  show "preserves (integrity K) (attempt_Clear t e)" for e
    unfolding attempt_Clear_def by (rule integrity_stmt)
      (auto simp: stmt_defs intro!: integrity_table ok_filter dest: integrity_parts)
  show "preserves (integrity K) (IncrementAndLock t e m l)" for e m l
    unfolding IncrementAndLock_def by (rule integrity_stmt) (rule integrity_count)
  show "preserves (integrity K) (code_Upsert t e h x)" for e h x
    unfolding code_Upsert_def by (rule integrity_stmt)
      (auto simp: stmt_defs intro!: integrity_table dest: integrity_parts elim!: logon_code_pk.upsert_distinct [rotated 2])
  show "preserves (integrity K) (code_Delete t e)" for e
    unfolding code_Delete_def by (rule integrity_stmt)
      (auto simp: stmt_defs intro!: integrity_table distinct_map_filter_key dest: integrity_parts)
  show "preserves (integrity K) (exec (session_Upsert_stmt s))" for s
    by (rule integrity_stmt) (auto simp: stmt_defs intro!: integrity_table dest: integrity_parts elim!: ok_sessions [rotated])
  show "preserves (integrity K) (exec (session_Rotate_stmt t e c j j' x))" for e c j j' x
    by (rule integrity_stmt) (auto simp: stmt_defs update_where_def intro!: integrity_table ok_session_update dest: integrity_parts)
  show "preserves (integrity K) (exec (session_Delete_stmt t e c))" for e c
    by (rule integrity_stmt) (auto simp: stmt_defs delete_where_def intro!: integrity_table ok_filter dest: integrity_parts)
  show "preserves (integrity K) (session_DeleteAll t e)" for e
    unfolding session_DeleteAll_def by (rule integrity_stmt)
      (auto simp: stmt_defs delete_where_def intro!: integrity_table ok_filter dest: integrity_parts)
  show "preserves (integrity K) (exec (api_key_insert_stmt k h))" if "t \<noteq> []" "ApiKey_TenantID k = t" for k h
    by (rule integrity_stmt)
      (use that in \<open>auto simp: stmt_defs intro!: integrity_table dest: integrity_parts elim!: ok_insert(1) [rotated]\<close>)
  show "preserves (integrity K) (exec (api_key_Delete_stmt C t i))" for C i
    by (rule integrity_stmt)
      (auto simp: stmt_defs delete_where_def intro!: integrity_table ok_filter dest: integrity_parts split: option.splits)
  show "preserves (integrity K) (exec (client_insert_stmt cl))" for cl
    by (rule integrity_stmt)
      (auto simp: stmt_defs intro!: integrity_table dest: integrity_parts elim!: client_pk.insert_distinct [rotated])
  show "preserves (integrity K) (exec (client_Delete_stmt t i))" for i
    by (rule integrity_stmt)
      (auto simp: stmt_defs delete_where_def intro!: integrity_table distinct_map_filter_key dest: integrity_parts)
  show "integrity K d \<longrightarrow> integrity K (snd (delete_browser B d))" for B d using integrity_delete(2) by blast
  show "integrity K d \<longrightarrow> integrity K (snd (delete_refresh G d))" for G d using integrity_delete_refresh by blast
  show "integrity K d \<longrightarrow> integrity K (snd (delete_access A d))" for A d using integrity_delete(1) by blast
  show "integrity K d \<longrightarrow> integrity K (d\<lparr>t_auth_requests := snd (delete_where Q (t_auth_requests d))\<rparr>)" for Q d
    using integrity_delete(3) by simp
  show "integrity K (db w) \<longrightarrow> integrity K (db (snd (Link (ac_id row) p sub w)))" for row :: account_row and w p sub
  proof -
    have "preserves (integrity K) (exec (Link_stmt (ac_id row) p sub))"
    proof (rule integrity_stmt)
      fix now d x d'
      assume "Link_stmt (ac_id row) p sub now d = Inr (x, d')" and ok: "integrity K d"
      let ?new = "\<lparr>sl_account = ac_id row, sl_provider = p, sl_subject = sub, sl_created = now\<rparr>"
      from \<open>Link_stmt (ac_id row) p sub now d = Inr (x, d')\<close> obtain sl
        where up: "upsert_checked social_login_same social_login_conflict (\<lambda>r. r\<lparr>sl_subject := sub\<rparr>) ?new (t_social_logins d) = Inr sl"
          and "\<exists>r\<in>set (t_accounts d). ac_id r = ac_id row" and d': "d' = d\<lparr>t_social_logins := sl\<rparr>"
        by (auto simp: Link_stmt_def Let_def split: if_splits)
      then have "links_ok (ac_id ` set (t_accounts d)) sl"
        by (intro ok_links [OF integrity_parts(5) [OF ok] up]) (simp_all, metis image_eqI)
      with ok show "integrity K d'" by (simp add: d' integrity_table)
    qed
    then have "preserves (integrity K) (Link (ac_id row) p sub)"
      unfolding Link_def by (auto simp: steps_def map_err_def attempt_def throw_def ret_def split: prod.split sum.split)
    then show ?thesis by (simp add: steps_def)
  qed
  show "preserves (integrity K) (exec (auth_request_insert_stmt q))" for q
    by (rule integrity_stmt) (auto simp: stmt_defs intro!: integrity_table dest: integrity_parts elim!: ok_insert(4) [rotated])
  show "preserves (integrity K) (exec (auth_request_set_stmt C t i g))" if "\<And>now r. rq_id (g now r) = rq_id r" for C i g
  proof (rule integrity_stmt)
    fix now d x d'
    assume "auth_request_set_stmt C t i g now d = Inr (x, d')" and ok: "integrity K d"
    then obtain u n q where up: "update_checked auth_request_conflict (\<lambda>r. rq_tenant r = t \<and> rq_id r = u) (g now) (t_auth_requests d) = Inr (n, q)"
      and d': "d' = d\<lparr>t_auth_requests := q\<rparr>"
      unfolding auth_request_set_stmt_def by auto
    with update_checked_keys [OF _ _ that up] integrity_parts(10) [OF ok] have "requests_ok q" by (simp add: requests_ok_def)
    with ok show "integrity K d'" by (simp add: d' integrity_table)
  qed
  show "preserves (integrity K) (exec (refresh_insert_stmt rt h))" for rt h
    by (rule integrity_stmt) (auto simp: stmt_defs intro!: integrity_table dest: integrity_parts elim!: ok_tokens(1) [rotated])
  show "integrity K d \<longrightarrow> integrity K d'"
    if "AccessToken_TenantID at = t" "AccessToken_RefreshTokenID at = [] \<or>
        (\<exists>row\<in>set (t_refresh_tokens d). pg_uuid C (AccessToken_RefreshTokenID at) = Some (rt_id row) \<and> rt_tenant row = t)"
      "access_insert_stmt C at now d = Inr (x, d')" for at C now d x d'
  proof
    assume ok: "integrity K d"
    from that(3) obtain ref a where ref: "refresh_reference C (AccessToken_RefreshTokenID at) = Inr ref"
      and ins: "insert_row access_token_conflict (access_row at ref now) (t_access_tokens d) = Inr a"
      and d': "d' = d\<lparr>t_access_tokens := a\<rparr>"
      by (auto simp: access_insert_Inr)
    from ref that(1,2) have "of_grant (t_refresh_tokens d) (access_row at ref now)"
      by (auto simp: refresh_reference_def nullableID_def at_uuid_def of_grant_iff split: if_splits option.splits)
    with ok_tokens(2) [OF integrity_parts(11) [OF ok] ins] ok show "integrity K d'" by (simp add: d' integrity_table)
  qed
  show "preserves (integrity K) (exec (browser_insert_stmt C b h))" for b C h
    by (rule integrity_stmt)
      (auto simp: browser_insert_Inr list_ex_iff intro!: integrity_table dest: integrity_parts elim!: ok_insert(3) [rotated])
qed

section \<open>The service as a whole\<close>

text \<open>
  What happens to a database: a start of the service, a request to its api, a page of the login, a
  call of the provider library for a tenant, and a sweep of the janitor.
\<close>

datatype 'tok event =
    Start AppConfig
  | Request "'tok api_env" "'tok api_call" string
  | LoginPage login_handler page_request
  | SubmitPage login_handler page_request
  | LogoutPage net_lib login_handler page_request
  | LibraryCall op_lib storage string oidc_call
  | Sweep tokenizer "storage option"

fun run_event :: "crypto \<Rightarrow> pki \<Rightarrow> 'tok jwt_lib \<Rightarrow> 'tok event \<Rightarrow> unit op" where
  "run_event C K J (Start config) = done_with (startup C K config)"
| "run_event C K J (Request E call key) = done_with (request (E\<lparr>env_crypto := C, env_jwt := J\<rparr>) call key)"
| "run_event C K J (LoginPage h c) = done_with (Login C h c)"
| "run_event C K J (SubmitPage h c) = done_with (Submit C h c)"
| "run_event C K J (LogoutPage U h c) = done_with (Logout C U h c)"
| "run_event C K J (LibraryCall L s t call) = (if call_in t call then oidc_run C L s (Some t) call else ret ())"
| "run_event C K J (Sweep tok oidc) = done_with (janitor K tok oidc)"

text \<open>
  The databases a deployment can reach: the empty one the migrations leave, and what an event makes
  of a reachable one, in whatever world it happens (clocks, random bytes, failing round trips). The
  ids of new rows are canonical.
\<close>

inductive reachable :: "crypto \<Rightarrow> pki \<Rightarrow> 'tok jwt_lib \<Rightarrow> database \<Rightarrow> bool" for C K J where
  reachable_fresh: "reachable C K J empty_db"
| reachable_event: "reachable C K J (db w) \<Longrightarrow> canonical_ids C w \<Longrightarrow> reachable C K J (db (snd (run_event C K J ev w)))"

lemma key_integrity: "preserves (integrity K) tenant_Create"
  "key_pair_of K key \<noteq> None \<Longrightarrow> preserves (integrity K) (signing_key_Create key)"
proof -
  show "preserves (integrity K) tenant_Create"
    unfolding tenant_Create_def by (rule integrity_stmt)
      (auto simp: stmt_defs intro!: integrity_table dest: integrity_parts elim!: tenant_pk.insert_distinct [rotated])
  show "preserves (integrity K) (signing_key_Create key)" if "key_pair_of K key \<noteq> None"
    unfolding signing_key_Create_def
  proof (rule integrity_stmt)
    fix now d x d'
    assume "signing_key_Create_stmt key now d = Inr (x, d')" and ok: "integrity K d"
    then obtain sk where ins: "insert_row signing_key_conflict (key\<lparr>sk_created := now\<rparr>) (t_signing_keys d) = Inr sk"
      and d': "d' = d\<lparr>t_signing_keys := sk\<rparr>" by (auto simp: stmt_defs)
    have "key_pair_of K (key\<lparr>sk_created := now\<rparr>) \<noteq> None" using that by (simp add: key_pair_of_def)
    moreover have "distinct (map sk_id sk)"
      using integrity_parts(3) [OF ok] ins by (auto simp: signing_keys_ok_def intro: signing_key_pk.insert_distinct)
    ultimately have "signing_keys_ok K sk"
      using integrity_parts(3) [OF ok] ins by (auto simp: signing_keys_ok_def insert_row_Inr)
    with ok show "integrity K d'" by (simp add: d' integrity_table)
  qed
qed

lemma first_key_integrity:
  assumes "pki_ok K"
  shows "preserves (integrity K) (bindE (generateSigningKey K) signing_key_Create)"
proof -
  have "reads (rsa_GenerateKey_op K n)" for n
    by (auto simp: steps_def rsa_GenerateKey_op_def split: sum.split)
  then have gen: "reads (generateSigningKey K)"
    unfolding generateSigningKey_def Let_def
    by (intro reading.steps_bindE reading.steps_sum reading.steps_throw reading.steps_ret reading.steps_new_uuid)
  have "integrity K (db (snd (bindE (generateSigningKey K) signing_key_Create w)))" if ok: "integrity K (db w)" for w
  proof -
    obtain r w1 where run: "generateSigningKey K w = (r, w1)" by fastforce
    with gen have same: "db w1 = db w" by (rule reads_keeps)
    show ?thesis
    proof (cases r)
      case (Inl e)
      with run same ok show ?thesis by (simp add: bindE_def attempt_def throw_def)
    next
      case (Inr key)
      with stepsD [OF key_integrity(2) [OF generateSigningKey_pair(1) [OF assms run [unfolded Inr]]]] run same ok
      show ?thesis by (simp add: bindE_def attempt_def) (metis prod.collapse)
    qed
  qed
  then show ?thesis by (simp add: steps_def)
qed

lemma reload_integrity: "preserves (integrity K) (ReloadKeys K tok)" "preserves (integrity K) (storage_ReloadKeys K s)"
  unfolding ReloadKeys_def storage_ReloadKeys_def Keys_def signing_key_ReadAll_def Let_def
  by (intro integral.rules)+

lemma startup_integrity: "pki_ok K \<Longrightarrow> preserves (integrity K) (startup C K config)"
  unfolding startup_def createDefaultTenantID_def ListTenants_def tenant_ReadAll_def CreateDefault_def Initialize_def
    signing_key_ReadLatest_def NewDefaultTokenizer_def oidcSetting_def
  by (intro integral.rules key_integrity(1) first_key_integrity reload_integrity)

lemma sweep_integrity:
  "preserves (integrity K) session_DeleteExpired" "preserves (integrity K) code_DeleteExpired" "preserves (integrity K) reset_DeleteExpired"
  "preserves (integrity K) (DeleteStale n)" "preserves (integrity K) auth_request_DeleteExpired"
  "preserves (integrity K) token_DeleteExpired" "preserves (integrity K) browser_DeleteExpired"
proof -
  have deletes: "preserves (integrity K) (exec (\<lambda>now d. Inr (delete_access (A now) d)))"
    "preserves (integrity K) (exec (\<lambda>now d. Inr (delete_refresh (G now) d)))"
    "preserves (integrity K) (exec (\<lambda>now d. Inr (delete_browser (B now) d)))" for A G B
    using integrity_delete integrity_delete_refresh by (auto intro!: integrity_stmt simp del: delete_access_simps delete_refresh_simps delete_browser_simps) (metis snd_conv)+
  show "preserves (integrity K) token_DeleteExpired" "preserves (integrity K) browser_DeleteExpired"
    unfolding token_DeleteExpired_def browser_DeleteExpired_def by (intro integral.rules deletes)+
  show "preserves (integrity K) session_DeleteExpired" "preserves (integrity K) code_DeleteExpired" "preserves (integrity K) reset_DeleteExpired"
    "preserves (integrity K) (DeleteStale n)" "preserves (integrity K) auth_request_DeleteExpired"
    unfolding session_DeleteExpired_def code_DeleteExpired_def reset_DeleteExpired_def DeleteStale_def auth_request_DeleteExpired_def
    by (rule integrity_stmt; auto simp: stmt_defs delete_where_def distinct_map_filter_key
        intro!: integrity_table ok_filter dest: integrity_parts)+
qed

lemma janitor_integrity: "preserves (integrity K) (janitor K tok oidc)"
  unfolding janitor_def reloadKeys_def deleteExpired_def logged_def
  by (intro integral.rules reload_integrity sweep_integrity)

lemma request_integrity: "preserves (integrity K) (request E call key)"
proof -
  have served: "preserves (integrity K) (serve E call c)" if "IsRoot c \<Longrightarrow> EffectiveTenant c (call_tenant call) \<noteq> []" for c
    using that by (intro integral.serve_steps [OF refl]) simp
  have named: "TenantOrDefault i \<noteq> []" for i by (simp add: TenantOrDefault_def DefaultTenantID_def)
  have "integrity K (db w')" if run: "request E call key w = (r, w')" and ok: "integrity K (db w)" for w r w'
    using run
  proof (cases rule: request_cases)
    case (refused w1)
    with ok show ?thesis by (simp add: unauthorized_def ret_def)
  next
    case ungated
    from stepsD [OF served ungated(2)] ok show ?thesis by (simp add: no_context_def IsRoot_def)
  next
    case root
    from stepsD [OF served root(3)] ok show ?thesis by (simp add: EffectiveTenant_none named)
  next
    case (tenant t w1)
    from stepsD [OF served tenant(5)] ok tenant(4) show ?thesis by (simp add: IsRoot_def)
  qed
  then show ?thesis by (auto simp: steps_def) (metis prod.collapse)
qed

lemma event_integrity:
  assumes "pki_ok K" and "canonical_ids C w" and "integrity K (db w)"
  shows "integrity K (db (snd (run_event C K J ev w)))"
proof (cases ev)
  case (LibraryCall L s t call)
  with integral.run_keeps [of t call C w K L s] assms show ?thesis by (auto simp: ret_def)
next
  case (Request E call key)
  with assms(3) show ?thesis
    using request_integrity [of K "E\<lparr>env_crypto := C, env_jwt := J\<rparr>" call key] by (simp add: done_with_snd steps_def)
qed (use assms startup_integrity janitor_integrity integral.page_steps [OF refl] in
    \<open>auto simp: done_with_snd steps_def\<close>)

lemma reachable_integrity:
  assumes "pki_ok K" and "reachable C K J d"
  shows "integrity K d"
  using assms(2)
proof (induction rule: reachable.induct)
  case reachable_fresh
  show ?case by (rule integrity_empty)
next
  case (reachable_event w ev)
  show ?case by (rule event_integrity [OF assms(1) reachable_event(2) reachable_event.IH])
qed

text \<open>
  C2: the integrity of the database holds always. From the empty database on, whatever the service
  does (starts, requests, pages, calls of the provider library, sweeps), in whatever order, with
  whatever clocks, random bytes and failing round trips: keys are unique, references have their
  rows, an access token is of the tenant of its grant and gone when the grant is, an api key has a
  tenant, a signing key holds a matching pair, and a counter of failed attempts is positive and fits
  its column. It is all that the other properties assume of a database.
\<close>

theorem integrity_holds_always:
  assumes "pki_ok K" and "reachable C K J d"
  shows "integrity K d \<and> grants_match d \<and> grants_ok d"
  using integrity_grants reachable_integrity [OF assms] by blast

text \<open>A start on an empty database, and an account registered then.\<close>

definition sample_started :: world where
  "sample_started = sample_world (db (snd (run_event sample_crypto sample_pki sample_jwt (Start sample_config)
     (sample_world empty_db 9 [''k1''])))) 10 [''u1'', ''u2'']"

definition sample_registration :: "sample_token event" where
  "sample_registration = Request sample_env
     (PostRegister (Inr \<lparr>RegisterAccount_TenantID = [], RegisterAccount_Email = ''a@b.co'', RegisterAccount_Password = ''hunter22'',
        RegisterAccount_Name = ''A''\<rparr>)) ''root''"

theorem integrity_holds_always_witness:
  "\<exists>d. reachable sample_crypto sample_pki sample_jwt d \<and> integrity sample_pki d \<and>
     map ac_email (t_accounts d) = [''a@b.co''] \<and> map sk_id (t_signing_keys d) = [''k1'']"
proof -
  let ?d = "db (snd (run_event sample_crypto sample_pki sample_jwt sample_registration sample_started))"
  have ids: "canonical_ids sample_crypto (sample_world empty_db 9 [''k1''])" "canonical_ids sample_crypto sample_started"
    by (simp_all add: canonical_ids_def sample_started_def)
  have "reachable sample_crypto sample_pki sample_jwt (db sample_started)"
    unfolding sample_started_def sample_world_sel by (rule reachable_event [OF _ ids(1)]) (simp add: reachable_fresh)
  then have "reachable sample_crypto sample_pki sample_jwt ?d" using ids(2) by (rule reachable_event)
  moreover have "case run_event sample_crypto sample_pki sample_jwt sample_registration sample_started of (r, w) \<Rightarrow>
      map ac_email (t_accounts (db w)) = [''a@b.co''] \<and> map sk_id (t_signing_keys (db w)) = [''k1'']" by code_simp
  then have "map ac_email (t_accounts ?d) = [''a@b.co''] \<and> map sk_id (t_signing_keys ?d) = [''k1'']" by (simp add: split_beta)
  ultimately show ?thesis using integrity_holds_always [OF pki_ok_sample, of sample_crypto sample_jwt ?d] by (intro exI [of _ ?d]) simp
qed

end
