(* ===== verification/Migrations.thy ===== *)
theory Migrations
  imports GoStrings AuthnStores
begin

text \<open>
  \<open>src/internal/db/migrate.go\<close>: the migrations runner. The embedded files are their names and,
  for each, what its SQL does to a schema; the schema itself is a type parameter. Every round
  trip to the database may fail.
\<close>

section \<open>State and errors\<close>

text \<open>The errors, without the text of the error they wrap.\<close>

datatype migrate_error =
    AcquireConnection
  | AcquireLock
  | CreateTable
  | NoVersion string
  | InvalidVersion string
  | DuplicateVersion int string string
  | CheckMigration string
  | BeginMigration string
  | ApplyMigration string
  | RecordMigration string
  | CommitMigration string

text \<open>\<open>schema_migrations\<close> is absent before the first run; \<open>refused\<close> tells of each coming round trip whether it fails.\<close>

record 'd migration_db =
  schema_migrations :: "(int \<times> string) list option"
  schema :: 'd
  refused :: "bool list"

definition trip_fails :: "'d migration_db \<Rightarrow> bool" where
  "trip_fails s \<longleftrightarrow> (case refused s of [] \<Rightarrow> False | f # _ \<Rightarrow> f)"

definition after_trip :: "'d migration_db \<Rightarrow> 'd migration_db" where
  "after_trip s = s\<lparr>refused := tl (refused s)\<rparr>"

definition applied :: "'d migration_db \<Rightarrow> (int \<times> string) list" where
  "applied s = (case schema_migrations s of None \<Rightarrow> [] | Some t \<Rightarrow> t)"

definition recorded :: "int \<Rightarrow> (int \<times> string) list \<Rightarrow> bool" where
  "recorded v t \<longleftrightarrow> v \<in> fst ` set t"

section \<open>The runner\<close>

definition migrationVersion :: "string \<Rightarrow> migrate_error + int" where
  "migrationVersion name =
     (case Cut name (CHR ''_'') of
        (prefix, _, found) \<Rightarrow>
          if \<not> found then Inl (NoVersion name)
          else (case Atoi prefix of
                  None \<Rightarrow> Inl (InvalidVersion name)
                | Some version \<Rightarrow> Inr version))"

text \<open>
  One file in its transaction: begin, the SQL of the file, the record, commit. The column is an
  \<open>int\<close> and the primary key; an error takes the transaction back.
\<close>

definition apply_migration :: "('d \<Rightarrow> 'd option) \<Rightarrow> int \<Rightarrow> string \<Rightarrow> 'd migration_db \<Rightarrow>
    (migrate_error + unit) \<times> 'd migration_db" where
  "apply_migration sql version name s =
     (if trip_fails s then (Inl (BeginMigration name), after_trip s)
      else (let s = after_trip s in
      if trip_fails s then (Inl (ApplyMigration name), after_trip s)
      else case sql (schema s) of
        None \<Rightarrow> (Inl (ApplyMigration name), after_trip s)
      | Some d \<Rightarrow>
          (let s = after_trip s in
          if trip_fails s \<or> recorded version (applied s) then (Inl (RecordMigration name), after_trip s)
          else (let s = after_trip s in
          if trip_fails s then (Inl (CommitMigration name), after_trip s)
          else (Inr (), (after_trip s)\<lparr>schema := d, schema_migrations := Some (applied s @ [(version, name)])\<rparr>)))))"

text \<open>The loop over the sorted names; \<open>seen\<close> is the map \<open>versions\<close>.\<close>

fun apply_pending :: "(string \<Rightarrow> 'd \<Rightarrow> 'd option) \<Rightarrow> (int \<times> string) list \<Rightarrow> string list \<Rightarrow> 'd migration_db \<Rightarrow>
    (migrate_error + unit) \<times> 'd migration_db" where
  "apply_pending sql seen [] s = (Inr (), s)"
| "apply_pending sql seen (name # names) s =
     (case migrationVersion name of
        Inl err \<Rightarrow> (Inl err, s)
      | Inr version \<Rightarrow>
          (case map_of seen version of
             Some existing \<Rightarrow> (Inl (DuplicateVersion version existing name), s)
           | None \<Rightarrow>
               (let seen = (version, name) # seen in
                if trip_fails s \<or> \<not> int4 version then (Inl (CheckMigration name), after_trip s)
                else (let s = after_trip s in
                if recorded version (applied s) then apply_pending sql seen names s
                else case apply_migration (sql name) version name s of
                  (Inl err, s) \<Rightarrow> (Inl err, s)
                | (Inr _, s) \<Rightarrow> apply_pending sql seen names s))))"

definition migration_names :: "string list \<Rightarrow> string list" where
  "migration_names entries = sort (filter (\<lambda>name. HasSuffix name ''.sql'') entries)"

definition Migrate :: "(string \<Rightarrow> 'd \<Rightarrow> 'd option) \<Rightarrow> string list \<Rightarrow> 'd migration_db \<Rightarrow>
    (migrate_error + unit) \<times> 'd migration_db" where
  "Migrate sql entries s =
     (if trip_fails s then (Inl AcquireConnection, after_trip s)
      else (let s = after_trip s in
      if trip_fails s then (Inl AcquireLock, after_trip s)
      else (let s = after_trip s in
      if trip_fails s then (Inl CreateTable, after_trip s)
      else apply_pending sql [] (migration_names entries)
             ((after_trip s)\<lparr>schema_migrations := Some (applied s)\<rparr>))))"

text \<open>The files of \<open>src/internal/db/migrations\<close>.\<close>

definition migration_files :: "string list" where
  "migration_files =
     [''0001_tenants.sql'', ''0002_api_keys.sql'', ''0003_signing_keys.sql'', ''0004_accounts.sql'',
      ''0005_password_resets.sql'', ''0006_sessions.sql'', ''0007_failed_attempts.sql'', ''0008_logon_codes.sql'',
      ''0009_account_name.sql'', ''0010_oidc.sql'', ''0011_oidc_clients.sql'']"

section \<open>What is to do\<close>

text \<open>
  The specification: the pending migrations of a table are the valid names whose version it does
  not record, and applying a list of them runs their SQL in order.
\<close>

fun pending :: "(int \<times> string) list \<Rightarrow> string list \<Rightarrow> (int \<times> string) list" where
  "pending t [] = []"
| "pending t (name # names) =
     (case migrationVersion name of
        Inl _ \<Rightarrow> pending t names
      | Inr v \<Rightarrow> if recorded v t then pending t names else (v, name) # pending t names)"

fun run_all :: "(string \<Rightarrow> 'd \<Rightarrow> 'd option) \<Rightarrow> (int \<times> string) list \<Rightarrow> 'd \<Rightarrow> 'd option" where
  "run_all sql [] d = Some d"
| "run_all sql ((v, name) # ms) d = (case sql name d of None \<Rightarrow> None | Some d \<Rightarrow> run_all sql ms d)"

lemma after_trip_sel [simp]:
  "schema_migrations (after_trip s) = schema_migrations s" "schema (after_trip s) = schema s"
  "refused (after_trip s) = tl (refused s)" "applied (after_trip s) = applied s"
  by (simp_all add: after_trip_def applied_def)

lemma applied_update [simp]:
  "applied (s\<lparr>schema_migrations := Some t\<rparr>) = t" "applied (s\<lparr>schema := d\<rparr>) = applied s"
  by (simp_all add: applied_def)

lemma recorded_append [simp]: "recorded v (t @ u) \<longleftrightarrow> recorded v t \<or> recorded v u"
  by (auto simp: recorded_def)

lemma recorded_Nil [simp]: "\<not> recorded v []"
  by (simp add: recorded_def)

lemma recorded_Cons [simp]: "recorded v (p # t) \<longleftrightarrow> v = fst p \<or> recorded v t"
  by (auto simp: recorded_def)

lemma recorded_map_of: "recorded v t \<longleftrightarrow> map_of t v \<noteq> None"
  by (auto simp: recorded_def map_of_eq_None_iff)

lemma apply_migration_cases:
  assumes "apply_migration sql version name s = (r, s')"
  shows "(\<exists>err. r = Inl err \<and> schema_migrations s' = schema_migrations s \<and> schema s' = schema s) \<or>
    (r = Inr () \<and> \<not> recorded version (applied s) \<and> sql (schema s) = Some (schema s') \<and>
     applied s' = applied s @ [(version, name)] \<and> refused s' = drop 4 (refused s))"
  using assms
  by (auto simp: apply_migration_def Let_def numeral_eq_Suc drop_Suc split: if_splits option.splits)

text \<open>
  The loop works off the pending migrations from the front. \<open>t0\<close> is the table at the start; what
  has been recorded since is in \<open>seen\<close>.
\<close>

lemma apply_pending_prefix:
  assumes "apply_pending sql seen names s = (r, s')"
    and "\<And>v. recorded v t0 \<Longrightarrow> recorded v (applied s)"
    and "\<And>v. recorded v (applied s) \<Longrightarrow> recorded v t0 \<or> recorded v seen"
  shows "\<exists>did rest. pending t0 names = did @ rest \<and> applied s' = applied s @ did \<and>
    run_all sql did (schema s) = Some (schema s') \<and> (r = Inr () \<longrightarrow> rest = [])"
  using assms
proof (induction names arbitrary: seen s)
  case Nil
  then show ?case by auto
next
  case (Cons name names)
  have stop: ?case if "applied s' = applied s" "schema s' = schema s" "r \<noteq> Inr ()"
    using that by (intro exI [of _ "[]"] exI [of _ "pending t0 (name # names)"]) auto
  show ?case
  proof (cases "migrationVersion name")
    case (Inl err)
    with Cons.prems(1) show ?thesis by (intro stop) auto
  next
    case (Inr v)
    show ?thesis
    proof (cases "map_of seen v")
      case (Some existing)
      with Inr Cons.prems(1) show ?thesis by (intro stop) auto
    next
      case None
      then have new: "\<not> recorded v seen" by (simp add: recorded_map_of)
      let ?s = "after_trip s"
      show ?thesis
      proof (cases "trip_fails s \<or> \<not> int4 v")
        case True
        with Inr None Cons.prems(1) show ?thesis by (intro stop) (auto simp: Let_def)
      next
        case ok: False
        show ?thesis
        proof (cases "recorded v (applied s)")
          case True
          with new Cons.prems(3) have old: "recorded v t0" by blast
          have "apply_pending sql ((v, name) # seen) names ?s = (r, s')"
            using Cons.prems(1) Inr None ok True by (simp add: Let_def)
          from Cons.IH [OF this] Cons.prems(2,3) Inr old show ?thesis by auto
        next
          case False
          with Cons.prems(2) have fresh: "\<not> recorded v t0" by blast
          obtain q s1 where step: "apply_migration (sql name) v name ?s = (q, s1)" by fastforce
          show ?thesis
          proof (cases q)
            case (Inl err)
            with Cons.prems(1) Inr None ok False step have "s' = s1" "r = Inl err" by (auto simp: Let_def)
            with apply_migration_cases [OF step] Inl show ?thesis by (intro stop) (auto simp: applied_def)
          next
            case (Inr u)
            with Cons.prems(1) \<open>migrationVersion name = Inr v\<close> None ok False step
            have rest: "apply_pending sql ((v, name) # seen) names s1 = (r, s')" by (simp add: Let_def)
            from apply_migration_cases [OF step] Inr
            have s1: "sql name (schema s) = Some (schema s1)" "applied s1 = applied s @ [(v, name)]" by auto
            from Cons.IH [OF rest] s1(2) Cons.prems(2,3) obtain did rest where
              "pending t0 names = did @ rest" "applied s' = applied s1 @ did"
              "run_all sql did (schema s1) = Some (schema s')" "r = Inr () \<longrightarrow> rest = []" by auto
            with s1 fresh \<open>migrationVersion name = Inr v\<close> show ?thesis
              by (intro exI [of _ "(v, name) # did"] exI [of _ rest]) auto
          qed
        qed
      qed
    qed
  qed
qed

text \<open>A run that succeeds has seen every name valid, with a version of its own.\<close>

lemma apply_pending_valid:
  assumes "apply_pending sql seen names s = (Inr u, s')"
  shows "\<exists>vs. map migrationVersion names = map Inr vs \<and> distinct vs \<and> list_all int4 vs \<and> (\<forall>v\<in>set vs. \<not> recorded v seen)"
  using assms
proof (induction names arbitrary: seen s)
  case Nil
  then show ?case by auto
next
  case (Cons name names)
  from Cons.prems obtain v where v: "migrationVersion name = Inr v" by (auto split: sum.splits)
  from Cons.prems v have fresh: "map_of seen v = None" by (auto split: option.splits)
  with Cons.prems v have "int4 v" by (auto simp: Let_def split: if_splits)
  have "\<exists>s1. apply_pending sql ((v, name) # seen) names s1 = (Inr u, s')"
    using Cons.prems v fresh by (auto simp: Let_def split: if_splits prod.splits sum.splits)
  with Cons.IH obtain vs where vs: "map migrationVersion names = map Inr vs" "distinct vs" "list_all int4 vs"
      "\<forall>x\<in>set vs. \<not> recorded x ((v, name) # seen)" by blast
  moreover have "v \<notin> set vs" "\<forall>x\<in>set vs. \<not> recorded x seen" using vs(4) by auto
  ultimately show ?case using v fresh \<open>int4 v\<close> vs(1-3) by (intro exI [of _ "v # vs"]) (simp add: recorded_map_of)
qed

lemma applied_all_noop:
  assumes "map migrationVersion names = map Inr vs" "distinct vs" "list_all int4 vs"
    and "\<forall>v\<in>set vs. \<not> recorded v seen" "\<forall>v\<in>set vs. recorded v (applied s)" "refused s = []"
  shows "apply_pending sql seen names s = (Inr (), s)"
  using assms
proof (induction names arbitrary: seen vs)
  case Nil
  then show ?case by simp
next
  case (Cons name names)
  then obtain v vs' where vs: "vs = v # vs'" and v: "migrationVersion name = Inr v"
    and rest: "map migrationVersion names = map Inr vs'" by (cases vs) auto
  have same: "after_trip s = s" using Cons.prems(6) by (simp add: after_trip_def)
  have "apply_pending sql ((v, name) # seen) names s = (Inr (), s)"
    by (rule Cons.IH [of vs']) (use Cons.prems vs rest in auto)
  moreover have "\<not> trip_fails s" "recorded v (applied s)" "int4 v" "map_of seen v = None"
    using Cons.prems vs by (auto simp: trip_fails_def recorded_map_of)
  ultimately show ?case using v same by (simp add: Let_def)
qed

lemma pending_recorded: "v \<in> fst ` set (pending t names) \<Longrightarrow> \<not> recorded v t"
  by (induction names) (auto split: sum.splits if_splits)

lemma pending_covers: "name \<in> set names \<Longrightarrow> migrationVersion name = Inr v \<Longrightarrow> recorded v t \<or> recorded v (pending t names)"
  by (induction names) (auto split: sum.splits)

lemma distinct_pending: "map migrationVersion names = map Inr vs \<Longrightarrow> distinct vs \<Longrightarrow>
    distinct (map fst (pending t names)) \<and> set (map fst (pending t names)) \<subseteq> set vs"
proof (induction names arbitrary: vs)
  case Nil
  then show ?case by simp
next
  case (Cons name names)
  then obtain v vs' where "vs = v # vs'" "migrationVersion name = Inr v" "map migrationVersion names = map Inr vs'"
    by (cases vs) auto
  with Cons.IH [of vs'] Cons.prems(2) show ?case by auto
qed

section \<open>Properties\<close>

text \<open>A run whose migrations are all recorded changes nothing.\<close>

lemma Migrate_noop:
  assumes "map migrationVersion (migration_names entries) = map Inr vs" and "distinct vs" and "list_all int4 vs"
    and "\<forall>v\<in>set vs. recorded v (applied s)" and "schema_migrations s \<noteq> None" and "refused s = []"
  shows "Migrate sql entries s = (Inr (), s)"
proof -
  have trips: "after_trip s = s" "\<not> trip_fails s" using assms(6) by (simp_all add: after_trip_def trip_fails_def)
  have same: "s\<lparr>schema_migrations := Some (applied s)\<rparr> = s" using assms(5) by (auto simp: applied_def)
  have "apply_pending sql [] (migration_names entries) s = (Inr (), s)"
    by (rule applied_all_noop [OF assms(1-3)]) (use assms(4,6) in auto)
  with trips same show ?thesis by (simp add: Migrate_def Let_def)
qed

text \<open>
  C19: the runner applies each pending migration once, in the order of the names. Whatever fails,
  what has been applied is a front part of the pending migrations, each recorded with its SQL
  run, and nothing of the others; success means that all of them have been. A second run after a
  success, by this replica or another, succeeds and changes nothing.
\<close>

theorem migrations_apply_once_in_order:
  assumes "Migrate sql entries s = (r, s')"
  shows "\<exists>did rest. pending (applied s) (migration_names entries) = did @ rest \<and> applied s' = applied s @ did \<and>
    run_all sql did (schema s) = Some (schema s') \<and>
    (r = Inr () \<longrightarrow> rest = [] \<and> distinct (map fst did) \<and>
       (\<forall>s2. schema_migrations s2 = Some (applied s') \<and> refused s2 = [] \<longrightarrow> Migrate sql entries s2 = (Inr (), s2)))"
proof (cases "trip_fails s \<or> trip_fails (after_trip s) \<or> trip_fails (after_trip (after_trip s))")
  case True
  with assms have "applied s' = applied s \<and> schema s' = schema s \<and> r \<noteq> Inr ()"
    by (auto simp: Migrate_def Let_def split: if_splits)
  then show ?thesis by (intro exI [of _ "[]"] exI [of _ "pending (applied s) (migration_names entries)"]) auto
next
  case False
  let ?names = "migration_names entries" and ?s = "(after_trip (after_trip (after_trip s)))\<lparr>schema_migrations := Some (applied s)\<rparr>"
  from assms False have run: "apply_pending sql [] ?names ?s = (r, s')"
    by (simp add: Migrate_def Let_def)
  from apply_pending_prefix [OF run, of "applied s"] obtain did rest where
    did: "pending (applied s) ?names = did @ rest" "applied s' = applied s @ did"
      "run_all sql did (schema s) = Some (schema s')" "r = Inr () \<longrightarrow> rest = []" by auto
  moreover have "distinct (map fst did) \<and>
      (\<forall>s2. schema_migrations s2 = Some (applied s') \<and> refused s2 = [] \<longrightarrow> Migrate sql entries s2 = (Inr (), s2))"
    if ok: "r = Inr ()"
  proof -
    from apply_pending_valid run ok obtain vs where
      vs: "map migrationVersion ?names = map Inr vs" "distinct vs" "list_all int4 vs" by blast
    have pend: "pending (applied s) ?names = did" using did(1,4) ok by simp
    have "recorded v (applied s')" if "v \<in> set vs" for v
    proof -
      from that vs(1) obtain name where "name \<in> set ?names" "migrationVersion name = Inr v"
        by (metis (no_types, lifting) imageE image_eqI list.set_map)
      from pending_covers [OF this, of "applied s"] pend did(2) show ?thesis by auto
    qed
    then show ?thesis
      using distinct_pending [OF vs(1,2), of "applied s"] pend by (auto intro!: Migrate_noop [OF vs] simp: applied_def)
  qed
  ultimately show ?thesis by blast
qed

theorem migrations_apply_once_in_order_witness:
  "let s = \<lparr>schema_migrations = None, schema = [], refused = []\<rparr>; sql = (\<lambda>name d. Some (d @ [name]));
       s1 = snd (Migrate sql (rev migration_files) s) in
   schema s1 = migration_files \<and> map fst (applied s1) = [1..11] \<and>
   Migrate sql (rev migration_files) (s1\<lparr>refused := []\<rparr>) = (Inr (), s1\<lparr>refused := []\<rparr>)"
proof -
  define s where "s = \<lparr>schema_migrations = None, schema = [] :: string list, refused = []\<rparr>"
  define sql where "sql = (\<lambda>(name::string) (d::string list). Some (d @ [name]))"
  obtain r s1 where run: "Migrate sql (rev migration_files) s = (r, s1)" by fastforce
  have vals: "r = Inr () \<and> schema s1 = migration_files \<and> schema_migrations s1 = Some (zip [1..11] migration_files)"
  proof -
    have "(case Migrate sql (rev migration_files) s of (r, s1) \<Rightarrow>
        r = Inr () \<and> schema s1 = migration_files \<and> schema_migrations s1 = Some (zip [1..11] migration_files))"
      unfolding s_def sql_def by code_simp
    with run show ?thesis by simp
  qed
  have "map fst (zip [1..11::int] migration_files) = [1..11]" by code_simp
  with migrations_apply_once_in_order [OF run] vals run show ?thesis
    unfolding s_def [symmetric] sql_def [symmetric] by (auto simp: Let_def applied_def)
qed

section \<open>The order of the names\<close>

text \<open>A name whose version has \<open>k\<close> digits.\<close>

definition zero_padded :: "nat \<Rightarrow> string \<Rightarrow> bool" where
  "zero_padded k name \<longleftrightarrow>
     (let (prefix, _, found) = Cut name (CHR ''_'') in found \<and> length prefix = k \<and> list_all is_digit prefix)"

lemma prefix_le: "length p = length q \<Longrightarrow> p @ x \<le> q @ y \<Longrightarrow> p \<le> (q :: string)"
  by (induction p q rule: list_induct2) auto

lemma digit_range: "is_digit c \<Longrightarrow> 0 \<le> digit_value c \<and> digit_value c \<le> 9"
  by (auto simp: is_digit_def digit_value_def less_eq_char_def)

lemma digit_value_mono: "c < d \<Longrightarrow> digit_value c < digit_value d"
  by (simp add: digit_value_def less_char_def)

lemma decimal_mono:
  assumes "length p = length q" "list_all is_digit p" "list_all is_digit q" "m < n \<or> m = n \<and> p \<le> q"
  shows "foldl (\<lambda>n c. 10 * n + digit_value c) m p \<le> foldl (\<lambda>n c. 10 * n + digit_value c) n q"
  using assms
proof (induction p q arbitrary: m n rule: list_induct2)
  case Nil
  then show ?case by auto
next
  case (Cons c p d q)
  have "10 * m + digit_value c < 10 * n + digit_value d \<or> 10 * m + digit_value c = 10 * n + digit_value d \<and> p \<le> q"
    using Cons.prems digit_range [of c] digit_range [of d] digit_value_mono [of c d] by auto
  with Cons show ?case by simp
qed

lemma zero_padded_version:
  assumes "zero_padded k a" "zero_padded k b" "migrationVersion a = Inr v" "migrationVersion b = Inr u" "a \<le> b"
  shows "v \<le> u"
proof -
  from assms(1,3) obtain p x where p: "a = p @ CHR ''_'' # x" "length p = k" "list_all is_digit p" "Atoi p = Some v"
    by (auto simp: zero_padded_def migrationVersion_def Cut_True split: prod.splits option.splits if_splits)
  from assms(2,4) obtain q y where q: "b = q @ CHR ''_'' # y" "length q = k" "list_all is_digit q" "Atoi q = Some u"
    by (auto simp: zero_padded_def migrationVersion_def Cut_True split: prod.splits option.splits if_splits)
  have "n = decimal s" if "Atoi s = Some n" "list_all is_digit s" for s n
    using that by (auto simp: Atoi_def Let_def is_digit_def less_eq_char_def split: list.splits if_splits)
  then have "v = decimal p" "u = decimal q" using p q by blast+
  moreover have "p \<le> q" using assms(5) p(1,2) q(1,2) by (auto intro: prefix_le)
  ultimately show ?thesis using decimal_mono [of p q 0 0] p q by (simp add: decimal_def)
qed

lemma pending_sorted:
  "sorted names \<Longrightarrow> list_all (zero_padded k) names \<Longrightarrow> sorted (map fst (pending t names))"
proof (induction names)
  case Nil
  then show ?case by simp
next
  case (Cons a names)
  have "\<exists>b\<in>set names. migrationVersion b = Inr v" if "v \<in> fst ` set (pending t names)" for v
    using that by (induction names) (auto split: sum.splits if_splits)
  with Cons show ?case
    by (auto split: sum.split simp: list_all_iff dest: zero_padded_version)
qed

text \<open>
  The order of the migrations. Files whose version prefixes have one width are applied in
  the order of their versions; without that they are applied in the order of their names, so
  version 10 goes before version 2.
\<close>

theorem padded_migrations_run_in_version_order:
  assumes "list_all (zero_padded k) (migration_names entries)"
  shows "sorted (map fst (pending t (migration_names entries))) \<and>
    pending [] (migration_names [''2_roles.sql'', ''10_audit.sql'']) = [(10, ''10_audit.sql''), (2, ''2_roles.sql'')]"
proof -
  have "pending [] (migration_names [''2_roles.sql'', ''10_audit.sql'']) = [(10, ''10_audit.sql''), (2, ''2_roles.sql'')]"
    by code_simp
  with pending_sorted [OF _ assms] show ?thesis by (simp add: migration_names_def)
qed

theorem padded_migrations_run_in_version_order_witness:
  "sorted (map fst (pending [] (migration_names (rev migration_files)))) \<and>
   map fst (pending [] (migration_names (rev migration_files))) = [1..11]"
proof -
  have "list_all (zero_padded 4) (migration_names (rev migration_files))" by code_simp
  from padded_migrations_run_in_version_order [OF this] have "sorted (map fst (pending [] (migration_names (rev migration_files))))"
    by blast
  moreover have "map fst (pending [] (migration_names (rev migration_files))) = [1..11]" by code_simp
  ultimately show ?thesis by blast
qed

end
