(* ===== verification/OidcLibrary.thy ===== *)
theory OidcLibrary
  imports Wiring
begin

text \<open>
  What the provider library sees of this repository: the methods of its interfaces \<open>op.AuthRequest\<close>,
  \<open>op.RefreshTokenRequest\<close>, \<open>op.Client\<close>, \<open>op.SigningKey\<close> and \<open>op.Key\<close> as \<open>src/internal/oidc\<close>
  implements them, the methods of \<open>op.Storage\<close> that answer a constant, and the agreement between
  what the discovery document promises and what a client is allowed.
\<close>

section \<open>Authorization requests and refresh tokens\<close>

definition AuthRequest_GetID :: "AuthRequest \<Rightarrow> string" where "AuthRequest_GetID a = AuthRequest_ID a"
definition AuthRequest_GetACR :: "AuthRequest \<Rightarrow> string" where "AuthRequest_GetACR a = []"
definition AuthRequest_GetAMR :: "AuthRequest \<Rightarrow> string list" where "AuthRequest_GetAMR a = AuthRequest_AMR a"
definition AuthRequest_GetAuthTime :: "AuthRequest \<Rightarrow> instant" where "AuthRequest_GetAuthTime a = AuthRequest_AuthTime a"
definition AuthRequest_GetClientID :: "AuthRequest \<Rightarrow> string" where "AuthRequest_GetClientID a = AuthRequest_ClientID a"
definition AuthRequest_GetNonce :: "AuthRequest \<Rightarrow> string" where "AuthRequest_GetNonce a = AuthRequest_Nonce a"
definition AuthRequest_GetRedirectURI :: "AuthRequest \<Rightarrow> string" where "AuthRequest_GetRedirectURI a = AuthRequest_RedirectURI a"
definition AuthRequest_GetScopes :: "AuthRequest \<Rightarrow> string list" where "AuthRequest_GetScopes a = AuthRequest_Scopes a"
definition AuthRequest_GetState :: "AuthRequest \<Rightarrow> string" where "AuthRequest_GetState a = AuthRequest_State a"
definition AuthRequest_GetSubject :: "AuthRequest \<Rightarrow> string" where "AuthRequest_GetSubject a = AuthRequest_Subject a"
definition AuthRequest_Done :: "AuthRequest \<Rightarrow> bool" where "AuthRequest_Done a = AuthRequest_Complete a"
definition GetResponseType :: "AuthRequest \<Rightarrow> string" where "GetResponseType a = AuthRequest_ResponseType a"
definition GetResponseMode :: "AuthRequest \<Rightarrow> string" where "GetResponseMode a = AuthRequest_ResponseMode a"

definition RefreshToken_GetAMR :: "RefreshGrant \<Rightarrow> string list" where "RefreshToken_GetAMR r = RefreshToken_AMR r"
definition RefreshToken_GetAudience :: "RefreshGrant \<Rightarrow> string list" where "RefreshToken_GetAudience r = RefreshToken_Audience r"
definition RefreshToken_GetAuthTime :: "RefreshGrant \<Rightarrow> instant" where "RefreshToken_GetAuthTime r = RefreshToken_AuthTime r"
definition RefreshToken_GetClientID :: "RefreshGrant \<Rightarrow> string" where "RefreshToken_GetClientID r = RefreshToken_ClientID r"
definition RefreshToken_GetScopes :: "RefreshGrant \<Rightarrow> string list" where "RefreshToken_GetScopes r = RefreshToken_Scopes r"
definition RefreshToken_GetSubject :: "RefreshGrant \<Rightarrow> string" where "RefreshToken_GetSubject r = RefreshToken_Subject r"

text \<open>The only method that writes: the library narrows the scopes of a renewal with it.\<close>

definition SetCurrentScopes :: "string list \<Rightarrow> RefreshGrant \<Rightarrow> RefreshGrant" where
  "SetCurrentScopes scopes r = r\<lparr>RefreshToken_Scopes := scopes\<rparr>"

section \<open>Clients\<close>

text \<open>The constants of the library that are returned; the application types are an enumeration there.\<close>

datatype application_type = ApplicationTypeWeb | ApplicationTypeUserAgent | ApplicationTypeNative
datatype access_token_type = AccessTokenTypeBearer | AccessTokenTypeJWT



section \<open>The storage\<close>

definition storage_Health :: "unit op" where "storage_Health = ret ()"

definition SetUserinfoFromScopes :: "userinfo \<Rightarrow> string \<Rightarrow> string \<Rightarrow> string list \<Rightarrow> userinfo op" where
  "SetUserinfoFromScopes u subject clientID scopes = ret u"

text \<open>No private claims: a nil map.\<close>

definition GetPrivateClaimsFromScopes :: "string \<Rightarrow> string \<Rightarrow> string list \<Rightarrow> (string \<rightharpoonup> string) op" where
  "GetPrivateClaimsFromScopes subject clientID scopes = ret Map.empty"

definition storage_SignatureAlgorithms :: "string list op" where
  "storage_SignatureAlgorithms = ret [''RS256'']"

definition ValidateJWTProfileScopes :: "string \<Rightarrow> string list \<Rightarrow> string list op" where
  "ValidateJWTProfileScopes subject scopes = ret scopes"

definition GetKeyByIDAndClientID :: "op_lib \<Rightarrow> string \<Rightarrow> string \<Rightarrow> JWK op" where
  "GetKeyByIDAndClientID L keyID clientID = throw (ErrInvalidRefreshToken L)"

text \<open>\<open>signingKey\<close> and \<open>publicKeyEntry\<close>: a key with its id.\<close>

definition sk_SignatureAlgorithm :: "string \<times> rsa_private \<Rightarrow> string" where "sk_SignatureAlgorithm k = ''RS256''"
definition sk_Key :: "string \<times> rsa_private \<Rightarrow> rsa_private" where "sk_Key k = snd k"
definition sk_ID :: "string \<times> rsa_private \<Rightarrow> string" where "sk_ID k = fst k"
definition pk_ID :: "string \<times> rsa_public \<Rightarrow> string" where "pk_ID k = fst k"
definition pk_Algorithm :: "string \<times> rsa_public \<Rightarrow> string" where "pk_Algorithm k = ''RS256''"
definition pk_Use :: "string \<times> rsa_public \<Rightarrow> string" where "pk_Use k = ''sig''"
definition pk_Key :: "string \<times> rsa_public \<Rightarrow> rsa_public" where "pk_Key k = snd k"

section \<open>What discovery promises\<close>








definition sample_provider_config :: AppConfig where
  "sample_provider_config = read_config
     [''PUBLIC_BASE_URL'' \<mapsto> ''https://an'', ''OIDC_CLIENT_ID'' \<mapsto> ''shop'', ''OIDC_CLIENT_SECRET'' \<mapsto> ''s'',
      ''OIDC_CRYPTO_KEY'' \<mapsto> ''k'', ''OIDC_REDIRECT_URIS'' \<mapsto> ''https://shop/cb'']"


section \<open>One key set\<close>

definition jwk_key :: "JWK \<Rightarrow> string \<times> rsa_public" where
  "jwk_key j = (jwk_kid j, \<lparr>rsa_N = nat_of_Bytes (base64url_decode (jwk_n j)), rsa_E = nat_of_Bytes (base64url_decode (jwk_e j))\<rparr>)"

lemma jwk_key_of: "jwk_key (jwk_of r p) = (sk_id r, p)"
  by (simp add: jwk_key_def jwk_of_def)

lemma parse_keys_jwks: "parse_keys K ks = Inr keys \<Longrightarrow> jwks_of K ks = Inr js \<Longrightarrow> map jwk_key js = keys"
  by (induction ks arbitrary: keys js) (auto simp: jwk_key_of map_sum_def split: sum.splits)

lemma parse_keys_ids: "parse_keys K ks = Inr keys \<Longrightarrow> map fst keys = map sk_id ks"
  by (induction ks arbitrary: keys) (auto split: sum.splits)

lemma loadPublicKeys_map_of:
  "parse_keys K ks = Inr keys \<Longrightarrow> distinct (map sk_id ks) \<Longrightarrow> loadPublicKeys K m ks = Inr (m ++ map_of keys)"
proof (induction ks arbitrary: keys m)
  case (Cons k ks)
  then obtain p rest where p: "ParsePublicKey K (sk_public_pem k) = Inr p" and rest: "parse_keys K ks = Inr rest"
    and keys: "keys = (sk_id k, p) # rest" by (auto split: sum.splits)
  have "set (map fst rest) = set (map sk_id ks)" by (simp only: parse_keys_ids [OF rest])
  then have "sk_id k \<notin> dom (map_of rest)" using Cons.prems(2) by (simp add: dom_map_of_conv_image_fst)
  with Cons.IH [OF rest] Cons.prems(2) p show ?case by (auto simp: keys map_add_def fun_eq_iff split: option.split)
qed simp

lemma parse_keys_member:
  "parse_keys K ks = Inr keys \<Longrightarrow> r \<in> set ks \<Longrightarrow> ParsePublicKey K (sk_public_pem r) = Inr p \<Longrightarrow> (sk_id r, p) \<in> set keys"
  by (induction ks arbitrary: keys) (auto split: sum.splits)

text \<open>
  C22: the api and the provider share one set of keys. When the tokenizer, the storage and the JWKS
  handler read one table of keys with distinct ids, the storage publishes the keys that a relying
  party decodes from JWKS, in that order, the tokenizer validates against the same keys under the
  same ids, and both sign with the same private key under the same id. It is one that is published,
  and where its row holds a matching pair, as every row the service stores does, the published key is
  the one its signatures verify with.
\<close>

theorem surfaces_share_one_key_set:
  assumes "distinct (map sk_id (t_signing_keys (db w)))"
    and "ReloadKeys K t w = (Inr t', w1)" and "storage_ReloadKeys K s wa = (Inr s', wb)" and "db wa = db w"
    and "JWKS K wx = (Inr js, wy)" and "db wx = db w"
  shows "\<exists>k. keySet s' = Some (map jwk_key js) \<and> publicKeys t' = map_of (map jwk_key js) \<and>
    storage.signingKey s' = Some k \<and> sk_ID k = signingKid t' \<and> sk_Key k = tokenizer.signingKey t' \<and>
    sk_ID k \<in> pk_ID ` set (map jwk_key js) \<and>
    ((\<forall>r\<in>set (t_signing_keys (db w)). key_pair_of K r \<noteq> None) \<longrightarrow> (sk_ID k, rsa_PublicKey (sk_Key k)) \<in> set (map jwk_key js))"
proof -
  let ?ks = "by_created (t_signing_keys (db w))"
  from assms(2) obtain m k where a: "?ks \<noteq> []" "loadPublicKeys K Map.empty ?ks = Inr m"
      "ParsePrivateKey K (sk_private_pem (last ?ks)) = Inr k"
    and t': "t' = t\<lparr>signingKid := sk_id (last ?ks), tokenizer.signingKey := k, publicKeys := m\<rparr>"
    by (auto simp: ReloadKeys_def Keys_def signing_key_ReadAll_def op_inr Let_def)
  from assms(3,4) a(3) obtain keys where b: "parse_keys K ?ks = Inr keys"
    and s': "s' = s\<lparr>storage.signingKey := Some (sk_id (last ?ks), k), keySet := Some keys\<rparr>"
    by (auto simp: storage_ReloadKeys_def Keys_def signing_key_ReadAll_def op_inr Let_def)
  from assms(5,6) have js: "jwks_of K ?ks = Inr js"
    by (auto simp: JWKS_def signing_key_ReadAll_def op_inr)
  note keys = parse_keys_jwks [OF b js]
  have m: "m = map_of keys" using loadPublicKeys_map_of [OF b distinct_by_created [OF assms(1)], of Map.empty] a(2) by simp
  have mem: "last ?ks \<in> set (t_signing_keys (db w))" using last_in_set [OF a(1)] by simp
  have "sk_id (last ?ks) \<in> set (map fst keys)" unfolding parse_keys_ids [OF b] using last_in_set [OF a(1)] by simp
  moreover have "(sk_id (last ?ks), rsa_PublicKey k) \<in> set keys" if "\<forall>r\<in>set (t_signing_keys (db w)). key_pair_of K r \<noteq> None"
  proof -
    from that mem obtain k' where "key_pair_of K (last ?ks) = Some k'" by blast
    with a(3) have "ParsePublicKey K (sk_public_pem (last ?ks)) = Inr (rsa_PublicKey k)" by (simp add: key_pair_of_Some)
    with parse_keys_member [OF b last_in_set [OF a(1)]] show ?thesis by simp
  qed
  ultimately show ?thesis
    using keys m t' s' by (auto simp: sk_ID_def sk_Key_def pk_ID_def image_iff)
qed

theorem surfaces_share_one_key_set_witness:
  "\<exists>t' (s' :: storage) js. fst (ReloadKeys sample_pki sample_tokenizer (sample_world (empty_db\<lparr>t_signing_keys := [sample_key_row ''k1'' 5]\<rparr>) 9 [])) = Inr t' \<and>
     keySet s' = Some (map jwk_key js) \<and> publicKeys t' = map_of (map jwk_key js) \<and>
     map jwk_key js = [(''k1'', rsa_PublicKey sample_key)]"
proof -
  let ?w = "sample_world (empty_db\<lparr>t_signing_keys := [sample_key_row ''k1'' 5]\<rparr>) 9 []"
  let ?s = "new_storage sample_crypto sample_provider_config"
  have pair: "ParsePrivateKey sample_pki (sk_private_pem (sample_key_row ''k1'' 5)) = Inr sample_key"
    "ParsePublicKey sample_pki (sk_public_pem (sample_key_row ''k1'' 5)) = Inr (rsa_PublicKey sample_key)"
    using sample_key_pair [of "''k1''" 5] by (simp_all add: key_pair_of_Some)
  obtain t' w1 where t: "ReloadKeys sample_pki sample_tokenizer ?w = (Inr t', w1)"
    by (simp add: ReloadKeys_def Keys_def signing_key_ReadAll_def by_created_def bindE_def attempt_def query_def exec_def
        lift_result_def ret_def pair)
  obtain s' w2 where s: "storage_ReloadKeys sample_pki ?s ?w = (Inr s', w2)"
    by (simp add: storage_ReloadKeys_def Keys_def signing_key_ReadAll_def by_created_def bindE_def attempt_def query_def exec_def
        lift_result_def ret_def pair)
  note one = surfaces_share_one_key_set [OF _ t s refl JWKS_sample]
  let ?js = "[jwk_of (sample_key_row ''k1'' 5) (rsa_PublicKey sample_key)]"
  have "map jwk_key ?js = [(''k1'', rsa_PublicKey sample_key)]" by (simp add: jwk_key_of sample_key_row_def)
  moreover from one have "keySet s' = Some (map jwk_key ?js) \<and> publicKeys t' = map_of (map jwk_key ?js)" by force
  ultimately show ?thesis using t by (intro exI [of _ t'] exI [of _ s'] exI [of _ ?js]) simp
qed

end
