(* ===== verification/Boot.thy ===== *)
theory Boot
  imports Integrity Migrations OidcLibrary
begin

text \<open>
  \<open>main\<close> of \<open>src/cmd/an/main.go\<close> from the environment to the running service: the configuration, the
  connection of \<open>src/internal/db/db.go\<close>, the migrations, the first tenant and key, the services and
  handlers, and the routes they are mounted on. An error on the way is a panic.
\<close>

section \<open>The outside\<close>

text \<open>
  \<open>pgxpool\<close>, go-oidc's discovery of Google, \<open>op.NewProvider\<close> and the parsing of the embedded
  templates. A provider of the library is a value of \<open>'p\<close>, of which only the callback URL is used.
\<close>

record ('c, 'p) libraries =
  pgxpool_New :: "string \<Rightarrow> string + 'c"
  pgxpool_Ping :: "'c \<Rightarrow> string + unit"
  goidc_NewProvider :: "string \<Rightarrow> string + (string \<Rightarrow> string \<Rightarrow> string + (string \<times> (string + googleClaims)))"
  op_NewProvider :: "op_config \<Rightarrow> (oidc_context \<Rightarrow> string) \<Rightarrow> go_error + 'p"
  op_AuthCallbackURL :: "'p \<Rightarrow> string \<Rightarrow> string \<Rightarrow> string"
  template_ParseFS :: "go_error + unit"

section \<open>The pieces\<close>

definition Connect :: "('c, 'p) libraries \<Rightarrow> string \<Rightarrow> string + 'c" where
  "Connect L connString =
     (case pgxpool_New L connString of
        Inl err \<Rightarrow> Inl err
      | Inr pool \<Rightarrow> (case pgxpool_Ping L pool of Inl err \<Rightarrow> Inl err | Inr _ \<Rightarrow> Inr pool))"

definition googleIssuer :: string where "googleIssuer = ''https://accounts.google.com''"

definition NewGoogleValidator :: "('c, 'p) libraries \<Rightarrow> string \<Rightarrow> go_error + (string \<Rightarrow> go_error + Identity)" where
  "NewGoogleValidator L clientID =
     (case goidc_NewProvider L googleIssuer of
        Inl err \<Rightarrow> Inl (PlainErr (''failed to create google OIDC provider: '' @ err))
      | Inr verifier \<Rightarrow> Inr (google_Validate (verifier clientID)))"

definition NewLoginHandler :: "('c, 'p) libraries \<Rightarrow> client_registry \<Rightarrow> authn_service \<Rightarrow> 'p \<Rightarrow> string \<Rightarrow> bool \<Rightarrow> duration \<Rightarrow>
    go_error + login_handler" where
  "NewLoginHandler L registry authentication provider publicBaseURL secureCookies sessionExpiry =
     (case template_ParseFS L of
        Inl err \<Rightarrow> Inl err
      | Inr _ \<Rightarrow> Inr \<lparr>lh_authentication = authentication, lh_clients = registry,
          lh_authCallbackURL = op_AuthCallbackURL L provider, lh_publicBaseURL = publicBaseURL,
          lh_secureCookies = secureCookies, lh_sessionExpiry = sessionExpiry\<rparr>)"

text \<open>The service of social sign-in, with Google where its client is configured.\<close>

definition social_setting :: "('c, 'p) libraries \<Rightarrow> AppConfig \<Rightarrow> tokenizer \<Rightarrow> social_service op" where
  "social_setting L config tok =
     (let s = NewDefaultSocialService tok (PasswordCost config) in
      if GoogleClientID config \<noteq> []
      then bindE (lift_result (NewGoogleValidator L (GoogleClientID config))) (\<lambda>google.
           ret (AddValidator s google_Name google))
      else ret s)"

text \<open>What \<open>oidcSetting\<close> builds on the storage: the provider and the handler of the login.\<close>

record 'p surface =
  su_storage :: storage
  su_provider :: 'p
  su_login :: login_handler

definition oidc_surface :: "('c, 'p) libraries \<Rightarrow> crypto \<Rightarrow> AppConfig \<Rightarrow> authn_service \<Rightarrow> storage \<Rightarrow> 'p surface op" where
  "oidc_surface L C config authentication s =
     (let p = \<lparr>PublicBaseURL = BaseURL config, CryptoKey = sha256 C (bytes_of (OidcCryptoKey config)),
            Insecure = OidcInsecure config\<rparr> in
      bindE (lift_result (op_NewProvider L (NewProvider p) (issuer_of_request p))) (\<lambda>provider.
      bindE (lift_result (NewLoginHandler L (clients s) authentication provider (BaseURL config) (\<not> OidcInsecure config)
               (seconds (OidcSessionExpireInSeconds config)))) (\<lambda>loginHandler.
      ret \<lparr>su_storage = s, su_provider = provider, su_login = loginHandler\<rparr>)))"

section \<open>The start\<close>

record 'p service =
  sv_config :: AppConfig
  sv_tokenizer :: tokenizer
  sv_social :: social_service
  sv_oidc :: "'p surface option"
  sv_routes :: "route list"

definition service_routes :: "AppConfig \<Rightarrow> route list" where
  "service_routes config =
     JwksRoutes @ AccountRoutes @ AuthenticateRoutes @ LogonCodeRoutes @ SocialRoutes @ ApiKeyRoutes @
     (if OidcEnabled config then ClientRoutes @ OidcRoutes else []) @ HealthRoutes"

definition oidc_mounted :: "('c, 'p) libraries \<Rightarrow> crypto \<Rightarrow> AppConfig \<Rightarrow> authn_service \<Rightarrow> storage option \<Rightarrow> 'p surface option op" where
  "oidc_mounted L C config authentication oidc =
     (case oidc of
        None \<Rightarrow> ret None
      | Some s \<Rightarrow> bindE (oidc_surface L C config authentication s) (\<lambda>surface. ret (Some surface)))"

text \<open>From the migrated database to the handlers.\<close>

definition wire :: "('c, 'p) libraries \<Rightarrow> crypto \<Rightarrow> pki \<Rightarrow> AppConfig \<Rightarrow> 'p service op" where
  "wire L C K config =
     bindE createDefaultTenantID (\<lambda>_.
     bindE (Initialize K) (\<lambda>_.
     bindE (NewDefaultTokenizer K (TokenIssuer config) (Audience config)
              (AccessTokenExpireInSeconds config) (RefreshTokenExpireInSeconds config)) (\<lambda>tok.
     bindE (social_setting L config tok) (\<lambda>social.
     bindE (oidcSetting C K config) (\<lambda>oidc.
     bindE (oidc_mounted L C config (wired_authentication config tok) oidc) (\<lambda>surface.
     ret \<lparr>sv_config = config, sv_tokenizer = tok, sv_social = social, sv_oidc = surface,
          sv_routes = service_routes config\<rparr>))))))"

text \<open>
  The database with the record of its migrations. The tables of the model are there from the
  start, so the SQL of a migration is a function of the database that a property may assume to
  leave the rows alone.
\<close>

record host =
  ht_world :: world
  ht_migrations :: "(int \<times> string) list option"

definition run_migrations :: "(string \<Rightarrow> database \<Rightarrow> database option) \<Rightarrow> string list \<Rightarrow> host \<Rightarrow> (migrate_error + unit) \<times> host" where
  "run_migrations sql entries h =
     (let w = ht_world h in
      case Migrate sql entries \<lparr>schema_migrations = ht_migrations h, schema = db w, refused = faults w\<rparr> of
        (r, s) \<Rightarrow> (r, \<lparr>ht_world = w\<lparr>db := schema s, faults := refused s\<rparr>, ht_migrations = schema_migrations s\<rparr>))"

datatype panic =
    ConfigPanic string
  | ConnectPanic string
  | MigratePanic migrate_error
  | WirePanic go_error

definition main :: "('c, 'p) libraries \<Rightarrow> crypto \<Rightarrow> pki \<Rightarrow> (string \<Rightarrow> database \<Rightarrow> database option) \<Rightarrow> string list \<Rightarrow>
    environment \<Rightarrow> host \<Rightarrow> (panic + 'p service) \<times> host" where
  "main L C K sql entries env h =
     (case NewAppConfig env of
        Inl err \<Rightarrow> (Inl (ConfigPanic err), h)
      | Inr config \<Rightarrow>
          (case Connect L (DbConnection config) of
             Inl err \<Rightarrow> (Inl (ConnectPanic err), h)
           | Inr pool \<Rightarrow>
               (case run_migrations sql entries h of
                  (Inl err, h) \<Rightarrow> (Inl (MigratePanic err), h)
                | (Inr _, h) \<Rightarrow>
                    (case wire L C K config (ht_world h) of
                       (Inl err, w) \<Rightarrow> (Inl (WirePanic err), h\<lparr>ht_world := w\<rparr>)
                     | (Inr service, w) \<Rightarrow> (Inr service, h\<lparr>ht_world := w\<rparr>)))))"

text \<open>
  The command line: with \<open>-version\<close> the process prints what the build wrote into the variables of
  \<open>src/internal/version/version.go\<close>, and exits.
\<close>

record build =
  Version :: string
  Commit :: string
  BuildTime :: string

definition dev_build :: build where
  "dev_build = \<lparr>Version = ''dev'', Commit = ''none'', BuildTime = ''unknown''\<rparr>"

definition GetVersionInfo :: "build \<Rightarrow> string" where
  "GetVersionInfo v = ''Version: '' @ Version v @ '' | Commit: '' @ Commit v @ '' | Built at: '' @ BuildTime v"

datatype 'p run = Printed string | Started "panic + 'p service"

definition run_command :: "build \<Rightarrow> bool \<Rightarrow> ('c, 'p) libraries \<Rightarrow> crypto \<Rightarrow> pki \<Rightarrow> (string \<Rightarrow> database \<Rightarrow> database option) \<Rightarrow>
    string list \<Rightarrow> environment \<Rightarrow> host \<Rightarrow> 'p run \<times> host" where
  "run_command v versionFlag L C K sql entries env h =
     (if versionFlag then (Printed (GetVersionInfo v), h)
      else (case main L C K sql entries env h of (r, h') \<Rightarrow> (Started r, h')))"

text \<open>Asking for the version touches nothing, whatever the environment holds.\<close>

lemma version_touches_nothing: "snd (run_command v True L C K sql entries env h) = h"
  by (simp add: run_command_def)

lemma run_command_starts:
  "run_command v b L C K sql entries env h = (Started r, h') \<longleftrightarrow> \<not> b \<and> main L C K sql entries env h = (r, h')"
  by (auto simp: run_command_def split: prod.splits)

section \<open>A start that succeeds\<close>

lemma wire_Inr:
  assumes "wire L C K config w = (Inr s, w')"
  obtains oidc where "startup C K config w = (Inr (sv_tokenizer s, oidc), w')" and "sv_config s = config"
    and "sv_routes s = service_routes config" and "oidc = map_option su_storage (sv_oidc s)"
    and "\<And>u. sv_oidc s = Some u \<Longrightarrow> op_NewProvider L
        (NewProvider \<lparr>PublicBaseURL = BaseURL config, CryptoKey = sha256 C (bytes_of (OidcCryptoKey config)), Insecure = OidcInsecure config\<rparr>)
        (issuer_of_request \<lparr>PublicBaseURL = BaseURL config, CryptoKey = sha256 C (bytes_of (OidcCryptoKey config)), Insecure = OidcInsecure config\<rparr>)
          = Inr (su_provider u) \<and>
        su_login u = \<lparr>lh_authentication = wired_authentication config (sv_tokenizer s), lh_clients = clients (su_storage u),
          lh_authCallbackURL = op_AuthCallbackURL L (su_provider u), lh_publicBaseURL = BaseURL config,
          lh_secureCookies = (\<not> OidcInsecure config), lh_sessionExpiry = seconds (OidcSessionExpireInSeconds config)\<rparr>"
proof -
  from assms obtain u1 wa u2 wb tok wc social wd oidc we surface where
    a: "createDefaultTenantID w = (Inr u1, wa)" and b: "Initialize K wa = (Inr u2, wb)"
    and c: "NewDefaultTokenizer K (TokenIssuer config) (Audience config) (AccessTokenExpireInSeconds config)
        (RefreshTokenExpireInSeconds config) wb = (Inr tok, wc)"
    and d: "social_setting L config tok wc = (Inr social, wd)" and e: "oidcSetting C K config wd = (Inr oidc, we)"
    and f: "oidc_mounted L C config (wired_authentication config tok) oidc we = (Inr surface, w')"
    and s: "s = \<lparr>sv_config = config, sv_tokenizer = tok, sv_social = social, sv_oidc = surface, sv_routes = service_routes config\<rparr>"
    by (auto simp: wire_def bindE_Inr ret_eq)
  have wd: "wd = wc" using d by (auto simp: social_setting_def Let_def op_inr split: if_splits)
  have we: "w' = we" and surface: "oidc = map_option su_storage surface"
    using f by (auto simp: oidc_mounted_def oidc_surface_def op_inr Let_def split: option.splits)
  have run: "startup C K config w = (Inr (tok, oidc), w')"
    unfolding startup_def using a b c e unfolding wd we by (auto simp: bindE_Inr ret_eq)
  show ?thesis
  proof (rule that)
    show "startup C K config w = (Inr (sv_tokenizer s, oidc), w')" using run by (simp add: s)
    show "oidc = map_option su_storage (sv_oidc s)" using surface by (simp add: s)
    fix u assume u: "sv_oidc s = Some u"
    with f surface obtain st where "oidc_surface L C config (wired_authentication config tok) st we = (Inr u, w')"
      by (auto simp: s oidc_mounted_def op_inr)
    then show "op_NewProvider L
        (NewProvider \<lparr>PublicBaseURL = BaseURL config, CryptoKey = sha256 C (bytes_of (OidcCryptoKey config)), Insecure = OidcInsecure config\<rparr>)
        (issuer_of_request \<lparr>PublicBaseURL = BaseURL config, CryptoKey = sha256 C (bytes_of (OidcCryptoKey config)), Insecure = OidcInsecure config\<rparr>)
          = Inr (su_provider u) \<and>
        su_login u = \<lparr>lh_authentication = wired_authentication config (sv_tokenizer s), lh_clients = clients (su_storage u),
          lh_authCallbackURL = op_AuthCallbackURL L (su_provider u), lh_publicBaseURL = BaseURL config,
          lh_secureCookies = (\<not> OidcInsecure config), lh_sessionExpiry = seconds (OidcSessionExpireInSeconds config)\<rparr>"
      by (auto simp: s oidc_surface_def NewLoginHandler_def op_inr Let_def split: sum.splits)
  qed (simp_all add: s)
qed

text \<open>No two handlers are mounted on one method and path, and the paths of the provider need it.\<close>

lemma service_routes_distinct: "distinct (map (\<lambda>(m, p, f). (m, p)) (service_routes config))"
proof -
  let ?routes = "\<lambda>oidc. JwksRoutes @ AccountRoutes @ AuthenticateRoutes @ LogonCodeRoutes @ SocialRoutes @ ApiKeyRoutes @ oidc @ HealthRoutes"
  have "distinct (map (\<lambda>(m, p, f). (m, p)) (?routes (ClientRoutes @ OidcRoutes)))"
    "distinct (map (\<lambda>(m, p, f). (m, p)) (?routes []))" by code_simp+
  then show ?thesis by (cases "OidcEnabled config") (simp_all add: service_routes_def)
qed

text \<open>What a run of the migrations leaves.\<close>

definition migrated :: "string list \<Rightarrow> (int \<times> string) list option \<Rightarrow> bool" where
  "migrated names t \<longleftrightarrow> (\<forall>name\<in>set names. \<exists>v. migrationVersion name = Inr v \<and> recorded v (case t of None \<Rightarrow> [] | Some rows \<Rightarrow> rows))"

lemma apply_pending_recorded:
  assumes "apply_pending sql seen names s = (Inr u, s')"
  shows "(\<forall>name\<in>set names. \<exists>v. migrationVersion name = Inr v \<and> recorded v (applied s')) \<and>
    set (applied s) \<subseteq> set (applied s')"
  using assms
proof (induction names arbitrary: seen s)
  case (Cons name names)
  from Cons.prems obtain v where v: "migrationVersion name = Inr v" and "map_of seen v = None"
    and trip: "\<not> trip_fails s" "int4 v"
    by (auto simp: Let_def split: sum.splits option.splits if_splits)
  show ?case
  proof (cases "recorded v (applied s)")
    case True
    with Cons.prems v trip \<open>map_of seen v = None\<close>
    have run: "apply_pending sql ((v, name) # seen) names (after_trip s) = (Inr u, s')" by (simp add: Let_def)
    have "recorded v (applied s')" using True Cons.IH [OF run] by (auto simp: recorded_def)
    with v Cons.IH [OF run] show ?thesis by auto
  next
    case False
    with Cons.prems v trip \<open>map_of seen v = None\<close> obtain u1 s1 where
      one: "apply_migration (sql name) v name (after_trip s) = (Inr u1, s1)"
      and run: "apply_pending sql ((v, name) # seen) names s1 = (Inr u, s')"
      by (auto simp: Let_def split: prod.splits sum.splits)
    from apply_migration_cases [OF one] have "applied s1 = applied s @ [(v, name)]" by auto
    with Cons.IH [OF run] have "(v, name) \<in> set (applied s')" "set (applied s) \<subseteq> set (applied s')" by auto
    moreover from this(1) have "recorded v (applied s')" by (force simp: recorded_def)
    ultimately have "recorded v (applied s')" "set (applied s) \<subseteq> set (applied s')" by simp_all
    with v Cons.IH [OF run] show ?thesis by auto
  qed
qed simp

lemma run_migrations_Inr:
  assumes "run_migrations sql entries h = (Inr u, h')"
  shows "migrated (migration_names entries) (ht_migrations h')"
proof -
  let ?s = "\<lparr>schema_migrations = ht_migrations h, schema = db (ht_world h), refused = faults (ht_world h)\<rparr>"
  from assms obtain s where run: "Migrate sql entries ?s = (Inr u, s)" and h': "ht_migrations h' = schema_migrations s"
    by (auto simp: run_migrations_def Let_def split: prod.splits)
  from run obtain s1 where "apply_pending sql [] (migration_names entries) s1 = (Inr u, s)"
    by (auto simp: Migrate_def Let_def split: if_splits)
  from apply_pending_recorded [OF this] show ?thesis by (simp add: migrated_def h' applied_def)
qed

lemma startup_storage:
  assumes "startup C K config w = (Inr (tok, Some st), w')"
  shows "clients st = clients (new_storage C config)" and "loginURL st = LoginURL (BaseURL config)"
proof -
  from assms obtain w1 where "oidcSetting C K config w1 = (Inr (Some st), w')" by (auto simp: startup_def bindE_Inr ret_eq)
  then obtain s1 where "storage_ReloadKeys K (new_storage C config) w1 = (Inr s1, w')" "st = s1"
    by (auto simp: oidcSetting_def bindE_Inr ret_eq split: if_splits)
  then show "clients st = clients (new_storage C config)" "loginURL st = LoginURL (BaseURL config)"
    by (auto simp: storage_ReloadKeys_def op_inr Let_def) (auto simp: new_storage_def fun_eq_iff)
qed

lemma service_routes_oidc: "set OidcRoutes \<union> set ClientRoutes \<subseteq> set (service_routes config) \<longleftrightarrow> OidcEnabled config"
proof -
  let ?rest = "JwksRoutes @ AccountRoutes @ AuthenticateRoutes @ LogonCodeRoutes @ SocialRoutes @ ApiKeyRoutes @ HealthRoutes"
  have "hd ClientRoutes \<in> set ClientRoutes" "hd ClientRoutes \<notin> set ?rest" by code_simp+
  then show ?thesis by (cases "OidcEnabled config") (auto simp: service_routes_def)
qed

text \<open>
  C11: a service that starts is whole. The configuration was accepted, every migration is recorded,
  there is a tenant and a signing key, and the api and the provider sign with the newest one. The
  provider is up exactly where it is configured; its login works on the clients of the storage, with
  the authentication of the api, sets secure cookies unless that is switched off, and answers under
  the URL the storage sends browsers to. No two handlers share a method and a path, and without the
  provider none of its routes is there.
\<close>

theorem a_started_service_is_whole:
  assumes "pki_ok K" and "main L C K sql entries env h = (Inr s, h')"
  shows "NewAppConfig env = Inr (sv_config s) \<and> migrated (migration_names entries) (ht_migrations h') \<and>
    t_tenants (db (ht_world h')) \<noteq> [] \<and>
    signs_with_newest K (db (ht_world h')) (sv_tokenizer s) (map_option su_storage (sv_oidc s)) \<and>
    (sv_oidc s = None \<longleftrightarrow> \<not> OidcEnabled (sv_config s)) \<and>
    (\<forall>u. sv_oidc s = Some u \<longrightarrow>
       lh_clients (su_login u) = clients (su_storage u) \<and>
       lh_authentication (su_login u) = wired_authentication (sv_config s) (sv_tokenizer s) \<and>
       (lh_secureCookies (su_login u) \<longleftrightarrow> \<not> OidcInsecure (sv_config s)) \<and>
       loginURL (su_storage u) = LoginURL (lh_publicBaseURL (su_login u)) \<and>
       lh_authCallbackURL (su_login u) = op_AuthCallbackURL L (su_provider u)) \<and>
    distinct (map (\<lambda>(m, p, f). (m, p)) (sv_routes s)) \<and>
    (set OidcRoutes \<union> set ClientRoutes \<subseteq> set (sv_routes s) \<longleftrightarrow> sv_oidc s \<noteq> None)"
proof -
  from assms(2) obtain config h1 w' where config: "NewAppConfig env = Inr config"
    and mig: "run_migrations sql entries h = (Inr (), h1)" and wire: "wire L C K config (ht_world h1) = (Inr s, w')"
    and h': "h' = h1\<lparr>ht_world := w'\<rparr>"
    by (auto simp: main_def split: sum.splits prod.splits)
  obtain oidc where start: "startup C K config (ht_world h1) = (Inr (sv_tokenizer s, oidc), w')"
    and s: "sv_config s = config" "sv_routes s = service_routes config" "oidc = map_option su_storage (sv_oidc s)"
    and login: "\<And>u. sv_oidc s = Some u \<Longrightarrow> su_login u =
        \<lparr>lh_authentication = wired_authentication config (sv_tokenizer s), lh_clients = clients (su_storage u),
          lh_authCallbackURL = op_AuthCallbackURL L (su_provider u), lh_publicBaseURL = BaseURL config,
          lh_secureCookies = (\<not> OidcInsecure config), lh_sessionExpiry = seconds (OidcSessionExpireInSeconds config)\<rparr>"
    using wire_Inr [OF wire] by metis
  obtain wa wb where up: "createDefaultTenantID (ht_world h1) = (Inr (), wa)" "Initialize K wa = (Inr (), wb)" "db w' = db wb"
      "signs_with_newest K (db w') (sv_tokenizer s) oidc" "oidc = None \<longleftrightarrow> \<not> OidcEnabled config"
    by (rule startup_Inr [OF assms(1) start])
  have "t_tenants (db wb) = t_tenants (db wa)"
    using stepsD [OF Initialize_keys_only up(2)] unfolding keys_only_def by (rule arg_cong [THEN trans]) simp
  with createDefaultTenantID_Inr(1) [OF up(1)] up(3) have tenants: "t_tenants (db w') \<noteq> []" by simp
  have storage: "loginURL (su_storage u) = LoginURL (BaseURL config)" if "sv_oidc s = Some u" for u
    using startup_storage(2) start s(3) that by simp
  show ?thesis
    using config tenants up(4,5) s login storage run_migrations_Inr [OF mig] service_routes_distinct service_routes_oidc
    by (auto simp: h')
qed

section \<open>A start that fails\<close>

text \<open>A start may found a first tenant and a first key, and touches no other row.\<close>

definition founds :: "database \<Rightarrow> database \<Rightarrow> bool" where
  "founds d d' \<longleftrightarrow> d' = d\<lparr>t_tenants := t_tenants d', t_signing_keys := t_signing_keys d'\<rparr> \<and>
     (t_tenants d \<noteq> [] \<longrightarrow> t_tenants d' = t_tenants d) \<and> (t_signing_keys d \<noteq> [] \<longrightarrow> t_signing_keys d' = t_signing_keys d)"

lemma founds_trans: "founds d1 d2 \<Longrightarrow> founds d2 d3 \<Longrightarrow> founds d1 d3"
  unfolding founds_def by (cases d1; cases d2; cases d3) auto

interpretation founding: db_relation founds
proof unfold_locales
  show "founds d d" for d by (simp add: founds_def)
  show "founds d1 d3" if "founds d1 d2" "founds d2 d3" for d1 d2 d3 using founds_trans that by blast
qed

lemma founds_first:
  "t_tenants d = [] \<Longrightarrow> founds d (d\<lparr>t_tenants := ts\<rparr>)" "t_signing_keys d = [] \<Longrightarrow> founds d (d\<lparr>t_signing_keys := ks\<rparr>)"
  by (simp_all add: founds_def)

lemma createDefaultTenantID_founds: "steps founds createDefaultTenantID"
proof -
  have "founds (db w) (db (snd (createDefaultTenantID w)))" for w
    by (cases "failing w"; cases "failing (tick w)"; cases "t_tenants (db w)")
      (auto simp: createDefaultTenantID_def ListTenants_def tenant_ReadAll_def CreateDefault_def tenant_Create_def
        tenant_Create_stmt_def insert_row_def bindE_def attempt_def query_def exec_def throw_def ret_def founds_first
        founding.R_refl)
  then show ?thesis by (simp add: steps_def)
qed

lemma Initialize_founds: "steps founds (Initialize K)"
proof -
  have gen: "db (snd (generateSigningKey K w)) = db w" for w
    by (auto simp: generateSigningKey_def rsa_GenerateKey_op_def new_uuid_def bindE_def attempt_def throw_def ret_def Let_def
        split: list.split sum.split)
  have "founds (db w) (db (snd (Initialize K w)))" for w
  proof (cases "failing w \<or> t_signing_keys (db w) \<noteq> []")
    case True
    have "latest_key (t_signing_keys (db w)) \<noteq> None" if "t_signing_keys (db w) \<noteq> []"
      using latest_key_some [OF that] by auto
    with True have "db (snd (Initialize K w)) = db w"
      by (cases "failing w") (auto simp: Initialize_def attempt_def signing_key_ReadLatest_eq throw_def ret_def)
    then show ?thesis by (simp add: founding.R_refl)
  next
    case False
    then have init: "Initialize K w = bindE (generateSigningKey K) signing_key_Create (tick w)"
      by (simp add: Initialize_def attempt_def signing_key_ReadLatest_eq latest_key_None [THEN iffD2])
    obtain r w1 where run: "generateSigningKey K (tick w) = (r, w1)" by fastforce
    with gen [of "tick w"] have same: "db w1 = db w" by simp
    then show ?thesis
      using False run unfolding init
      by (cases r) (auto simp: bindE_def attempt_def throw_def signing_key_Create_def exec_def signing_key_Create_stmt_def insert_row_def
          founds_first founding.R_refl)
  qed
  then show ?thesis by (simp add: steps_def)
qed

lemma wire_founds: "steps founds (wire L C K config)"
  unfolding wire_def social_setting_def oidcSetting_def oidc_mounted_def oidc_surface_def NewDefaultTokenizer_def ReloadKeys_def
    storage_ReloadKeys_def Keys_def signing_key_ReadAll_def Let_def
  by (intro createDefaultTenantID_founds Initialize_founds founding.steps_bindE founding.steps_If founding.steps_option
      founding.steps_query founding.steps_lift_result founding.steps_throw founding.steps_ret)

lemma apply_pending_rows:
  assumes "\<And>name d d'. sql name d = Some d' \<Longrightarrow> d' = d"
  shows "schema (snd (apply_pending sql seen names s)) = schema s"
proof (induction names arbitrary: seen s)
  case (Cons name names)
  have one: "schema (snd (apply_migration (sql name) v name s1)) = schema s1" for v s1
    using assms by (auto simp: apply_migration_def Let_def split: option.split)
  then have "apply_migration (sql name) v name s1 = (r, s2) \<Longrightarrow> schema s2 = schema s1" for v s1 r s2
    by (metis snd_conv)
  with Cons.IH show ?case by (auto simp: Let_def split: sum.split option.split prod.split)
qed simp

lemma run_migrations_rows:
  assumes "\<And>name d d'. sql name d = Some d' \<Longrightarrow> d' = d" and "run_migrations sql entries h = (r, h')"
  shows "db (ht_world h') = db (ht_world h)"
proof -
  let ?s = "\<lparr>schema_migrations = ht_migrations h, schema = db (ht_world h), refused = faults (ht_world h)\<rparr>"
  have "schema (snd (Migrate sql entries ?s)) = schema ?s"
    by (simp add: Migrate_def Let_def apply_pending_rows [of sql, OF assms(1)])
  with assms(2) show ?thesis by (auto simp: run_migrations_def Let_def split: prod.splits)
qed

text \<open>
  C20: a start touches no row it did not write. Whatever fails, a panic on the configuration or on
  the connection leaves the host as it was, one in the migrations leaves every row as it was, and one
  later, or a start that succeeds, has added a first tenant and a first key at most, where there was
  none. The SQL of the migrations leaves the rows alone.
\<close>

theorem a_start_leaves_the_rows:
  assumes "\<And>name d d'. sql name d = Some d' \<Longrightarrow> d' = d" and "main L C K sql entries env h = (r, h')"
  shows "founds (db (ht_world h)) (db (ht_world h')) \<and>
    (case r of Inl (ConfigPanic e) \<Rightarrow> h' = h \<and> NewAppConfig env = Inl e
     | Inl (ConnectPanic e) \<Rightarrow> h' = h
     | Inl (MigratePanic e) \<Rightarrow> db (ht_world h') = db (ht_world h)
     | Inl (WirePanic e) \<Rightarrow> migrated (migration_names entries) (ht_migrations h')
     | Inr s \<Rightarrow> True)"
proof -
  obtain q h1 where mig: "run_migrations sql entries h = (q, h1)" by fastforce
  note rows = run_migrations_rows [OF assms(1) mig]
  have "founds (db (ht_world h1)) (db w')" if "wire L C K config (ht_world h1) = (x, w')" for config x w'
    using stepsD [OF wire_founds that] .
  with assms(2) mig rows run_migrations_Inr show ?thesis
    by (auto simp: main_def founding.R_refl split: sum.splits prod.splits)
qed

section \<open>When a start succeeds\<close>

text \<open>The outside answers: the database, Google, the provider library and the templates.\<close>

definition connected :: "('c, 'p) libraries \<Rightarrow> bool" where
  "connected L \<longleftrightarrow>
     (\<forall>s. \<exists>c. pgxpool_New L s = Inr c \<and> pgxpool_Ping L c = Inr ()) \<and> (\<exists>v. goidc_NewProvider L googleIssuer = Inr v) \<and>
     (\<forall>c i. \<exists>p. op_NewProvider L c i = Inr p) \<and> template_ParseFS L = Inr ()"

definition can_generate :: "pki \<Rightarrow> world \<Rightarrow> bool" where
  "can_generate K w \<longleftrightarrow> uuids w \<noteq> [] \<and>
     (\<exists>k bs der. rsa_GenerateKey K 2048 (rng w) = Inr (k, bs) \<and> MarshalPKIXPublicKey K (rsa_PublicKey k) = Inr der)"

definition calm :: "world \<Rightarrow> bool" where "calm w \<longleftrightarrow> faults w = []"

lemma calm_simps [simp]:
  "calm w \<Longrightarrow> \<not> failing w" "calm w \<Longrightarrow> calm (tick w)" "calm (w\<lparr>db := d\<rparr>) = calm w" "calm (w\<lparr>rng := g\<rparr>) = calm w"
  "calm (w\<lparr>uuids := u\<rparr>) = calm w"
  by (simp_all add: calm_def failing_def)

lemma apply_pending_succeeds:
  assumes "map migrationVersion names = map Inr vs" "distinct vs" "list_all int4 vs" "\<forall>v\<in>set vs. \<not> recorded v seen"
    and "refused s = []" and "\<And>name d. sql name d = Some d"
  shows "\<exists>s'. apply_pending sql seen names s = (Inr (), s') \<and> schema s' = schema s \<and> refused s' = []"
  using assms(1-5)
proof (induction names arbitrary: seen vs s)
  case (Cons name names)
  then obtain v vs' where vs: "vs = v # vs'" and v: "migrationVersion name = Inr v"
    and rest: "map migrationVersion names = map Inr vs'" by (cases vs) auto
  note IH = Cons.IH [of vs' "(v, name) # seen", OF rest]
  have fresh: "map_of seen v = None" "int4 v" "\<not> trip_fails s" using Cons.prems vs by (auto simp: recorded_map_of trip_fails_def)
  show ?case
  proof (cases "recorded v (applied s)")
    case True
    with IH [of "after_trip s"] Cons.prems vs v fresh show ?thesis by (auto simp: Let_def)
  next
    case False
    let ?s = "(after_trip (after_trip (after_trip (after_trip (after_trip s)))))\<lparr>schema := schema s,
      schema_migrations := Some (applied s @ [(v, name)])\<rparr>"
    have "apply_migration (sql name) v name (after_trip s) = (Inr (), ?s)"
      using Cons.prems(5) False assms(6) by (simp add: apply_migration_def Let_def trip_fails_def)
    with IH [of ?s] Cons.prems vs v fresh False show ?thesis by (auto simp: Let_def)
  qed
qed simp

lemma run_migrations_succeeds:
  assumes "calm (ht_world h)" and "\<And>name d. sql name d = Some d" and "migration_names entries = migration_files"
  shows "\<exists>t. run_migrations sql entries h = (Inr (), \<lparr>ht_world = ht_world h, ht_migrations = t\<rparr>)"
proof -
  let ?s = "\<lparr>schema_migrations = ht_migrations h, schema = db (ht_world h), refused = faults (ht_world h)\<rparr>"
  have "map migrationVersion migration_files = map Inr [1..11]" by code_simp
  from apply_pending_succeeds [OF this, of "[]" "(after_trip (after_trip (after_trip ?s)))\<lparr>schema_migrations := Some (applied ?s)\<rparr>" sql] assms
  obtain s' where "Migrate sql entries ?s = (Inr (), s')" "schema s' = schema ?s" "refused s' = []"
    by (auto simp: Migrate_def Let_def trip_fails_def calm_def int4_def list_all_iff)
  with assms(1) show ?thesis by (simp add: run_migrations_def calm_def)
qed

lemma keys_parse:
  assumes "signing_keys_ok K ks"
  shows "\<exists>keys. parse_keys K (by_created ks) = Inr keys" and "\<exists>m. loadPublicKeys K m0 (by_created ks) = Inr m"
    and "ks \<noteq> [] \<Longrightarrow> \<exists>k. ParsePrivateKey K (sk_private_pem (last (by_created ks))) = Inr k"
proof -
  have pairs: "\<exists>k. key_pair_of K r = Some k" if "r \<in> set (by_created ks)" for r
    using assms that by (auto simp: signing_keys_ok_def)
  then have "\<forall>r\<in>set xs. \<exists>k. key_pair_of K r = Some k \<Longrightarrow> \<exists>keys. parse_keys K xs = Inr keys" for xs
    by (induction xs) (auto simp: key_pair_of_Some)
  with pairs show one: "\<exists>keys. parse_keys K (by_created ks) = Inr keys" by blast
  have "distinct (map sk_id (by_created ks))" using assms by (simp add: signing_keys_ok_def distinct_by_created)
  with one loadPublicKeys_map_of show "\<exists>m. loadPublicKeys K m0 (by_created ks) = Inr m" by blast
  show "\<exists>k. ParsePrivateKey K (sk_private_pem (last (by_created ks))) = Inr k" if "ks \<noteq> []"
  proof -
    have "by_created ks \<noteq> []" using that by (metis set_by_created set_empty)
    from pairs [OF last_in_set [OF this]] show ?thesis by (auto simp: key_pair_of_Some)
  qed
qed

lemma reloads_succeed:
  assumes "calm w" and "signing_keys_ok K (t_signing_keys (db w))" and "t_signing_keys (db w) \<noteq> []"
  shows "\<exists>t'. ReloadKeys K t w = (Inr t', tick w)" and "\<exists>s'. storage_ReloadKeys K s w = (Inr s', tick w)"
proof -
  have "by_created (t_signing_keys (db w)) \<noteq> []" using assms(3) by (metis set_by_created set_empty)
  with keys_parse [OF assms(2)] assms(1,3)
  show "\<exists>t'. ReloadKeys K t w = (Inr t', tick w)" "\<exists>s'. storage_ReloadKeys K s w = (Inr s', tick w)"
    by (auto simp: ReloadKeys_def storage_ReloadKeys_def Keys_def signing_key_ReadAll_def query_def exec_def bindE_def attempt_def
        lift_result_def ret_def Let_def split: sum.split) (metis sum.distinct(1))+
qed

lemma founding_succeeds:
  assumes "calm w" and "t_signing_keys (db w) \<noteq> [] \<or> can_generate K w"
  shows "\<exists>wa wb. createDefaultTenantID w = (Inr (), wa) \<and> Initialize K wa = (Inr (), wb) \<and> calm wb"
proof -
  obtain wa where a: "createDefaultTenantID w = (Inr (), wa)" "calm wa" "t_signing_keys (db wa) = t_signing_keys (db w)"
    "uuids wa = uuids w" "rng wa = rng w"
    using assms(1)
    by (cases "t_tenants (db w)")
      (auto simp: createDefaultTenantID_def ListTenants_def tenant_ReadAll_def CreateDefault_def tenant_Create_def
        tenant_Create_stmt_def insert_row_def bindE_def attempt_def query_def exec_def ret_def)
  have "\<exists>wb. Initialize K wa = (Inr (), wb) \<and> calm wb"
  proof (cases "t_signing_keys (db w) = []")
    case False
    with latest_key_some [of "t_signing_keys (db w)"] a show ?thesis
      by (auto simp: Initialize_def attempt_def signing_key_ReadLatest_eq ret_def)
  next
    case True
    with assms(2) obtain u us k bs der where g: "uuids wa = u # us" "rsa_GenerateKey K 2048 (rng wa) = Inr (k, bs)"
        "MarshalPKIXPublicKey K (rsa_PublicKey k) = Inr der"
      unfolding can_generate_def a(4,5) by (cases "uuids w") auto
    from True a(3) have "latest_key (t_signing_keys (db wa)) = None" "t_signing_keys (db wa) = []"
      by (simp_all add: latest_key_None)
    with g a(2) show ?thesis
      by (simp add: Initialize_def attempt_def signing_key_ReadLatest_eq generateSigningKey_def new_uuid_def rsa_GenerateKey_op_def
          bindE_def signing_key_Create_def exec_def signing_key_Create_stmt_def insert_row_def ret_def Let_def)
  qed
  with a(1) show ?thesis by blast
qed

lemma wire_succeeds:
  assumes "pki_ok K" and "calm w" and "connected L" and "integrity K (db w)" and "t_signing_keys (db w) \<noteq> [] \<or> can_generate K w"
  shows "\<exists>s w'. wire L C K config w = (Inr s, w')"
proof -
  from founding_succeeds [OF assms(2,5)] obtain wa wb where a: "createDefaultTenantID w = (Inr (), wa)"
    and b: "Initialize K wa = (Inr (), wb)" and calm: "calm wb" by blast
  have "preserves (integrity K) createDefaultTenantID"
    unfolding createDefaultTenantID_def ListTenants_def tenant_ReadAll_def CreateDefault_def
    by (intro integral.rules key_integrity)
  moreover have "preserves (integrity K) (Initialize K)"
    unfolding Initialize_def signing_key_ReadLatest_def by (intro integral.rules first_key_integrity [OF assms(1)])
  ultimately have "integrity K (db wb)" using stepsD a b assms(4) by blast
  then have ok: "signing_keys_ok K (t_signing_keys (db wb))" by (rule integrity_parts)
  have keys: "t_signing_keys (db wb) \<noteq> []" using Initialize_effect [OF assms(1) b] by blast
  from reloads_succeed(1) [OF calm ok keys] obtain tok where
    tok: "NewDefaultTokenizer K (TokenIssuer config) (Audience config) (AccessTokenExpireInSeconds config)
        (RefreshTokenExpireInSeconds config) wb = (Inr tok, tick wb)" unfolding NewDefaultTokenizer_def by blast
  obtain v where "goidc_NewProvider L googleIssuer = Inr v" using assms(3) by (auto simp: connected_def)
  then obtain social where social: "social_setting L config tok (tick wb) = (Inr social, tick wb)"
    by (cases "GoogleClientID config = []")
      (simp_all add: social_setting_def NewGoogleValidator_def lift_result_def bindE_def attempt_def ret_def Let_def)
  obtain oidc wc where oidc: "oidcSetting C K config (tick wb) = (Inr oidc, wc)"
    using reloads_succeed(2) [of "tick wb" K "new_storage C config"] calm ok keys
    by (cases "OidcEnabled config") (auto simp: oidcSetting_def bindE_def attempt_def ret_def)
  have "\<exists>u. oidc_mounted L C config (wired_authentication config tok) oidc wc = (Inr u, wc)"
  proof (cases oidc)
    case (Some s)
    let ?p = "\<lparr>PublicBaseURL = BaseURL config, CryptoKey = sha256 C (bytes_of (OidcCryptoKey config)), Insecure = OidcInsecure config\<rparr>"
    obtain p where "op_NewProvider L (NewProvider ?p) (issuer_of_request ?p) = Inr p" using assms(3) unfolding connected_def by blast
    with assms(3) Some show ?thesis
      by (auto simp: oidc_mounted_def oidc_surface_def NewLoginHandler_def connected_def lift_result_def bindE_def attempt_def
          ret_def Let_def)
  qed (simp add: oidc_mounted_def ret_def)
  with a b tok social oidc show ?thesis by (auto simp: wire_def bindE_def attempt_def ret_def)
qed

lemma main_succeeds:
  assumes "pki_ok K" and "integrity K (db (ht_world h))" and "faults (ht_world h) = []"
    and "NewAppConfig env = Inr config" and "connected L"
    and "\<And>name d. sql name d = Some d" and "migration_names entries = migration_files"
    and "t_signing_keys (db (ht_world h)) \<noteq> [] \<or> can_generate K (ht_world h)"
  obtains s h' where "main L C K sql entries env h = (Inr s, h')" and "wire L C K config (ht_world h) = (Inr s, ht_world h')"
proof -
  have calm: "calm (ht_world h)" using assms(3) by (simp add: calm_def)
  obtain t where mig: "run_migrations sql entries h = (Inr (), \<lparr>ht_world = ht_world h, ht_migrations = t\<rparr>)"
    using run_migrations_succeeds [of h sql, OF calm assms(6,7)] by blast
  obtain pool where pool: "Connect L (DbConnection config) = Inr pool"
    using assms(5) by (force simp: Connect_def connected_def)
  obtain s w' where wire: "wire L C K config (ht_world h) = (Inr s, w')"
    using wire_succeeds [OF assms(1) calm assms(5) assms(2) assms(8)] by blast
  show ?thesis
    by (rule that [of s "\<lparr>ht_world = w', ht_migrations = t\<rparr>"]) (use assms(4) mig pool wire in \<open>simp_all add: main_def\<close>)
qed

lemma wire_leaves:
  assumes "pki_ok K" and "wire L C K config w = (Inr s, w')" and "integrity K (db w)"
  shows "integrity K (db w')" and "t_tenants (db w') \<noteq> []" and "t_signing_keys (db w') \<noteq> []"
proof -
  obtain oidc where start: "startup C K config w = (Inr (sv_tokenizer s, oidc), w')" by (rule wire_Inr [OF assms(2)], rule that)
  show "integrity K (db w')" by (rule stepsD [OF startup_integrity [OF assms(1)] start, THEN mp, OF assms(3)])
  obtain wa wb where run: "createDefaultTenantID w = (Inr (), wa)" "Initialize K wa = (Inr (), wb)" "db w' = db wb"
    by (rule startup_Inr [OF assms(1) start], rule that)
  have "keys_only (db wa) (db wb)" using stepsD [OF Initialize_keys_only run(2)] .
  then have "t_tenants (db wb) = t_tenants (db wa)" unfolding keys_only_def by (rule arg_cong [THEN trans]) simp
  then show "t_tenants (db w') \<noteq> []" using createDefaultTenantID_Inr(1) [OF run(1)] run(3) by simp
  show "t_signing_keys (db w') \<noteq> []" using Initialize_effect [OF assms(1) run(2)] run(3) by simp
qed

text \<open>
  C17: a service comes up, and comes up again. On every database a deployment can reach, whatever has
  happened to it, a start succeeds where its configuration is accepted, the database, Google and the
  provider library answer, no round trip fails, the SQL of the embedded migrations runs and leaves the
  rows of the model alone (it makes their tables), and, for a first key, there is entropy for it. On
  what it leaves every later start succeeds under the same conditions and any accepted configuration,
  with no entropy needed, and changes no row.
\<close>

theorem a_service_comes_up_again:
  assumes "pki_ok K" and "reachable C K J (db (ht_world h))" and "faults (ht_world h) = []"
    and "NewAppConfig env = Inr config" and "connected L"
    and "\<And>name d. sql name d = Some d" and "migration_names entries = migration_files"
    and "t_signing_keys (db (ht_world h)) \<noteq> [] \<or> can_generate K (ht_world h)"
  shows "\<exists>s h'. main L C K sql entries env h = (Inr s, h') \<and>
    (\<forall>h2 env2 config2. db (ht_world h2) = db (ht_world h') \<and> faults (ht_world h2) = [] \<and> NewAppConfig env2 = Inr config2 \<longrightarrow>
      (\<exists>s2 h3. main L C K sql entries env2 h2 = (Inr s2, h3) \<and> db (ht_world h3) = db (ht_world h')))"
proof -
  have ok: "integrity K (db (ht_world h))" by (rule reachable_integrity [OF assms(1,2)])
  obtain s h' where one: "main L C K sql entries env h = (Inr s, h')" "wire L C K config (ht_world h) = (Inr s, ht_world h')"
    using assms(1) ok assms(3-8) by (rule main_succeeds)
  note left = wire_leaves [OF assms(1) one(2) ok]
  have "\<exists>s2 h3. main L C K sql entries env2 h2 = (Inr s2, h3) \<and> db (ht_world h3) = db (ht_world h')"
    if d: "db (ht_world h2) = db (ht_world h')" and calm: "faults (ht_world h2) = []" and conf: "NewAppConfig env2 = Inr config2" for h2 env2 config2
  proof -
    have sound: "integrity K (db (ht_world h2))" "t_signing_keys (db (ht_world h2)) \<noteq> [] \<or> can_generate K (ht_world h2)"
      using left by (simp_all add: d)
    obtain s2 h3 where two: "main L C K sql entries env2 h2 = (Inr s2, h3)" "wire L C K config2 (ht_world h2) = (Inr s2, ht_world h3)"
      by (rule main_succeeds [OF assms(1) sound(1) calm conf assms(5-7) sound(2)], rule that)
    have "founds (db (ht_world h2)) (db (ht_world h3))" by (rule stepsD [OF wire_founds two(2)])
    with left have "db (ht_world h3) = db (ht_world h')"
      unfolding founds_def d by (cases "db (ht_world h')"; cases "db (ht_world h3)") simp
    with two(1) show ?thesis by blast
  qed
  with one(1) show ?thesis by blast
qed

section \<open>A sample start\<close>

definition sample_libraries :: "(unit, string) libraries" where
  "sample_libraries = \<lparr>pgxpool_New = (\<lambda>s. Inr ()), pgxpool_Ping = (\<lambda>c. Inr ()),
     goidc_NewProvider = (\<lambda>iss. Inr (\<lambda>clientID t. Inl ''off'')), op_NewProvider = (\<lambda>c i. Inr (i (Some ''acme''))),
     op_AuthCallbackURL = (\<lambda>p iss i. iss @ ''/authorize/callback?id='' @ i), template_ParseFS = Inr ()\<rparr>"

definition sample_env_vars :: environment where
  "sample_env_vars =
     [''PUBLIC_BASE_URL'' \<mapsto> ''https://an'', ''OIDC_CLIENT_ID'' \<mapsto> ''shop'', ''OIDC_CLIENT_SECRET'' \<mapsto> ''s'',
      ''OIDC_CRYPTO_KEY'' \<mapsto> replicate 32 (CHR ''k''), ''OIDC_REDIRECT_URIS'' \<mapsto> ''https://s'',
      ''GOOGLE_CLIENT_ID'' \<mapsto> ''g'']"

definition sample_host :: host where
  "sample_host = \<lparr>ht_world = sample_world empty_db 9 [''k1''], ht_migrations = None\<rparr>"

definition sample_main :: "environment \<Rightarrow> (panic + string service) \<times> host" where
  "sample_main env = main sample_libraries sample_crypto sample_pki (\<lambda>name d. Some d) migration_files env sample_host"

lemma sample_main_runs: "\<exists>s h'. sample_main sample_env_vars = (Inr s, h') \<and> sv_oidc s \<noteq> None \<and>
    signingKid (sv_tokenizer s) = ''k1'' \<and> map tn_name (t_tenants (db (ht_world h'))) = [''default'']"
proof -
  have "case sample_main sample_env_vars of (Inl p, h') \<Rightarrow> False
    | (Inr s, h') \<Rightarrow> \<not> Option.is_none (sv_oidc s) \<and> signingKid (sv_tokenizer s) = ''k1'' \<and>
        map tn_name (t_tenants (db (ht_world h'))) = [''default'']" by code_simp
  then show ?thesis by (auto simp: Option.is_none_def split: prod.splits sum.splits)
qed

theorem a_started_service_is_whole_witness:
  "\<exists>s h'. sample_main sample_env_vars = (Inr s, h') \<and> migrated migration_files (ht_migrations h') \<and> sv_oidc s \<noteq> None \<and>
     set OidcRoutes \<subseteq> set (sv_routes s)"
proof -
  obtain s h' where run: "sample_main sample_env_vars = (Inr s, h')" "sv_oidc s \<noteq> None" using sample_main_runs by blast
  have "migration_names migration_files = migration_files" by code_simp
  with a_started_service_is_whole [OF pki_ok_sample run(1) [unfolded sample_main_def]] run show ?thesis by auto
qed

theorem a_start_leaves_the_rows_witness:
  "\<exists>r h'. sample_main (sample_env_vars(''OIDC_CRYPTO_KEY'' \<mapsto> ''short'')) = (r, h') \<and> h' = sample_host \<and> r = Inl (ConfigPanic crypto_key_error)"
proof -
  let ?env = "sample_env_vars(''OIDC_CRYPTO_KEY'' \<mapsto> ''short'')"
  obtain r h' where run: "sample_main ?env = (r, h')" by fastforce
  have "TrimSuffix (getEnv ?env ''PUBLIC_BASE_URL'' []) ''/'' \<noteq> []" "getEnv ?env ''OIDC_CRYPTO_KEY'' [] = ''short''"
    "getEnvAsStringSlice ?env ''OIDC_REDIRECT_URIS'' [] \<noteq> []"
    "getEnv ?env ''OIDC_CLIENT_ID'' [] \<noteq> []" "getEnv ?env ''OIDC_CLIENT_SECRET'' [] \<noteq> []"
    by code_simp+
  then have "NewAppConfig ?env = Inl crypto_key_error"
    by (simp add: NewAppConfig_def read_config_def oidc_configured_def minCryptoKeyLength_def Let_def)
  then have r: "r = Inl (ConfigPanic crypto_key_error)" using run by (simp add: sample_main_def main_def)
  have rows: "Some d = Some d' \<Longrightarrow> d' = d" for d d' :: database by simp
  from a_start_leaves_the_rows [of "\<lambda>name d. Some d", OF rows run [unfolded sample_main_def]] r have "h' = sample_host" by simp
  with run r show ?thesis by blast
qed

theorem a_service_comes_up_again_witness:
  "\<exists>s h' s2 h3. main sample_libraries sample_crypto sample_pki (\<lambda>name d. Some d) migration_files sample_env_vars
     \<lparr>ht_world = sample_world empty_db 9 [''k1''], ht_migrations = None\<rparr> = (Inr s, h') \<and>
     main sample_libraries sample_crypto sample_pki (\<lambda>name d. Some d) migration_files sample_env_vars
     (h'\<lparr>ht_world := (ht_world h')\<lparr>faults := []\<rparr>\<rparr>) = (Inr s2, h3) \<and> db (ht_world h3) = db (ht_world h')"
proof -
  let ?h = "\<lparr>ht_world = sample_world empty_db 9 [''k1''], ht_migrations = None\<rparr>"
  have "getEnv sample_env_vars ''OIDC_CRYPTO_KEY'' [] = replicate 32 (CHR ''k'')" by code_simp
  then have conf: "NewAppConfig sample_env_vars = Inr (read_config sample_env_vars)"
    by (simp add: NewAppConfig_def read_config_def minCryptoKeyLength_def Let_def)
  have "reachable sample_crypto sample_pki sample_jwt (db (ht_world ?h))" by (simp add: reachable_fresh)
  moreover have "connected sample_libraries" by (simp add: connected_def sample_libraries_def)
  moreover have "can_generate sample_pki (ht_world ?h)" by (simp add: can_generate_def sample_pki_def)
  moreover have "migration_names migration_files = migration_files" by code_simp
  ultimately obtain s h' where run: "main sample_libraries sample_crypto sample_pki (\<lambda>name d. Some d) migration_files sample_env_vars ?h = (Inr s, h')"
    and again: "\<And>h2 env2 config2. db (ht_world h2) = db (ht_world h') \<Longrightarrow> faults (ht_world h2) = [] \<Longrightarrow> NewAppConfig env2 = Inr config2 \<Longrightarrow>
      \<exists>s2 h3. main sample_libraries sample_crypto sample_pki (\<lambda>name d. Some d) migration_files env2 h2 = (Inr s2, h3) \<and> db (ht_world h3) = db (ht_world h')"
    using a_service_comes_up_again [OF pki_ok_sample _ _ conf, of sample_crypto sample_jwt ?h sample_libraries "\<lambda>name d. Some d" migration_files] by auto
  from again [of "h'\<lparr>ht_world := (ht_world h')\<lparr>faults := []\<rparr>\<rparr>", OF _ _ conf] run show ?thesis by auto
qed

end
