(* ===== verification/OidcFlow.thy ===== *)
theory OidcFlow
  imports LoginPages OidcRotation
begin

text \<open>
  A sign-in where nothing fails: an authorization request is stored, the browser gets the login form
  and posts it, and the request is complete; tokens issued for such a request carry its grant. Only
  calls of this repository occur. When the library makes them, and what it checks before it does (the
  client's secret, its redirect URI, the PKCE verifier, the scope \<open>offline_access\<close>), is its own.
\<close>

section \<open>The browser\<close>

text \<open>A request for the login form without a session, and one that posts a form with what it set and hid.\<close>

definition asks_form :: "string \<Rightarrow> string \<Rightarrow> page_request \<Rightarrow> bool" where
  "asks_form t i p \<longleftrightarrow>
     Param_tenantId p = t \<and> QueryParam p ''authRequestId'' = i \<and> Cookie p SessionCookieName = None"

definition posts_form :: "string \<Rightarrow> loginPage \<Rightarrow> cookie list \<Rightarrow> string \<Rightarrow> string \<Rightarrow> page_request \<Rightarrow> bool" where
  "posts_form t form cookies email password p \<longleftrightarrow>
     Param_tenantId p = t \<and> FormValue p ''csrf'' = CSRF form \<and> FormValue p ''authRequestId'' = AuthRequestID form \<and>
     FormValue p ''email'' = email \<and> FormValue p ''password'' = password \<and>
     (\<forall>k\<in>set cookies. Cookie p (Cookie_Name k) = Some (Cookie_Value k))"

section \<open>Steps that succeed\<close>

definition request_row :: "storage \<Rightarrow> string \<Rightarrow> authorize_request \<Rightarrow> string \<Rightarrow> instant \<Rightarrow> instant \<Rightarrow> auth_request_row" where
  "request_row s t request q srv now =
     \<lparr>rq_id = q, rq_tenant = t, rq_client = az_ClientID request, rq_subject = [],
      rq_redirect_uri = az_RedirectURI request, rq_response_type = az_ResponseType request,
      rq_response_mode = az_ResponseMode request, rq_scopes = az_Scopes request, rq_state = az_State request,
      rq_nonce = az_Nonce request, rq_code_challenge = az_CodeChallenge request,
      rq_code_challenge_method = (if az_CodeChallenge request \<noteq> [] then az_CodeChallengeMethod request else []),
      rq_code_hash = None, rq_amr = [], rq_auth_time = None, rq_done = False,
      rq_expires = instant_add now (authCodeExpiry s), rq_created = srv, rq_modified = srv\<rparr>"

lemma CreateAuthRequest_runs:
  assumes "t \<noteq> []" and "quiet w" and "uuids w = q # us" and "\<forall>y\<in>set (t_auth_requests (db w)). rq_id y \<noteq> q"
  shows "\<exists>a w'. CreateAuthRequest s (Some t) request w = (Inr a, w') \<and> AuthRequest_ID a = q \<and> goes_on w w' \<and>
    uuids w' = us \<and> rng w' = rng w \<and>
    db w' = (db w)\<lparr>t_auth_requests := t_auth_requests (db w) @ [request_row s t request q (pg_now w) (wall w)]\<rparr>"
proof -
  have "\<forall>x\<in>set (t_auth_requests (db w)). \<not> auth_request_conflict x (request_row s t request q (pg_now w) (wall w))"
    using assms(4) by (auto simp: auth_request_conflict_def request_row_def)
  with assms show ?thesis
    by (auto simp: CreateAuthRequest_def auth_request_Create_def TenantFrom_def op_inr stmt_defs insert_row_Inr
        goes_on_def request_row_def nullableTime_def map_sum_Inr Let_def bindE_ret)
qed

lemma set_request_runs:
  assumes "t_auth_requests d = ts @ [x]" and "rq_tenant x = t" and "rq_id x = q" and "\<forall>y\<in>set ts. rq_id y \<noteq> q"
    and "canonical_id C q" and "rq_id (f now x) = q"
    and "\<forall>y\<in>set ts. rq_code_hash y = None \<or> rq_code_hash y \<noteq> rq_code_hash (f now x)"
  shows "auth_request_set_stmt C t q f now d = Inr (1, d\<lparr>t_auth_requests := ts @ [f now x]\<rparr>)"
proof -
  let ?P = "\<lambda>r. rq_tenant r = t \<and> rq_id r = q"
  have none: "\<not> ?P y" if "y \<in> set ts" for y using that assms(4) by auto
  have "\<not> auth_request_conflict y (f now x)" if "y \<in> set ts" for y
    using that assms(4,6,7) by (auto simp: auth_request_conflict_def)
  then have "\<forall>y\<in>set (ts @ [x]). ?P y \<longrightarrow> (\<forall>z\<in>set (ts @ [x]). \<not> ?P z \<longrightarrow> \<not> auth_request_conflict z (f now y))"
    using none by auto
  moreover have "map (\<lambda>r. if ?P r then f now r else r) ts = ts" using none by (intro map_idI) auto
  moreover have "filter ?P ts = []" using none by (simp add: filter_empty_conv)
  ultimately show ?thesis
    using assms(1-3,5) unfolding auth_request_set_Inr
    by (intro exI [of _ q] exI [of _ "ts @ [f now x]"])
      (simp add: canonical_id_def update_checked_Inr update_where_def del: set_append)
qed

lemma request_update_runs:
  assumes "quiet w" and "stmt (pg_now w) (db w) = Inr (1, d)"
  shows "\<exists>w'. auth_request_update stmt i w = (Inr (), w') \<and> goes_on w w' \<and> uuids w' = uuids w \<and> rng w' = rng w \<and> db w' = d"
  using assms by (auto simp: auth_request_update_Inr goes_on_def)

lemma AuthenticateRequest_runs:
  assumes "t \<noteq> []" and "quiet w" and "t_auth_requests (db w) = ts @ [x]" and "rq_tenant x = t" and "rq_id x = q"
    and "\<forall>y\<in>set ts. rq_id y \<noteq> q" and "canonical_id C q" and "rq_code_hash x = None"
  shows "\<exists>w'. AuthenticateRequest C (Some t) q subject authTime amr w = (Inr (), w') \<and> goes_on w w' \<and>
    uuids w' = uuids w \<and> rng w' = rng w \<and>
    db w' = (db w)\<lparr>t_auth_requests := ts @ [set_authenticated subject authTime amr (pg_now w) x]\<rparr>"
proof -
  have "auth_request_set_stmt C t q (set_authenticated subject authTime amr) (pg_now w) (db w) =
      Inr (1, (db w)\<lparr>t_auth_requests := ts @ [set_authenticated subject authTime amr (pg_now w) x]\<rparr>)"
    using assms by (intro set_request_runs) (auto simp: set_authenticated_def)
  from request_update_runs [OF assms(2), of "auth_request_set_stmt C t q (set_authenticated subject authTime amr)", OF this, of q]
  show ?thesis
    using assms(1) by (simp add: AuthenticateRequest_def auth_request_Authenticate_def TenantFrom_def bindE_ret)
qed

lemma SaveAuthCode_runs:
  assumes "t \<noteq> []" and "quiet w" and "t_auth_requests (db w) = ts @ [x]" and "rq_tenant x = t" and "rq_id x = q"
    and "\<forall>y\<in>set ts. rq_id y \<noteq> q" and "canonical_id C q"
    and "\<forall>y\<in>set ts. rq_code_hash y \<noteq> Some (Sha256Hex C code)"
  shows "\<exists>w'. SaveAuthCode C (Some t) q code w = (Inr (), w') \<and> goes_on w w' \<and> uuids w' = uuids w \<and> rng w' = rng w \<and>
    db w' = (db w)\<lparr>t_auth_requests := ts @ [set_code (Sha256Hex C code) (pg_now w) x]\<rparr>"
proof -
  have "auth_request_set_stmt C t q (set_code (Sha256Hex C code)) (pg_now w) (db w) =
      Inr (1, (db w)\<lparr>t_auth_requests := ts @ [set_code (Sha256Hex C code) (pg_now w) x]\<rparr>)"
    using assms by (intro set_request_runs) (auto simp: set_code_def)
  from request_update_runs [OF assms(2), of "auth_request_set_stmt C t q (set_code (Sha256Hex C code))", OF this, of q]
  show ?thesis
    using assms(1) by (simp add: SaveAuthCode_def auth_request_SaveCode_def TenantFrom_def bindE_ret)
qed

lemma le_instant_add [simp]: "t \<le> instant_add t d \<longleftrightarrow> 0 \<le> d"
  by (simp add: instant_add_def less_eq_instant_def)

lemma AuthRequestByCode_runs:
  assumes "t \<noteq> []" and "quiet w" and "t_auth_requests (db w) = ts @ [x]" and "rq_tenant x = t"
    and "rq_code_hash x = Some (Sha256Hex C code)" and "\<forall>y\<in>set ts. rq_code_hash y \<noteq> Some (Sha256Hex C code)"
    and "wall w \<le> rq_expires x"
  shows "\<exists>w'. AuthRequestByCode C (Some t) code w = (Inr (auth_request_of_row x), w') \<and> goes_on w w' \<and>
    uuids w' = uuids w \<and> rng w' = rng w \<and> db w' = db w"
  using assms by (auto simp: AuthRequestByCode_Inr auth_request_ReadByCode_Inr request_of_code_def select_row_last goes_on_def)

lemma browser_Create_runs:
  assumes "quiet w" and "uuids w = b # us" and "32 \<le> length (rng w)" and "canonical_id C (BrowserSession_AccountID s)"
    and "BrowserSession_AccountID s \<in> ac_id ` set (t_accounts (db w))"
    and "\<forall>y\<in>set (t_browser_sessions (db w)). bs_id y \<noteq> b \<and> bs_token_hash y \<noteq> Sha256Hex C (hex_encode (take 32 (rng w)))"
  shows "\<exists>s' w'. browser_Create C s w = (Inr (s', hex_encode (take 32 (rng w))), w') \<and> goes_on w w' \<and> uuids w' = us \<and>
    rng w' = drop 32 (rng w) \<and> BrowserSession_Expires s' = BrowserSession_Expires s \<and>
    db w' = (db w)\<lparr>t_browser_sessions := t_browser_sessions (db w) @
      [browser_row (s\<lparr>BrowserSession_ID := b\<rparr>) (Sha256Hex C (hex_encode (take 32 (rng w)))) (BrowserSession_AccountID s) (pg_now w)]\<rparr>"
proof -
  let ?plain = "hex_encode (take 32 (rng w))"
  let ?s = "s\<lparr>BrowserSession_ID := b\<rparr>"
  let ?t = "t_browser_sessions (db w) @ [browser_row ?s (Sha256Hex C ?plain) (BrowserSession_AccountID s) (pg_now w)]"
  have a: "new_uuid w = (Inr b, w\<lparr>uuids := us\<rparr>)" using assms(2) by (simp add: new_uuid_Inr)
  have b: "RandomToken (w\<lparr>uuids := us\<rparr>) = (Inr ?plain, w\<lparr>uuids := us, rng := drop 32 (rng w)\<rparr>)"
    using assms(3) by (simp add: RandomToken_Inr)
  have "browser_insert_stmt C ?s (Sha256Hex C ?plain) (pg_now w) (db w) = Inr (pg_now w, (db w)\<lparr>t_browser_sessions := ?t\<rparr>)"
    using assms(4-6) by (auto simp: browser_insert_Inr canonical_id_def insert_row_Inr browser_session_conflict_def list_ex_iff)
  then have "exec (browser_insert_stmt C ?s (Sha256Hex C ?plain)) (w\<lparr>uuids := us, rng := drop 32 (rng w)\<rparr>) =
      (Inr (pg_now w), (tick (w\<lparr>uuids := us, rng := drop 32 (rng w)\<rparr>))\<lparr>db := (db w)\<lparr>t_browser_sessions := ?t\<rparr>\<rparr>)"
    using assms(1) by (simp add: exec_Inr)
  with a b have "browser_Create C s w = (Inr (?s\<lparr>BrowserSession_Created := pg_now w\<rparr>, ?plain),
      (tick (w\<lparr>uuids := us, rng := drop 32 (rng w)\<rparr>))\<lparr>db := (db w)\<lparr>t_browser_sessions := ?t\<rparr>\<rparr>)"
    by (simp add: browser_Create_def bindE_def attempt_def map_err_def ret_def Let_def)
  with assms(1) show ?thesis by (auto simp: goes_on_def)
qed

text \<open>The form, then its submission.\<close>

lemma Login_form:
  assumes "t \<noteq> []" and "i \<noteq> []" and "32 \<le> length (rng w)" and "asks_form t i g"
  shows "\<exists>rep hs form. Login C h g w = (Inr rep, w\<lparr>rng := drop 32 (rng w)\<rparr>) \<and> Page rep = LoginForm 200 hs form \<and>
    CSRF form = hex_encode (take 32 (rng w)) \<and> AuthRequestID form = i \<and>
    SetCookies rep = [sessionCookie CSRFCookieName (CSRF form) (lh_secureCookies h) (instant_add (wall w) time_Hour)]"
proof -
  have "RandomToken w = (Inr (hex_encode (take 32 (rng w))), w\<lparr>rng := drop 32 (rng w)\<rparr>)"
    using assms(3) by (simp add: RandomToken_Inr)
  then show ?thesis
    using assms(1,2,4)
    by (simp add: Login_def asks_form_def liveSession_def bindE_def attempt_def ret_def time_now_def reply_with_def render_def Let_def)
qed

lemma hex_encode_Nil: "hex_encode bs = [] \<longleftrightarrow> bs = []"
  by (cases bs) simp_all

text \<open>The session the browser is given, by its token.\<close>

definition session_row_of :: "login_handler \<Rightarrow> string \<Rightarrow> string \<Rightarrow> string \<Rightarrow> string \<Rightarrow> instant \<Rightarrow> instant \<Rightarrow> browser_session_row" where
  "session_row_of h t b account hash srv now =
     \<lparr>bs_id = b, bs_token_hash = hash, bs_tenant = t, bs_account = account, bs_auth_time = now,
      bs_expires = instant_add now (lh_sessionExpiry h), bs_created = srv\<rparr>"

lemma start_session_runs:
  assumes "t \<noteq> []" and "quiet w" and "uuids w = b # us" and "32 \<le> length (rng w)"
    and "canonical_id C (Account_ID a)" and "Account_ID a \<in> ac_id ` set (t_accounts (db w))"
    and plain: "plain = hex_encode (take 32 (rng w))"
    and "\<forall>y\<in>set (t_browser_sessions (db w)). bs_id y \<noteq> b \<and> bs_token_hash y \<noteq> Sha256Hex C plain"
    and "t_auth_requests (db w) = ts @ [x]" and "rq_tenant x = t" and "rq_id x = q"
    and "\<forall>y\<in>set ts. rq_id y \<noteq> q" and "canonical_id C q" and "rq_code_hash x = None"
  shows "\<exists>rep w'. start_session C h (Some t) t q a w = (Inr rep, w') \<and> goes_on w w' \<and> uuids w' = us \<and> rng w' = drop 32 (rng w) \<and>
    Page rep = Redirect 302 (lh_authCallbackURL h (Issuer (lh_publicBaseURL h) t) q) \<and>
    sessionCookie SessionCookieName plain (lh_secureCookies h) (instant_add (wall w) (lh_sessionExpiry h)) \<in> set (SetCookies rep) \<and>
    db w' = (db w)\<lparr>t_browser_sessions := t_browser_sessions (db w) @
        [session_row_of h t b (Account_ID a) (Sha256Hex C plain) (pg_now w) (wall w)],
      t_auth_requests := ts @ [set_authenticated (Account_ID a) (wall w) amrPassword (pg_now w) x]\<rparr>"
proof -
  let ?s = "\<lparr>BrowserSession_ID = [], BrowserSession_TenantID = t, BrowserSession_AccountID = Account_ID a,
         BrowserSession_AuthTime = wall w, BrowserSession_Expires = instant_add (wall w) (lh_sessionExpiry h),
         BrowserSession_Created = zero_instant\<rparr>"
  have row: "browser_row (?s\<lparr>BrowserSession_ID := b\<rparr>) k (Account_ID a) n = session_row_of h t b (Account_ID a) k n (wall w)" for k n
    by (simp add: browser_row_def session_row_of_def)
  obtain s' w1 where cr: "browser_Create C ?s w = (Inr (s', plain), w1)" and w1: "goes_on w w1" "uuids w1 = us" "rng w1 = drop 32 (rng w)"
    and x: "BrowserSession_Expires s' = instant_add (wall w) (lh_sessionExpiry h)"
    and d1: "db w1 = (db w)\<lparr>t_browser_sessions := t_browser_sessions (db w) @
      [session_row_of h t b (Account_ID a) (Sha256Hex C plain) (pg_now w) (wall w)]\<rparr>"
  proof -
    have "\<exists>s' w'. browser_Create C ?s w = (Inr (s', hex_encode (take 32 (rng w))), w') \<and> goes_on w w' \<and> uuids w' = us \<and>
      rng w' = drop 32 (rng w) \<and> BrowserSession_Expires s' = BrowserSession_Expires ?s \<and>
      db w' = (db w)\<lparr>t_browser_sessions := t_browser_sessions (db w) @
      [browser_row (?s\<lparr>BrowserSession_ID := b\<rparr>) (Sha256Hex C (hex_encode (take 32 (rng w)))) (BrowserSession_AccountID ?s) (pg_now w)]\<rparr>"
      using assms(2-6,8) unfolding plain by (intro browser_Create_runs) simp_all
    then show ?thesis using that row by (auto simp: plain)
  qed
  obtain w2 where au: "AuthenticateRequest C (Some t) q (Account_ID a) (wall w) amrPassword w1 = (Inr (), w2)"
    and w2: "goes_on w1 w2" "uuids w2 = uuids w1" "rng w2 = rng w1"
    and d2: "db w2 = (db w1)\<lparr>t_auth_requests := ts @ [set_authenticated (Account_ID a) (wall w) amrPassword (pg_now w1) x]\<rparr>"
    using AuthenticateRequest_runs [of t w1 ts x q C "Account_ID a" "wall w" amrPassword] assms(1,9-14) w1(1) d1
    unfolding goes_on_def by auto
  let ?rep = "\<lparr>SetCookies = [sessionCookie SessionCookieName plain (lh_secureCookies h) (instant_add (wall w) (lh_sessionExpiry h)),
      sessionCookie CSRFCookieName [] (lh_secureCookies h) (Instant 0)],
    Page = Redirect 302 (lh_authCallbackURL h (Issuer (lh_publicBaseURL h) t) q)\<rparr>"
  have "start_session C h (Some t) t q a w = (Inr ?rep, w2)"
    using cr au x by (simp add: start_session_def complete_def bindE_def attempt_def time_now_def reply_with_def ret_def)
  moreover have "goes_on w w2" using w1(1) w2(1) by (simp add: goes_on_def)
  moreover have "pg_now w1 = pg_now w" using w1(1) by (simp add: goes_on_def)
  ultimately show ?thesis
    using w1(2,3) w2(2,3) d1 d2 by (intro exI [of _ ?rep] exI [of _ w2]) simp
qed

lemma Submit_runs:
  assumes "t \<noteq> []" and "posts_form t form cookies e pw p" and "quiet w" and "uuids w = b # us" and "32 \<le> length (rng w)"
    and "may_log_on (db w) t e r" and "\<not> locked (db w) (wall w) t e" and "bcrypt_compare C (ac_password_hash r) pw = BcryptMatch"
    and "canonical_id C (ac_id r)" and plain: "plain = hex_encode (take 32 (rng w))"
    and "\<forall>y\<in>set (t_browser_sessions (db w)). bs_id y \<noteq> b \<and> bs_token_hash y \<noteq> Sha256Hex C plain"
    and "t_auth_requests (db w) = ts @ [x]" and "rq_tenant x = t" and "rq_id x = q"
    and "\<forall>y\<in>set ts. rq_id y \<noteq> q" and "canonical_id C q" and "rq_code_hash x = None"
    and "AuthRequestID form = q" and "CSRF form \<noteq> []" and "Cookie p CSRFCookieName = Some (CSRF form)"
  shows "\<exists>rep w' fs. Submit C h p w = (Inr rep, w') \<and> goes_on w w' \<and> uuids w' = us \<and> rng w' = drop 32 (rng w) \<and>
    Page rep = Redirect 302 (lh_authCallbackURL h (Issuer (lh_publicBaseURL h) t) q) \<and>
    sessionCookie SessionCookieName plain (lh_secureCookies h) (instant_add (wall w) (lh_sessionExpiry h)) \<in> set (SetCookies rep) \<and>
    db w' = (db w)\<lparr>t_failed_attempts := fs, t_browser_sessions := t_browser_sessions (db w) @
        [session_row_of h t b (ac_id r) (Sha256Hex C plain) (pg_now w) (wall w)],
      t_auth_requests := ts @ [set_authenticated (ac_id r) (wall w) amrPassword (pg_now w) x]\<rparr>"
proof -
  obtain w2 fs where v: "VerifyPassword C (lh_authentication h) t e pw w = (Inr (account_of_row r), w2)"
    and w2: "goes_on w w2" "uuids w2 = uuids w" "rng w2 = rng w" "db w2 = (db w)\<lparr>t_failed_attempts := fs\<rparr>"
    using VerifyPassword_runs [of w t e r C pw "lh_authentication h"] assms(3,6-8) by auto
  have member: "ac_id r \<in> ac_id ` set (t_accounts (db w))"
    using assms(6) by (auto simp: may_log_on_def account_at_def dest: select_row_SomeD)
  obtain rep' w' where st: "start_session C h (Some t) t q (account_of_row r) w2 = (Inr rep', w')" "goes_on w2 w'" "uuids w' = us"
      "rng w' = drop 32 (rng w2)" "Page rep' = Redirect 302 (lh_authCallbackURL h (Issuer (lh_publicBaseURL h) t) q)"
      "sessionCookie SessionCookieName plain (lh_secureCookies h) (instant_add (wall w2) (lh_sessionExpiry h)) \<in> set (SetCookies rep')"
      "db w' = (db w2)\<lparr>t_browser_sessions := t_browser_sessions (db w2) @
          [session_row_of h t b (Account_ID (account_of_row r)) (Sha256Hex C plain) (pg_now w2) (wall w2)],
        t_auth_requests := ts @ [set_authenticated (Account_ID (account_of_row r)) (wall w2) amrPassword (pg_now w2) x]\<rparr>"
  proof -
    have "\<exists>rep w'. start_session C h (Some t) t q (account_of_row r) w2 = (Inr rep, w') \<and> goes_on w2 w' \<and> uuids w' = us \<and>
      rng w' = drop 32 (rng w2) \<and> Page rep = Redirect 302 (lh_authCallbackURL h (Issuer (lh_publicBaseURL h) t) q) \<and>
      sessionCookie SessionCookieName plain (lh_secureCookies h) (instant_add (wall w2) (lh_sessionExpiry h)) \<in> set (SetCookies rep) \<and>
      db w' = (db w2)\<lparr>t_browser_sessions := t_browser_sessions (db w2) @
          [session_row_of h t b (Account_ID (account_of_row r)) (Sha256Hex C plain) (pg_now w2) (wall w2)],
        t_auth_requests := ts @ [set_authenticated (Account_ID (account_of_row r)) (wall w2) amrPassword (pg_now w2) x]\<rparr>"
      by (rule start_session_runs)
        (use assms(1,4,5,9-17) w2 member in \<open>simp_all add: goes_on_def\<close>)
    then show ?thesis using that by blast
  qed
  have "Submit C h p w = (Inr rep', w')"
    using assms(2,18-20) v st(1)
    by (simp add: posts_form_def bindE_def attempt_def Submit_def csrf_valid_def Let_def WithTenant_def)
  with st w2 show ?thesis
    by (intro exI [of _ rep'] exI [of _ w'] exI [of _ fs]) (simp add: goes_on_def)
qed

lemma account_readable:
  assumes "account_at (db w) t e = Some r" and "distinct (map ac_id (t_accounts (db w)))" and "canonical_id C (ac_id r)" and "quiet w"
  shows "account_ReadByID C t (ac_id r) w = (Inr (account_of_row r), tick w)"
proof -
  have "select_row (\<lambda>y. ac_tenant y = t \<and> ac_id y = ac_id r) (t_accounts (db w)) = Some r"
    using assms(1,2) by (cases "select_row (\<lambda>y. ac_tenant y = t \<and> ac_id y = ac_id r) (t_accounts (db w))")
      (auto simp: account_at_def distinct_map inj_on_def dest!: select_row_NoneD select_row_SomeD)
  with assms(3,4) show ?thesis by (simp add: account_ReadByID_Inr canonical_id_def)
qed

section \<open>The sign-in\<close>

lemma AuthRequestByID_runs:
  assumes "t \<noteq> []" and "quiet w" and "t_auth_requests (db w) = ts @ [x]" and "rq_tenant x = t" and "rq_id x = q"
    and "\<forall>y\<in>set ts. rq_id y \<noteq> q" and "canonical_id C q" and "wall w \<le> rq_expires x"
  shows "AuthRequestByID C (Some t) q w = (Inr (auth_request_of_row x), tick w)"
proof -
  have "request_at (db w) q = Some x" unfolding request_at_def assms(3) by (rule select_row_last) (use assms(5,6) in auto)
  with assms show ?thesis by (auto simp: AuthRequestByID_def TenantFrom_def bindE_ret auth_request_Read_Inr canonical_id_def not_less)
qed

text \<open>The row of a request that a sign-in has completed, and then what the code leaves of it.\<close>

definition completed_row :: "storage \<Rightarrow> string \<Rightarrow> authorize_request \<Rightarrow> string \<Rightarrow> string \<Rightarrow> instant \<Rightarrow> instant \<Rightarrow> auth_request_row" where
  "completed_row s t request q subject srv now =
     set_authenticated subject now amrPassword srv (request_row s t request q srv now)"

lemma completed_row_sel [simp]:
  "rq_id (completed_row s t z q i srv now) = q" "rq_tenant (completed_row s t z q i srv now) = t"
  "rq_code_hash (completed_row s t z q i srv now) = None"
  "rq_expires (completed_row s t z q i srv now) = instant_add now (authCodeExpiry s)"
  by (simp_all add: completed_row_def set_authenticated_def request_row_def)

lemma set_code_completed [simp]:
  "rq_id (set_code k srv x) = rq_id x" "rq_tenant (set_code k srv x) = rq_tenant x" "rq_expires (set_code k srv x) = rq_expires x"
  "rq_code_hash (set_code k srv x) = Some k"
  "auth_request_of_row (set_code k srv (completed_row s t z q i srv now)) = auth_request_of_row (completed_row s t z q i srv now)"
  by (simp_all add: set_code_def completed_row_def set_authenticated_def request_row_def auth_request_of_row_def)

lemma code_runs:
  assumes "t \<noteq> []" and "quiet w" and "t_auth_requests (db w) = ts @ [completed_row s t z q i (pg_now w) (wall w)]"
    and "\<forall>y\<in>set ts. rq_id y \<noteq> q" and "canonical_id C q" and "0 \<le> authCodeExpiry s"
    and "\<forall>y\<in>set ts. rq_code_hash y \<noteq> Some (Sha256Hex C code)"
  shows "\<exists>w1 w2. SaveAuthCode C (Some t) q code w = (Inr (), w1) \<and>
    AuthRequestByCode C (Some t) code w1 = (Inr (auth_request_of_row (completed_row s t z q i (pg_now w) (wall w))), w2)"
proof -
  let ?x = "completed_row s t z q i (pg_now w) (wall w)"
  obtain w1 where w1: "SaveAuthCode C (Some t) q code w = (Inr (), w1)" "goes_on w w1"
    "db w1 = (db w)\<lparr>t_auth_requests := ts @ [set_code (Sha256Hex C code) (pg_now w) ?x]\<rparr>"
    using SaveAuthCode_runs [OF assms(1-3) _ _ assms(4,5,7)] by auto
  moreover from this have "\<exists>w2. AuthRequestByCode C (Some t) code w1 =
      (Inr (auth_request_of_row (set_code (Sha256Hex C code) (pg_now w) ?x)), w2)"
    using AuthRequestByCode_runs [of t w1 ts "set_code (Sha256Hex C code) (pg_now w) ?x" C code] assms(1,6,7)
    by (auto simp: goes_on_def)
  ultimately show ?thesis by auto
qed

text \<open>What the cookie is good for afterwards.\<close>

lemma session_signs_in:
  assumes "quiet w" and "t_browser_sessions (db w) = ts @ [session_row_of h t b (ac_id r) (Sha256Hex C plain) srv (wall w)]"
    and "\<forall>y\<in>set ts. bs_token_hash y \<noteq> Sha256Hex C plain" and "0 \<le> lh_sessionExpiry h" and "plain \<noteq> []"
    and "account_at (db w) t e = Some r" and "\<not> ac_deleted r" and "ac_enabled r"
    and "distinct (map ac_id (t_accounts (db w)))" and "canonical_id C (ac_id r)" and "Cookie p SessionCookieName = Some plain"
  shows "\<exists>session. fst (liveSession C p t w) = Inr (Some session) \<and> BrowserSession_AccountID session = ac_id r"
proof -
  let ?x = "session_row_of h t b (ac_id r) (Sha256Hex C plain) srv (wall w)"
  have "select_row (\<lambda>y. bs_token_hash y = Sha256Hex C plain) (t_browser_sessions (db w)) = Some ?x"
    unfolding assms(2) by (rule select_row_last) (use assms(3) in \<open>auto simp: session_row_of_def\<close>)
  then have "browser_Read C t plain w = (Inr (browser_of_row ?x), tick w)"
    using assms(1,4) by (auto simp: browser_Read_Inr session_row_of_def not_less)
  moreover have "account_ReadByID C t (ac_id r) (tick w) = (Inr (account_of_row r), tick (tick w))"
    using account_readable [of "tick w" t e r C] assms(1,6,9,10) by simp
  ultimately show ?thesis
    using assms(5,7,8,11) by (simp add: liveSession_def attempt_def browser_of_row_def session_row_of_def account_of_row_def ret_def)
qed

lemma completed_request [simp]:
  "AuthRequest_Complete (auth_request_of_row (completed_row s t z q i srv now))"
  "AuthRequest_Subject (auth_request_of_row (completed_row s t z q i srv now)) = i"
  "AuthRequest_AuthTime (auth_request_of_row (completed_row s t z q i srv now)) = now"
  "AuthRequest_TenantID (auth_request_of_row (completed_row s t z q i srv now)) = t"
  "AuthRequest_ClientID (auth_request_of_row (completed_row s t z q i srv now)) = az_ClientID z"
  "AuthRequest_RedirectURI (auth_request_of_row (completed_row s t z q i srv now)) = az_RedirectURI z"
  "AuthRequest_Scopes (auth_request_of_row (completed_row s t z q i srv now)) = az_Scopes z"
  "AuthRequest_State (auth_request_of_row (completed_row s t z q i srv now)) = az_State z"
  "AuthRequest_Nonce (auth_request_of_row (completed_row s t z q i srv now)) = az_Nonce z"
  "AuthRequest_CodeChallenge (auth_request_of_row (completed_row s t z q i srv now)) = az_CodeChallenge z"
  by (simp_all add: auth_request_of_row_def completed_row_def set_authenticated_def request_row_def)

text \<open>The form, posted: the browser's session, the completed request, and a code for it.\<close>

lemma posted_form_runs:
  assumes "t \<noteq> []" and "quiet w" and "uuids w = b # us" and "32 \<le> length (rng w)"
    and x: "t_auth_requests (db w) = ts @ [request_row s t request q (pg_now w) (wall w)]"
    and "canonical_id C q" and ts: "\<forall>y\<in>set ts. rq_id y \<noteq> q" "\<forall>y\<in>set ts. rq_code_hash y \<noteq> Some (Sha256Hex C code)"
    and token: "token = hex_encode (take 32 (rng w))"
    and fresh: "\<forall>y\<in>set (t_browser_sessions (db w)). bs_id y \<noteq> b \<and> bs_token_hash y \<noteq> Sha256Hex C token"
    and live: "may_log_on (db w) t e r" "\<not> locked (db w) (wall w) t e" "bcrypt_compare C (ac_password_hash r) pw = BcryptMatch"
    and "canonical_id C (ac_id r)" and "distinct (map ac_id (t_accounts (db w)))"
    and expiry: "0 \<le> authCodeExpiry s" "0 \<le> lh_sessionExpiry h"
    and p: "posts_form t form cookies e pw p" "AuthRequestID form = q" "CSRF form \<noteq> []" "Cookie p CSRFCookieName = Some (CSRF form)"
  shows "\<exists>rep' w3 k a' w4 w5 w6. Submit C h p w = (Inr rep', w3) \<and>
    Page rep' = Redirect 302 (lh_authCallbackURL h (Issuer (lh_publicBaseURL h) t) q) \<and>
    k \<in> set (SetCookies rep') \<and> Cookie_Name k = SessionCookieName \<and>
    (\<forall>v. Cookie v SessionCookieName = Some (Cookie_Value k) \<longrightarrow>
       (\<exists>session. fst (liveSession C v t w3) = Inr (Some session) \<and> BrowserSession_AccountID session = ac_id r)) \<and>
    AuthRequestByID C (Some t) q w3 = (Inr a', w4) \<and>
    AuthRequest_Complete a' \<and> AuthRequest_Subject a' = ac_id r \<and> AuthRequest_AuthTime a' = wall w \<and>
    AuthRequest_TenantID a' = t \<and> AuthRequest_ClientID a' = az_ClientID request \<and>
    AuthRequest_RedirectURI a' = az_RedirectURI request \<and> AuthRequest_Scopes a' = az_Scopes request \<and>
    AuthRequest_State a' = az_State request \<and> AuthRequest_Nonce a' = az_Nonce request \<and>
    AuthRequest_CodeChallenge a' = az_CodeChallenge request \<and>
    SaveAuthCode C (Some t) q code w3 = (Inr (), w5) \<and> AuthRequestByCode C (Some t) code w5 = (Inr a', w6)"
proof -
  let ?x = "request_row s t request q (pg_now w) (wall w)" and ?y = "completed_row s t request q (ac_id r) (pg_now w) (wall w)"
  have "\<exists>rep w' fs. Submit C h p w = (Inr rep, w') \<and> goes_on w w' \<and> uuids w' = us \<and> rng w' = drop 32 (rng w) \<and>
      Page rep = Redirect 302 (lh_authCallbackURL h (Issuer (lh_publicBaseURL h) t) q) \<and>
      sessionCookie SessionCookieName token (lh_secureCookies h) (instant_add (wall w) (lh_sessionExpiry h)) \<in> set (SetCookies rep) \<and>
      db w' = (db w)\<lparr>t_failed_attempts := fs, t_browser_sessions := t_browser_sessions (db w) @
          [session_row_of h t b (ac_id r) (Sha256Hex C token) (pg_now w) (wall w)],
        t_auth_requests := ts @ [set_authenticated (ac_id r) (wall w) amrPassword (pg_now w) ?x]\<rparr>"
    by (rule Submit_runs) (use assms(1-4,6,14) x ts live p token fresh in \<open>simp_all add: request_row_def\<close>)
  then obtain rep' w3 fs where s3: "Submit C h p w = (Inr rep', w3)" "goes_on w w3"
      "Page rep' = Redirect 302 (lh_authCallbackURL h (Issuer (lh_publicBaseURL h) t) q)"
      "sessionCookie SessionCookieName token (lh_secureCookies h) (instant_add (wall w) (lh_sessionExpiry h)) \<in> set (SetCookies rep')"
      "db w3 = (db w)\<lparr>t_failed_attempts := fs, t_browser_sessions := t_browser_sessions (db w) @
        [session_row_of h t b (ac_id r) (Sha256Hex C token) (pg_now w) (wall w)], t_auth_requests := ts @ [?y]\<rparr>"
    by (auto simp: completed_row_def)
  have w3: "quiet w3" "wall w3 = wall w" "pg_now w3 = pg_now w" using s3(2) by (simp_all add: goes_on_def)
  have reqs: "t_auth_requests (db w3) = ts @ [completed_row s t request q (ac_id r) (pg_now w3) (wall w3)]"
    using s3(5) w3 by simp
  have by_id: "AuthRequestByID C (Some t) q w3 = (Inr (auth_request_of_row ?y), tick w3)"
    using AuthRequestByID_runs [OF assms(1) w3(1) reqs _ _ ts(1) assms(6)] expiry(1) w3 by simp
  obtain w5 w6 where code: "SaveAuthCode C (Some t) q code w3 = (Inr (), w5)"
      "AuthRequestByCode C (Some t) code w5 = (Inr (auth_request_of_row ?y), w6)"
    using code_runs [OF assms(1) w3(1) reqs ts(1) assms(6) expiry(1) ts(2)] w3 by auto
  have "token \<noteq> []" using assms(4) token by (cases "rng w") auto
  then have "\<exists>session. fst (liveSession C v t w3) = Inr (Some session) \<and> BrowserSession_AccountID session = ac_id r"
    if "Cookie v SessionCookieName = Some token" for v
    using that fresh live(1) assms(14,15) expiry(2) w3 s3(5)
    by (intro session_signs_in [where e = e and plain = token]) (auto simp: may_log_on_def account_at_def)
  with s3(1,3,4) by_id code show ?thesis
    by (intro exI [of _ rep'] exI [of _ w3] exI [of _ "auth_request_of_row ?y"] exI [of _ "tick w3"] exI [of _ w5] exI [of _ w6]
        exI [of _ "sessionCookie SessionCookieName token (lh_secureCookies h) (instant_add (wall w) (lh_sessionExpiry h))"])
      (simp add: sessionCookie_def)
qed

text \<open>
  C9: a user signs in at the form. Where nothing fails or expires on the way (no call takes time
  here, and no validity is negative) and the ids and tokens to come are new, an
  authorization request of any client is stored, and for the browser that asks for its form there is
  one; when it is posted back with the address and the password of an account that may log on, the
  browser is sent to the library's callback for the request, with a session that signs the account
  in without the form. The request is complete then, with the account as its subject, and has the
  client, redirect URI, scopes, state, nonce and PKCE challenge that were asked for; a code saved for
  it resolves to that request, so that the library has what it checks an exchange against.
\<close>

theorem a_user_signs_in_at_the_form:
  assumes "t \<noteq> []" and "quiet w" and "uuids w = q # b # us" and "64 \<le> length (rng w)"
    and "canonical_id C q" and "q \<noteq> []" and "\<forall>y\<in>set (t_auth_requests (db w)). rq_id y \<noteq> q"
    and "\<forall>y\<in>set (t_auth_requests (db w)). rq_code_hash y \<noteq> Some (Sha256Hex C code)"
    and "token = hex_encode (take 32 (drop 32 (rng w)))"
    and "\<forall>y\<in>set (t_browser_sessions (db w)). bs_id y \<noteq> b \<and> bs_token_hash y \<noteq> Sha256Hex C token"
    and "may_log_on (db w) t e r" and "\<not> locked (db w) (wall w) t e" and "bcrypt_compare C (ac_password_hash r) pw = BcryptMatch"
    and "canonical_id C (ac_id r)" and "distinct (map ac_id (t_accounts (db w)))"
    and "0 \<le> authCodeExpiry s" and "0 \<le> lh_sessionExpiry h"
  shows "\<exists>a w1. CreateAuthRequest s (Some t) request w = (Inr a, w1) \<and> AuthRequest_ID a = q \<and>
    (\<forall>g. asks_form t q g \<longrightarrow>
      (\<exists>rep hs form w2. Login C h g w1 = (Inr rep, w2) \<and> Page rep = LoginForm 200 hs form \<and>
        (\<forall>p. posts_form t form (SetCookies rep) e pw p \<longrightarrow>
          (\<exists>rep' w3 k a' w4 w5 w6. Submit C h p w2 = (Inr rep', w3) \<and>
            Page rep' = Redirect 302 (lh_authCallbackURL h (Issuer (lh_publicBaseURL h) t) q) \<and>
            k \<in> set (SetCookies rep') \<and> Cookie_Name k = SessionCookieName \<and>
            (\<forall>v. Cookie v SessionCookieName = Some (Cookie_Value k) \<longrightarrow>
               (\<exists>session. fst (liveSession C v t w3) = Inr (Some session) \<and> BrowserSession_AccountID session = ac_id r)) \<and>
            AuthRequestByID C (Some t) q w3 = (Inr a', w4) \<and>
            AuthRequest_Complete a' \<and> AuthRequest_Subject a' = ac_id r \<and> AuthRequest_AuthTime a' = wall w \<and>
            AuthRequest_TenantID a' = t \<and> AuthRequest_ClientID a' = az_ClientID request \<and>
            AuthRequest_RedirectURI a' = az_RedirectURI request \<and> AuthRequest_Scopes a' = az_Scopes request \<and>
            AuthRequest_State a' = az_State request \<and> AuthRequest_Nonce a' = az_Nonce request \<and>
            AuthRequest_CodeChallenge a' = az_CodeChallenge request \<and>
            SaveAuthCode C (Some t) q code w3 = (Inr (), w5) \<and> AuthRequestByCode C (Some t) code w5 = (Inr a', w6)))))"
proof -
  let ?ts = "t_auth_requests (db w)" and ?x = "request_row s t request q (pg_now w) (wall w)"
  obtain a w1 where s1: "CreateAuthRequest s (Some t) request w = (Inr a, w1)" "AuthRequest_ID a = q" "goes_on w w1"
      "uuids w1 = b # us" "rng w1 = rng w" "db w1 = (db w)\<lparr>t_auth_requests := ?ts @ [?x]\<rparr>"
    using CreateAuthRequest_runs [OF assms(1-3,7)] by blast
  let ?w2 = "w1\<lparr>rng := drop 32 (rng w)\<rparr>"
  have w2: "quiet ?w2" "wall ?w2 = wall w" "pg_now ?w2 = pg_now w" using s1(3) by (simp_all add: goes_on_def)
  have "may_log_on (db ?w2) t e r" "\<not> locked (db ?w2) (wall ?w2) t e"
    using assms(11,12) s1(6) w2 by (simp_all add: may_log_on_def account_at_def locked_def attempts_def attempt_at_def)
  note live = this
  note posted = posted_form_runs [where w = ?w2 and b = b and us = us and ts = ?ts and s = s and t = t and request = request and q = q
      and token = token and C = C and code = code and e = e and r = r and pw = pw and h = h,
      OF assms(1) w2(1) _ _ _ assms(5,7,8) _ _ live assms(13,14) _ assms(16,17)]
  have facts: "uuids ?w2 = b # us" "32 \<le> length (rng ?w2)" "t_auth_requests (db ?w2) = ?ts @ [request_row s t request q (pg_now ?w2) (wall ?w2)]"
    "token = hex_encode (take 32 (rng ?w2))" "\<forall>y\<in>set (t_browser_sessions (db ?w2)). bs_id y \<noteq> b \<and> bs_token_hash y \<noteq> Sha256Hex C token"
    "distinct (map ac_id (t_accounts (db ?w2)))" using assms(4,9,10,15) s1(4-6) w2 by simp_all
  note posted = posted [OF facts]
  have form: "\<exists>rep hs form. Login C h g w1 = (Inr rep, ?w2) \<and> Page rep = LoginForm 200 hs form \<and>
        (\<forall>p. posts_form t form (SetCookies rep) e pw p \<longrightarrow> AuthRequestID form = q \<and> CSRF form \<noteq> [] \<and>
          Cookie p CSRFCookieName = Some (CSRF form))" if g: "asks_form t q g" for g
  proof -
    obtain rep hs form where "Login C h g w1 = (Inr rep, ?w2)" "Page rep = LoginForm 200 hs form"
        "CSRF form = hex_encode (take 32 (rng w))" "AuthRequestID form = q"
        "SetCookies rep = [sessionCookie CSRFCookieName (CSRF form) (lh_secureCookies h) (instant_add (wall w1) time_Hour)]"
      using Login_form [OF assms(1,6) _ g, of w1 C h] assms(4) s1(5) by auto
    moreover from this(3) have "CSRF form \<noteq> []" using assms(4) by (auto simp: hex_encode_Nil)
    ultimately show ?thesis by (auto simp: posts_form_def sessionCookie_def)
  qed
  show ?thesis
    apply (rule exI [of _ a], rule exI [of _ w1], intro conjI allI impI s1(1,2))
    apply (drule form, elim exE conjE)
    subgoal for g rep hs form
      by (rule exI [of _ rep], rule exI [of _ hs], rule exI [of _ form], rule exI [of _ ?w2], intro conjI allI impI,
          assumption+, rule posted [unfolded w2(2)]) blast+
    done
qed

definition sample_flow_world :: world where
  "sample_flow_world = (sample_world (empty_db\<lparr>t_accounts := [sample_user]\<rparr>) 7 [''q1'', ''b1''])
     \<lparr>rng := replicate 32 1 @ replicate 32 2\<rparr>"

definition sample_get :: page_request where
  "sample_get = \<lparr>Param_tenantId = ''acme'', QueryParam = (\<lambda>k. if k = ''authRequestId'' then ''q1'' else []),
     FormValue = (\<lambda>k. []), Cookie = (\<lambda>k. None)\<rparr>"

definition sample_post :: "loginPage \<Rightarrow> page_request" where
  "sample_post form = \<lparr>Param_tenantId = ''acme'', QueryParam = (\<lambda>k. []),
     FormValue = (\<lambda>k. if k = ''csrf'' then CSRF form else if k = ''authRequestId'' then AuthRequestID form
       else if k = ''email'' then ''a@b.co'' else if k = ''password'' then ''hunter22'' else []),
     Cookie = (\<lambda>k. if k = CSRFCookieName then Some (CSRF form) else None)\<rparr>"

lemma sample_user_live:
  "db w = empty_db\<lparr>t_accounts := [sample_user]\<rparr> \<Longrightarrow> may_log_on (db w) ''acme'' ''a@b.co'' sample_user \<and>
     \<not> locked (db w) now ''acme'' ''a@b.co'' \<and> distinct (map ac_id (t_accounts (db w)))"
  by (simp add: may_log_on_def account_at_def locked_def attempts_def attempt_at_def sample_user_def select_row_def empty_db_def)

theorem a_user_signs_in_at_the_form_witness:
  "\<exists>a w1 rep hs form w2 rep' w3 url.
    CreateAuthRequest sample_storage (Some ''acme'') sample_authorize sample_flow_world = (Inr a, w1) \<and>
    Login sample_crypto sample_handler sample_get w1 = (Inr rep, w2) \<and> Page rep = LoginForm 200 hs form \<and>
    Submit sample_crypto sample_handler (sample_post form) w2 = (Inr rep', w3) \<and> Page rep' = Redirect 302 url"
proof -
  let ?w = sample_flow_world
  have w: "quiet ?w" "uuids ?w = ''q1'' # ''b1'' # []" "64 \<le> length (rng ?w)" "db ?w = empty_db\<lparr>t_accounts := [sample_user]\<rparr>"
    by (simp_all add: sample_flow_world_def)
  then have none: "t_auth_requests (db ?w) = []" "t_browser_sessions (db ?w) = []" by (simp_all add: empty_db_def)
  note live = sample_user_live [OF w(4), of "wall ?w"]
  have pw: "bcrypt_compare sample_crypto (ac_password_hash sample_user) ''hunter22'' = BcryptMatch" "canonical_id sample_crypto (ac_id sample_user)"
    "canonical_id sample_crypto ''q1''" by code_simp+
  have expiry: "0 \<le> authCodeExpiry sample_storage" "0 \<le> lh_sessionExpiry sample_handler"
    by (simp_all add: sample_storage_def sample_handler_def)
  obtain a w1 where create: "CreateAuthRequest sample_storage (Some ''acme'') sample_authorize ?w = (Inr a, w1)" and "rng w1 = rng ?w"
    using CreateAuthRequest_runs [OF _ w(1,2), of "''acme''" sample_storage sample_authorize] none by auto
  moreover have get: "asks_form ''acme'' ''q1'' sample_get" by (simp add: asks_form_def sample_get_def)
  ultimately obtain rep hs form where form: "Login sample_crypto sample_handler sample_get w1 = (Inr rep, w1\<lparr>rng := drop 32 (rng w1)\<rparr>)"
      "Page rep = LoginForm 200 hs form" and cookie: "SetCookies rep = [sessionCookie CSRFCookieName (CSRF form) (lh_secureCookies sample_handler) (instant_add (wall w1) time_Hour)]"
    using Login_form [of "''acme''" "''q1''" w1 sample_get sample_crypto sample_handler] w(3) by auto
  have "posts_form ''acme'' form (SetCookies rep) ''a@b.co'' ''hunter22'' (sample_post form)"
    by (simp add: posts_form_def sample_post_def cookie sessionCookie_def)
  then show ?thesis
    using a_user_signs_in_at_the_form [OF _ w(1-3) pw(3) _ _ _ refl _ _ _ pw(1,2) _ expiry, of "''acme''" "''code''" "''a@b.co''" sample_authorize]
      none live create get form by fastforce
qed

section \<open>Tokens of a completed request\<close>

definition granted :: "storage \<Rightarrow> string \<Rightarrow> AuthRequest \<Rightarrow> string \<Rightarrow> instant \<Rightarrow> RefreshGrant" where
  "granted s t a g now =
     \<lparr>RefreshToken_ID = g, RefreshToken_TenantID = t, RefreshToken_ClientID = AuthRequest_ClientID a,
      RefreshToken_Subject = AuthRequest_Subject a, RefreshToken_Audience = GetAudience a,
      RefreshToken_Scopes = AuthRequest_Scopes a, RefreshToken_AMR = AuthRequest_AMR a,
      RefreshToken_AuthTime = AuthRequest_AuthTime a, RefreshToken_Expires = instant_add now (storage.refreshExpiry s),
      RefreshToken_Created = zero_instant\<rparr>"

definition accessed :: "storage \<Rightarrow> string \<Rightarrow> AuthRequest \<Rightarrow> string \<Rightarrow> string \<Rightarrow> instant \<Rightarrow> AccessGrant" where
  "accessed s t a g c now =
     \<lparr>AccessToken_ID = c, AccessToken_TenantID = t, AccessToken_ClientID = AuthRequest_ClientID a,
      AccessToken_Subject = AuthRequest_Subject a, AccessToken_Audience = GetAudience a,
      AccessToken_Scopes = AuthRequest_Scopes a, AccessToken_RefreshTokenID = g,
      AccessToken_Expires = instant_add now (storage.accessExpiry s), AccessToken_Created = zero_instant\<rparr>"

lemma createRefreshToken_runs:
  assumes "quiet w" and "uuids w = g # us" and "32 \<le> length (rng w)" and plain: "plain = hex_encode (take 32 (rng w))"
    and "\<forall>y\<in>set (t_refresh_tokens (db w)). rt_id y \<noteq> g \<and> rt_token_hash y \<noteq> Sha256Hex C plain"
  shows "\<exists>r w'. createRefreshToken C s t (FromAuthRequest a) w = (Inr (r, plain), w') \<and> RefreshToken_ID r = g \<and> goes_on w w' \<and>
    uuids w' = us \<and> rng w' = drop 32 (rng w) \<and>
    db w' = (db w)\<lparr>t_refresh_tokens := t_refresh_tokens (db w) @
      [refresh_row (granted s t a g (wall w)) (Sha256Hex C plain) (pg_now w)]\<rparr>"
proof -
  let ?g = "granted s t a g (wall w)" and ?w = "w\<lparr>uuids := us, rng := drop 32 (rng w)\<rparr>"
  let ?d = "(db w)\<lparr>t_refresh_tokens := t_refresh_tokens (db w) @ [refresh_row ?g (Sha256Hex C plain) (pg_now w)]\<rparr>"
  have b: "RandomToken (w\<lparr>uuids := us\<rparr>) = (Inr plain, ?w)" using assms(3) by (simp add: RandomToken_Inr plain)
  have "refresh_insert_stmt ?g (Sha256Hex C plain) (pg_now w) (db w) = Inr (pg_now w, ?d)"
    using assms(5) by (auto simp: refresh_insert_stmt_def map_sum_Inr insert_row_Inr refresh_token_conflict_def granted_def)
  then have "exec (refresh_insert_stmt ?g (Sha256Hex C plain)) ?w = (Inr (pg_now w), (tick ?w)\<lparr>db := ?d\<rparr>)"
    using assms(1) by (simp add: exec_Inr)
  with b assms(2) have "createRefreshToken C s t (FromAuthRequest a) w =
      (Inr (?g\<lparr>RefreshToken_Created := pg_now w\<rparr>, plain), (tick ?w)\<lparr>db := ?d\<rparr>)"
    by (simp add: createRefreshToken_def repo_CreateRefreshToken_def bindE_def attempt_def time_now_def new_uuid_def map_err_def
        ret_def Let_def granted_def)
  with assms(1) show ?thesis by (auto simp: goes_on_def granted_def)
qed

lemma createAccessToken_runs:
  assumes "quiet w" and "uuids w = c # us" and "g = [] \<or> canonical_id C g \<and> g \<in> rt_id ` set (t_refresh_tokens (db w))"
    and "\<forall>y\<in>set (t_access_tokens (db w)). at_id y \<noteq> c"
  shows "\<exists>r w'. createAccessToken C s t (FromAuthRequest a) g w = (Inr r, w') \<and> AccessToken_ID r = c \<and> goes_on w w' \<and>
    uuids w' = us \<and> rng w' = rng w \<and>
    db w' = (db w)\<lparr>t_access_tokens := t_access_tokens (db w) @ [access_row (accessed s t a g c (wall w)) (if g = [] then None else Some g) (pg_now w)]\<rparr>"
proof -
  let ?a = "accessed s t a g c (wall w)" and ?w = "w\<lparr>uuids := us\<rparr>"
  let ?d = "(db w)\<lparr>t_access_tokens := t_access_tokens (db w) @ [access_row ?a (if g = [] then None else Some g) (pg_now w)]\<rparr>"
  have "access_insert_stmt C ?a (pg_now w) (db w) = Inr (pg_now w, ?d)"
    using assms(3,4)
    by (auto simp: access_insert_Inr refresh_reference_def nullableID_def canonical_id_def refresh_exists_def list_ex_iff
        insert_row_Inr access_token_conflict_def accessed_def)
  then have "exec (access_insert_stmt C ?a) ?w = (Inr (pg_now w), (tick ?w)\<lparr>db := ?d\<rparr>)"
    using assms(1) by (simp add: exec_Inr)
  with assms(2) have "createAccessToken C s t (FromAuthRequest a) g w =
      (Inr (?a\<lparr>AccessToken_Created := pg_now w\<rparr>), (tick ?w)\<lparr>db := ?d\<rparr>)"
    by (simp add: createAccessToken_def repo_CreateAccessToken_def bindE_def attempt_def time_now_def new_uuid_def map_err_def
        ret_def Let_def accessed_def or_blank_def)
  with assms(1) show ?thesis by (auto simp: goes_on_def accessed_def)
qed

lemma exchange_runs:
  assumes "t \<noteq> []" and "quiet w" and "uuids w = g # c # us" and "32 \<le> length (rng w)" and plain: "plain = hex_encode (take 32 (rng w))"
    and "\<forall>y\<in>set (t_refresh_tokens (db w)). rt_id y \<noteq> g \<and> rt_token_hash y \<noteq> Sha256Hex C plain"
    and "canonical_id C g" and "g \<noteq> []" and "\<forall>y\<in>set (t_access_tokens (db w)). at_id y \<noteq> c"
  shows "\<exists>x w'. CreateAccessAndRefreshTokens C s (Some t) (FromAuthRequest a) [] w = (Inr (c, plain, x), w') \<and> goes_on w w' \<and>
    db w' = (db w)\<lparr>t_refresh_tokens := t_refresh_tokens (db w) @
        [refresh_row (granted s t a g (wall w)) (Sha256Hex C plain) (pg_now w)],
      t_access_tokens := t_access_tokens (db w) @ [access_row (accessed s t a g c (wall w)) (Some g) (pg_now w)]\<rparr>"
proof -
  obtain r w1 where cr: "createRefreshToken C s t (FromAuthRequest a) w = (Inr (r, plain), w1)" "RefreshToken_ID r = g" "goes_on w w1"
      "uuids w1 = c # us" "db w1 = (db w)\<lparr>t_refresh_tokens := t_refresh_tokens (db w) @
      [refresh_row (granted s t a g (wall w)) (Sha256Hex C plain) (pg_now w)]\<rparr>"
    using createRefreshToken_runs [OF assms(2,3,4) plain assms(6)] by blast
  have "g \<in> rt_id ` set (t_refresh_tokens (db w1))" using cr(5) by (simp add: granted_def)
  then obtain r' w2 where ca: "createAccessToken C s t (FromAuthRequest a) g w1 = (Inr r', w2)" "AccessToken_ID r' = c" "goes_on w1 w2"
      "db w2 = (db w1)\<lparr>t_access_tokens := t_access_tokens (db w1) @ [access_row (accessed s t a g c (wall w1)) (Some g) (pg_now w1)]\<rparr>"
    using createAccessToken_runs [of w1 c us g C s t a] cr assms(7-9) by (auto simp: goes_on_def)
  have "CreateAccessAndRefreshTokens C s (Some t) (FromAuthRequest a) [] w = (Inr (c, plain, AccessToken_Expires r'), w2)"
    using cr(1,2) ca(1,2) assms(1)
    by (simp add: CreateAccessAndRefreshTokens_def TenantFrom_def bindE_ret) (simp add: bindE_def attempt_def ret_def)
  moreover have "wall w1 = wall w" "pg_now w1 = pg_now w" "goes_on w w2" using cr(3) ca(3) by (simp_all add: goes_on_def)
  ultimately show ?thesis using cr(5) ca(4) by auto
qed

lemma userinfo_runs:
  assumes "t \<noteq> []" and "quiet w" and "canonical_id C c" and "canonical_id C (ac_id r)"
    and "t_access_tokens (db w) = ats @ [v]" and "at_id v = c" and "at_tenant v = t" and "wall w \<le> at_expires v"
    and "at_subject v = ac_id r" and "\<forall>y\<in>set ats. at_id y \<noteq> c"
    and "account_at (db w) t e = Some r" and "\<not> ac_deleted r" and "ac_enabled r" and "distinct (map ac_id (t_accounts (db w)))"
  shows "\<exists>w'. SetUserinfoFromToken C (Some t) u c w =
      (Inr (foldl (scope_claims (account_of_row r)) (u\<lparr>ui_Subject := ac_id r\<rparr>) (at_scopes v)), w') \<and> goes_on w w' \<and> db w' = db w"
proof -
  have acc: "account_ReadByID C t (ac_id r) (tick w) = (Inr (account_of_row r), tick (tick w))"
    using account_readable [of "tick w" t e r C] assms(2,4,11,14) by simp
  have "select_row (\<lambda>y. at_id y = c) (t_access_tokens (db w)) = Some v"
    unfolding assms(5) by (rule select_row_last) (use assms(6,10) in auto)
  then have "repo_ReadAccessToken C t c w = (Inr (access_of_row v), tick w)"
    using assms(2,3,7,8) by (auto simp: repo_ReadAccessToken_def bindE_Inr exec_Inr live_row_Inr canonical_id_def ret_eq tick_def)
  with acc assms(1,2,9,12,13) show ?thesis
    by (auto simp: SetUserinfoFromToken_def setUserinfo_def TenantFrom_def bindE_ret access_of_row_def goes_on_def)
      (simp add: bindE_def attempt_def ret_def goes_on_def)
qed

lemma access_token_runs:
  assumes "t \<noteq> []" and "quiet w" and "uuids w = c # us" and "\<forall>y\<in>set (t_access_tokens (db w)). at_id y \<noteq> c"
  shows "\<exists>x w'. storage_CreateAccessToken C s (Some t) (FromAuthRequest a) w = (Inr (c, x), w') \<and> goes_on w w' \<and>
    db w' = (db w)\<lparr>t_access_tokens := t_access_tokens (db w) @ [access_row (accessed s t a [] c (wall w)) None (pg_now w)]\<rparr>"
proof -
  obtain r w' where "createAccessToken C s t (FromAuthRequest a) [] w = (Inr r, w')" "AccessToken_ID r = c" "goes_on w w'"
      "db w' = (db w)\<lparr>t_access_tokens := t_access_tokens (db w) @ [access_row (accessed s t a [] c (wall w)) None (pg_now w)]\<rparr>"
    using createAccessToken_runs [OF assms(2,3) _ assms(4), of "[]" C s t a] by auto
  with assms(1) show ?thesis
    by (simp add: storage_CreateAccessToken_def TenantFrom_def bindE_ret) (simp add: bindE_def attempt_def ret_def)
qed

text \<open>
  C18: tokens issued for an authorization request carry its grant. Where nothing fails or
  expires on the way and the ids and the token to come are new, an access token, with or without a refresh token, is issued for a
  request whose subject is a live account of the tenant; its claims are those of the account that the
  scopes of the request ask for, and no others. The refresh token, where one is issued, stands for a
  grant of that account to the client of the request, with its scopes; without one no grant is stored.
\<close>

theorem issued_tokens_carry_the_grant:
  assumes "t \<noteq> []" and "quiet w" and "account_at (db w) t e = Some r" and "\<not> ac_deleted r" and "ac_enabled r"
    and "canonical_id C (ac_id r)" and "distinct (map ac_id (t_accounts (db w)))" and "AuthRequest_Subject a = ac_id r"
    and "uuids w = g # c # us" and "32 \<le> length (rng w)" and "canonical_id C g" and "g \<noteq> []" and "canonical_id C c"
    and "\<forall>y\<in>set (t_access_tokens (db w)). at_id y \<noteq> g \<and> at_id y \<noteq> c"
    and "token = hex_encode (take 32 (rng w))"
    and "\<forall>y\<in>set (t_refresh_tokens (db w)). rt_id y \<noteq> g \<and> rt_token_hash y \<noteq> Sha256Hex C token"
    and "0 \<le> storage.accessExpiry s" and "0 \<le> storage.refreshExpiry s"
  shows "(\<exists>x w1 w2. storage_CreateAccessToken C s (Some t) (FromAuthRequest a) w = (Inr (g, x), w1) \<and>
      SetUserinfoFromToken C (Some t) no_userinfo g w1 = (Inr (scoped_userinfo (account_of_row r) (AuthRequest_Scopes a)), w2) \<and>
      t_refresh_tokens (db w1) = t_refresh_tokens (db w)) \<and>
    (\<exists>x w1 w2 grant w3. CreateAccessAndRefreshTokens C s (Some t) (FromAuthRequest a) [] w = (Inr (c, token, x), w1) \<and>
      SetUserinfoFromToken C (Some t) no_userinfo c w1 = (Inr (scoped_userinfo (account_of_row r) (AuthRequest_Scopes a)), w2) \<and>
      TokenRequestByRefreshToken C (Some t) token w1 = (Inr grant, w3) \<and>
      RefreshToken_Subject grant = ac_id r \<and> RefreshToken_ClientID grant = AuthRequest_ClientID a \<and>
      RefreshToken_Scopes grant = AuthRequest_Scopes a \<and> RefreshToken_AuthTime grant = AuthRequest_AuthTime a)"
proof (rule conjI)
  have claims: "\<exists>w2. SetUserinfoFromToken C (Some t) no_userinfo i w1 =
      (Inr (scoped_userinfo (account_of_row r) (AuthRequest_Scopes a)), w2)"
    if "quiet w1" "wall w1 = wall w" "t_accounts (db w1) = t_accounts (db w)" "canonical_id C i"
      "t_access_tokens (db w1) = t_access_tokens (db w) @ [access_row (accessed s t a ref i (wall w)) ref' (pg_now w)]"
      "\<forall>y\<in>set (t_access_tokens (db w)). at_id y \<noteq> i" for i w1 ref ref'
    using userinfo_runs [OF assms(1) that(1,4) assms(6) that(5), of e no_userinfo] that(2,3,6) assms(3-5,7,8,17)
      scoped_claims [of "account_of_row r"] by (auto simp: accessed_def account_at_def)
  obtain x w1 where one: "storage_CreateAccessToken C s (Some t) (FromAuthRequest a) w = (Inr (g, x), w1)" "goes_on w w1"
      "db w1 = (db w)\<lparr>t_access_tokens := t_access_tokens (db w) @ [access_row (accessed s t a [] g (wall w)) None (pg_now w)]\<rparr>"
    using access_token_runs [OF assms(1,2,9), of C s a] assms(14) by blast
  then show "\<exists>x w1 w2. storage_CreateAccessToken C s (Some t) (FromAuthRequest a) w = (Inr (g, x), w1) \<and>
      SetUserinfoFromToken C (Some t) no_userinfo g w1 = (Inr (scoped_userinfo (account_of_row r) (AuthRequest_Scopes a)), w2) \<and>
      t_refresh_tokens (db w1) = t_refresh_tokens (db w)"
    using claims [of w1 g "[]" None] assms(11,14) by (auto simp: goes_on_def)
  obtain x w1 where two: "CreateAccessAndRefreshTokens C s (Some t) (FromAuthRequest a) [] w = (Inr (c, token, x), w1)" "goes_on w w1"
      "db w1 = (db w)\<lparr>t_refresh_tokens := t_refresh_tokens (db w) @
        [refresh_row (granted s t a g (wall w)) (Sha256Hex C token) (pg_now w)],
      t_access_tokens := t_access_tokens (db w) @ [access_row (accessed s t a g c (wall w)) (Some g) (pg_now w)]\<rparr>"
    using exchange_runs [OF assms(1,2,9,10,15,16,11,12), of s a] assms(14) by blast
  let ?g = "granted s t a g (wall w)"
  have grant: "fst (TokenRequestByRefreshToken C (Some t) token w1) =
      Inr (refresh_of_row (refresh_row ?g (Sha256Hex C token) (pg_now w)))"
    by (rule grant_readable) (use assms(1,16,18) two in \<open>auto simp: goes_on_def granted_def\<close>)
  with two claims [of w1 c g "Some g"] assms(8,13,14)
  show "\<exists>x w1 w2 grant w3. CreateAccessAndRefreshTokens C s (Some t) (FromAuthRequest a) [] w = (Inr (c, token, x), w1) \<and>
      SetUserinfoFromToken C (Some t) no_userinfo c w1 = (Inr (scoped_userinfo (account_of_row r) (AuthRequest_Scopes a)), w2) \<and>
      TokenRequestByRefreshToken C (Some t) token w1 = (Inr grant, w3) \<and>
      RefreshToken_Subject grant = ac_id r \<and> RefreshToken_ClientID grant = AuthRequest_ClientID a \<and>
      RefreshToken_Scopes grant = AuthRequest_Scopes a \<and> RefreshToken_AuthTime grant = AuthRequest_AuthTime a"
    by (cases "TokenRequestByRefreshToken C (Some t) token w1") (auto simp: goes_on_def refresh_of_row_def refresh_row_def granted_def)
qed

text \<open>A completed request of the sample account.\<close>

definition sample_completed :: AuthRequest where
  "sample_completed = auth_request_of_row (completed_row sample_storage ''acme'' sample_authorize ''q1'' ''u1'' (Instant 7) (Instant 7))"

theorem issued_tokens_carry_the_grant_witness:
  "\<exists>x w1 u w2. CreateAccessAndRefreshTokens sample_crypto sample_storage (Some ''acme'') (FromAuthRequest sample_completed) []
      sample_flow_world = (Inr (''b1'', hex_encode (replicate 32 1), x), w1) \<and>
    SetUserinfoFromToken sample_crypto (Some ''acme'') no_userinfo ''b1'' w1 = (Inr u, w2) \<and>
    ui_Subject u = ''u1'' \<and> ui_Email u = ''a@b.co'' \<and> ui_Name u = []"
proof -
  let ?w = sample_flow_world
  have w: "quiet ?w" "uuids ?w = ''q1'' # ''b1'' # []" "32 \<le> length (rng ?w)" "db ?w = empty_db\<lparr>t_accounts := [sample_user]\<rparr>"
      "hex_encode (replicate 32 1) = hex_encode (take 32 (rng ?w))"
    by (simp_all add: sample_flow_world_def)
  then have none: "t_access_tokens (db ?w) = []" "t_refresh_tokens (db ?w) = []" by (simp_all add: empty_db_def)
  have ids: "canonical_id sample_crypto (ac_id sample_user)" "canonical_id sample_crypto ''q1''" "canonical_id sample_crypto ''b1''"
    by code_simp+
  have a: "AuthRequest_Subject sample_completed = ac_id sample_user" "AuthRequest_Scopes sample_completed = az_Scopes sample_authorize"
    by (simp_all add: sample_completed_def sample_user_def)
  have expiry: "0 \<le> storage.accessExpiry sample_storage" "0 \<le> storage.refreshExpiry sample_storage" by (simp_all add: sample_storage_def)
  have claims: "scoped_userinfo (account_of_row sample_user) (az_Scopes sample_authorize) =
     \<lparr>ui_Subject = ''u1'', ui_Email = ''a@b.co'', ui_EmailVerified = Some True, ui_Name = []\<rparr>" by code_simp
  have live: "account_at (db ?w) ''acme'' ''a@b.co'' = Some sample_user" "\<not> ac_deleted sample_user" "ac_enabled sample_user"
      "distinct (map ac_id (t_accounts (db ?w)))"
    using sample_user_live [OF w(4)] by (simp_all add: may_log_on_def)
  note issued = issued_tokens_carry_the_grant [OF _ w(1) live(1-3) ids(1) live(4) a(1) w(2,3) ids(2) _ ids(3) _ w(5) _ expiry,
      unfolded a(2) claims]
  from issued show ?thesis using none by fastforce
qed

end
