(* ===== verification/Surface.thy ===== *)
theory Surface
  imports Api
begin

text \<open>
  The surface of the service: which paths lead to the provider and past the gate, and what the
  service does without a bootstrap key.
\<close>

section \<open>The provider below its tenant\<close>

text \<open>The routes of the provider with the tenant filled in, but the catch-all one.\<close>

definition mounted :: "string \<Rightarrow> string list" where
  "mounted t = map (\<lambda>rest. TenantPathPrefix @ t @ rest) [DiscoveryPath, LoginPath, EndSessionPath, LogoutPath]"

lemma splitTenantPath_listed:
  assumes "t \<noteq> []" and "CHR ''/'' \<notin> set t" and "rest = CHR ''/'' # r"
  shows "splitTenantPath (TenantPathPrefix @ t @ rest) = (t, rest)"
  using assms by simp

text \<open>
  C27: the issuer of a tenant and the mount agree. What follows the base URL in a URL below the
  issuer of a tenant is a path that the mount hands to the provider with that tenant in the context,
  that issuer and the rest of the path; the login URL, the discovery document and the ends of a
  session are such paths. The gate lets exactly the listed ones of them through: a path passes as one
  of the provider if and only if it is a tenant without a slash followed by a listed path, and no
  path of the api does.
\<close>

theorem issuer_paths_reach_their_tenant:
  assumes "t \<noteq> []" and "CHR ''/'' \<notin> set t" and "rest = CHR ''/'' # r"
    and "Issuer base t @ rest = TrimSuffix base ''/'' @ path"
  shows "tenantHandler base nxt notFound ctx path = nxt (Some t) (Issuer base t) rest \<and>
    (IsProviderPath path \<longleftrightarrow> rest \<in> set providerPaths) \<and>
    list_all IsProviderPath (mounted t) \<and>
    TrimSuffix base ''/'' @ TenantPathPrefix @ t @ LoginPath @ ''?authRequestId='' @ i = LoginURL base t i \<and>
    (IsProviderPath p \<longleftrightarrow>
      (\<exists>t' q. t' \<noteq> [] \<and> CHR ''/'' \<notin> set t' \<and> q \<in> set providerPaths \<and> p = TenantPathPrefix @ t' @ q)) \<and>
    \<not> IsProviderPath (call_path call)"
proof -
  have path: "path = TenantPathPrefix @ t @ rest" using assms(4) by (simp add: Issuer_def)
  note split = splitTenantPath_listed [OF assms(1-3)]
  have listed: "IsProviderPath (TenantPathPrefix @ t @ q) \<longleftrightarrow> q \<in> set providerPaths" if "q = CHR ''/'' # q'" for q q'
    using splitTenantPath_listed [OF assms(1,2) that] assms(1) by (simp add: IsProviderPath_def)
  have "list_all IsProviderPath (mounted t)"
    using listed [of DiscoveryPath] listed [of LoginPath] listed [of EndSessionPath] listed [of LogoutPath]
    by (simp add: mounted_def providerPaths_def DiscoveryPath_def LoginPath_def EndSessionPath_def LogoutPath_def)
  moreover have "tenantHandler base nxt notFound ctx path = nxt (Some t) (Issuer base t) rest"
    using assms(1) split by (simp add: tenantHandler_def path WithTenant_def)
  moreover have "IsProviderPath path \<longleftrightarrow> rest \<in> set providerPaths"
    using listed [OF assms(3)] by (simp add: path)
  ultimately show ?thesis
    using IsProviderPath_iff [of p] call_path_guarded [of call] by (simp add: LoginURL_def Issuer_def)
qed

theorem issuer_paths_reach_their_tenant_witness:
  "Issuer ''https://an/'' ''acme'' @ ''/keys'' = ''https://an/t/acme/keys'' \<and> IsProviderPath ''/t/acme/keys'' \<and>
   \<not> IsProviderPath ''/t/acme/admin''"
proof -
  have iss: "Issuer ''https://an/'' ''acme'' @ ''/keys'' = TrimSuffix ''https://an/'' ''/'' @ ''/t/acme/keys''"
    "Issuer ''https://an/'' ''acme'' @ ''/admin'' = TrimSuffix ''https://an/'' ''/'' @ ''/t/acme/admin''"
    "Issuer ''https://an/'' ''acme'' @ ''/keys'' = ''https://an/t/acme/keys''" by code_simp+
  have p: "''/keys'' \<in> set providerPaths" "''/admin'' \<notin> set providerPaths" by code_simp+
  have "IsProviderPath ''/t/acme/keys'' \<longleftrightarrow> ''/keys'' \<in> set providerPaths"
    by (rule issuer_paths_reach_their_tenant [OF _ _ refl iss(1), THEN conjunct2, THEN conjunct1]) simp_all
  moreover have "IsProviderPath ''/t/acme/admin'' \<longleftrightarrow> ''/admin'' \<in> set providerPaths"
    by (rule issuer_paths_reach_their_tenant [OF _ _ refl iss(2), THEN conjunct2, THEN conjunct1]) simp_all
  ultimately show ?thesis using iss(3) p by simp
qed

section \<open>Without a bootstrap key\<close>

definition manages :: "'tok api_call \<Rightarrow> bool" where
  "manages call \<longleftrightarrow>
     (case call of PostApiKey _ \<Rightarrow> True | PostListApiKeys _ \<Rightarrow> True | PutRevokeApiKey _ \<Rightarrow> True
      | PostClient _ \<Rightarrow> True | PutDeleteClient _ \<Rightarrow> True | _ \<Rightarrow> False)"

text \<open>
  C40: without a bootstrap key there is no gate, and no management either. A request is served
  whatever key it carries, for the tenant it names, and as no root: every call that manages api keys
  or clients is refused and changes nothing, with a 403 of its handler, or with the 404 of the router
  where it is a call on clients and the provider, which mounts their routes, is off.
\<close>

theorem without_bootstrap_key_nothing_is_managed:
  assumes "BootstrapApiKey (env_config E) = []"
  shows "request E call key = serve E call no_context \<and> EffectiveTenant no_context t = TenantOrDefault t \<and>
    (manages call \<longrightarrow> (\<exists>resp. request E call key w = (Inr resp, w) \<and>
       status resp = (if call_route call \<in> set ClientRoutes \<and> \<not> OidcEnabled (env_config E) then 404 else 403)))"
proof -
  have open_gate: "request E call key = serve E call no_context"
    using assms by (simp add: request_def apiKeySetting_def)
  moreover have "\<exists>resp. serve E call no_context w = (Inr resp, w) \<and>
      status resp = (if call_route call \<in> set ClientRoutes \<and> \<not> OidcEnabled (env_config E) then 404 else 403)"
    if "manages call"
    using that
    by (cases call) (auto simp: manages_def ApiKeyHandler_Create_def ApiKeyHandler_List_def ApiKeyHandler_Revoke_def
        ClientHandler_Create_def ClientHandler_Delete_def IsRoot_def no_context_def forbidden_def clientForbidden_def
        responds_def bindE_def attempt_def ret_def provider_route_def ApiKeyRoutes_def ClientRoutes_def)
  ultimately show ?thesis by (simp add: EffectiveTenant_def no_context_def)
qed

theorem without_bootstrap_key_nothing_is_managed_witness:
  "(\<exists>resp. request (sample_env\<lparr>env_config := read_config Map.empty\<rparr>)
     (PostListApiKeys (Inr \<lparr>ListApiKeys_TenantID = []\<rparr>)) ''any'' (sample_world empty_db 5 []) =
       (Inr resp, sample_world empty_db 5 []) \<and> status resp = 403) \<and>
   (\<exists>resp. request (sample_env\<lparr>env_config := read_config Map.empty\<rparr>)
     (PutDeleteClient (Inl ''bad'')) ''any'' (sample_world empty_db 5 []) =
       (Inr resp, sample_world empty_db 5 []) \<and> status resp = 404)"
proof -
  let ?E = "sample_env\<lparr>env_config := read_config Map.empty\<rparr>" and ?w = "sample_world empty_db 5 []"
  have none: "BootstrapApiKey (env_config ?E) = []" "\<not> OidcEnabled (env_config ?E)" by code_simp+
  note calls = without_bootstrap_key_nothing_is_managed [OF none(1), THEN conjunct2, THEN conjunct2, rule_format, where w = ?w and key = "''any''"]
  have "call_route (PostListApiKeys b) \<notin> set ClientRoutes" "call_route (PutDeleteClient b') \<in> set ClientRoutes" for b b'
    by (simp_all add: ApiKeyRoutes_def ClientRoutes_def)
  with calls [of "PostListApiKeys (Inr \<lparr>ListApiKeys_TenantID = []\<rparr>)"] calls [of "PutDeleteClient (Inl ''bad'')"] none(2)
  show ?thesis by (simp add: manages_def)
qed

end
