(* ===== verification/ApiErrors.thy ===== *)
theory ApiErrors
  imports Api
begin

text \<open>
  What the REST api tells its callers when something fails: no text of an internal error, and at
  the logon the same for an unknown address as for a wrong password.
\<close>

section \<open>Internal errors\<close>

text \<open>A response with status 500 is the constant one.\<close>

definition constant_500 :: "'a response op \<Rightarrow> bool" where
  "constant_500 m \<longleftrightarrow>
     (\<forall>w resp w'. m w = (Inr resp, w') \<longrightarrow> status resp = 500 \<longrightarrow> (\<forall>err. resp = server_error err))"

definition constant_problem :: "(go_error \<Rightarrow> 'a response) \<Rightarrow> bool" where
  "constant_problem p \<longleftrightarrow> (\<forall>e. status (p e) = 500 \<longrightarrow> (\<forall>err. p e = server_error err))"

lemma server_error_all: "\<forall>err'. server_error err = server_error err'"
  using server_error_const by blast

lemma problem_maps_constant:
  "constant_problem (accountProblem T)" "constant_problem (apiKeyProblem T)" "constant_problem (clientProblem T)"
  "constant_problem (authenticateProblem T)" "constant_problem (logonCodeProblem T)" "constant_problem (socialProblem T)"
proof -
  show a: "constant_problem (authenticateProblem T)"
    unfolding constant_problem_def authenticateProblem_def
    by (auto split: go_error.split authn_error.split token_error.split account_error.split simp: server_error_all)
  show "constant_problem (accountProblem T)" "constant_problem (apiKeyProblem T)" "constant_problem (clientProblem T)"
    unfolding constant_problem_def accountProblem_def apiKeyProblem_def clientProblem_def
    by (auto split: go_error.split account_error.split apikey_error.split oidc_error.split simp: server_error_all)
  show "constant_problem (logonCodeProblem T)" "constant_problem (socialProblem T)"
    using a unfolding constant_problem_def logonCodeProblem_def socialProblem_def
    by (auto split: go_error.split authn_error.split social_error.split)
qed

text \<open>The texts of a driver do not show in a problem.\<close>

lemma problem_maps_no_driver_text:
  assumes "rfc3339 T' = rfc3339 T"
  shows "accountProblem T' = accountProblem T" "apiKeyProblem T' = apiKeyProblem T" "clientProblem T' = clientProblem T"
    "authenticateProblem T' = authenticateProblem T" "logonCodeProblem T' = logonCodeProblem T"
    "socialProblem T' = socialProblem T"
proof -
  show a: "authenticateProblem T' = authenticateProblem T"
    unfolding authenticateProblem_def problem_of_def text_of_def fun_eq_iff
    by (auto split: go_error.split authn_error.split token_error.split account_error.split simp: assms)
  show "accountProblem T' = accountProblem T" "apiKeyProblem T' = apiKeyProblem T" "clientProblem T' = clientProblem T"
    unfolding accountProblem_def apiKeyProblem_def clientProblem_def problem_of_def text_of_def fun_eq_iff
    by (auto split: go_error.split account_error.split apikey_error.split oidc_error.split simp: assms)
  show "logonCodeProblem T' = logonCodeProblem T" "socialProblem T' = socialProblem T"
    unfolding logonCodeProblem_def socialProblem_def problem_of_def text_of_def fun_eq_iff a
    by (auto split: go_error.split authn_error.split social_error.split simp: assms)
qed

lemma constant_500_answer:
  assumes "constant_problem p" and "\<And>x. status (s x) \<noteq> 500"
  shows "constant_500 (answer p s m)"
  using assms by (auto simp: constant_500_def constant_problem_def answer_eq split: sum.splits)

lemma status_map_response [simp]: "status (map_response f r) = status r"
  by (cases r) simp_all

lemma map_server_error [simp]: "map_response f (server_error err) = server_error err"
  by (simp add: server_error_def problem_response_def)

lemma constant_500_responds:
  assumes "constant_500 m"
  shows "constant_500 (responds f m)"
proof -
  have "map_response f r = server_error err" if "m w = (Inr r, w1)" "status r = 500" for r w w1 err
    using assms that unfolding constant_500_def by (metis map_server_error)
  then show ?thesis by (auto simp: constant_500_def responds_def bindE_Inr ret_eq)
qed

lemma constant_500_bound: "(\<And>rq. constant_500 (k rq)) \<Longrightarrow> constant_500 (bound b k)"
  by (cases b) (auto simp: constant_500_def ret_eq)

lemma constant_500_ret: "status resp \<noteq> 500 \<Longrightarrow> constant_500 (ret resp)"
  by (auto simp: constant_500_def ret_eq)

lemma constant_500_provider_route: "constant_500 m \<Longrightarrow> constant_500 (provider_route E m)"
  using constant_500_ret [of "RouterAnswer 404"] by (auto simp: provider_route_def)

lemma constant_500_forbidden: "constant_500 forbidden" "constant_500 clientForbidden" "constant_500 unauthorized"
  unfolding forbidden_def clientForbidden_def unauthorized_def by (intro constant_500_ret; simp)+

lemma constant_500_Validate:
  "constant_500 (AuthenticateHandler_Validate T J s c b)"
  using problem_maps_constant(4) [of T]
  by (auto simp: constant_500_def constant_problem_def AuthenticateHandler_Validate_def bound_def attempt_def ret_def throw_def
      split: sum.splits prod.splits option.splits)

lemma constant_500_sum:
  "(\<And>e. constant_500 (h e)) \<Longrightarrow> (\<And>x. constant_500 (k x)) \<Longrightarrow> constant_500 (case v of Inl e \<Rightarrow> h e | Inr x \<Rightarrow> k x)"
  by (cases v) auto

lemma constant_500_clients: "constant_500 (ClientHandler_Create T C U reserved c b)"
  unfolding ClientHandler_Create_def
  by (auto intro!: constant_500_forbidden constant_500_bound constant_500_sum constant_500_ret constant_500_answer
      problem_maps_constant)

lemma constant_500_serve: "constant_500 (serve E call c)"
  by (cases call)
    (simp_all add: AccountHandler_Register_def AccountHandler_Verify_def AccountHandler_ResendVerification_def
      AccountHandler_Forgot_def AccountHandler_Reset_def AccountHandler_UpdatePassword_def AccountHandler_UpdateName_def
      AccountHandler_Delete_def AuthenticateHandler_Authenticate_def AuthenticateHandler_Acknowledge_def
      AuthenticateHandler_Renew_def AuthenticateHandler_Revoke_def LogonCodeHandler_Request_def LogonCodeHandler_Logon_def
      SocialHandler_Logon_def ApiKeyHandler_Create_def ApiKeyHandler_List_def ApiKeyHandler_Revoke_def ClientHandler_Delete_def
      constant_500_Validate constant_500_clients constant_500_provider_route constant_500_responds constant_500_forbidden constant_500_bound
      constant_500_answer problem_maps_constant)

lemma Validate_no_driver_text:
  assumes "rfc3339 T' = rfc3339 T"
  shows "AuthenticateHandler_Validate T' J s c b = AuthenticateHandler_Validate T J s c b"
  unfolding AuthenticateHandler_Validate_def problem_maps_no_driver_text [OF assms] ..

lemma Create_no_driver_text:
  assumes "rfc3339 T' = rfc3339 T"
  shows "ClientHandler_Create T' C U reserved c b = ClientHandler_Create T C U reserved c b"
  unfolding ClientHandler_Create_def problem_maps_no_driver_text [OF assms] ..

lemma serve_no_driver_text:
  assumes "rfc3339 T' = rfc3339 (env_texts E)"
  shows "serve (E\<lparr>env_texts := T'\<rparr>) call c = serve E call c"
proof -
  note same = problem_maps_no_driver_text [OF assms]
  note handlers = Validate_no_driver_text [OF assms] Create_no_driver_text [OF assms]
  show ?thesis
    by (cases call)
      (simp_all add: env_accounts_def env_authentication_def provider_route_def AccountHandler_Register_def AccountHandler_Verify_def
        AccountHandler_ResendVerification_def AccountHandler_Forgot_def AccountHandler_Reset_def
        AccountHandler_UpdatePassword_def AccountHandler_UpdateName_def AccountHandler_Delete_def
        AuthenticateHandler_Authenticate_def AuthenticateHandler_Acknowledge_def AuthenticateHandler_Renew_def
        AuthenticateHandler_Revoke_def LogonCodeHandler_Request_def
        LogonCodeHandler_Logon_def SocialHandler_Logon_def ApiKeyHandler_Create_def ApiKeyHandler_List_def
        ApiKeyHandler_Revoke_def ClientHandler_Delete_def same handlers)
qed

text \<open>
  C31: internal errors do not leak. A response with status 500 is the same whatever went wrong,
  and no text of the database's driver shows in any response of the api.
\<close>

theorem internal_errors_do_not_leak:
  assumes "rfc3339 T' = rfc3339 (env_texts E)" and "request E call key w = (r, w')"
  shows "(case r of Inl err \<Rightarrow> True | Inr resp \<Rightarrow> status resp = 500 \<longrightarrow>
      resp = ProblemJSON 500 \<lparr>Details_Type = ''https://latebit.io/an/errors/'', Details_Title = ''Internal Error'',
        Details_Status = 500, Details_Detail = ''an unexpected error occurred'', Details_Instance = []\<rparr>) \<and>
    request (E\<lparr>env_texts := T'\<rparr>) call key w = (r, w')"
proof -
  have "constant_500 (request E call key)"
    unfolding constant_500_def request_def apiKeySetting_def Middleware_def
    using constant_500_serve [of E call] constant_500_forbidden(3)
    unfolding constant_500_def
    by (auto simp: attempt_def split: prod.splits sum.splits if_splits) blast+
  then have "\<forall>resp. r = Inr resp \<longrightarrow> status resp = 500 \<longrightarrow> resp = server_error (PlainErr [])"
    using assms(2) unfolding constant_500_def by blast
  moreover have "request (E\<lparr>env_texts := T'\<rparr>) call key = request E call key"
  proof -
    have "serve (E\<lparr>env_texts := T'\<rparr>) call = serve E call" by (rule ext) (rule serve_no_driver_text [OF assms(1)])
    then show ?thesis by (simp add: request_def call_path_def)
  qed
  ultimately show ?thesis using assms(2)
    by (auto simp: server_error_def problem_response_def NewServerError_def errorType_def InternalError_def split: sum.split)
qed

text \<open>A database that is down: the logon of a live account with its password, behind the bootstrap key.\<close>

definition sample_logon_call :: "string \<Rightarrow> string \<Rightarrow> sample_token api_call" where
  "sample_logon_call email password = PostAuthenticate (Inr \<lparr>Authenticate_TenantID = ''default'',
     Authenticate_Email = email, Authenticate_ClientID = ''web'', Authenticate_Password = password\<rparr>)"

theorem internal_errors_do_not_leak_witness:
  "\<exists>resp w'. request (sample_env\<lparr>env_texts := \<lparr>rfc3339 = (\<lambda>t. ''now''), driver_text = (\<lambda>e. ''connection refused: db:5432'')\<rparr>\<rparr>)
       (sample_logon_call ''a@b.co'' ''hunter22'') ''root'' ((sample_world sample_tenants_db 5 [])\<lparr>faults := [True]\<rparr>) =
     (Inr resp, w') \<and> status resp = 500 \<and> Details_Detail (details resp) = ''an unexpected error occurred''"
proof -
  let ?w = "(sample_world sample_tenants_db 5 [])\<lparr>faults := [True]\<rparr>"
  let ?c = "sample_logon_call ''a@b.co'' ''hunter22''"
  obtain r w' where run: "request sample_env ?c ''root'' ?w = (r, w')" by fastforce
  have "case request sample_env ?c ''root'' ?w of (r, w') \<Rightarrow> (case r of Inr resp \<Rightarrow> status resp = 500 | _ \<Rightarrow> False)"
    by code_simp
  with run obtain resp where r: "r = Inr resp" "status resp = 500" by (auto split: sum.splits)
  have "rfc3339 \<lparr>rfc3339 = (\<lambda>t. ''now''), driver_text = (\<lambda>e. ''connection refused: db:5432'')\<rparr> = rfc3339 (env_texts sample_env)"
    by (simp add: sample_env_def)
  from internal_errors_do_not_leak [OF this run] r show ?thesis by auto
qed

section \<open>The logon\<close>

text \<open>An address of no account, or of a deleted one.\<close>

definition unknown :: "database \<Rightarrow> string \<Rightarrow> string \<Rightarrow> bool" where
  "unknown d t e \<longleftrightarrow> (case account_at d t e of None \<Rightarrow> True | Some r \<Rightarrow> ac_deleted r)"

lemma gate_account:
  assumes "\<not> locked (db w) (wall w) t e" and "quiet w"
  obtains w' where "checkLockout t e w = (Inr (), w')" and "quiet w'" and "db w' = unlock (db w) t e"
    and "account_Read t e w' = (case account_at (db w) t e of
      None \<Rightarrow> (Inl (AccountErr (AccountNotFoundError e)), tick w') | Some r \<Rightarrow> (Inr (account_of_row r), tick w'))"
proof -
  obtain w' where lock: "checkLockout t e w = (Inr (), w')" "quiet w'" using checkLockout_open [OF assms] by blast
  then have d: "db w' = unlock (db w) t e" using checkLockout_Inr by blast
  have "account_Read t e w' = (case account_at (db w) t e of
      None \<Rightarrow> (Inl (AccountErr (AccountNotFoundError e)), tick w') | Some r \<Rightarrow> (Inr (account_of_row r), tick w'))"
    using lock(2) d by (auto simp: account_Read_None account_Read_Inr split: option.split)
  then show ?thesis by (rule that [OF lock d])
qed

lemma gate_unknown:
  assumes "unknown (db w) t e" "\<not> locked (db w) (wall w) t e" "quiet w"
  shows "\<exists>w'. VerifyPassword C s t e pw w = (Inl (AuthnErr AuthenticationError), w') \<and> db w' = unlock (db w) t e"
proof -
  obtain w' where g: "checkLockout t e w = (Inr (), w')" "db w' = unlock (db w) t e" "account_Read t e w' = (case account_at (db w) t e of
      None \<Rightarrow> (Inl (AccountErr (AccountNotFoundError e)), tick w') | Some r \<Rightarrow> (Inr (account_of_row r), tick w'))"
    using gate_account [OF assms(2,3)] by metis
  then have "gateLogon t e w = (Inl (AuthnErr AuthenticationError), tick w')"
    using assms(1)
    by (auto simp: gateLogon_def bindE_def attempt_def map_err_def unknown_def throw_def ret_def not_found_fails_def
        account_of_row_def split: option.splits)
  then show ?thesis using g(2) by (simp add: VerifyPassword_def bindE_def attempt_def throw_def)
qed

text \<open>A disabled and an unverified account are told so.\<close>

lemma gate_forbidden:
  assumes "account_at (db w) t e = Some r" "\<not> ac_deleted r" "\<not> ac_enabled r \<or> \<not> ac_verified r"
    and "\<not> locked (db w) (wall w) t e" "quiet w"
  shows "\<exists>w'. VerifyPassword C s t e pw w = (Inl (AccountErr (if ac_enabled r then AccountNotVerifiedError e else AccountDisabledError e)), w') \<and>
    db w' = unlock (db w) t e"
proof -
  obtain w' where g: "checkLockout t e w = (Inr (), w')" "db w' = unlock (db w) t e" "account_Read t e w' = (case account_at (db w) t e of
      None \<Rightarrow> (Inl (AccountErr (AccountNotFoundError e)), tick w') | Some r \<Rightarrow> (Inr (account_of_row r), tick w'))"
    using gate_account [OF assms(4,5)] by metis
  then have "gateLogon t e w = (Inl (AccountErr (if ac_enabled r then AccountNotVerifiedError e else AccountDisabledError e)), tick w')"
    using assms(1-3)
    by (auto simp: gateLogon_def bindE_def attempt_def map_err_def throw_def ret_def account_of_row_def)
  then show ?thesis using g(2) by (simp add: VerifyPassword_def bindE_def attempt_def throw_def)
qed

lemma authentication_failed_body:
  "authenticateProblem T (AuthnErr AuthenticationError) =
   ProblemJSON 401 (NewProblem ''Unauthorized'' 401 ''authentication failed'')"
  by (simp add: authenticateProblem_def problem_of_def text_of_def Unauthorized_def)

lemma logon_response:
  assumes "VerifyPassword C s (EffectiveTenant c (Authenticate_TenantID rq)) (Authenticate_Email rq) (Authenticate_Password rq) w =
    (Inl err, w')"
  shows "AuthenticateHandler_Authenticate T C J s c (Inr rq) w = (Inr (authenticateProblem T err), w')"
proof -
  have "Authenticate C J s (EffectiveTenant c (Authenticate_TenantID rq)) (Authenticate_Email rq) (Authenticate_ClientID rq)
      (Authenticate_Password rq) w = (Inl err, w')"
    using assms by (simp add: Authenticate_def bindE_def attempt_def throw_def)
  then show ?thesis by (simp add: AuthenticateHandler_Authenticate_def answer_run)
qed

lemma locked_problem: "status (authenticateProblem T (AuthnErr (AccountLockedError e u))) = 423"
  by (simp add: authenticateProblem_def problem_of_def)

lemma forbidden_problem:
  "status (authenticateProblem T (AccountErr (if b then AccountNotVerifiedError e else AccountDisabledError e))) = 403"
  by (simp add: authenticateProblem_def problem_of_def)

text \<open>A wrong password is counted, and answered by whether it reaches the limit.\<close>

lemma wrong_password_answer:
  assumes "may_log_on (db w) t e r" "\<not> locked (db w) (wall w) t e" "quiet w"
    and "bcrypt_compare C (ac_password_hash r) pw = BcryptMismatch" "int4 (maxAttempts s)"
    and n: "n = fst (attempts (unlock (db w) t e) t e)" and "int4 (n + 1)"
  shows "\<exists>w'. VerifyPassword C s t e pw w = (Inl (AuthnErr
      (if maxAttempts s \<le> n + 1 \<and> wall w < instant_add (pg_now w) (lockoutDuration s)
       then AccountLockedError e (instant_add (pg_now w) (lockoutDuration s)) else AuthenticationError)), w') \<and>
    fst (attempts (db w') t e) = n + 1"
proof -
  obtain w1 where gate: "gateLogon t e w = (Inr (account_of_row r), w1)" and quiet: "quiet w1"
    and run: "VerifyPassword C s t e pw w = countFailure s t e w1" using VerifyPassword_wrong [OF assms(1-4)] .
  have w1: "db w1 = unlock (db w) t e" "wall w1 = wall w" "pg_now w1 = pg_now w"
    using gate by (auto elim: gateLogon_Inr)
  have n1: "attempts (db w1) t e = (n, None)" using n by (simp add: w1 attempts_unlock prod_eq_iff)
  obtain l w2 where inc: "IncrementAndLock t e (maxAttempts s) (lockoutDuration s) w1 = (Inr l, w2)"
    using IncrementAndLock_succeeds [of w1 "maxAttempts s" t e "lockoutDuration s"] quiet assms(5,7) n1 by auto
  have l: "l = lock_if (maxAttempts s \<le> n + 1) (pg_now w) (lockoutDuration s) None"
    and count: "fst (attempts (db w2) t e) = n + 1" using IncrementAndLock_at(1,2) [OF inc] n1 w1(3) by simp_all
  have "wall w2 = wall w" using inc w1(2) by (auto simp: IncrementAndLock_def op_inr)
  then have "countFailure s t e w1 = (Inl (AuthnErr (case l of None \<Rightarrow> AuthenticationError
      | Some u \<Rightarrow> if wall w < u then AccountLockedError e u else AuthenticationError)), w2)"
    using inc by (simp add: countFailure_def bindE_def attempt_def time_now_def throw_def split: option.split)
  then show ?thesis using run count l by (cases "maxAttempts s \<le> n + 1") (auto simp: lock_if_def)
qed

text \<open>
  C32: the refusals of the logon, where nothing fails. An unknown or deleted address gets the 401 of a
  wrong password, with the same body, and is not counted. A wrong password of an account that may log
  on is counted; it gets that 401 too, unless it reaches the limit, which is answered 423 like every
  later attempt until the lock ends. Only an account that is disabled or not verified is told so,
  with 403, whatever the password.
\<close>

theorem logon_answers_unknown_like_wrong:
  assumes "quiet w" and "t = EffectiveTenant c (Authenticate_TenantID rq)" and "e = Authenticate_Email rq"
    and "n = fst (attempts (unlock (db w) t e) t e)" and "int4 (maxAttempts s)" and "int4 (n + 1)"
    and "until = instant_add (pg_now w) (lockoutDuration s)"
    and generic: "generic = ProblemJSON 401 (NewProblem ''Unauthorized'' 401 ''authentication failed'')"
  shows "\<exists>resp w'. AuthenticateHandler_Authenticate T C J s c (Inr rq) w = (Inr resp, w') \<and>
      (locked (db w) (wall w) t e \<longrightarrow> status resp = 423 \<and> db w' = db w) \<and>
      (\<not> locked (db w) (wall w) t e \<and> unknown (db w) t e \<longrightarrow> resp = generic \<and> db w' = unlock (db w) t e) \<and>
      (\<forall>r. \<not> locked (db w) (wall w) t e \<and> account_at (db w) t e = Some r \<and> \<not> ac_deleted r \<and>
          (\<not> ac_enabled r \<or> \<not> ac_verified r) \<longrightarrow> status resp = 403 \<and> db w' = unlock (db w) t e) \<and>
      (\<forall>r. \<not> locked (db w) (wall w) t e \<and> may_log_on (db w) t e r \<and>
          bcrypt_compare C (ac_password_hash r) (Authenticate_Password rq) = BcryptMismatch \<longrightarrow>
        (if maxAttempts s \<le> n + 1 \<and> wall w < until then status resp = 423 else resp = generic) \<and>
        fst (attempts (db w') t e) = n + 1)"
proof -
  let ?V = "VerifyPassword C s t e (Authenticate_Password rq) w"
  have answer: "AuthenticateHandler_Authenticate T C J s c (Inr rq) w = (Inr (authenticateProblem T err), w')"
    if "?V = (Inl err, w')" for err w'
    using logon_response [OF that [unfolded assms(2,3)]] .
  have live: "\<not> failing w" using assms(1) by simp
  consider (locked) "locked (db w) (wall w) t e" | (unknown) "\<not> locked (db w) (wall w) t e" "unknown (db w) t e"
    | (forbidden) r where "\<not> locked (db w) (wall w) t e" "account_at (db w) t e = Some r" "\<not> ac_deleted r"
        "\<not> ac_enabled r \<or> \<not> ac_verified r"
    | (open_) r where "\<not> locked (db w) (wall w) t e" "may_log_on (db w) t e r"
    by (cases "account_at (db w) t e") (auto simp: unknown_def may_log_on_def)
  then show ?thesis
  proof cases
    case locked
    obtain u where "?V = (Inl (AuthnErr (AccountLockedError e u)), tick w)" using VerifyPassword_locked [OF locked live] by blast
    from answer [OF this] locked show ?thesis by (simp add: locked_problem)
  next
    case unknown
    obtain w' where "?V = (Inl (AuthnErr AuthenticationError), w')" "db w' = unlock (db w) t e"
      using gate_unknown [OF unknown(2,1) assms(1)] by blast
    with answer [OF this(1)] unknown show ?thesis
      by (auto simp: authentication_failed_body generic unknown_def may_log_on_def split: option.splits)
  next
    case forbidden
    obtain w' where "?V = (Inl (AccountErr (if ac_enabled r then AccountNotVerifiedError e else AccountDisabledError e)), w')"
      "db w' = unlock (db w) t e"
      using gate_forbidden [OF forbidden(2-4,1) assms(1)] by blast
    with answer [OF this(1)] forbidden show ?thesis by (simp only: forbidden_problem) (auto simp: forbidden_problem unknown_def may_log_on_def)
  next
    case open_
    show ?thesis
    proof (cases "bcrypt_compare C (ac_password_hash r) (Authenticate_Password rq) = BcryptMismatch")
      case True
      obtain w' where "?V = (Inl (AuthnErr (if maxAttempts s \<le> n + 1 \<and> wall w < until then AccountLockedError e until
          else AuthenticationError)), w')" and "fst (attempts (db w') t e) = n + 1"
        using wrong_password_answer [OF open_(2,1) assms(1) True assms(5,4,6)] unfolding assms(7) by blast
      with answer [OF this(1)] open_ show ?thesis
        by (cases "maxAttempts s \<le> n + 1 \<and> wall w < until")
          (auto simp: authentication_failed_body generic locked_problem unknown_def may_log_on_def)
    next
      case False
      with open_ show ?thesis
        by (cases ?V) (auto simp: unknown_def may_log_on_def AuthenticateHandler_Authenticate_def answer_eq split: prod.splits)
    qed
  qed
qed

theorem logon_answers_unknown_like_wrong_witness:
  "\<exists>wa wb. AuthenticateHandler_Authenticate (env_texts sample_env) sample_crypto sample_jwt sample_service no_context
       (Inr \<lparr>Authenticate_TenantID = [], Authenticate_Email = ''x@y.co'', Authenticate_ClientID = ''web'', Authenticate_Password = ''p''\<rparr>)
       (sample_world sample_db 5 []) =
         (Inr (ProblemJSON 401 (NewProblem ''Unauthorized'' 401 ''authentication failed'')), wa) \<and>
     AuthenticateHandler_Authenticate (env_texts sample_env) sample_crypto sample_jwt sample_service no_context
       (Inr \<lparr>Authenticate_TenantID = [], Authenticate_Email = ''a@b.co'', Authenticate_ClientID = ''web'', Authenticate_Password = ''p''\<rparr>)
       (sample_world sample_db 5 []) =
         (Inr (ProblemJSON 401 (NewProblem ''Unauthorized'' 401 ''authentication failed'')), wb) \<and>
     fst (attempts (db wb) ''default'' ''a@b.co'') = 1"
proof -
  let ?w = "sample_world sample_db 5 []"
  let ?rq = "\<lambda>e. \<lparr>Authenticate_TenantID = [], Authenticate_Email = e, Authenticate_ClientID = ''web'', Authenticate_Password = ''p''\<rparr>"
  have t: "''default'' = EffectiveTenant no_context (Authenticate_TenantID (?rq e))" for e by code_simp
  have e: "e = Authenticate_Email (?rq e)" for e by simp
  have u: "unknown (db ?w) ''default'' ''x@y.co''" "\<not> locked (db ?w) (wall ?w) ''default'' ''x@y.co''"
    "\<not> locked (db ?w) (wall ?w) ''default'' ''a@b.co''"
    "0 = fst (attempts (unlock (db ?w) ''default'' ''x@y.co'') ''default'' ''x@y.co'')"
    "0 = fst (attempts (unlock (db ?w) ''default'' ''a@b.co'') ''default'' ''a@b.co'')"
    "int4 (maxAttempts sample_service)" "int4 (0 + 1)" "1 < maxAttempts sample_service"
    by (simp_all add: sample_db_def sample_world_def unknown_def locked_def attempts_def attempt_at_def unlock_def account_at_def
        select_row_def int4_def sample_service_def sample_account_def empty_db_def)
  have m: "may_log_on (db ?w) ''default'' ''a@b.co'' sample_account"
    by (simp add: may_log_on_def account_at_def sample_db_def sample_account_def select_row_def)
  have b: "bcrypt_compare sample_crypto (ac_password_hash sample_account) ''p'' = BcryptMismatch" by code_simp
  note one = logon_answers_unknown_like_wrong [OF quiet_sample t e u(4,6,7) refl refl]
  note two = logon_answers_unknown_like_wrong [OF quiet_sample t e u(5-7) refl refl]
  from one [of "env_texts sample_env" sample_crypto sample_jwt] two [of "env_texts sample_env" sample_crypto sample_jwt] u m b
  show ?thesis by auto
qed

end
