(* ===== verification/Spec2Isabelle.thy ===== *)
theory Spec2Isabelle
  imports Renewals SessionLife Registration LogonBursts Boot OidcFlow OidcGrants Surface ApiErrors
begin

text \<open>
  A model of \<open>an\<close>, a multi-tenant authentication service written in Go: the REST api in front of
  its services, the OpenID Connect provider beside it, the repositories below them, and the
  process that puts them together. Everything is executable, so that a definition can be run on a
  sample database.

  \<^bold>\<open>How the program is represented.\<close> The database is a record of tables, a table the list of its
  rows (\<open>Schema\<close>, one record per \<open>CREATE TABLE\<close> of \<open>src/internal/db/migrations\<close>). A unique
  constraint is a conflict relation between rows, and an SQL statement a function of the tables that
  may end in an error of the driver (\<open>Tables\<close>). A call is an operation \<open>'a op\<close>: from the world to an
  error or a value, and the world after it (\<open>World\<close>). The world holds the database, the clock of the
  server \<open>now()\<close> and of the process \<open>time.Now()\<close>, the random bytes and ids to come, and for each
  coming round trip whether it fails. So every early return of the code is a branch, what was written
  before an error stays written, and a transaction (\<open>atomic\<close>) takes it back. An error is a value of
  \<open>go_error\<close>, a constructor per Go struct (\<open>Errors\<close>), and \<open>errors.As\<close> is matching on it. Durations
  are nanoseconds within 64 bits, and the product of a configured number of seconds wraps
  (\<open>seconds\<close> in \<open>Prelude\<close>). Strings are byte strings; what the code uses of Go's \<open>strings\<close>,
  \<open>strconv\<close>, \<open>regexp\<close> and \<open>encoding\<close> is written out (\<open>GoStrings\<close>, \<open>Regex\<close>, \<open>Utils\<close>,
  \<open>SigningKeys\<close>).

  \<^bold>\<open>What is a parameter.\<close> Code outside \<open>src/\<close> is an argument: SHA-256, bcrypt and uuid parsing
  (\<open>crypto\<close>), RSA and PEM (\<open>pki\<close>, with the round trips \<open>pki_ok\<close>), the JWT library (\<open>jwt_lib\<close>, with
  \<open>jwt_ok\<close>: a parsed token is one that the key signed, with its claims), \<open>url.Parse\<close> and
  \<open>net.ParseIP\<close> (\<open>net_lib\<close>), the verification of a Google token (\<open>google\<close>), the OpenID provider
  library, whose types and callbacks the storage works on (\<open>OidcStorage\<close>), and the texts of the
  driver's errors (\<open>error_texts\<close>). Each property with such a hypothesis has a witness with a concrete
  instance.

  \<^bold>\<open>The parts, from below.\<close>
  \<^item> \<open>Utils\<close>: \<open>src/internal/utils\<close>, hashing, random tokens and digits, validation, the default tenant.
  \<^item> \<open>Tenants\<close>: \<open>src/internal/tenants\<close>.
  \<^item> \<open>AccountRepository\<close>, \<open>PasswordResets\<close>, \<open>AccountService\<close>, \<open>Credentials\<close>: \<open>src/internal/accounts\<close>,
    with every operation of the service; \<open>Credentials\<close> wires it to the surfaces a change signs out of.
  \<^item> \<open>SigningKeys\<close>, \<open>Tokenizer\<close>: \<open>src/internal/tokens\<close>, the stored keys, JWKS, and signed tokens.
  \<^item> \<open>AuthnStores\<close>, \<open>Authn\<close>, \<open>LogonCode\<close>: \<open>src/internal/authn\<close>, sessions, failed attempts and logon
    codes with their services. \<open>Renewals\<close> interleaves the round trips of concurrent renewals as a step
    relation; \<open>Interleaving\<close> cuts the logons at their statements, as programs of which any number take
    turns, and \<open>LogonBursts\<close> shows what concurrent guesses and concurrent redemptions of a code do;
    \<open>SessionLife\<close> runs a whole session.
  \<^item> \<open>Social\<close>: \<open>src/internal/social\<close>. \<open>ApiKeys\<close>: \<open>src/internal/apikeys\<close> and the gate of \<open>src/api/auth\<close>.
  \<^item> \<open>OidcRequests\<close>, \<open>OidcTokens\<close>, \<open>OidcClients\<close>, \<open>OidcStorage\<close>: \<open>src/internal/oidc\<close>, authorization
    requests, grants, browser sessions, clients, and the storage the library calls; \<open>OidcLibrary\<close> has the
    interfaces of the library that are implemented there (\<open>op.Client\<close>, \<open>op.AuthRequest\<close>, \<open>op.Key\<close> and
    others), \<open>OidcGrants\<close> and \<open>OidcRotation\<close> hold the properties of the grants, and \<open>OidcFlow\<close> runs the
    login form on a stored request, and the issue of tokens for a completed one to the claims of the user.
  \<^item> \<open>Problem\<close>, \<open>AccountHandlers\<close>, \<open>AuthenticateHandlers\<close>, \<open>ApiKeyHandlers\<close>, \<open>ClientHandlers\<close>: the
    handlers of \<open>src/api\<close>, from the decoded request to the response. \<open>Api\<close> puts them behind their
    routes and the gate; \<open>ApiErrors\<close>, \<open>Registration\<close> and \<open>Surface\<close> state what a caller sees.
  \<^item> \<open>Provider\<close>, \<open>LoginHandlers\<close>: the mount of the provider, discovery, cookies and the login page of
    \<open>src/api/oidc\<close>; \<open>LoginPages\<close> holds its properties.
  \<^item> \<open>Config\<close>, \<open>Wiring\<close>, \<open>Startup\<close>: \<open>src/cmd/an\<close>, the configuration, the services made of it, the
    start and the janitor. \<open>Migrations\<close>: \<open>src/internal/db/migrate.go\<close>. \<open>Boot\<close>: \<open>main\<close> as a whole, from the
    environment to the mounted handlers, with the panics on the way, and the version flag
    (\<open>src/internal/version\<close>).

  \<^item> \<open>Effects\<close>, \<open>ProviderEffects\<close>: what a call of the services, of the provider's stores or of a page can
    do to the database, stated once for every relation between databases that the SQL statements on
    one tenant keep. \<open>Isolation\<close> and \<open>Integrity\<close> are the two instances: no row of another tenant is
    touched, and the database stays well-formed. \<open>Integrity\<close> defines the databases a deployment can
    reach, by starts, requests, pages, calls of the provider library and sweeps in any order.

  \<^bold>\<open>How the proofs are organised.\<close> \<open>Prelude\<close> declares three collections: \<open>op_inr\<close> opens a
  successful run of an operation, \<open>stmt_defs\<close> unfolds the SQL statements, and \<open>steps_intros\<close> follows
  an operation step by step. The last belongs to the locale \<open>db_relation\<close>: a reflexive and transitive
  relation that each statement keeps is kept by every call. \<open>tenant_effects\<close> extends it by one
  assumption per statement on the rows of a tenant, with a lemma per call of the services, and
  \<open>provider_effects\<close> that by the statements of the provider. They are interpreted as \<open>tenancy\<close> (the
  rows of other tenants stay) and \<open>integral\<close> (the integrity of the tables); the other interpretations
  of \<open>db_relation\<close> are \<open>granting\<close> (the consistency of the provider's tables), \<open>founding\<close> (a start adds a tenant and a
  key), \<open>counting\<close> (a form that
  fails only counts), \<open>closing\<close>, \<open>keying\<close> (a start writes tenants and keys only) and \<open>reading\<close>. \<open>unique_key\<close> states what a unique
  constraint gives and is interpreted on the keys of every table. \<open>one_time_store\<close> (reset tokens,
  logon codes) and \<open>session_revoker\<close> (the sessions of the api, those of the provider) are the
  contracts between the services and their stores, and \<open>client_resolution\<close> the one between the
  storage and the clients. \<open>staged\<close> is the contract of an invariant of interleaved programs, each at a
  stage of its own; \<open>bursting\<close> interprets it on the logons, whose stages are a failure still to come,
  counted, or refused by the lock.

  \<^bold>\<open>What the properties show.\<close> Every reachable database has the integrity the
  code relies on: unique keys, references with their rows, access tokens of the tenant of their
  grant. It implies what other properties assume of a database (\<open>integrity_grants\<close>). Tenants are
  isolated through the whole api, the login pages and the provider. A logon needs the right
  password of a live, unlocked account, wrong ones lock, also in parallel, and a user who may log on gets in,
  on the api and at the login form of the provider, whose tokens carry the claims asked for. A
  session is renewed by its latest token only, by one of any concurrent callers, and ends with the
  account's credentials on every surface. Codes, reset tokens, authorization codes and the refresh
  tokens of the provider work once. The login form starts sessions for checked passwords only and
  reveals the lock and nothing else; a logout ends what it says. Keys rotate without invalidating
  tokens, a restart changes nothing, the janitor implements its specification (\<open>sweep\<close>), and the
  migrations are applied once and in order.

  \<^bold>\<open>Bounds.\<close> There is no fuel: every recursion is structural or over a finite list of inputs. The
  rejection sampling of a random digit is a recursion over the random bytes to come, and ends with an
  error of the source when they run out. A step of \<open>Renewals\<close> is one round trip of one call. A turn
  of a program is one too, or a read of the clock or an issue of tokens; a logon has nine turns at
  most (\<open>within\<close>), so that every interleaving ends.

  \<^bold>\<open>What is not modelled.\<close> The http server, the binding of a request body (its outcome is an
  argument), the HTML of the templates (a page is its fields), rate limiting, logging, signals,
  and the insides of the connection pool and of the provider library: they keep no state
  of the service, or are libraries that are not in the repository. The embedded test database of
  \<open>src/internal/utils/pg_test_util.go\<close> is no part of the service. Interleavings are modelled where
  the code relies on a single statement to decide between concurrent callers: renewals
  (\<open>Renewals\<close>), the lockout and the logon codes (\<open>LogonBursts\<close>); elsewhere a call runs alone.
  So does a run of the migrations: taking its advisory lock is a round trip that may fail, but no other
  process is there to hold it. Ties of \<open>ORDER BY created\<close>, which SQL leaves open, follow the table.
  The provider library is the caller of the storage: the order of its calls and what it checks before
  them (client authentication, PKCE, redirect URIs, \<open>offline_access\<close>) are no part of the model.
\<close>

end
